(* ===== verification/Prelude.thy ===== *)
theory Prelude
  imports Main "HOL-Library.Word" "HOL-Library.Signed_Division" "HOL-Library.Monad_Syntax"
begin

text \<open>
  Shared vocabulary of the development: the machine integers of the C++ sources, the wrap-around
  of signed 64-bit arithmetic, and the ordered finite map \<open>omap\<close> that models \<open>std::map\<close> and the
  key-value databases (ascending iteration, one value per key).  Two finite maps that agree on
  every lookup are equal, so equality of databases is equality of their readable contents.
\<close>

section \<open>Machine integers\<close>

type_synonym u8 = "8 word"
type_synonym u16 = "16 word"
type_synonym u32 = "32 word"
type_synonym u64 = "64 word"
type_synonym uint256 = "256 word"
type_synonym bytes = "u8 list"

text \<open>
  \<open>CAmount\<close> is \<open>int64_t\<close> (amount.h).  A value is an \<^typ>\<open>int\<close>; the operations that may leave the
  64-bit range are wrapped by \<open>i64\<close>, the two's complement result the compiled code produces.
  \<open>COIN\<close> is the number of base units of one coin.
\<close>

type_synonym CAmount = int

definition COIN :: CAmount where
  "COIN = 100000000"

definition i64 :: "int \<Rightarrow> int" where
  "i64 x = (x + 2 ^ 63) mod 2 ^ 64 - 2 ^ 63"

definition i32 :: "int \<Rightarrow> int" where
  "i32 x = (x + 2 ^ 31) mod 2 ^ 32 - 2 ^ 31"

named_theorems amount_simps

named_theorems eval_simps

lemma i64_id [amount_simps]: "- (2 ^ 63) \<le> x \<Longrightarrow> x < 2 ^ 63 \<Longrightarrow> i64 x = x"
  by (simp add: i64_def)

lemma i32_id [amount_simps]: "- (2 ^ 31) \<le> x \<Longrightarrow> x < 2 ^ 31 \<Longrightarrow> i32 x = x"
  by (simp add: i32_def)

lemma i64_range: "- (2 ^ 63) \<le> i64 x \<and> i64 x < 2 ^ 63"
proof -
  have "0 \<le> (x + 2 ^ 63) mod 2 ^ 64" "(x + 2 ^ 63) mod 2 ^ 64 < (2 ^ 64 :: int)"
    by simp_all
  then show ?thesis by (simp add: i64_def)
qed

lemma i64_idem [simp]: "i64 (i64 x) = i64 x"
  using i64_range [of x] by (simp add: i64_id)

lemma sdiv_nonneg_eq [amount_simps]: "0 \<le> a \<Longrightarrow> 0 \<le> b \<Longrightarrow> (a :: int) sdiv b = a div b"
  by (cases "a = 0 \<or> b = 0") (auto simp: signed_divide_int_def)

section \<open>Ordered finite maps\<close>

typedef (overloaded) ('k::linorder, 'v) omap =
  "{xs :: ('k \<times> 'v) list. sorted_wrt (<) (map fst xs)}"
  morphisms entries Abs_omap
  by (rule exI [of _ "[]"]) simp

setup_lifting type_definition_omap

fun al_update :: "'k::linorder \<Rightarrow> 'v \<Rightarrow> ('k \<times> 'v) list \<Rightarrow> ('k \<times> 'v) list" where
  "al_update k v [] = [(k, v)]"
| "al_update k v ((a, b) # xs) =
     (if k < a then (k, v) # (a, b) # xs
      else if k = a then (k, v) # xs
      else (a, b) # al_update k v xs)"

fun al_delete :: "'k \<Rightarrow> ('k \<times> 'v) list \<Rightarrow> ('k \<times> 'v) list" where
  "al_delete k [] = []"
| "al_delete k ((a, b) # xs) = (if k = a then xs else (a, b) # al_delete k xs)"

lemma keys_al_update [simp]: "set (map fst (al_update k v xs)) = insert k (set (map fst xs))"
  by (induction k v xs rule: al_update.induct) auto

lemma sorted_al_update: "sorted_wrt (<) (map fst xs) \<Longrightarrow> sorted_wrt (<) (map fst (al_update k v xs))"
proof (induction k v xs rule: al_update.induct)
  case (2 k v a b xs)
  then show ?case
    using keys_al_update [of k v xs] by (auto simp del: keys_al_update)
qed simp

lemma set_al_delete: "set (al_delete k xs) \<subseteq> set xs"
  by (induction k xs rule: al_delete.induct) auto

lemma sorted_al_delete: "sorted_wrt (<) (map fst xs) \<Longrightarrow> sorted_wrt (<) (map fst (al_delete k xs))"
  by (induction k xs rule: al_delete.induct) (use set_al_delete in fastforce)+

lemma map_of_al_update: "map_of (al_update k v xs) = (map_of xs)(k \<mapsto> v)"
  by (induction k v xs rule: al_update.induct) auto

lemma map_of_al_delete:
  "sorted_wrt (<) (map fst xs) \<Longrightarrow> map_of (al_delete k xs) = (map_of xs)(k := None)"
  for xs :: "('k::linorder \<times> 'v) list"
proof (induction k xs rule: al_delete.induct)
  case (2 k a b xs)
  then have "a \<notin> set (map fst xs)" by fastforce
  then have "map_of xs a = None" by (simp add: map_of_eq_None_iff)
  with 2 show ?case by (auto simp: fun_eq_iff)
qed simp

lemma sorted_map_of_eq:
  fixes xs ys :: "('k::linorder \<times> 'v) list"
  assumes "sorted_wrt (<) (map fst xs)" and "sorted_wrt (<) (map fst ys)" and "map_of xs = map_of ys"
  shows "xs = ys"
proof -
  have d: "distinct (map fst xs)" "distinct (map fst ys)"
    using assms(1,2) by (simp_all add: strict_sorted_iff)
  have "set xs = set ys"
    using map_of_inject_set [OF d] assms(3) by simp
  moreover have "sorted (map fst xs)" "sorted (map fst ys)"
    using assms(1,2) by (simp_all add: strict_sorted_iff)
  ultimately show ?thesis
    using d by (intro map_sorted_distinct_set_unique [of fst]) (simp_all add: distinct_map)
qed

lemma map_of_map_values: "map_of (map (\<lambda>(k, v). (k, f k v)) xs) k = map_option (f k) (map_of xs k)"
  by (induction xs) auto

lift_definition om_empty :: "('k::linorder, 'v) omap" is "[]"
  by simp

lift_definition om_lookup :: "('k::linorder, 'v) omap \<Rightarrow> 'k \<Rightarrow> 'v option" is map_of .

lift_definition om_update :: "'k::linorder \<Rightarrow> 'v \<Rightarrow> ('k, 'v) omap \<Rightarrow> ('k, 'v) omap" is al_update
  by (rule sorted_al_update)

lift_definition om_delete :: "'k::linorder \<Rightarrow> ('k, 'v) omap \<Rightarrow> ('k, 'v) omap" is al_delete
  by (rule sorted_al_delete)

lift_definition om_map :: "('k \<Rightarrow> 'v \<Rightarrow> 'w) \<Rightarrow> ('k::linorder, 'v) omap \<Rightarrow> ('k, 'w) omap" is
  "\<lambda>f. map (\<lambda>(k, v). (k, f k v))"
  by (simp add: case_prod_beta comp_def)

definition om_size :: "('k::linorder, 'v) omap \<Rightarrow> nat" where
  "om_size m = length (entries m)"

definition om_of_list :: "('k::linorder \<times> 'v) list \<Rightarrow> ('k, 'v) omap" where
  "om_of_list xs = fold (\<lambda>(k, v). om_update k v) xs om_empty"

text \<open>Iteration from the first key not below \<open>k\<close>, as a database cursor after \<open>Seek(k)\<close> does.\<close>

definition entries_from :: "'k::linorder \<Rightarrow> ('k, 'v) omap \<Rightarrow> ('k \<times> 'v) list" where
  "entries_from k m = filter (\<lambda>(a, _). k \<le> a) (entries m)"

named_theorems omap_simps

lemma om_ext: "(\<And>k. om_lookup m k = om_lookup m' k) \<Longrightarrow> m = m'"
  by transfer (auto intro: sorted_map_of_eq)

lemma om_eq_iff: "m = m' \<longleftrightarrow> (\<forall>k. om_lookup m k = om_lookup m' k)"
  using om_ext by auto

lemma lookup_empty [simp, omap_simps]: "om_lookup om_empty k = None"
  by transfer simp

lemma lookup_update [simp, omap_simps]:
  "om_lookup (om_update k v m) k' = (if k' = k then Some v else om_lookup m k')"
  by transfer (simp add: map_of_al_update)

lemma lookup_delete [simp, omap_simps]:
  "om_lookup (om_delete k m) k' = (if k' = k then None else om_lookup m k')"
  by transfer (simp add: map_of_al_delete)

lemma lookup_om_map [simp, omap_simps]: "om_lookup (om_map f m) k = map_option (f k) (om_lookup m k)"
  by transfer (simp add: map_of_map_values)

lemma update_same [simp]: "om_lookup m k = Some v \<Longrightarrow> om_update k v m = m"
  by (auto intro: om_ext)

lemma update_update [simp]: "om_update k v (om_update k w m) = om_update k v m"
  by (auto intro: om_ext)

lemma delete_update [simp]: "om_delete k (om_update k v m) = om_delete k m"
  by (auto intro: om_ext)

lemma delete_absent [simp]: "om_lookup m k = None \<Longrightarrow> om_delete k m = m"
  by (auto intro: om_ext)

lemma update_commute: "k \<noteq> k' \<Longrightarrow> om_update k v (om_update k' v' m) = om_update k' v' (om_update k v m)"
  by (auto intro: om_ext)

lemma delete_update_commute: "k \<noteq> k' \<Longrightarrow> om_delete k (om_update k' v m) = om_update k' v (om_delete k m)"
  by (auto intro: om_ext)

lemma entries_sorted [simp]: "sorted_wrt (<) (map fst (entries m))"
  using entries by blast

lemma entries_distinct [simp]: "distinct (map fst (entries m))"
  using entries_sorted [of m] by (simp only: strict_sorted_iff)

lemma map_of_entries [simp]: "map_of (entries m) = om_lookup m"
  by transfer simp

lemma in_entries_iff: "(k, v) \<in> set (entries m) \<longleftrightarrow> om_lookup m k = Some v"
  by (simp flip: map_of_entries)

lemma in_entries_updateD: "e \<in> set (entries (om_update k v m)) \<Longrightarrow> e = (k, v) \<or> e \<in> set (entries m)"
  by (cases e) (auto simp: in_entries_iff split: if_splits)

lemma in_entries_deleteD: "e \<in> set (entries (om_delete k m)) \<Longrightarrow> e \<in> set (entries m)"
  by (cases e) (auto simp: in_entries_iff split: if_splits)

lemma entries_empty [simp, omap_simps]: "entries om_empty = []"
  by transfer simp

lemma entries_update [omap_simps]: "entries (om_update k v m) = al_update k v (entries m)"
  by transfer simp

lemma entries_delete [omap_simps]: "entries (om_delete k m) = al_delete k (entries m)"
  by transfer simp

lemma entries_om_map [omap_simps]: "entries (om_map f m) = map (\<lambda>(k, v). (k, f k v)) (entries m)"
  by transfer simp

lemma in_entries_from_iff: "(k, v) \<in> set (entries_from s m) \<longleftrightarrow> s \<le> k \<and> om_lookup m k = Some v"
  by (auto simp: entries_from_def in_entries_iff)

lemma entries_from_sorted: "sorted_wrt (<) (map fst (entries_from s m))"
  unfolding entries_from_def
  using entries_sorted [of m] by (simp only: sorted_wrt_map sorted_wrt_filter)

lemma map_of_entries_from: "map_of (entries_from key m) k = (if key \<le> k then om_lookup m k else None)"
proof -
  have "distinct (map fst (entries_from key m))"
    using entries_from_sorted [of key m] by (simp only: strict_sorted_iff)
  then have "map_of (entries_from key m) k = Some v \<longleftrightarrow> key \<le> k \<and> om_lookup m k = Some v" for v
    by (simp add: in_entries_from_iff)
  then show ?thesis by (metis not_None_eq)
qed

instantiation omap :: (linorder, equal) equal
begin

definition equal_omap :: "('a, 'b) omap \<Rightarrow> ('a, 'b) omap \<Rightarrow> bool" where
  "equal_omap m m' \<longleftrightarrow> entries m = entries m'"

instance
  by standard (simp add: equal_omap_def entries_inject)

end

end
