(* ===== verification/Serialize.thy ===== *)
theory Serialize
  imports Prelude "HOL-Library.List_Lexorder"
begin

text \<open>
  The wire format of serialize.h: fixed-width integers in little and big endian, the compact size
  prefix, strings, vectors, pairs and maps.  A writer is a function into byte lists; a reader consumes a
  byte list and returns the value and the unread rest, or \<open>None\<close> where the C++ reader throws
  (end of data, non-canonical or oversized length).  The locale \<open>codec\<close> is the contract between a
  writer and its reader; \<open>canonical_codec\<close> adds that nothing but the writer's output is accepted.
\<close>

section \<open>Integers\<close>

type_synonym 'a reader = "bytes \<Rightarrow> ('a \<times> bytes) option"

primrec le_bytes :: "nat \<Rightarrow> nat \<Rightarrow> bytes" where
  "le_bytes 0 x = []"
| "le_bytes (Suc n) x = of_nat x # le_bytes n (x div 256)"

primrec le_read :: "nat \<Rightarrow> nat reader" where
  "le_read 0 bs = Some (0, bs)"
| "le_read (Suc n) bs =
     (case bs of [] \<Rightarrow> None
      | b # bs \<Rightarrow> do { (x, bs) \<leftarrow> le_read n bs; Some (unat b + 256 * x, bs) })"

definition ser_writedata8 :: "u8 \<Rightarrow> bytes" where
  "ser_writedata8 obj = [obj]"

definition ser_writedata16 :: "u16 \<Rightarrow> bytes" where
  "ser_writedata16 obj = le_bytes 2 (unat obj)"

definition ser_writedata16be :: "u16 \<Rightarrow> bytes" where
  "ser_writedata16be obj = rev (le_bytes 2 (unat obj))"

definition ser_writedata32 :: "u32 \<Rightarrow> bytes" where
  "ser_writedata32 obj = le_bytes 4 (unat obj)"

definition ser_writedata32be :: "u32 \<Rightarrow> bytes" where
  "ser_writedata32be obj = rev (le_bytes 4 (unat obj))"

definition ser_writedata64 :: "u64 \<Rightarrow> bytes" where
  "ser_writedata64 obj = le_bytes 8 (unat obj)"

fun ser_readdata8 :: "u8 reader" where
  "ser_readdata8 [] = None"
| "ser_readdata8 (b # bs) = Some (b, bs)"

definition ser_readdata16 :: "u16 reader" where
  "ser_readdata16 bs = do { (x, bs) \<leftarrow> le_read 2 bs; Some (of_nat x, bs) }"

definition ser_readdata32 :: "u32 reader" where
  "ser_readdata32 bs = do { (x, bs) \<leftarrow> le_read 4 bs; Some (of_nat x, bs) }"

definition ser_readdata64 :: "u64 reader" where
  "ser_readdata64 bs = do { (x, bs) \<leftarrow> le_read 8 bs; Some (of_nat x, bs) }"

text \<open>The big-endian readers reverse the bytes they take from the stream.\<close>

definition be_read :: "nat \<Rightarrow> nat reader" where
  "be_read n bs = (if length bs < n then None
     else do { (x, _) \<leftarrow> le_read n (rev (take n bs)); Some (x, drop n bs) })"

definition ser_readdata16be :: "u16 reader" where
  "ser_readdata16be bs = do { (x, bs) \<leftarrow> be_read 2 bs; Some (of_nat x, bs) }"

definition ser_readdata32be :: "u32 reader" where
  "ser_readdata32be bs = do { (x, bs) \<leftarrow> be_read 4 bs; Some (of_nat x, bs) }"

text \<open>Signed integers are written as the unsigned integer of the same width.\<close>

definition ser_int64 :: "int \<Rightarrow> bytes" where
  "ser_int64 a = ser_writedata64 (word_of_int a)"

definition unser_int64 :: "int reader" where
  "unser_int64 bs = do { (x, bs) \<leftarrow> ser_readdata64 bs; Some (sint x, bs) }"

definition ser_int32 :: "int \<Rightarrow> bytes" where
  "ser_int32 a = ser_writedata32 (word_of_int a)"

definition unser_int32 :: "int reader" where
  "unser_int32 bs = do { (x, bs) \<leftarrow> ser_readdata32 bs; Some (sint x, bs) }"

definition ser_bool :: "bool \<Rightarrow> bytes" where
  "ser_bool a = ser_writedata8 (if a then 1 else 0)"

definition unser_bool :: "bool reader" where
  "unser_bool bs = do { (f, bs) \<leftarrow> ser_readdata8 bs; Some (f \<noteq> 0, bs) }"

section \<open>Compact sizes, strings, vectors, pairs and maps\<close>

definition MAX_SIZE :: nat where
  "MAX_SIZE = 0x02000000"

definition WriteCompactSize :: "nat \<Rightarrow> bytes" where
  "WriteCompactSize nSize =
     (if nSize < 253 then ser_writedata8 (of_nat nSize)
      else if nSize \<le> 0xffff then ser_writedata8 253 @ ser_writedata16 (of_nat nSize)
      else if nSize \<le> 0xffffffff then ser_writedata8 254 @ ser_writedata32 (of_nat nSize)
      else ser_writedata8 255 @ ser_writedata64 (of_nat nSize))"

definition ReadCompactSize :: "nat reader" where
  "ReadCompactSize is = do {
     (chSize, is) \<leftarrow> ser_readdata8 is;
     (nSizeRet, is) \<leftarrow>
       (if chSize < 253 then Some (unat chSize, is)
        else if chSize = 253 then do {
          (n, is) \<leftarrow> ser_readdata16 is; if unat n < 253 then None else Some (unat n, is) }
        else if chSize = 254 then do {
          (n, is) \<leftarrow> ser_readdata32 is; if unat n < 0x10000 then None else Some (unat n, is) }
        else do {
          (n, is) \<leftarrow> ser_readdata64 is; if unat n < 0x100000000 then None else Some (unat n, is) });
     if nSizeRet > MAX_SIZE then None else Some (nSizeRet, is) }"

primrec read_n :: "'a reader \<Rightarrow> nat \<Rightarrow> 'a list reader" where
  "read_n rd 0 bs = Some ([], bs)"
| "read_n rd (Suc n) bs = do { (x, bs) \<leftarrow> rd bs; (xs, bs) \<leftarrow> read_n rd n bs; Some (x # xs, bs) }"

definition ser_vector :: "('a \<Rightarrow> bytes) \<Rightarrow> 'a list \<Rightarrow> bytes" where
  "ser_vector wr v = WriteCompactSize (length v) @ concat (map wr v)"

definition unser_vector :: "'a reader \<Rightarrow> 'a list reader" where
  "unser_vector rd is = do { (size, is) \<leftarrow> ReadCompactSize is; read_n rd size is }"

definition ser_pair :: "('a \<Rightarrow> bytes) \<Rightarrow> ('b \<Rightarrow> bytes) \<Rightarrow> 'a \<times> 'b \<Rightarrow> bytes" where
  "ser_pair wr1 wr2 item = wr1 (fst item) @ wr2 (snd item)"

definition unser_pair :: "'a reader \<Rightarrow> 'b reader \<Rightarrow> ('a \<times> 'b) reader" where
  "unser_pair rd1 rd2 is = do { (a, is) \<leftarrow> rd1 is; (b, is) \<leftarrow> rd2 is; Some ((a, b), is) }"

text \<open>
  A map is written as its entries in ascending key order.  The reader inserts the entries one by
  one; \<open>std::map::insert\<close> leaves an existing key alone, so the first of two equal keys is kept.
\<close>

definition map_insert :: "'k::linorder \<times> 'v \<Rightarrow> ('k, 'v) omap \<Rightarrow> ('k, 'v) omap" where
  "map_insert item m = (if om_lookup m (fst item) = None then om_update (fst item) (snd item) m else m)"

definition SerializeMap :: "('k::linorder \<Rightarrow> bytes) \<Rightarrow> ('v \<Rightarrow> bytes) \<Rightarrow> ('k, 'v) omap \<Rightarrow> bytes" where
  "SerializeMap wrk wrv m =
     WriteCompactSize (length (entries m)) @ concat (map (ser_pair wrk wrv) (entries m))"

definition UnserializeMap :: "'k::linorder reader \<Rightarrow> 'v reader \<Rightarrow> ('k, 'v) omap reader" where
  "UnserializeMap rdk rdv is = do {
     (nSize, is) \<leftarrow> ReadCompactSize is;
     (items, is) \<leftarrow> read_n (unser_pair rdk rdv) nSize is;
     Some (fold map_insert items om_empty, is) }"

section \<open>Writers and readers as codecs\<close>

named_theorems codec_simps

lemma le_bytes_numeral [eval_simps]:
  "le_bytes (numeral k) x = of_nat x # le_bytes (pred_numeral k) (x div 256)"
  by (simp add: numeral_eq_Suc [of k])

lemma le_read_numeral [eval_simps]:
  "le_read (numeral k) bs =
     (case bs of [] \<Rightarrow> None
      | b # bs \<Rightarrow> do { (x, bs) \<leftarrow> le_read (pred_numeral k) bs; Some (unat b + 256 * x, bs) })"
  by (simp add: numeral_eq_Suc [of k])

lemma le_read_le_bytes: "x < 256 ^ n \<Longrightarrow> le_read n (le_bytes n x @ r) = Some (x, r)"
proof (induction n arbitrary: x)
  case (Suc n)
  then have "x div 256 < 256 ^ n" by (simp add: less_mult_imp_div_less)
  with Suc.IH show ?case by (simp add: unat_of_nat)
qed simp

lemma le_read_canonical: "le_read n bs = Some (x, r) \<Longrightarrow> bs = le_bytes n x @ r \<and> x < 256 ^ n"
proof (induction n arbitrary: bs x)
  case (Suc n)
  then obtain b bs' y where *: "bs = b # bs'" "le_read n bs' = Some (y, r)" "x = unat b + 256 * y"
    by (auto split: list.splits bind_splits)
  have "unat b < 256" using unsigned_less [of b] by simp
  then have "x div 256 = y" and "x mod 256 = unat b" using *(3) by simp_all
  then have "unat (of_nat x :: u8) = unat b" by (simp add: unat_of_nat)
  then have "of_nat x = b" by (simp only: word_unat_eq_iff)
  with Suc.IH [OF *(2)] * \<open>unat b < 256\<close> \<open>x div 256 = y\<close> show ?case by auto
qed simp

lemma length_le_bytes [simp]: "length (le_bytes n x) = n"
  by (induction n arbitrary: x) simp_all

text \<open>
  \<open>wf\<close> is what the C++ type and the length limit of the format guarantee of the value written.
\<close>

locale codec =
  fixes ser :: "'a \<Rightarrow> bytes" and unser :: "'a reader" and wf :: "'a \<Rightarrow> bool"
  assumes roundtrip: "wf x \<Longrightarrow> unser (ser x @ r) = Some (x, r)"
begin

lemma prefix_free: "wf x \<Longrightarrow> wf y \<Longrightarrow> ser x @ r = ser y @ s \<Longrightarrow> x = y \<and> r = s"
  by (metis Pair_inject option.inject roundtrip)

lemma ser_inj: "wf x \<Longrightarrow> wf y \<Longrightarrow> ser x = ser y \<longleftrightarrow> x = y"
  using prefix_free [of x y "[]" "[]"] by auto

lemma roundtrip_nil: "wf x \<Longrightarrow> unser (ser x) = Some (x, [])"
  using roundtrip [of x "[]"] by simp

lemma read_n_roundtrip: "list_all wf xs \<Longrightarrow> read_n unser (length xs) (concat (map ser xs) @ r) = Some (xs, r)"
  by (induction xs) (simp_all add: roundtrip)

end

locale canonical_codec = codec +
  assumes canonical: "unser bs = Some (x, r) \<Longrightarrow> wf x \<and> bs = ser x @ r"
begin

lemma unser_iff: "unser bs = Some (x, r) \<longleftrightarrow> wf x \<and> bs = ser x @ r"
  using canonical roundtrip by blast

lemma read_n_canonical:
  "read_n unser n bs = Some (xs, r) \<Longrightarrow> list_all wf xs \<and> length xs = n \<and> bs = concat (map ser xs) @ r"
proof (induction n arbitrary: bs xs)
  case (Suc n)
  then obtain x bs' xs' where *: "unser bs = Some (x, bs')" "read_n unser n bs' = Some (xs', r)" "xs = x # xs'"
    by (auto split: bind_splits)
  from Suc.IH [OF *(2)] canonical [OF *(1)] *(3) show ?case by simp
qed simp

end

text \<open>Fixed-width integers.\<close>

interpretation ser8: canonical_codec ser_writedata8 ser_readdata8 "\<lambda>_. True"
proof
  fix bs x r assume "ser_readdata8 bs = Some (x, r)"
  then show "True \<and> bs = ser_writedata8 x @ r" by (cases bs) (auto simp: ser_writedata8_def)
qed (simp add: ser_writedata8_def)

lemma le_word_codec:
  assumes "LENGTH('w::len) = 8 * n"
  shows "canonical_codec (\<lambda>obj :: 'w word. le_bytes n (unat obj))
    (\<lambda>bs. do { (x, bs) \<leftarrow> le_read n bs; Some (of_nat x, bs) }) (\<lambda>_. True)"
proof
  have pw: "(2::nat) ^ LENGTH('w) = 256 ^ n" by (simp add: assms power_mult)
  fix x :: "'w word" and bs r
  have "unat x < 256 ^ n" unfolding pw [symmetric] by (rule unsigned_less)
  then show "do { (x, bs) \<leftarrow> le_read n (le_bytes n (unat x) @ r); Some (of_nat x, bs) } = Some (x, r)"
    by (simp add: le_read_le_bytes)
  assume "do { (x, bs) \<leftarrow> le_read n bs; Some (of_nat x, bs) } = Some (x, r)"
  then obtain y where y: "le_read n bs = Some (y, r)" "x = of_nat y" by (auto split: bind_splits)
  with le_read_canonical [OF y(1)] pw show "True \<and> bs = le_bytes n (unat x) @ r"
    by (simp add: unat_of_nat)
qed

interpretation ser16: canonical_codec ser_writedata16 ser_readdata16 "\<lambda>_. True"
  using le_word_codec [where 'w = 16, of 2] by (simp add: ser_writedata16_def [abs_def] ser_readdata16_def [abs_def])

interpretation ser32: canonical_codec ser_writedata32 ser_readdata32 "\<lambda>_. True"
  using le_word_codec [where 'w = 32, of 4] by (simp add: ser_writedata32_def [abs_def] ser_readdata32_def [abs_def])

interpretation ser64: canonical_codec ser_writedata64 ser_readdata64 "\<lambda>_. True"
  using le_word_codec [where 'w = 64, of 8] by (simp add: ser_writedata64_def [abs_def] ser_readdata64_def [abs_def])

lemmas word_roundtrips [codec_simps] =
  ser8.roundtrip [OF TrueI] ser16.roundtrip [OF TrueI] ser32.roundtrip [OF TrueI] ser64.roundtrip [OF TrueI]

lemmas word_roundtrips_nil [codec_simps] =
  ser8.roundtrip_nil [OF TrueI] ser16.roundtrip_nil [OF TrueI]
  ser32.roundtrip_nil [OF TrueI] ser64.roundtrip_nil [OF TrueI]

lemma be_word_codec:
  assumes "LENGTH('w::len) = 8 * n"
  shows "canonical_codec (\<lambda>obj :: 'w word. rev (le_bytes n (unat obj)))
    (\<lambda>bs. do { (x, bs) \<leftarrow> be_read n bs; Some (of_nat x, bs) }) (\<lambda>_. True)"
proof
  have pw: "(2::nat) ^ LENGTH('w) = 256 ^ n" by (simp add: assms power_mult)
  fix x :: "'w word" and bs r
  have "unat x < 256 ^ n" unfolding pw [symmetric] by (rule unsigned_less)
  then show "do { (x, bs) \<leftarrow> be_read n (rev (le_bytes n (unat x)) @ r); Some (of_nat x, bs) } = Some (x, r)"
    using le_read_le_bytes [of "unat x" n "[]"] by (simp add: be_read_def)
  assume "do { (x, bs) \<leftarrow> be_read n bs; Some (of_nat x, bs) } = Some (x, r)"
  then obtain y t where y: "le_read n (rev (take n bs)) = Some (y, t)" "x = of_nat y" "r = drop n bs" "n \<le> length bs"
    by (auto simp: be_read_def split: bind_splits if_splits)
  from le_read_canonical [OF y(1)] have c: "rev (take n bs) = le_bytes n y @ t" "y < 256 ^ n" by auto
  from arg_cong [OF c(1), of length] y(4) have "t = []" by simp
  with c have "take n bs = rev (le_bytes n y)" by (metis append_Nil2 rev_swap)
  with y c(2) pw show "True \<and> bs = rev (le_bytes n (unat x)) @ r"
    by (simp add: unat_of_nat) (metis append_take_drop_id)
qed

interpretation ser16be: canonical_codec ser_writedata16be ser_readdata16be "\<lambda>_. True"
  using be_word_codec [where 'w = 16, of 2]
  by (simp add: ser_writedata16be_def [abs_def] ser_readdata16be_def [abs_def])

interpretation ser32be: canonical_codec ser_writedata32be ser_readdata32be "\<lambda>_. True"
  using be_word_codec [where 'w = 32, of 4]
  by (simp add: ser_writedata32be_def [abs_def] ser_readdata32be_def [abs_def])

text \<open>Signed integers and booleans.\<close>

interpretation int64: canonical_codec ser_int64 unser_int64 "\<lambda>a. - (2 ^ 63) \<le> a \<and> a < 2 ^ 63"
proof
  fix a r assume "- (2 ^ 63) \<le> a \<and> a < (2 ^ 63 :: int)"
  then show "unser_int64 (ser_int64 a @ r) = Some (a, r)"
    by (simp add: unser_int64_def ser_int64_def codec_simps int_word_sint)
next
  fix bs a r assume "unser_int64 bs = Some (a, r)"
  then obtain w where w: "ser_readdata64 bs = Some (w, r)" "a = sint w"
    by (auto simp: unser_int64_def split: bind_splits)
  with ser64.canonical [OF w(1)] sint_greater_eq [of w] sint_less [of w]
  show "(- (2 ^ 63) \<le> a \<and> a < 2 ^ 63) \<and> bs = ser_int64 a @ r"
    by (simp add: ser_int64_def)
qed

interpretation int32: canonical_codec ser_int32 unser_int32 "\<lambda>a. - (2 ^ 31) \<le> a \<and> a < 2 ^ 31"
proof
  fix a r assume "- (2 ^ 31) \<le> a \<and> a < (2 ^ 31 :: int)"
  then show "unser_int32 (ser_int32 a @ r) = Some (a, r)"
    by (simp add: unser_int32_def ser_int32_def codec_simps int_word_sint)
next
  fix bs a r assume "unser_int32 bs = Some (a, r)"
  then obtain w where w: "ser_readdata32 bs = Some (w, r)" "a = sint w"
    by (auto simp: unser_int32_def split: bind_splits)
  with ser32.canonical [OF w(1)] sint_greater_eq [of w] sint_less [of w]
  show "(- (2 ^ 31) \<le> a \<and> a < 2 ^ 31) \<and> bs = ser_int32 a @ r"
    by (simp add: ser_int32_def)
qed

interpretation boolc: codec ser_bool unser_bool "\<lambda>_. True"
  by standard (simp add: ser_bool_def unser_bool_def codec_simps)

text \<open>Compact sizes: every size up to the limit has exactly one encoding.\<close>

interpretation compact: canonical_codec WriteCompactSize ReadCompactSize "\<lambda>n. n \<le> MAX_SIZE"
proof
  fix n r assume "n \<le> MAX_SIZE"
  then show "ReadCompactSize (WriteCompactSize n @ r) = Some (n, r)"
    by (simp add: ReadCompactSize_def WriteCompactSize_def MAX_SIZE_def codec_simps
        word_less_nat_alt unat_of_nat)
next
  fix bs n r assume *: "ReadCompactSize bs = Some (n, r)"
  then obtain c bs' where c: "ser_readdata8 bs = Some (c, bs')"
    by (auto simp: ReadCompactSize_def split: bind_splits)
  then have bs: "bs = ser_writedata8 c @ bs'" using ser8.canonical by blast
  consider "c < 253" | "c = 253" | "c = 254" | "c = 255"
    using unsigned_less [of c, where 'a = nat] by (fastforce simp: word_less_nat_alt word_unat_eq_iff)
  then show "n \<le> MAX_SIZE \<and> bs = WriteCompactSize n @ r"
  proof cases
    case 1
    with * c bs show ?thesis
      by (auto simp: ReadCompactSize_def WriteCompactSize_def word_less_nat_alt split: if_splits)
  next
    case 2
    with * c obtain w where "ser_readdata16 bs' = Some (w, r)" "n = unat w" "253 \<le> unat w" "n \<le> MAX_SIZE"
      by (auto simp: ReadCompactSize_def split: bind_splits if_splits)
    with ser16.canonical [of bs' w r] bs 2 unsigned_less [of w, where 'a = nat] show ?thesis
      by (simp add: WriteCompactSize_def)
  next
    case 3
    with * c obtain w where "ser_readdata32 bs' = Some (w, r)" "n = unat w" "0x10000 \<le> unat w" "n \<le> MAX_SIZE"
      by (auto simp: ReadCompactSize_def split: bind_splits if_splits)
    with ser32.canonical [of bs' w r] bs 3 unsigned_less [of w, where 'a = nat] show ?thesis
      by (simp add: WriteCompactSize_def MAX_SIZE_def)
  next
    case 4
    with * c show ?thesis
      by (auto simp: ReadCompactSize_def MAX_SIZE_def split: bind_splits if_splits)
  qed
qed

lemma codec_vector:
  assumes "codec wr rd P"
  shows "codec (ser_vector wr) (unser_vector rd) (\<lambda>v. length v \<le> MAX_SIZE \<and> list_all P v)"
  by standard
    (simp add: ser_vector_def unser_vector_def compact.roundtrip codec.read_n_roundtrip [OF assms])

lemma canonical_codec_vector:
  assumes "canonical_codec wr rd P"
  shows "canonical_codec (ser_vector wr) (unser_vector rd) (\<lambda>v. length v \<le> MAX_SIZE \<and> list_all P v)"
  unfolding canonical_codec_def canonical_codec_axioms_def
proof (intro conjI allI impI)
  show "codec (ser_vector wr) (unser_vector rd) (\<lambda>v. length v \<le> MAX_SIZE \<and> list_all P v)"
    by (rule codec_vector) (rule canonical_codec.axioms(1) [OF assms])
  fix bs v r assume "unser_vector rd bs = Some (v, r)"
  then obtain n bs' where *: "ReadCompactSize bs = Some (n, bs')" "read_n rd n bs' = Some (v, r)"
    by (auto simp: unser_vector_def split: bind_splits)
  from compact.canonical [OF *(1)] canonical_codec.read_n_canonical [OF assms *(2)]
  show "length v \<le> MAX_SIZE" "list_all P v" "bs = ser_vector wr v @ r"
    by (auto simp: ser_vector_def)
qed

interpretation vec8: canonical_codec "ser_vector ser_writedata8" "unser_vector ser_readdata8"
  "\<lambda>v. length v \<le> MAX_SIZE \<and> list_all (\<lambda>_. True) v"
  by (rule canonical_codec_vector) (rule ser8.canonical_codec_axioms)

interpretation vec32: canonical_codec "ser_vector ser_writedata32" "unser_vector ser_readdata32"
  "\<lambda>v. length v \<le> MAX_SIZE \<and> list_all (\<lambda>_. True) v"
  by (rule canonical_codec_vector) (rule ser32.canonical_codec_axioms)

lemma codec_pair:
  assumes "codec wr1 rd1 wf1" and "codec wr2 rd2 wf2"
  shows "codec (ser_pair wr1 wr2) (unser_pair rd1 rd2) (\<lambda>item. wf1 (fst item) \<and> wf2 (snd item))"
  by standard (auto simp: ser_pair_def unser_pair_def codec.roundtrip [OF assms(1)] codec.roundtrip [OF assms(2)])

lemma lookup_fold_map_insert:
  "om_lookup (fold map_insert xs m) k = (case om_lookup m k of Some v \<Rightarrow> Some v | None \<Rightarrow> map_of xs k)"
  by (induction xs arbitrary: m) (auto simp: map_insert_def split: option.splits)

lemma codec_map:
  assumes "codec wrk rdk wfk" and "codec wrv rdv wfv"
  shows "codec (SerializeMap wrk wrv) (UnserializeMap rdk rdv)
    (\<lambda>m. length (entries m) \<le> MAX_SIZE \<and> list_all (\<lambda>item. wfk (fst item) \<and> wfv (snd item)) (entries m))"
proof
  fix m :: "('a, 'b) omap" and r
  have "fold map_insert (entries m) om_empty = m"
    by (rule om_ext) (simp add: lookup_fold_map_insert)
  moreover assume "length (entries m) \<le> MAX_SIZE \<and> list_all (\<lambda>item. wfk (fst item) \<and> wfv (snd item)) (entries m)"
  ultimately show "UnserializeMap rdk rdv (SerializeMap wrk wrv m @ r) = Some (m, r)"
    by (simp add: UnserializeMap_def SerializeMap_def compact.roundtrip
        codec.read_n_roundtrip [OF codec_pair [OF assms]])
qed

section \<open>Big-endian integers sort as numbers\<close>

lemma list_less_append:
  fixes xs ys us vs :: "'a::linorder list"
  assumes "length xs = length ys"
  shows "xs @ us < ys @ vs \<longleftrightarrow> xs < ys \<or> xs = ys \<and> us < vs"
  using assms by (induction xs ys rule: list_induct2) auto

lemma be_bytes_less:
  "x < 256 ^ n \<Longrightarrow> y < 256 ^ n \<Longrightarrow> rev (le_bytes n x) < rev (le_bytes n y) \<longleftrightarrow> x < y"
proof (induction n arbitrary: x y)
  case (Suc n)
  then have b: "x div 256 < 256 ^ n" "y div 256 < 256 ^ n"
    by (simp_all add: less_mult_imp_div_less)
  have eq: "rev (le_bytes n (x div 256)) = rev (le_bytes n (y div 256)) \<longleftrightarrow> x div 256 = y div 256"
    using Suc.IH [OF b] Suc.IH [OF b(2) b(1)] by (metis linorder_neq_iff)
  have "rev (le_bytes (Suc n) x) < rev (le_bytes (Suc n) y) \<longleftrightarrow>
      x div 256 < y div 256 \<or> x div 256 = y div 256 \<and> x mod 256 < y mod 256"
    using Suc.IH [OF b] eq by (simp add: list_less_append word_less_nat_alt unat_of_nat)
  also have "\<dots> \<longleftrightarrow> x < y"
    using div_mult_mod_eq [of x 256] div_mult_mod_eq [of y 256] mod_less_divisor [of 256 x] mod_less_divisor [of 256 y]
    by (cases "x div 256" "y div 256" rule: linorder_cases) linarith+
  finally show ?case .
qed simp

lemma unat_less_bytes: "unat (x :: u32) < 256 ^ 4" "unat (y :: u16) < 256 ^ 2"
  using unsigned_less [of x, where 'a = nat] unsigned_less [of y, where 'a = nat] by (simp_all del: unsigned_less)

lemma ser32be_less: "ser_writedata32be x < ser_writedata32be y \<longleftrightarrow> x < y"
  by (simp only: ser_writedata32be_def be_bytes_less [OF unat_less_bytes(1) unat_less_bytes(1)] word_less_nat_alt)

lemma ser16be_less: "ser_writedata16be x < ser_writedata16be y \<longleftrightarrow> x < y"
  by (simp only: ser_writedata16be_def be_bytes_less [OF unat_less_bytes(2) unat_less_bytes(2)] word_less_nat_alt)

end
