(* ===== verification/Transaction.thy ===== *)
theory Transaction
  imports Serialize
begin

text \<open>
  Transactions and scripts as far as betting reads them (primitives/transaction.h, script/script.h):
  outpoints, inputs, outputs, the coinbase and coinstake tests, the value sums with their range and
  wrap-around checks, the script iterator \<open>GetScriptOp\<close> and the data push \<open>CScript::operator<<\<close>.
  A \<open>uint256\<close> is the 256-bit number whose big-endian bytes are the 32 bytes of the blob, so that the
  \<open>memcmp\<close> order of blobs is the order of the numbers.
\<close>

section \<open>Scripts\<close>

type_synonym CScript = bytes

definition OP_PUSHDATA1 :: u8 where "OP_PUSHDATA1 = 0x4c"

definition OP_PUSHDATA2 :: u8 where "OP_PUSHDATA2 = 0x4d"

definition OP_PUSHDATA4 :: u8 where "OP_PUSHDATA4 = 0x4e"

definition OP_RETURN :: u8 where "OP_RETURN = 0x6a"

definition OP_ZEROCOINMINT :: u8 where "OP_ZEROCOINMINT = 0xc1"

definition OP_ZEROCOINSPEND :: u8 where "OP_ZEROCOINSPEND = 0xc2"

definition OP_ZEROCOINPUBLICSPEND :: u8 where "OP_ZEROCOINPUBLICSPEND = 0xc3"

definition MAX_SCRIPT_SIZE :: nat where "MAX_SCRIPT_SIZE = 10000"

lemmas opcode_defs = OP_PUSHDATA1_def OP_PUSHDATA2_def OP_PUSHDATA4_def OP_RETURN_def
  OP_ZEROCOINMINT_def OP_ZEROCOINSPEND_def OP_ZEROCOINPUBLICSPEND_def

text \<open>
  One instruction from the position \<open>pc\<close> (the bytes from there to the end of the script): the
  opcode, the pushed data and the position after it; \<open>None\<close> is \<open>return false\<close>.
\<close>

definition GetScriptOp :: "bytes \<Rightarrow> (u8 \<times> bytes \<times> bytes) option" where
  "GetScriptOp pc = do {
     (opcode, pc) \<leftarrow> ser_readdata8 pc;
     if opcode \<le> OP_PUSHDATA4 then do {
       (nSize, pc) \<leftarrow>
         (if opcode < OP_PUSHDATA1 then Some (unat opcode, pc)
          else if opcode = OP_PUSHDATA1 then le_read 1 pc
          else if opcode = OP_PUSHDATA2 then le_read 2 pc
          else le_read 4 pc);
       if length pc < nSize then None else Some (opcode, take nSize pc, drop nSize pc) }
     else Some (opcode, [], pc) }"

definition push_data :: "CScript \<Rightarrow> bytes \<Rightarrow> CScript" where
  "push_data script b = script @
     (if length b < unat OP_PUSHDATA1 then [of_nat (length b)]
      else if length b \<le> 0xff then [OP_PUSHDATA1, of_nat (length b)]
      else if length b \<le> 0xffff then OP_PUSHDATA2 # le_bytes 2 (length b)
      else OP_PUSHDATA4 # le_bytes 4 (length b)) @ b"

definition StartsWithOpcode :: "CScript \<Rightarrow> u8 \<Rightarrow> bool" where
  "StartsWithOpcode script opcode \<longleftrightarrow> script \<noteq> [] \<and> hd script = opcode"

definition IsUnspendable :: "CScript \<Rightarrow> bool" where
  "IsUnspendable script \<longleftrightarrow>
     (length script > 0 \<and> hd script = OP_RETURN) \<or> length script > MAX_SCRIPT_SIZE"

section \<open>Transactions\<close>

record COutPoint =
  op_hash :: uint256
  op_n :: u32

definition COutPoint_IsNull :: "COutPoint \<Rightarrow> bool" where
  "COutPoint_IsNull p \<longleftrightarrow> op_hash p = 0 \<and> op_n p = 0xffffffff"

record CTxIn =
  prevout :: COutPoint
  scriptSig :: CScript

definition CTxIn_IsZerocoinSpend :: "CTxIn \<Rightarrow> bool" where
  "CTxIn_IsZerocoinSpend txin \<longleftrightarrow>
     op_hash (prevout txin) = 0 \<and> StartsWithOpcode (scriptSig txin) OP_ZEROCOINSPEND"

definition CTxIn_IsZerocoinPublicSpend :: "CTxIn \<Rightarrow> bool" where
  "CTxIn_IsZerocoinPublicSpend txin \<longleftrightarrow> StartsWithOpcode (scriptSig txin) OP_ZEROCOINPUBLICSPEND"

record CTxOut =
  nValue :: CAmount
  scriptPubKey :: CScript

definition CTxOut_IsEmpty :: "CTxOut \<Rightarrow> bool" where
  "CTxOut_IsEmpty out \<longleftrightarrow> nValue out = 0 \<and> scriptPubKey out = []"

record CTransaction =
  vin :: "CTxIn list"
  vout :: "CTxOut list"
  tx_hash :: uint256

definition HasZerocoinSpendInputs :: "CTransaction \<Rightarrow> bool" where
  "HasZerocoinSpendInputs tx =
     list_ex (\<lambda>txin. CTxIn_IsZerocoinSpend txin \<or> CTxIn_IsZerocoinPublicSpend txin) (vin tx)"

definition HasZerocoinPublicSpendInputs :: "CTransaction \<Rightarrow> bool" where
  "HasZerocoinPublicSpendInputs tx = list_ex CTxIn_IsZerocoinPublicSpend (vin tx)"

definition HasZerocoinMintOutputs :: "CTransaction \<Rightarrow> bool" where
  "HasZerocoinMintOutputs tx = list_ex (\<lambda>out. StartsWithOpcode (scriptPubKey out) OP_ZEROCOINMINT) (vout tx)"

definition ContainsZerocoins :: "CTransaction \<Rightarrow> bool" where
  "ContainsZerocoins tx \<longleftrightarrow>
     HasZerocoinSpendInputs tx \<or> HasZerocoinPublicSpendInputs tx \<or> HasZerocoinMintOutputs tx"

definition IsCoinBase :: "CTransaction \<Rightarrow> bool" where
  "IsCoinBase tx \<longleftrightarrow>
     length (vin tx) = 1 \<and> COutPoint_IsNull (prevout (hd (vin tx))) \<and> \<not> ContainsZerocoins tx"

definition IsCoinStake :: "CTransaction \<Rightarrow> bool" where
  "IsCoinStake tx =
     (case vin tx of [] \<Rightarrow> False
      | txin # _ \<Rightarrow>
          let fAllowNull = CTxIn_IsZerocoinSpend txin in
          if COutPoint_IsNull (prevout txin) \<and> \<not> fAllowNull then False
          else length (vout tx) \<ge> 2 \<and> CTxOut_IsEmpty (hd (vout tx)))"

definition HasOpReturnOutput :: "CTransaction \<Rightarrow> bool" where
  "HasOpReturnOutput tx =
     list_ex (\<lambda>out. length (scriptPubKey out) > 0 \<and> hd (scriptPubKey out) = OP_RETURN) (vout tx)"

text \<open>
  The running sums over the outputs.  \<open>None\<close> is the exception: a negative value, or a sum that wraps
  the 64-bit range.
\<close>

fun AddVoutValues_loop :: "CTxOut list \<Rightarrow> CAmount \<times> CAmount \<Rightarrow> (CAmount \<times> CAmount) option" where
  "AddVoutValues_loop [] acc = Some acc"
| "AddVoutValues_loop (it # outs) (nValueOut, nValueBurned) =
     (if nValue it < 0 then None
      else if i64 (nValueOut + nValue it) < nValueOut then None
      else if IsUnspendable (scriptPubKey it) then
        (if i64 (nValueBurned + nValue it) < nValueBurned then None
         else AddVoutValues_loop outs (i64 (nValueOut + nValue it), i64 (nValueBurned + nValue it)))
      else AddVoutValues_loop outs (i64 (nValueOut + nValue it), nValueBurned))"

definition AddVoutValues :: "CTransaction \<Rightarrow> CAmount \<times> CAmount \<Rightarrow> (CAmount \<times> CAmount) option" where
  "AddVoutValues tx acc = AddVoutValues_loop (vout tx) acc"

section \<open>Facts about scripts and value sums\<close>

lemma GetScriptOp_push_data:
  assumes "length b < 2 ^ 32"
  shows "\<exists>opcode. opcode \<le> OP_PUSHDATA4 \<and> GetScriptOp (push_data [] b @ r) = Some (opcode, b, r)"
proof -
  consider "length b < 76" | "76 \<le> length b" "length b \<le> 0xff"
    | "0xff < length b" "length b \<le> 0xffff" | "0xffff < length b" by linarith
  then show ?thesis
  proof cases
    case 1
    then have "(of_nat (length b) :: u8) < OP_PUSHDATA1"
      by (simp add: word_less_nat_alt unat_of_nat opcode_defs)
    with 1 show ?thesis
      by (simp add: GetScriptOp_def push_data_def opcode_defs unat_of_nat word_le_nat_alt)
  next
    case 2
    then have "le_read 1 (of_nat (length b) # b @ r) = Some (length b, b @ r)"
      using le_read_le_bytes [of "length b" 1 "b @ r"] by simp
    with 2 show ?thesis by (simp add: GetScriptOp_def push_data_def opcode_defs)
  next
    case 3
    then show ?thesis by (simp add: GetScriptOp_def push_data_def opcode_defs le_read_le_bytes)
  next
    case 4
    with assms show ?thesis by (simp add: GetScriptOp_def push_data_def opcode_defs le_read_le_bytes)
  qed
qed

lemma i64_add_wraps:
  assumes "0 \<le> a" "a < 2 ^ 63" "0 \<le> v" "v < 2 ^ 63"
  shows "i64 (a + v) < a \<longleftrightarrow> 2 ^ 63 \<le> a + v"
proof (cases "a + v < 2 ^ 63")
  case True
  with assms show ?thesis by (simp add: i64_id)
next
  case False
  have "(a + v + 2 ^ 63) mod 2 ^ 64 = (a + v + 2 ^ 63 - 2 ^ 64) mod (2 ^ 64 :: int)"
    by (rule minus_mod_self2 [symmetric])
  also have "\<dots> = a + v + 2 ^ 63 - 2 ^ 64" using False assms by (intro mod_pos_pos_trivial) auto
  finally show ?thesis using False assms by (simp add: i64_def)
qed

text \<open>What the sums mean: the amounts of all outputs, and of the unspendable ones.\<close>

definition value_sum :: "CTxOut list \<Rightarrow> int" where
  "value_sum outs = sum_list (map nValue outs)"

definition burned_sum :: "CTxOut list \<Rightarrow> int" where
  "burned_sum outs = value_sum (filter (\<lambda>out. IsUnspendable (scriptPubKey out)) outs)"

lemma value_sum_simps [simp]:
  "value_sum [] = 0" "value_sum (it # outs) = nValue it + value_sum outs"
  "burned_sum [] = 0"
  "burned_sum (it # outs) = (if IsUnspendable (scriptPubKey it) then nValue it else 0) + burned_sum outs"
  by (simp_all add: value_sum_def burned_sum_def)

lemma value_sum_nonneg: "\<forall>out \<in> set outs. 0 \<le> nValue out \<Longrightarrow> 0 \<le> value_sum outs \<and> 0 \<le> burned_sum outs"
  by (induction outs) auto

lemma AddVoutValues_loop_exact:
  assumes "0 \<le> a" "a < 2 ^ 63" "0 \<le> b" "b < 2 ^ 63" "\<forall>out \<in> set outs. nValue out < 2 ^ 63"
  shows "AddVoutValues_loop outs (a, b) =
    (if (\<forall>out \<in> set outs. 0 \<le> nValue out) \<and> a + value_sum outs < 2 ^ 63 \<and> b + burned_sum outs < 2 ^ 63
     then Some (a + value_sum outs, b + burned_sum outs) else None)"
  using assms
proof (induction outs arbitrary: a b)
  case (Cons it outs)
  consider "nValue it < 0" | "0 \<le> nValue it" "2 ^ 63 \<le> a + nValue it"
    | "0 \<le> nValue it" "a + nValue it < 2 ^ 63" "2 ^ 63 \<le> b + nValue it"
    | "0 \<le> nValue it" "a + nValue it < 2 ^ 63" "b + nValue it < 2 ^ 63" by linarith
  then show ?case
  proof cases
    case 1
    then show ?thesis by simp
  next
    case 2
    with Cons.prems have "i64 (a + nValue it) < a" by (simp add: i64_add_wraps)
    with 2 show ?thesis using value_sum_nonneg [of outs] by auto
  next
    case 3
    with Cons.prems have "i64 (b + nValue it) < b" "i64 (a + nValue it) = a + nValue it"
      by (simp_all add: i64_add_wraps i64_id)
    with 3 Cons show ?thesis using value_sum_nonneg [of outs] by (auto simp: add.assoc)
  next
    case 4
    with Cons.prems have "i64 (b + nValue it) = b + nValue it" "i64 (a + nValue it) = a + nValue it"
      by (simp_all add: i64_id)
    with 4 Cons show ?thesis by (simp add: add.assoc)
  qed
qed simp

end
