(* ===== verification/BetTx.thy ===== *)
theory BetTx
  imports Transaction
begin

text \<open>
  The betting transactions of betting/bet_tx.h and betting/bet_tx.cpp: one record per class with the
  fields of the class, its \<open>Serialize\<close> and \<open>Unserialize\<close>, the sum type \<open>CBettingTx\<close> of all of them
  (the virtual base class), \<open>EncodeBettingTxPayload\<close>, \<open>DeserializeBettingTxFromType\<close> and \<open>ParseBettingTx\<close>,
  which turns an OP\_RETURN output into a betting transaction.  The lemmas show that parsing inverts
  encoding and that a payload made of integers and vectors has a single encoding.
\<close>

section \<open>Transaction types and header\<close>

datatype BetTxTypes =
    mappingTxType
  | plEventTxType
  | plBetTxType
  | plResultTxType
  | plUpdateOddsTxType
  | cgEventTxType
  | cgBetTxType
  | cgResultTxType
  | plSpreadsEventTxType
  | plTotalsEventTxType
  | plEventPatchTxType
  | plParlayBetTxType
  | qgBetTxType
  | plEventZeroingOddsTxType
  | fEventTxType
  | fUpdateOddsTxType
  | fZeroingOddsTxType
  | fResultTxType
  | fBetTxType
  | fParlayBetTxType
  | fUpdateMarginTxType
  | fUpdateModifiersTxType
  | unknownBetTxType

fun BetTxTypes_value :: "BetTxTypes \<Rightarrow> u8" where
  "BetTxTypes_value mappingTxType = 0x1"
| "BetTxTypes_value plEventTxType = 0x2"
| "BetTxTypes_value plBetTxType = 0x3"
| "BetTxTypes_value plResultTxType = 0x4"
| "BetTxTypes_value plUpdateOddsTxType = 0x5"
| "BetTxTypes_value cgEventTxType = 0x6"
| "BetTxTypes_value cgBetTxType = 0x7"
| "BetTxTypes_value cgResultTxType = 0x8"
| "BetTxTypes_value plSpreadsEventTxType = 0x9"
| "BetTxTypes_value plTotalsEventTxType = 0xa"
| "BetTxTypes_value plEventPatchTxType = 0xb"
| "BetTxTypes_value plParlayBetTxType = 0xc"
| "BetTxTypes_value qgBetTxType = 0xd"
| "BetTxTypes_value plEventZeroingOddsTxType = 0xe"
| "BetTxTypes_value fEventTxType = 0xf"
| "BetTxTypes_value fUpdateOddsTxType = 0x10"
| "BetTxTypes_value fZeroingOddsTxType = 0x11"
| "BetTxTypes_value fResultTxType = 0x12"
| "BetTxTypes_value fBetTxType = 0x13"
| "BetTxTypes_value fParlayBetTxType = 0x14"
| "BetTxTypes_value fUpdateMarginTxType = 0x15"
| "BetTxTypes_value fUpdateModifiersTxType = 0x16"
| "BetTxTypes_value unknownBetTxType = 0xff"

definition all_BetTxTypes :: "BetTxTypes list" where
  "all_BetTxTypes =
     [mappingTxType, plEventTxType, plBetTxType, plResultTxType, plUpdateOddsTxType, cgEventTxType,
      cgBetTxType, cgResultTxType, plSpreadsEventTxType, plTotalsEventTxType, plEventPatchTxType,
      plParlayBetTxType, qgBetTxType, plEventZeroingOddsTxType, fEventTxType, fUpdateOddsTxType,
      fZeroingOddsTxType, fResultTxType, fBetTxType, fParlayBetTxType, fUpdateMarginTxType,
      fUpdateModifiersTxType, unknownBetTxType]"

text \<open>The cast \<open>(BetTxTypes) header.txType\<close>; a byte that is no enumerator matches no case label.\<close>

definition BetTxTypes_of :: "u8 \<Rightarrow> BetTxTypes option" where
  "BetTxTypes_of b = find (\<lambda>t. BetTxTypes_value t = b) all_BetTxTypes"

definition BTX_PREFIX :: u8 where "BTX_PREFIX = 66"

definition BetTxVersion4 :: u8 where "BetTxVersion4 = 0x01"

definition BetTxVersion5 :: u8 where "BetTxVersion5 = 0x02"

definition BetTxVersion_CURRENT :: u8 where "BetTxVersion_CURRENT = BetTxVersion4"

lemmas version_defs = BTX_PREFIX_def BetTxVersion4_def BetTxVersion5_def BetTxVersion_CURRENT_def

record CBettingTxHeader =
  hd_prefix :: u8
  hd_version :: u8
  hd_txType :: u8

definition CBettingTxHeader_size :: nat where "CBettingTxHeader_size = 3"

definition ser_CBettingTxHeader :: "CBettingTxHeader \<Rightarrow> bytes" where
  "ser_CBettingTxHeader h =
     ser_writedata8 (hd_prefix h) @ ser_writedata8 (hd_version h) @ ser_writedata8 (hd_txType h)"

definition unser_CBettingTxHeader :: "CBettingTxHeader reader" where
  "unser_CBettingTxHeader s = do {
     (prefix, s) \<leftarrow> ser_readdata8 s;
     (version, s) \<leftarrow> ser_readdata8 s;
     (txType, s) \<leftarrow> ser_readdata8 s;
     Some (\<lparr>hd_prefix = prefix, hd_version = version, hd_txType = txType\<rparr>, s) }"

section \<open>Transaction classes\<close>

record CMappingTx =
  mt_nMType :: u8
  mt_nId :: u32
  mt_sName :: bytes

definition ser_CMappingTx :: "CMappingTx \<Rightarrow> bytes" where
  "ser_CMappingTx tx =
     ser_writedata8 (mt_nMType tx) @
     (if mt_nMType tx = 0x03 \<or> mt_nMType tx = 0x06 then ser_writedata32 (mt_nId tx)
      else ser_writedata16 (ucast (mt_nId tx))) @
     concat (map ser_writedata8 (mt_sName tx))"

text \<open>The name is read until the stream is empty.\<close>

definition unser_CMappingTx :: "CMappingTx reader" where
  "unser_CMappingTx s = do {
     (nMType, s) \<leftarrow> ser_readdata8 s;
     (nId, s) \<leftarrow>
       (if nMType = 0x03 \<or> nMType = 0x06 then ser_readdata32 s
        else do { (nId16, s) \<leftarrow> ser_readdata16 s; Some (ucast nId16, s) });
     Some (\<lparr>mt_nMType = nMType, mt_nId = nId, mt_sName = s\<rparr>, []) }"

record CPeerlessEventTx =
  pe_nEventId :: u32
  pe_nStartTime :: u32
  pe_nSport :: u16
  pe_nTournament :: u16
  pe_nStage :: u16
  pe_nHomeTeam :: u32
  pe_nAwayTeam :: u32
  pe_nHomeOdds :: u32
  pe_nAwayOdds :: u32
  pe_nDrawOdds :: u32

definition ser_CPeerlessEventTx :: "CPeerlessEventTx \<Rightarrow> bytes" where
  "ser_CPeerlessEventTx tx =
     ser_writedata32 (pe_nEventId tx) @ ser_writedata32 (pe_nStartTime tx) @
     ser_writedata16 (pe_nSport tx) @ ser_writedata16 (pe_nTournament tx) @
     ser_writedata16 (pe_nStage tx) @ ser_writedata32 (pe_nHomeTeam tx) @
     ser_writedata32 (pe_nAwayTeam tx) @ ser_writedata32 (pe_nHomeOdds tx) @
     ser_writedata32 (pe_nAwayOdds tx) @ ser_writedata32 (pe_nDrawOdds tx)"

definition unser_CPeerlessEventTx :: "CPeerlessEventTx reader" where
  "unser_CPeerlessEventTx s = do {
     (nEventId, s) \<leftarrow> ser_readdata32 s;
     (nStartTime, s) \<leftarrow> ser_readdata32 s;
     (nSport, s) \<leftarrow> ser_readdata16 s;
     (nTournament, s) \<leftarrow> ser_readdata16 s;
     (nStage, s) \<leftarrow> ser_readdata16 s;
     (nHomeTeam, s) \<leftarrow> ser_readdata32 s;
     (nAwayTeam, s) \<leftarrow> ser_readdata32 s;
     (nHomeOdds, s) \<leftarrow> ser_readdata32 s;
     (nAwayOdds, s) \<leftarrow> ser_readdata32 s;
     (nDrawOdds, s) \<leftarrow> ser_readdata32 s;
     Some (\<lparr>pe_nEventId = nEventId, pe_nStartTime = nStartTime, pe_nSport = nSport,
         pe_nTournament = nTournament, pe_nStage = nStage, pe_nHomeTeam = nHomeTeam,
         pe_nAwayTeam = nAwayTeam, pe_nHomeOdds = nHomeOdds, pe_nAwayOdds = nAwayOdds,
         pe_nDrawOdds = nDrawOdds\<rparr>, s) }"

record CFieldEventTx =
  fe_nEventId :: u32
  fe_nStartTime :: u32
  fe_nSport :: u16
  fe_nTournament :: u16
  fe_nStage :: u16
  fe_nGroupType :: u8
  fe_nMarketType :: u8
  fe_nMarginPercent :: u32
  fe_mContendersInputOdds :: "(u32, u32) omap"

definition ser_CFieldEventTx :: "CFieldEventTx \<Rightarrow> bytes" where
  "ser_CFieldEventTx tx =
     ser_writedata32 (fe_nEventId tx) @ ser_writedata32 (fe_nStartTime tx) @
     ser_writedata16 (fe_nSport tx) @ ser_writedata16 (fe_nTournament tx) @
     ser_writedata16 (fe_nStage tx) @ ser_writedata8 (fe_nGroupType tx) @
     ser_writedata8 (fe_nMarketType tx) @ ser_writedata32 (fe_nMarginPercent tx) @
     SerializeMap ser_writedata32 ser_writedata32 (fe_mContendersInputOdds tx)"

definition unser_CFieldEventTx :: "CFieldEventTx reader" where
  "unser_CFieldEventTx s = do {
     (nEventId, s) \<leftarrow> ser_readdata32 s;
     (nStartTime, s) \<leftarrow> ser_readdata32 s;
     (nSport, s) \<leftarrow> ser_readdata16 s;
     (nTournament, s) \<leftarrow> ser_readdata16 s;
     (nStage, s) \<leftarrow> ser_readdata16 s;
     (nGroupType, s) \<leftarrow> ser_readdata8 s;
     (nMarketType, s) \<leftarrow> ser_readdata8 s;
     (nMarginPercent, s) \<leftarrow> ser_readdata32 s;
     (mContendersInputOdds, s) \<leftarrow> UnserializeMap ser_readdata32 ser_readdata32 s;
     Some (\<lparr>fe_nEventId = nEventId, fe_nStartTime = nStartTime, fe_nSport = nSport,
         fe_nTournament = nTournament, fe_nStage = nStage, fe_nGroupType = nGroupType,
         fe_nMarketType = nMarketType, fe_nMarginPercent = nMarginPercent,
         fe_mContendersInputOdds = mContendersInputOdds\<rparr>, s) }"

record CFieldUpdateOddsTx =
  fuo_nEventId :: u32
  fuo_mContendersInputOdds :: "(u32, u32) omap"

definition ser_CFieldUpdateOddsTx :: "CFieldUpdateOddsTx \<Rightarrow> bytes" where
  "ser_CFieldUpdateOddsTx tx =
     ser_writedata32 (fuo_nEventId tx) @
     SerializeMap ser_writedata32 ser_writedata32 (fuo_mContendersInputOdds tx)"

definition unser_CFieldUpdateOddsTx :: "CFieldUpdateOddsTx reader" where
  "unser_CFieldUpdateOddsTx s = do {
     (nEventId, s) \<leftarrow> ser_readdata32 s;
     (mContendersInputOdds, s) \<leftarrow> UnserializeMap ser_readdata32 ser_readdata32 s;
     Some (\<lparr>fuo_nEventId = nEventId, fuo_mContendersInputOdds = mContendersInputOdds\<rparr>, s) }"

record CFieldUpdateModifiersTx =
  fum_nEventId :: u32
  fum_mContendersModifires :: "(u32, u32) omap"

definition ser_CFieldUpdateModifiersTx :: "CFieldUpdateModifiersTx \<Rightarrow> bytes" where
  "ser_CFieldUpdateModifiersTx tx =
     ser_writedata32 (fum_nEventId tx) @
     SerializeMap ser_writedata32 ser_writedata32 (fum_mContendersModifires tx)"

definition unser_CFieldUpdateModifiersTx :: "CFieldUpdateModifiersTx reader" where
  "unser_CFieldUpdateModifiersTx s = do {
     (nEventId, s) \<leftarrow> ser_readdata32 s;
     (mContendersModifires, s) \<leftarrow> UnserializeMap ser_readdata32 ser_readdata32 s;
     Some (\<lparr>fum_nEventId = nEventId, fum_mContendersModifires = mContendersModifires\<rparr>, s) }"

record CFieldUpdateMarginTx =
  fmg_nEventId :: u32
  fmg_nMarginPercent :: u32

definition ser_CFieldUpdateMarginTx :: "CFieldUpdateMarginTx \<Rightarrow> bytes" where
  "ser_CFieldUpdateMarginTx tx =
     ser_writedata32 (fmg_nEventId tx) @ ser_writedata32 (fmg_nMarginPercent tx)"

definition unser_CFieldUpdateMarginTx :: "CFieldUpdateMarginTx reader" where
  "unser_CFieldUpdateMarginTx s = do {
     (nEventId, s) \<leftarrow> ser_readdata32 s;
     (nMarginPercent, s) \<leftarrow> ser_readdata32 s;
     Some (\<lparr>fmg_nEventId = nEventId, fmg_nMarginPercent = nMarginPercent\<rparr>, s) }"

record CFieldZeroingOddsTx =
  fz_nEventId :: u32

definition ser_CFieldZeroingOddsTx :: "CFieldZeroingOddsTx \<Rightarrow> bytes" where
  "ser_CFieldZeroingOddsTx tx =
     ser_writedata32 (fz_nEventId tx)"

definition unser_CFieldZeroingOddsTx :: "CFieldZeroingOddsTx reader" where
  "unser_CFieldZeroingOddsTx s = do {
     (nEventId, s) \<leftarrow> ser_readdata32 s;
     Some (\<lparr>fz_nEventId = nEventId\<rparr>, s) }"

record CFieldResultTx =
  fr_nEventId :: u32
  fr_nResultType :: u8
  fr_contendersResults :: "(u32, u8) omap"

definition ser_CFieldResultTx :: "CFieldResultTx \<Rightarrow> bytes" where
  "ser_CFieldResultTx tx =
     ser_writedata32 (fr_nEventId tx) @ ser_writedata8 (fr_nResultType tx) @
     SerializeMap ser_writedata32 ser_writedata8 (fr_contendersResults tx)"

definition unser_CFieldResultTx :: "CFieldResultTx reader" where
  "unser_CFieldResultTx s = do {
     (nEventId, s) \<leftarrow> ser_readdata32 s;
     (nResultType, s) \<leftarrow> ser_readdata8 s;
     (contendersResults, s) \<leftarrow> UnserializeMap ser_readdata32 ser_readdata8 s;
     Some (\<lparr>fr_nEventId = nEventId, fr_nResultType = nResultType,
         fr_contendersResults = contendersResults\<rparr>, s) }"

record CFieldBetTx =
  fb_nEventId :: u32
  fb_nOutcome :: u8
  fb_nContenderId :: u32

definition ser_CFieldBetTx :: "CFieldBetTx \<Rightarrow> bytes" where
  "ser_CFieldBetTx tx =
     ser_writedata32 (fb_nEventId tx) @ ser_writedata8 (fb_nOutcome tx) @
     ser_writedata32 (fb_nContenderId tx)"

definition unser_CFieldBetTx :: "CFieldBetTx reader" where
  "unser_CFieldBetTx s = do {
     (nEventId, s) \<leftarrow> ser_readdata32 s;
     (nOutcome, s) \<leftarrow> ser_readdata8 s;
     (nContenderId, s) \<leftarrow> ser_readdata32 s;
     Some (\<lparr>fb_nEventId = nEventId, fb_nOutcome = nOutcome, fb_nContenderId = nContenderId\<rparr>, s) }"

record CFieldParlayBetTx =
  fpb_legs :: "CFieldBetTx list"

definition ser_CFieldParlayBetTx :: "CFieldParlayBetTx \<Rightarrow> bytes" where
  "ser_CFieldParlayBetTx tx =
     ser_vector ser_CFieldBetTx (fpb_legs tx)"

definition unser_CFieldParlayBetTx :: "CFieldParlayBetTx reader" where
  "unser_CFieldParlayBetTx s = do {
     (legs, s) \<leftarrow> unser_vector unser_CFieldBetTx s;
     Some (\<lparr>fpb_legs = legs\<rparr>, s) }"

record CPeerlessBetTx =
  pb_nEventId :: u32
  pb_nOutcome :: u8

definition ser_CPeerlessBetTx :: "CPeerlessBetTx \<Rightarrow> bytes" where
  "ser_CPeerlessBetTx tx =
     ser_writedata32 (pb_nEventId tx) @ ser_writedata8 (pb_nOutcome tx)"

definition unser_CPeerlessBetTx :: "CPeerlessBetTx reader" where
  "unser_CPeerlessBetTx s = do {
     (nEventId, s) \<leftarrow> ser_readdata32 s;
     (nOutcome, s) \<leftarrow> ser_readdata8 s;
     Some (\<lparr>pb_nEventId = nEventId, pb_nOutcome = nOutcome\<rparr>, s) }"

record CPeerlessResultTx =
  pr_nEventId :: u32
  pr_nResultType :: u8
  pr_nHomeScore :: u16
  pr_nAwayScore :: u16

definition ser_CPeerlessResultTx :: "CPeerlessResultTx \<Rightarrow> bytes" where
  "ser_CPeerlessResultTx tx =
     ser_writedata32 (pr_nEventId tx) @ ser_writedata8 (pr_nResultType tx) @
     ser_writedata16 (pr_nHomeScore tx) @ ser_writedata16 (pr_nAwayScore tx)"

definition unser_CPeerlessResultTx :: "CPeerlessResultTx reader" where
  "unser_CPeerlessResultTx s = do {
     (nEventId, s) \<leftarrow> ser_readdata32 s;
     (nResultType, s) \<leftarrow> ser_readdata8 s;
     (nHomeScore, s) \<leftarrow> ser_readdata16 s;
     (nAwayScore, s) \<leftarrow> ser_readdata16 s;
     Some (\<lparr>pr_nEventId = nEventId, pr_nResultType = nResultType,
         pr_nHomeScore = nHomeScore, pr_nAwayScore = nAwayScore\<rparr>, s) }"

record CPeerlessUpdateOddsTx =
  puo_nEventId :: u32
  puo_nHomeOdds :: u32
  puo_nAwayOdds :: u32
  puo_nDrawOdds :: u32

definition ser_CPeerlessUpdateOddsTx :: "CPeerlessUpdateOddsTx \<Rightarrow> bytes" where
  "ser_CPeerlessUpdateOddsTx tx =
     ser_writedata32 (puo_nEventId tx) @ ser_writedata32 (puo_nHomeOdds tx) @
     ser_writedata32 (puo_nAwayOdds tx) @ ser_writedata32 (puo_nDrawOdds tx)"

definition unser_CPeerlessUpdateOddsTx :: "CPeerlessUpdateOddsTx reader" where
  "unser_CPeerlessUpdateOddsTx s = do {
     (nEventId, s) \<leftarrow> ser_readdata32 s;
     (nHomeOdds, s) \<leftarrow> ser_readdata32 s;
     (nAwayOdds, s) \<leftarrow> ser_readdata32 s;
     (nDrawOdds, s) \<leftarrow> ser_readdata32 s;
     Some (\<lparr>puo_nEventId = nEventId, puo_nHomeOdds = nHomeOdds, puo_nAwayOdds = nAwayOdds,
         puo_nDrawOdds = nDrawOdds\<rparr>, s) }"

record CPeerlessSpreadsEventTx =
  ps_nEventId :: u32
  ps_nPoints :: u16
  ps_nHomeOdds :: u32
  ps_nAwayOdds :: u32

definition ser_CPeerlessSpreadsEventTx :: "CPeerlessSpreadsEventTx \<Rightarrow> bytes" where
  "ser_CPeerlessSpreadsEventTx tx =
     ser_writedata32 (ps_nEventId tx) @ ser_writedata16 (ps_nPoints tx) @
     ser_writedata32 (ps_nHomeOdds tx) @ ser_writedata32 (ps_nAwayOdds tx)"

definition unser_CPeerlessSpreadsEventTx :: "CPeerlessSpreadsEventTx reader" where
  "unser_CPeerlessSpreadsEventTx s = do {
     (nEventId, s) \<leftarrow> ser_readdata32 s;
     (nPoints, s) \<leftarrow> ser_readdata16 s;
     (nHomeOdds, s) \<leftarrow> ser_readdata32 s;
     (nAwayOdds, s) \<leftarrow> ser_readdata32 s;
     Some (\<lparr>ps_nEventId = nEventId, ps_nPoints = nPoints, ps_nHomeOdds = nHomeOdds,
         ps_nAwayOdds = nAwayOdds\<rparr>, s) }"

record CPeerlessTotalsEventTx =
  pt_nEventId :: u32
  pt_nPoints :: u16
  pt_nOverOdds :: u32
  pt_nUnderOdds :: u32

definition ser_CPeerlessTotalsEventTx :: "CPeerlessTotalsEventTx \<Rightarrow> bytes" where
  "ser_CPeerlessTotalsEventTx tx =
     ser_writedata32 (pt_nEventId tx) @ ser_writedata16 (pt_nPoints tx) @
     ser_writedata32 (pt_nOverOdds tx) @ ser_writedata32 (pt_nUnderOdds tx)"

definition unser_CPeerlessTotalsEventTx :: "CPeerlessTotalsEventTx reader" where
  "unser_CPeerlessTotalsEventTx s = do {
     (nEventId, s) \<leftarrow> ser_readdata32 s;
     (nPoints, s) \<leftarrow> ser_readdata16 s;
     (nOverOdds, s) \<leftarrow> ser_readdata32 s;
     (nUnderOdds, s) \<leftarrow> ser_readdata32 s;
     Some (\<lparr>pt_nEventId = nEventId, pt_nPoints = nPoints, pt_nOverOdds = nOverOdds,
         pt_nUnderOdds = nUnderOdds\<rparr>, s) }"

record CPeerlessEventPatchTx =
  pp_nEventId :: u32
  pp_nStartTime :: u32

definition ser_CPeerlessEventPatchTx :: "CPeerlessEventPatchTx \<Rightarrow> bytes" where
  "ser_CPeerlessEventPatchTx tx =
     ser_writedata32 (pp_nEventId tx) @ ser_writedata32 (pp_nStartTime tx)"

definition unser_CPeerlessEventPatchTx :: "CPeerlessEventPatchTx reader" where
  "unser_CPeerlessEventPatchTx s = do {
     (nEventId, s) \<leftarrow> ser_readdata32 s;
     (nStartTime, s) \<leftarrow> ser_readdata32 s;
     Some (\<lparr>pp_nEventId = nEventId, pp_nStartTime = nStartTime\<rparr>, s) }"

record CPeerlessParlayBetTx =
  ppb_legs :: "CPeerlessBetTx list"

definition ser_CPeerlessParlayBetTx :: "CPeerlessParlayBetTx \<Rightarrow> bytes" where
  "ser_CPeerlessParlayBetTx tx =
     ser_vector ser_CPeerlessBetTx (ppb_legs tx)"

definition unser_CPeerlessParlayBetTx :: "CPeerlessParlayBetTx reader" where
  "unser_CPeerlessParlayBetTx s = do {
     (legs, s) \<leftarrow> unser_vector unser_CPeerlessBetTx s;
     Some (\<lparr>ppb_legs = legs\<rparr>, s) }"

record CChainGamesEventTx =
  cge_nEventId :: u16
  cge_nEntryFee :: u16

definition ser_CChainGamesEventTx :: "CChainGamesEventTx \<Rightarrow> bytes" where
  "ser_CChainGamesEventTx tx =
     ser_writedata16 (cge_nEventId tx) @ ser_writedata16 (cge_nEntryFee tx)"

definition unser_CChainGamesEventTx :: "CChainGamesEventTx reader" where
  "unser_CChainGamesEventTx s = do {
     (nEventId, s) \<leftarrow> ser_readdata16 s;
     (nEntryFee, s) \<leftarrow> ser_readdata16 s;
     Some (\<lparr>cge_nEventId = nEventId, cge_nEntryFee = nEntryFee\<rparr>, s) }"

record CChainGamesBetTx =
  cgb_nEventId :: u16

definition ser_CChainGamesBetTx :: "CChainGamesBetTx \<Rightarrow> bytes" where
  "ser_CChainGamesBetTx tx =
     ser_writedata16 (cgb_nEventId tx)"

definition unser_CChainGamesBetTx :: "CChainGamesBetTx reader" where
  "unser_CChainGamesBetTx s = do {
     (nEventId, s) \<leftarrow> ser_readdata16 s;
     Some (\<lparr>cgb_nEventId = nEventId\<rparr>, s) }"

record CChainGamesResultTx =
  cgr_nEventId :: u16

definition ser_CChainGamesResultTx :: "CChainGamesResultTx \<Rightarrow> bytes" where
  "ser_CChainGamesResultTx tx =
     ser_writedata16 (cgr_nEventId tx)"

definition unser_CChainGamesResultTx :: "CChainGamesResultTx reader" where
  "unser_CChainGamesResultTx s = do {
     (nEventId, s) \<leftarrow> ser_readdata16 s;
     Some (\<lparr>cgr_nEventId = nEventId\<rparr>, s) }"

record CQuickGamesBetTx =
  qg_gameType :: u8
  qg_vBetInfo :: bytes

definition ser_CQuickGamesBetTx :: "CQuickGamesBetTx \<Rightarrow> bytes" where
  "ser_CQuickGamesBetTx tx =
     ser_writedata8 (qg_gameType tx) @ ser_vector ser_writedata8 (qg_vBetInfo tx)"

definition unser_CQuickGamesBetTx :: "CQuickGamesBetTx reader" where
  "unser_CQuickGamesBetTx s = do {
     (gameType, s) \<leftarrow> ser_readdata8 s;
     (vBetInfo, s) \<leftarrow> unser_vector ser_readdata8 s;
     Some (\<lparr>qg_gameType = gameType, qg_vBetInfo = vBetInfo\<rparr>, s) }"

record CPeerlessEventZeroingOddsTx =
  pz_vEventIds :: "u32 list"

definition ser_CPeerlessEventZeroingOddsTx :: "CPeerlessEventZeroingOddsTx \<Rightarrow> bytes" where
  "ser_CPeerlessEventZeroingOddsTx tx =
     ser_vector ser_writedata32 (pz_vEventIds tx)"

definition unser_CPeerlessEventZeroingOddsTx :: "CPeerlessEventZeroingOddsTx reader" where
  "unser_CPeerlessEventZeroingOddsTx s = do {
     (vEventIds, s) \<leftarrow> unser_vector ser_readdata32 s;
     Some (\<lparr>pz_vEventIds = vEventIds\<rparr>, s) }"

section \<open>The betting transaction of an output\<close>

datatype CBettingTx =
    MappingTx CMappingTx
  | PeerlessEventTx CPeerlessEventTx
  | FieldEventTx CFieldEventTx
  | FieldUpdateOddsTx CFieldUpdateOddsTx
  | FieldUpdateModifiersTx CFieldUpdateModifiersTx
  | FieldUpdateMarginTx CFieldUpdateMarginTx
  | FieldZeroingOddsTx CFieldZeroingOddsTx
  | FieldResultTx CFieldResultTx
  | FieldBetTx CFieldBetTx
  | FieldParlayBetTx CFieldParlayBetTx
  | PeerlessBetTx CPeerlessBetTx
  | PeerlessResultTx CPeerlessResultTx
  | PeerlessUpdateOddsTx CPeerlessUpdateOddsTx
  | PeerlessSpreadsEventTx CPeerlessSpreadsEventTx
  | PeerlessTotalsEventTx CPeerlessTotalsEventTx
  | PeerlessEventPatchTx CPeerlessEventPatchTx
  | PeerlessParlayBetTx CPeerlessParlayBetTx
  | ChainGamesEventTx CChainGamesEventTx
  | ChainGamesBetTx CChainGamesBetTx
  | ChainGamesResultTx CChainGamesResultTx
  | QuickGamesBetTx CQuickGamesBetTx
  | PeerlessEventZeroingOddsTx CPeerlessEventZeroingOddsTx

fun GetTxType :: "CBettingTx \<Rightarrow> BetTxTypes" where
  "GetTxType (MappingTx _) = mappingTxType"
| "GetTxType (PeerlessEventTx _) = plEventTxType"
| "GetTxType (FieldEventTx _) = fEventTxType"
| "GetTxType (FieldUpdateOddsTx _) = fUpdateOddsTxType"
| "GetTxType (FieldUpdateModifiersTx _) = fUpdateModifiersTxType"
| "GetTxType (FieldUpdateMarginTx _) = fUpdateMarginTxType"
| "GetTxType (FieldZeroingOddsTx _) = fZeroingOddsTxType"
| "GetTxType (FieldResultTx _) = fResultTxType"
| "GetTxType (FieldBetTx _) = fBetTxType"
| "GetTxType (FieldParlayBetTx _) = fParlayBetTxType"
| "GetTxType (PeerlessBetTx _) = plBetTxType"
| "GetTxType (PeerlessResultTx _) = plResultTxType"
| "GetTxType (PeerlessUpdateOddsTx _) = plUpdateOddsTxType"
| "GetTxType (PeerlessSpreadsEventTx _) = plSpreadsEventTxType"
| "GetTxType (PeerlessTotalsEventTx _) = plTotalsEventTxType"
| "GetTxType (PeerlessEventPatchTx _) = plEventPatchTxType"
| "GetTxType (PeerlessParlayBetTx _) = plParlayBetTxType"
| "GetTxType (ChainGamesEventTx _) = cgEventTxType"
| "GetTxType (ChainGamesBetTx _) = cgBetTxType"
| "GetTxType (ChainGamesResultTx _) = cgResultTxType"
| "GetTxType (QuickGamesBetTx _) = qgBetTxType"
| "GetTxType (PeerlessEventZeroingOddsTx _) = plEventZeroingOddsTxType"

fun ser_CBettingTx :: "CBettingTx \<Rightarrow> bytes" where
  "ser_CBettingTx (MappingTx tx) = ser_CMappingTx tx"
| "ser_CBettingTx (PeerlessEventTx tx) = ser_CPeerlessEventTx tx"
| "ser_CBettingTx (FieldEventTx tx) = ser_CFieldEventTx tx"
| "ser_CBettingTx (FieldUpdateOddsTx tx) = ser_CFieldUpdateOddsTx tx"
| "ser_CBettingTx (FieldUpdateModifiersTx tx) = ser_CFieldUpdateModifiersTx tx"
| "ser_CBettingTx (FieldUpdateMarginTx tx) = ser_CFieldUpdateMarginTx tx"
| "ser_CBettingTx (FieldZeroingOddsTx tx) = ser_CFieldZeroingOddsTx tx"
| "ser_CBettingTx (FieldResultTx tx) = ser_CFieldResultTx tx"
| "ser_CBettingTx (FieldBetTx tx) = ser_CFieldBetTx tx"
| "ser_CBettingTx (FieldParlayBetTx tx) = ser_CFieldParlayBetTx tx"
| "ser_CBettingTx (PeerlessBetTx tx) = ser_CPeerlessBetTx tx"
| "ser_CBettingTx (PeerlessResultTx tx) = ser_CPeerlessResultTx tx"
| "ser_CBettingTx (PeerlessUpdateOddsTx tx) = ser_CPeerlessUpdateOddsTx tx"
| "ser_CBettingTx (PeerlessSpreadsEventTx tx) = ser_CPeerlessSpreadsEventTx tx"
| "ser_CBettingTx (PeerlessTotalsEventTx tx) = ser_CPeerlessTotalsEventTx tx"
| "ser_CBettingTx (PeerlessEventPatchTx tx) = ser_CPeerlessEventPatchTx tx"
| "ser_CBettingTx (PeerlessParlayBetTx tx) = ser_CPeerlessParlayBetTx tx"
| "ser_CBettingTx (ChainGamesEventTx tx) = ser_CChainGamesEventTx tx"
| "ser_CBettingTx (ChainGamesBetTx tx) = ser_CChainGamesBetTx tx"
| "ser_CBettingTx (ChainGamesResultTx tx) = ser_CChainGamesResultTx tx"
| "ser_CBettingTx (QuickGamesBetTx tx) = ser_CQuickGamesBetTx tx"
| "ser_CBettingTx (PeerlessEventZeroingOddsTx tx) = ser_CPeerlessEventZeroingOddsTx tx"

text \<open>\<open>None\<close> is the null pointer: the reader threw, or bytes are left.\<close>

definition DeserializeBettingTx :: "'a reader \<Rightarrow> bytes \<Rightarrow> 'a option" where
  "DeserializeBettingTx rd ss = do { (bettingTx, ss) \<leftarrow> rd ss; if ss \<noteq> [] then None else Some bettingTx }"

fun DeserializeBettingTxFromType :: "bytes \<Rightarrow> BetTxTypes \<Rightarrow> CBettingTx option" where
  "DeserializeBettingTxFromType ss mappingTxType = map_option MappingTx (DeserializeBettingTx unser_CMappingTx ss)"
| "DeserializeBettingTxFromType ss plEventTxType = map_option PeerlessEventTx (DeserializeBettingTx unser_CPeerlessEventTx ss)"
| "DeserializeBettingTxFromType ss fEventTxType = map_option FieldEventTx (DeserializeBettingTx unser_CFieldEventTx ss)"
| "DeserializeBettingTxFromType ss fUpdateOddsTxType = map_option FieldUpdateOddsTx (DeserializeBettingTx unser_CFieldUpdateOddsTx ss)"
| "DeserializeBettingTxFromType ss fUpdateMarginTxType = map_option FieldUpdateMarginTx (DeserializeBettingTx unser_CFieldUpdateMarginTx ss)"
| "DeserializeBettingTxFromType ss fZeroingOddsTxType = map_option FieldZeroingOddsTx (DeserializeBettingTx unser_CFieldZeroingOddsTx ss)"
| "DeserializeBettingTxFromType ss fResultTxType = map_option FieldResultTx (DeserializeBettingTx unser_CFieldResultTx ss)"
| "DeserializeBettingTxFromType ss fBetTxType = map_option FieldBetTx (DeserializeBettingTx unser_CFieldBetTx ss)"
| "DeserializeBettingTxFromType ss fParlayBetTxType = map_option FieldParlayBetTx (DeserializeBettingTx unser_CFieldParlayBetTx ss)"
| "DeserializeBettingTxFromType ss plBetTxType = map_option PeerlessBetTx (DeserializeBettingTx unser_CPeerlessBetTx ss)"
| "DeserializeBettingTxFromType ss plResultTxType = map_option PeerlessResultTx (DeserializeBettingTx unser_CPeerlessResultTx ss)"
| "DeserializeBettingTxFromType ss plUpdateOddsTxType = map_option PeerlessUpdateOddsTx (DeserializeBettingTx unser_CPeerlessUpdateOddsTx ss)"
| "DeserializeBettingTxFromType ss plSpreadsEventTxType = map_option PeerlessSpreadsEventTx (DeserializeBettingTx unser_CPeerlessSpreadsEventTx ss)"
| "DeserializeBettingTxFromType ss plTotalsEventTxType = map_option PeerlessTotalsEventTx (DeserializeBettingTx unser_CPeerlessTotalsEventTx ss)"
| "DeserializeBettingTxFromType ss plEventPatchTxType = map_option PeerlessEventPatchTx (DeserializeBettingTx unser_CPeerlessEventPatchTx ss)"
| "DeserializeBettingTxFromType ss plParlayBetTxType = map_option PeerlessParlayBetTx (DeserializeBettingTx unser_CPeerlessParlayBetTx ss)"
| "DeserializeBettingTxFromType ss cgEventTxType = map_option ChainGamesEventTx (DeserializeBettingTx unser_CChainGamesEventTx ss)"
| "DeserializeBettingTxFromType ss cgBetTxType = map_option ChainGamesBetTx (DeserializeBettingTx unser_CChainGamesBetTx ss)"
| "DeserializeBettingTxFromType ss cgResultTxType = map_option ChainGamesResultTx (DeserializeBettingTx unser_CChainGamesResultTx ss)"
| "DeserializeBettingTxFromType ss qgBetTxType = map_option QuickGamesBetTx (DeserializeBettingTx unser_CQuickGamesBetTx ss)"
| "DeserializeBettingTxFromType ss plEventZeroingOddsTxType = map_option PeerlessEventZeroingOddsTx (DeserializeBettingTx unser_CPeerlessEventZeroingOddsTx ss)"
| "DeserializeBettingTxFromType ss fUpdateModifiersTxType = None"
| "DeserializeBettingTxFromType ss unknownBetTxType = None"

definition ParseBettingTx :: "CTxOut \<Rightarrow> CBettingTx option" where
  "ParseBettingTx txOut = do {
     (opcode, _, pc) \<leftarrow> GetScriptOp (scriptPubKey txOut);
     if opcode \<noteq> OP_RETURN then None else do {
     (opcode, opcodeData, pc) \<leftarrow> GetScriptOp pc;
     if opcode > OP_PUSHDATA1 \<and> opcode \<noteq> OP_PUSHDATA2 \<and> opcode \<noteq> OP_PUSHDATA4 then None
     else if length opcodeData < CBettingTxHeader_size then None else do {
     (header, ss) \<leftarrow> unser_CBettingTxHeader opcodeData;
     if hd_prefix header \<noteq> BTX_PREFIX \<or> hd_version header \<noteq> BetTxVersion_CURRENT then None else do {
     type \<leftarrow> BetTxTypes_of (hd_txType header);
     DeserializeBettingTxFromType ss type } } } }"

text \<open>\<open>None\<close> is \<open>return false\<close>.\<close>

definition EncodeBettingTxPayload :: "CBettingTxHeader \<Rightarrow> CBettingTx \<Rightarrow> bytes option" where
  "EncodeBettingTxPayload header bettingTx =
     (if hd_version header = BetTxVersion4 then
        Some (ser_writedata8 BTX_PREFIX @ ser_writedata8 (hd_version header) @
              ser_writedata8 (hd_txType header) @ ser_CBettingTx bettingTx)
      else if hd_version header = BetTxVersion5 then Some (ser_CBettingTx bettingTx)
      else None)"

text \<open>
  What a transaction must satisfy for its encoding to be readable: container sizes within the limit of
  the format, and an id of a two-byte mapping that fits two bytes.  \<open>payload_header\<close> is the header the
  wallet and the RPC commands build for a transaction.
\<close>

fun encodable :: "CBettingTx \<Rightarrow> bool" where
  "encodable (MappingTx tx) \<longleftrightarrow> mt_nMType tx = 0x03 \<or> mt_nMType tx = 0x06 \<or> unat (mt_nId tx) < 2 ^ 16"
| "encodable (FieldEventTx tx) \<longleftrightarrow> length (entries (fe_mContendersInputOdds tx)) \<le> MAX_SIZE"
| "encodable (FieldUpdateOddsTx tx) \<longleftrightarrow> length (entries (fuo_mContendersInputOdds tx)) \<le> MAX_SIZE"
| "encodable (FieldUpdateModifiersTx tx) \<longleftrightarrow> length (entries (fum_mContendersModifires tx)) \<le> MAX_SIZE"
| "encodable (FieldResultTx tx) \<longleftrightarrow> length (entries (fr_contendersResults tx)) \<le> MAX_SIZE"
| "encodable (FieldParlayBetTx tx) \<longleftrightarrow> length (fpb_legs tx) \<le> MAX_SIZE"
| "encodable (PeerlessParlayBetTx tx) \<longleftrightarrow> length (ppb_legs tx) \<le> MAX_SIZE"
| "encodable (QuickGamesBetTx tx) \<longleftrightarrow> length (qg_vBetInfo tx) \<le> MAX_SIZE"
| "encodable (PeerlessEventZeroingOddsTx tx) \<longleftrightarrow> length (pz_vEventIds tx) \<le> MAX_SIZE"
| "encodable _ \<longleftrightarrow> True"

definition payload_header :: "CBettingTx \<Rightarrow> CBettingTxHeader" where
  "payload_header tx =
     \<lparr>hd_prefix = BTX_PREFIX, hd_version = BetTxVersion_CURRENT, hd_txType = BetTxTypes_value (GetTxType tx)\<rparr>"

section \<open>Parsing inverts encoding\<close>

interpretation map32: codec "SerializeMap ser_writedata32 ser_writedata32" "UnserializeMap ser_readdata32 ser_readdata32"
  "\<lambda>m. length (entries m) \<le> MAX_SIZE \<and> list_all (\<lambda>item. True \<and> True) (entries m)"
  by (rule codec_map) (rule ser32.codec_axioms)+

interpretation map8: codec "SerializeMap ser_writedata32 ser_writedata8" "UnserializeMap ser_readdata32 ser_readdata8"
  "\<lambda>m. length (entries m) \<le> MAX_SIZE \<and> list_all (\<lambda>item. True \<and> True) (entries m)"
  by (rule codec_map) (rule ser32.codec_axioms ser8.codec_axioms)+

lemma list_all_True [simp]: "list_all (\<lambda>_. True) xs"
  by (simp add: list_all_iff)

lemmas container_roundtrips [codec_simps] =
  vec8.roundtrip [simplified] vec32.roundtrip [simplified] map32.roundtrip [simplified] map8.roundtrip [simplified]

lemmas canonical_dests = ser8.canonical ser16.canonical ser32.canonical vec8.canonical vec32.canonical

interpretation pe: canonical_codec ser_CPeerlessEventTx unser_CPeerlessEventTx "\<lambda>_. True"
  by standard (auto simp: ser_CPeerlessEventTx_def unser_CPeerlessEventTx_def codec_simps split: bind_splits dest!: canonical_dests)

interpretation fe: codec ser_CFieldEventTx unser_CFieldEventTx "\<lambda>tx. length (entries (fe_mContendersInputOdds tx)) \<le> MAX_SIZE"
  by standard (simp add: ser_CFieldEventTx_def unser_CFieldEventTx_def codec_simps)

interpretation fuo: codec ser_CFieldUpdateOddsTx unser_CFieldUpdateOddsTx "\<lambda>tx. length (entries (fuo_mContendersInputOdds tx)) \<le> MAX_SIZE"
  by standard (simp add: ser_CFieldUpdateOddsTx_def unser_CFieldUpdateOddsTx_def codec_simps)

interpretation fum: codec ser_CFieldUpdateModifiersTx unser_CFieldUpdateModifiersTx "\<lambda>tx. length (entries (fum_mContendersModifires tx)) \<le> MAX_SIZE"
  by standard (simp add: ser_CFieldUpdateModifiersTx_def unser_CFieldUpdateModifiersTx_def codec_simps)

interpretation fmg: canonical_codec ser_CFieldUpdateMarginTx unser_CFieldUpdateMarginTx "\<lambda>_. True"
  by standard (auto simp: ser_CFieldUpdateMarginTx_def unser_CFieldUpdateMarginTx_def codec_simps split: bind_splits dest!: canonical_dests)

interpretation fz: canonical_codec ser_CFieldZeroingOddsTx unser_CFieldZeroingOddsTx "\<lambda>_. True"
  by standard (auto simp: ser_CFieldZeroingOddsTx_def unser_CFieldZeroingOddsTx_def codec_simps split: bind_splits dest!: canonical_dests)

interpretation fr: codec ser_CFieldResultTx unser_CFieldResultTx "\<lambda>tx. length (entries (fr_contendersResults tx)) \<le> MAX_SIZE"
  by standard (simp add: ser_CFieldResultTx_def unser_CFieldResultTx_def codec_simps)

interpretation fb: canonical_codec ser_CFieldBetTx unser_CFieldBetTx "\<lambda>_. True"
  by standard (auto simp: ser_CFieldBetTx_def unser_CFieldBetTx_def codec_simps split: bind_splits dest!: canonical_dests)

interpretation flegs: canonical_codec "ser_vector ser_CFieldBetTx" "unser_vector unser_CFieldBetTx"
  "\<lambda>v. length v \<le> MAX_SIZE \<and> list_all (\<lambda>_. True) v"
  by (rule canonical_codec_vector) (rule fb.canonical_codec_axioms)

interpretation fpb: canonical_codec ser_CFieldParlayBetTx unser_CFieldParlayBetTx "\<lambda>tx. length (fpb_legs tx) \<le> MAX_SIZE"
  by standard (auto simp: ser_CFieldParlayBetTx_def unser_CFieldParlayBetTx_def codec_simps flegs.roundtrip [simplified] split: bind_splits dest!: flegs.canonical)

interpretation pb: canonical_codec ser_CPeerlessBetTx unser_CPeerlessBetTx "\<lambda>_. True"
  by standard (auto simp: ser_CPeerlessBetTx_def unser_CPeerlessBetTx_def codec_simps split: bind_splits dest!: canonical_dests)

interpretation pr: canonical_codec ser_CPeerlessResultTx unser_CPeerlessResultTx "\<lambda>_. True"
  by standard (auto simp: ser_CPeerlessResultTx_def unser_CPeerlessResultTx_def codec_simps split: bind_splits dest!: canonical_dests)

interpretation puo: canonical_codec ser_CPeerlessUpdateOddsTx unser_CPeerlessUpdateOddsTx "\<lambda>_. True"
  by standard (auto simp: ser_CPeerlessUpdateOddsTx_def unser_CPeerlessUpdateOddsTx_def codec_simps split: bind_splits dest!: canonical_dests)

interpretation ps: canonical_codec ser_CPeerlessSpreadsEventTx unser_CPeerlessSpreadsEventTx "\<lambda>_. True"
  by standard (auto simp: ser_CPeerlessSpreadsEventTx_def unser_CPeerlessSpreadsEventTx_def codec_simps split: bind_splits dest!: canonical_dests)

interpretation pt: canonical_codec ser_CPeerlessTotalsEventTx unser_CPeerlessTotalsEventTx "\<lambda>_. True"
  by standard (auto simp: ser_CPeerlessTotalsEventTx_def unser_CPeerlessTotalsEventTx_def codec_simps split: bind_splits dest!: canonical_dests)

interpretation pp: canonical_codec ser_CPeerlessEventPatchTx unser_CPeerlessEventPatchTx "\<lambda>_. True"
  by standard (auto simp: ser_CPeerlessEventPatchTx_def unser_CPeerlessEventPatchTx_def codec_simps split: bind_splits dest!: canonical_dests)

interpretation plegs: canonical_codec "ser_vector ser_CPeerlessBetTx" "unser_vector unser_CPeerlessBetTx"
  "\<lambda>v. length v \<le> MAX_SIZE \<and> list_all (\<lambda>_. True) v"
  by (rule canonical_codec_vector) (rule pb.canonical_codec_axioms)

interpretation ppb: canonical_codec ser_CPeerlessParlayBetTx unser_CPeerlessParlayBetTx "\<lambda>tx. length (ppb_legs tx) \<le> MAX_SIZE"
  by standard (auto simp: ser_CPeerlessParlayBetTx_def unser_CPeerlessParlayBetTx_def codec_simps plegs.roundtrip [simplified] split: bind_splits dest!: plegs.canonical)

interpretation cge: canonical_codec ser_CChainGamesEventTx unser_CChainGamesEventTx "\<lambda>_. True"
  by standard (auto simp: ser_CChainGamesEventTx_def unser_CChainGamesEventTx_def codec_simps split: bind_splits dest!: canonical_dests)

interpretation cgb: canonical_codec ser_CChainGamesBetTx unser_CChainGamesBetTx "\<lambda>_. True"
  by standard (auto simp: ser_CChainGamesBetTx_def unser_CChainGamesBetTx_def codec_simps split: bind_splits dest!: canonical_dests)

interpretation cgr: canonical_codec ser_CChainGamesResultTx unser_CChainGamesResultTx "\<lambda>_. True"
  by standard (auto simp: ser_CChainGamesResultTx_def unser_CChainGamesResultTx_def codec_simps split: bind_splits dest!: canonical_dests)

interpretation qg: canonical_codec ser_CQuickGamesBetTx unser_CQuickGamesBetTx "\<lambda>tx. length (qg_vBetInfo tx) \<le> MAX_SIZE"
  by standard (auto simp: ser_CQuickGamesBetTx_def unser_CQuickGamesBetTx_def codec_simps split: bind_splits dest!: canonical_dests)

interpretation pz: canonical_codec ser_CPeerlessEventZeroingOddsTx unser_CPeerlessEventZeroingOddsTx "\<lambda>tx. length (pz_vEventIds tx) \<le> MAX_SIZE"
  by standard (auto simp: ser_CPeerlessEventZeroingOddsTx_def unser_CPeerlessEventZeroingOddsTx_def codec_simps split: bind_splits dest!: canonical_dests)

lemma concat_map_ser8 [simp]: "concat (map ser_writedata8 xs) = xs"
  by (induction xs) (simp_all add: ser_writedata8_def)

lemma ucast_down_up: "unat w < 2 ^ 16 \<Longrightarrow> ucast (ucast w :: u16) = (w :: u32)"
  by (simp add: word_unat_eq_iff unsigned_ucast_eq unsigned_take_bit_eq take_bit_nat_eq_self)

lemma ucast_up_down: "ucast (ucast w :: u32) = (w :: u16)"
  using unsigned_less [of w, where 'a = nat]
  by (simp add: word_unat_eq_iff unsigned_ucast_eq unsigned_take_bit_eq take_bit_nat_eq_self)

lemma unat_ucast16: "unat (ucast (w :: u16) :: u32) < 65536"
  using unsigned_less [of w, where 'a = nat] by (simp add: unsigned_ucast_eq take_bit_nat_eq_self)

lemma unser_CMappingTx_ser:
  "encodable (MappingTx tx) \<Longrightarrow> unser_CMappingTx (ser_CMappingTx tx) = Some (tx, [])"
  by (cases tx) (auto simp: unser_CMappingTx_def ser_CMappingTx_def codec_simps ucast_down_up)

lemma unser_CMappingTx_canonical:
  "unser_CMappingTx bs = Some (tx, r) \<Longrightarrow> r = [] \<and> encodable (MappingTx tx) \<and> bs = ser_CMappingTx tx"
  by (auto simp: unser_CMappingTx_def ser_CMappingTx_def ucast_up_down unat_ucast16 split: bind_splits if_splits
      dest!: ser8.canonical ser16.canonical ser32.canonical)

lemma BetTxTypes_of_value: "BetTxTypes_of (BetTxTypes_value t) = Some t"
  by (cases t) (simp_all add: BetTxTypes_of_def all_BetTxTypes_def)

lemma BetTxTypes_value_of: "BetTxTypes_of b = Some t \<Longrightarrow> BetTxTypes_value t = b"
  by (auto simp: BetTxTypes_of_def find_Some_iff)

lemma DeserializeBettingTx_iff: "DeserializeBettingTx rd ss = Some tx \<longleftrightarrow> rd ss = Some (tx, [])"
  by (auto simp: DeserializeBettingTx_def split: bind_splits if_splits)

lemmas class_roundtrips = pe.roundtrip_nil fe.roundtrip_nil fuo.roundtrip_nil fmg.roundtrip_nil fz.roundtrip_nil
  fr.roundtrip_nil fb.roundtrip_nil fpb.roundtrip_nil pb.roundtrip_nil pr.roundtrip_nil puo.roundtrip_nil
  ps.roundtrip_nil pt.roundtrip_nil pp.roundtrip_nil ppb.roundtrip_nil cge.roundtrip_nil cgb.roundtrip_nil
  cgr.roundtrip_nil qg.roundtrip_nil pz.roundtrip_nil unser_CMappingTx_ser

lemmas class_canonical = pe.canonical fmg.canonical fz.canonical fb.canonical fpb.canonical pb.canonical
  pr.canonical puo.canonical ps.canonical pt.canonical pp.canonical ppb.canonical cge.canonical cgb.canonical
  cgr.canonical qg.canonical pz.canonical unser_CMappingTx_canonical

lemma Deserialize_ser:
  assumes "encodable tx" and "GetTxType tx \<noteq> fUpdateModifiersTxType"
  shows "DeserializeBettingTxFromType (ser_CBettingTx tx) (GetTxType tx) = Some tx"
  using assms by (cases tx) (simp_all add: DeserializeBettingTx_iff class_roundtrips)

lemma Deserialize_type:
  "DeserializeBettingTxFromType ss t = Some tx \<Longrightarrow> GetTxType tx = t \<and> t \<noteq> fUpdateModifiersTxType"
  by (cases t) auto

lemma Deserialize_canonical:
  assumes "DeserializeBettingTxFromType ss t = Some tx" and "t \<notin> {fEventTxType, fUpdateOddsTxType, fResultTxType}"
  shows "ss = ser_CBettingTx tx"
  using assms by (cases t) (auto simp: DeserializeBettingTx_iff dest!: class_canonical)

lemma GetScriptOp_OP_RETURN: "GetScriptOp (push_data [OP_RETURN] b) = Some (OP_RETURN, [], push_data [] b)"
  by (simp add: GetScriptOp_def push_data_def opcode_defs)

lemma push_opcode_ok: "opcode \<le> OP_PUSHDATA4 \<Longrightarrow>
  \<not> (opcode > OP_PUSHDATA1 \<and> opcode \<noteq> OP_PUSHDATA2 \<and> opcode \<noteq> OP_PUSHDATA4)"
  by (auto simp: opcode_defs word_le_nat_alt word_less_nat_alt word_unat_eq_iff)

interpretation hdr: canonical_codec ser_CBettingTxHeader unser_CBettingTxHeader "\<lambda>_. True"
  by standard (auto simp: ser_CBettingTxHeader_def unser_CBettingTxHeader_def codec_simps
      split: bind_splits dest!: ser8.canonical)

lemma EncodeBettingTxPayload_current:
  "hd_version h = BetTxVersion_CURRENT \<Longrightarrow>
   EncodeBettingTxPayload h tx = Some (ser_CBettingTxHeader (h\<lparr>hd_prefix := BTX_PREFIX\<rparr>) @ ser_CBettingTx tx)"
  by (simp add: EncodeBettingTxPayload_def ser_CBettingTxHeader_def version_defs)

text \<open>
  C12: \<open>ParseBettingTx\<close> inverts \<open>EncodeBettingTxPayload\<close>.  For every betting transaction of every class
  except the field modifiers update, the output whose script is OP\_RETURN followed by the push of the
  encoded payload parses back to exactly that transaction.
\<close>

theorem ParseBettingTx_EncodeBettingTxPayload:
  assumes "encodable tx" and "GetTxType tx \<noteq> fUpdateModifiersTxType"
    and "EncodeBettingTxPayload (payload_header tx) tx = Some betData" and "length betData < 2 ^ 32"
  shows "ParseBettingTx \<lparr>nValue = v, scriptPubKey = push_data [OP_RETURN] betData\<rparr> = Some tx"
proof -
  from assms(3) have b: "betData = ser_CBettingTxHeader (payload_header tx) @ ser_CBettingTx tx"
    by (simp add: EncodeBettingTxPayload_current payload_header_def)
  obtain opcode where op: "opcode \<le> OP_PUSHDATA4" "GetScriptOp (push_data [] betData) = Some (opcode, betData, [])"
    using GetScriptOp_push_data [OF assms(4), of "[]"] by auto
  have "\<not> length betData < CBettingTxHeader_size"
    by (simp add: b CBettingTxHeader_size_def ser_CBettingTxHeader_def ser_writedata8_def)
  moreover have "unser_CBettingTxHeader betData = Some (payload_header tx, ser_CBettingTx tx)"
    by (simp add: b hdr.roundtrip)
  ultimately show ?thesis
    using push_opcode_ok [OF op(1)] op(2) Deserialize_ser [OF assms(1,2)]
    by (simp add: ParseBettingTx_def GetScriptOp_OP_RETURN BetTxTypes_of_value payload_header_def)
qed

theorem ParseBettingTx_EncodeBettingTxPayload_witness:
  "ParseBettingTx \<lparr>nValue = 0, scriptPubKey = push_data [OP_RETURN] [66, 1, 3, 5, 0, 0, 0, 1]\<rparr> =
     Some (PeerlessBetTx \<lparr>pb_nEventId = 5, pb_nOutcome = 1\<rparr>)"
  by (rule ParseBettingTx_EncodeBettingTxPayload)
    (simp_all add: EncodeBettingTxPayload_def payload_header_def version_defs ser_CPeerlessBetTx_def
      ser_writedata8_def ser_writedata32_def eval_simps)

text \<open>
  C25: payloads are not malleable.  If an output parses to a betting transaction of a class without a map
  field, then the data it pushes is exactly the encoding of that transaction: a second byte string
  never denotes the same bet, event or result.
\<close>

theorem ParseBettingTx_canonical:
  assumes "ParseBettingTx txOut = Some tx"
    and "GetTxType tx \<notin> {fEventTxType, fUpdateOddsTxType, fResultTxType}"
  shows "\<exists>pc opcode opcodeData rest.
    GetScriptOp (scriptPubKey txOut) = Some (OP_RETURN, [], pc) \<and>
    GetScriptOp pc = Some (opcode, opcodeData, rest) \<and>
    EncodeBettingTxPayload (payload_header tx) tx = Some opcodeData"
proof -
  from assms(1) obtain d pc opcode opcodeData rest header ss t where
    *: "GetScriptOp (scriptPubKey txOut) = Some (OP_RETURN, d, pc)" "GetScriptOp pc = Some (opcode, opcodeData, rest)"
       "unser_CBettingTxHeader opcodeData = Some (header, ss)" "hd_prefix header = BTX_PREFIX"
       "hd_version header = BetTxVersion_CURRENT" "BetTxTypes_of (hd_txType header) = Some t"
       "DeserializeBettingTxFromType ss t = Some tx"
    by (auto simp: ParseBettingTx_def split: bind_splits if_splits)
  have "d = []" using *(1) by (auto simp: GetScriptOp_def opcode_defs split: bind_splits if_splits)
  have t: "GetTxType tx = t" using Deserialize_type [OF *(7)] by simp
  have "header = payload_header tx"
    using *(4,5) BetTxTypes_value_of [OF *(6)] t by (cases header) (simp add: payload_header_def)
  then have "opcodeData = ser_CBettingTxHeader (payload_header tx) @ ser_CBettingTx tx"
    using hdr.canonical [OF *(3)] Deserialize_canonical [OF *(7)] assms(2) t by simp
  with * \<open>d = []\<close> show ?thesis
    by (auto simp: EncodeBettingTxPayload_current payload_header_def)
qed

theorem ParseBettingTx_canonical_witness:
  "\<exists>pc opcode opcodeData rest.
    GetScriptOp (push_data [OP_RETURN] [66, 1, 3, 5, 0, 0, 0, 1]) = Some (OP_RETURN, [], pc) \<and>
    GetScriptOp pc = Some (opcode, opcodeData, rest) \<and>
    EncodeBettingTxPayload (payload_header (PeerlessBetTx \<lparr>pb_nEventId = 5, pb_nOutcome = 1\<rparr>))
      (PeerlessBetTx \<lparr>pb_nEventId = 5, pb_nOutcome = 1\<rparr>) = Some opcodeData"
  using ParseBettingTx_canonical [of "\<lparr>nValue = 0, scriptPubKey = push_data [OP_RETURN] [66, 1, 3, 5, 0, 0, 0, 1]\<rparr>"
      "PeerlessBetTx \<lparr>pb_nEventId = 5, pb_nOutcome = 1\<rparr>"]
  by (simp add: ParseBettingTx_def GetScriptOp_def push_data_def opcode_defs CBettingTxHeader_size_def
      unser_CBettingTxHeader_def version_defs BetTxTypes_of_def all_BetTxTypes_def DeserializeBettingTx_def
      unser_CPeerlessBetTx_def ser_readdata32_def eval_simps)

text \<open>
  No output ever parses to a field modifiers update.  \<open>DeserializeBettingTxFromType\<close> has no case
  for \<open>fUpdateModifiersTxType\<close>, so the handlers of that transaction are unreachable.
\<close>

lemma ParseBettingTx_never_modifiers:
  "ParseBettingTx txOut \<noteq> Some (FieldUpdateModifiersTx tx)"
  by (auto simp: ParseBettingTx_def split: bind_splits if_splits dest!: Deserialize_type)

end
