(* ===== verification/BetTypes.thy ===== *)
theory BetTypes
  imports BetTx "HOL-Library.Product_Lexorder"
begin

text \<open>
  The data of the betting databases (betting/bet_db.h) and the enumerations of betting/bet_common.h:
  events, results, bets, undo records and payout information, with their keys, constructors and the
  \<open>ExtractDataFromTx\<close> methods that copy an oracle transaction into an event.  A full event is the record
  extension of the base event that bets lock, as \<open>CPeerlessExtendedEventDB\<close> derives from
  \<open>CPeerlessBaseEventDB\<close>.
\<close>

section \<open>Enumerations and constants\<close>

definition BET_ODDSDIVISOR :: int where "BET_ODDSDIVISOR = 10000"

definition BET_BURNXPERMILLE :: int where "BET_BURNXPERMILLE = 60"

text \<open>Enumerators are compared with message bytes and stored words of several widths.\<close>

definition moneyLineHomeWin :: u8 where "moneyLineHomeWin = 0x01"

definition moneyLineAwayWin :: u8 where "moneyLineAwayWin = 0x02"

definition moneyLineDraw :: u8 where "moneyLineDraw = 0x03"

definition spreadHome :: u8 where "spreadHome = 0x04"

definition spreadAway :: u8 where "spreadAway = 0x05"

definition totalOver :: u8 where "totalOver = 0x06"

definition totalUnder :: u8 where "totalUnder = 0x07"

lemmas OutcomeType_defs = moneyLineHomeWin_def moneyLineAwayWin_def moneyLineDraw_def
  spreadHome_def spreadAway_def totalOver_def totalUnder_def

definition standardResult :: "'a::len word" where "standardResult = 0x01"

definition eventRefund :: "'a::len word" where "eventRefund = 0x02"

definition mlRefund :: "'a::len word" where "mlRefund = 0x03"

definition spreadsRefund :: "'a::len word" where "spreadsRefund = 0x04"

definition totalsRefund :: "'a::len word" where "totalsRefund = 0x05"

definition eventClosed :: "'a::len word" where "eventClosed = 0x06"

lemmas ResultType_defs = standardResult_def eventRefund_def mlRefund_def spreadsRefund_def
  totalsRefund_def eventClosed_def

definition DNF :: u8 where "DNF = 0"

definition place1 :: u8 where "place1 = 1"

definition place2 :: u8 where "place2 = 2"

definition place3 :: u8 where "place3 = 3"

definition DNR :: u8 where "DNR = 101"

lemmas ContenderResult_defs = DNF_def place1_def place2_def place3_def DNR_def

definition outright :: u8 where "outright = 0x01"

definition place :: u8 where "place = 0x02"

definition show_outcome :: u8 where "show_outcome = 0x03"

lemmas FieldBetOutcomeType_defs = outright_def place_def show_outcome_def

definition sportMapping :: u32 where "sportMapping = 0x01"

definition roundMapping :: u32 where "roundMapping = 0x02"

definition teamMapping :: u32 where "teamMapping = 0x03"

definition tournamentMapping :: u32 where "tournamentMapping = 0x04"

definition individualSportMapping :: u32 where "individualSportMapping = 0x05"

definition contenderMapping :: u32 where "contenderMapping = 0x06"

lemmas MappingType_defs = sportMapping_def roundMapping_def teamMapping_def tournamentMapping_def
  individualSportMapping_def contenderMapping_def

definition fgt_other :: u8 where "fgt_other = 0x01"

definition fgt_animalRacing :: u8 where "fgt_animalRacing = 0x02"

definition all_markets :: u8 where "all_markets = 0x01"

definition outrightOnly :: u8 where "outrightOnly = 0x02"

lemmas FieldEvent_defs = fgt_other_def fgt_animalRacing_def all_markets_def outrightOnly_def

datatype PayoutType =
    bettingPayout
  | bettingRefund
  | bettingReward
  | chainGamesPayout
  | chainGamesRefund
  | chainGamesReward
  | quickGamesPayout
  | quickGamesRefund
  | quickGamesReward

fun PayoutType_value :: "PayoutType \<Rightarrow> nat" where
  "PayoutType_value bettingPayout = 1"
| "PayoutType_value bettingRefund = 2"
| "PayoutType_value bettingReward = 3"
| "PayoutType_value chainGamesPayout = 4"
| "PayoutType_value chainGamesRefund = 5"
| "PayoutType_value chainGamesReward = 6"
| "PayoutType_value quickGamesPayout = 7"
| "PayoutType_value quickGamesRefund = 8"
| "PayoutType_value quickGamesReward = 9"

datatype BetResultType =
    betResultUnknown
  | betResultWin
  | betResultLose
  | betResultRefund
  | betResultPartialWin
  | betResultPartialLose

datatype CTxDestination = CNoDestination | CKeyID "160 word" | CScriptID "160 word"

section \<open>Keys\<close>

text \<open>
  Keys are ordered as the database orders their serialization: \<open>EventKey\<close> and \<open>MappingKey\<close> write their
  integers in big endian, so numbers and pairs of numbers in their usual order.
\<close>

type_synonym EventKey = u32

type_synonym MappingKey = "u32 \<times> u32"

type_synonym BettingUndoKey = uint256

definition ser_EventKey :: "EventKey \<Rightarrow> bytes" where
  "ser_EventKey key = ser_writedata32be key"

definition ser_MappingKey :: "MappingKey \<Rightarrow> bytes" where
  "ser_MappingKey key = ser_writedata32be (fst key) @ ser_writedata32be (snd key)"

definition ser_uint256 :: "uint256 \<Rightarrow> bytes" where
  "ser_uint256 h = rev (le_bytes 32 (unat h))"

definition ser_COutPoint :: "COutPoint \<Rightarrow> bytes" where
  "ser_COutPoint p = ser_uint256 (op_hash p) @ ser_writedata32 (op_n p)"

datatype PeerlessBetKey = PeerlessBetKey (blockHeight: u32) (outPoint: COutPoint)

definition ser_PeerlessBetKey :: "PeerlessBetKey \<Rightarrow> bytes" where
  "ser_PeerlessBetKey key = ser_writedata32be (blockHeight key) @ ser_COutPoint (outPoint key)"

lemma ser_uint256_inj: "ser_uint256 h = ser_uint256 h' \<longleftrightarrow> h = h'"
proof
  assume "ser_uint256 h = ser_uint256 h'"
  then have "le_bytes 32 (unat h) = le_bytes 32 (unat h')" by (simp add: ser_uint256_def)
  moreover have "unat h < 256 ^ 32" "unat h' < 256 ^ 32"
    using unsigned_less [of h, where 'a = nat] unsigned_less [of h', where 'a = nat]
    by (simp_all del: unsigned_less)
  ultimately have "unat h = unat h'"
    using le_read_le_bytes [of "unat h" 32 "[]"] le_read_le_bytes [of "unat h'" 32 "[]"] by simp
  then show "h = h'" by (simp add: word_unat_eq_iff)
qed simp

lemma length_ser [simp]:
  "length (ser_uint256 h) = 32" "length (ser_writedata32be x) = 4" "length (ser_writedata32 x) = 4"
  by (simp_all add: ser_uint256_def ser_writedata32be_def ser_writedata32_def)

lemma ser_COutPoint_inj: "ser_COutPoint p = ser_COutPoint q \<longleftrightarrow> p = q"
  using ser32.ser_inj by (cases p; cases q) (auto simp: ser_COutPoint_def ser_uint256_inj)

lemma ser_PeerlessBetKey_inj [simp]: "ser_PeerlessBetKey k = ser_PeerlessBetKey k' \<longleftrightarrow> k = k'"
  using ser32be.ser_inj by (cases k; cases k') (auto simp: ser_PeerlessBetKey_def ser_COutPoint_inj)

instantiation PeerlessBetKey :: linorder
begin

definition less_eq_PeerlessBetKey :: "PeerlessBetKey \<Rightarrow> PeerlessBetKey \<Rightarrow> bool" where
  "less_eq_PeerlessBetKey k k' \<longleftrightarrow> ser_PeerlessBetKey k \<le> ser_PeerlessBetKey k'"

definition less_PeerlessBetKey :: "PeerlessBetKey \<Rightarrow> PeerlessBetKey \<Rightarrow> bool" where
  "less_PeerlessBetKey k k' \<longleftrightarrow> ser_PeerlessBetKey k < ser_PeerlessBetKey k'"

instance
  by standard (auto simp: less_eq_PeerlessBetKey_def less_PeerlessBetKey_def less_le)

end

text \<open>Bets of a lower block height come first in the database.\<close>

lemma PeerlessBetKey_less_iff:
  "k < k' \<longleftrightarrow> blockHeight k < blockHeight k' \<or>
     blockHeight k = blockHeight k' \<and> ser_COutPoint (outPoint k) < ser_COutPoint (outPoint k')"
  using ser32be.ser_inj
  by (simp add: less_PeerlessBetKey_def ser_PeerlessBetKey_def list_less_append ser32be_less)

lemma PeerlessBetKey_le_iff:
  "k \<le> k' \<longleftrightarrow> blockHeight k < blockHeight k' \<or>
     blockHeight k = blockHeight k' \<and> ser_COutPoint (outPoint k) \<le> ser_COutPoint (outPoint k')"
  by (auto simp: le_less PeerlessBetKey_less_iff ser_COutPoint_inj PeerlessBetKey.expand)

section \<open>Events and results\<close>

record CPeerlessBaseEventDB =
  nEventId :: u32
  nStartTime :: u64
  nSport :: u32
  nTournament :: u32
  nStage :: u32
  nHomeTeam :: u32
  nAwayTeam :: u32
  nHomeOdds :: u32
  nAwayOdds :: u32
  nDrawOdds :: u32
  nSpreadPoints :: int
  nSpreadHomeOdds :: u32
  nSpreadAwayOdds :: u32
  nTotalPoints :: u32
  nTotalOverOdds :: u32
  nTotalUnderOdds :: u32
  nEventCreationHeight :: int
  fLegacyInitialHomeFavorite :: bool

record CPeerlessExtendedEventDB = CPeerlessBaseEventDB +
  nMoneyLineHomePotentialLiability :: u32
  nMoneyLineAwayPotentialLiability :: u32
  nMoneyLineDrawPotentialLiability :: u32
  nSpreadHomePotentialLiability :: u32
  nSpreadAwayPotentialLiability :: u32
  nSpreadPushPotentialLiability :: u32
  nTotalOverPotentialLiability :: u32
  nTotalUnderPotentialLiability :: u32
  nTotalPushPotentialLiability :: u32
  nMoneyLineHomeBets :: u32
  nMoneyLineAwayBets :: u32
  nMoneyLineDrawBets :: u32
  nSpreadHomeBets :: u32
  nSpreadAwayBets :: u32
  nSpreadPushBets :: u32
  nTotalOverBets :: u32
  nTotalUnderBets :: u32
  nTotalPushBets :: u32

definition new_CPeerlessExtendedEventDB :: CPeerlessExtendedEventDB where
  "new_CPeerlessExtendedEventDB =
     \<lparr>nEventId = 0, nStartTime = 0, nSport = 0, nTournament = 0, nStage = 0, nHomeTeam = 0, nAwayTeam = 0,
      nHomeOdds = 0, nAwayOdds = 0, nDrawOdds = 0, nSpreadPoints = 0, nSpreadHomeOdds = 0,
      nSpreadAwayOdds = 0, nTotalPoints = 0, nTotalOverOdds = 0, nTotalUnderOdds = 0,
      nEventCreationHeight = 0, fLegacyInitialHomeFavorite = True,
      nMoneyLineHomePotentialLiability = 0, nMoneyLineAwayPotentialLiability = 0,
      nMoneyLineDrawPotentialLiability = 0, nSpreadHomePotentialLiability = 0,
      nSpreadAwayPotentialLiability = 0, nSpreadPushPotentialLiability = 0,
      nTotalOverPotentialLiability = 0, nTotalUnderPotentialLiability = 0, nTotalPushPotentialLiability = 0,
      nMoneyLineHomeBets = 0, nMoneyLineAwayBets = 0, nMoneyLineDrawBets = 0, nSpreadHomeBets = 0,
      nSpreadAwayBets = 0, nSpreadPushBets = 0, nTotalOverBets = 0, nTotalUnderBets = 0, nTotalPushBets = 0\<rparr>"

definition ExtractDataFromTx_event ::
  "CPeerlessEventTx \<Rightarrow> CPeerlessExtendedEventDB \<Rightarrow> CPeerlessExtendedEventDB" where
  "ExtractDataFromTx_event tx ev = ev
     \<lparr>nEventId := pe_nEventId tx, nStartTime := ucast (pe_nStartTime tx), nSport := ucast (pe_nSport tx),
      nTournament := ucast (pe_nTournament tx), nStage := ucast (pe_nStage tx),
      nHomeTeam := pe_nHomeTeam tx, nAwayTeam := pe_nAwayTeam tx, nHomeOdds := pe_nHomeOdds tx,
      nAwayOdds := pe_nAwayOdds tx, nDrawOdds := pe_nDrawOdds tx\<rparr>"

definition ExtractDataFromTx_updateOdds ::
  "CPeerlessUpdateOddsTx \<Rightarrow> CPeerlessExtendedEventDB \<Rightarrow> CPeerlessExtendedEventDB" where
  "ExtractDataFromTx_updateOdds tx ev = ev
     \<lparr>nHomeOdds := puo_nHomeOdds tx, nAwayOdds := puo_nAwayOdds tx, nDrawOdds := puo_nDrawOdds tx\<rparr>"

definition ExtractDataFromTx_spreads ::
  "CPeerlessSpreadsEventTx \<Rightarrow> CPeerlessExtendedEventDB \<Rightarrow> CPeerlessExtendedEventDB" where
  "ExtractDataFromTx_spreads tx ev = ev
     \<lparr>nSpreadPoints := sint (ps_nPoints tx), nSpreadHomeOdds := ps_nHomeOdds tx,
      nSpreadAwayOdds := ps_nAwayOdds tx\<rparr>"

definition ExtractDataFromTx_totals ::
  "CPeerlessTotalsEventTx \<Rightarrow> CPeerlessExtendedEventDB \<Rightarrow> CPeerlessExtendedEventDB" where
  "ExtractDataFromTx_totals tx ev = ev
     \<lparr>nTotalPoints := ucast (pt_nPoints tx), nTotalOverOdds := pt_nOverOdds tx,
      nTotalUnderOdds := pt_nUnderOdds tx\<rparr>"

definition ExtractDataFromTx_patch ::
  "CPeerlessEventPatchTx \<Rightarrow> CPeerlessExtendedEventDB \<Rightarrow> CPeerlessExtendedEventDB" where
  "ExtractDataFromTx_patch tx ev = ev\<lparr>nStartTime := ucast (pp_nStartTime tx)\<rparr>"

record CPeerlessResultDB =
  res_nEventId :: u32
  res_nResultType :: u32
  res_nHomeScore :: u32
  res_nAwayScore :: u32

record ContenderInfo =
  nInputOdds :: u32
  nOutrightOdds :: u32
  nOutrightBets :: u32
  nOutrightPotentialLiability :: u32
  nPlaceOdds :: u32
  nPlaceBets :: u32
  nPlacePotentialLiability :: u32
  nShowOdds :: u32
  nShowBets :: u32
  nShowPotentialLiability :: u32
  nModifier :: u32

definition new_ContenderInfo :: "u32 \<Rightarrow> u32 \<Rightarrow> u32 \<Rightarrow> u32 \<Rightarrow> u32 \<Rightarrow> ContenderInfo" where
  "new_ContenderInfo inputOdds outrightOdds placeOdds showOdds modifier =
     \<lparr>nInputOdds = inputOdds, nOutrightOdds = outrightOdds, nOutrightBets = 0,
      nOutrightPotentialLiability = 0, nPlaceOdds = placeOdds, nPlaceBets = 0,
      nPlacePotentialLiability = 0, nShowOdds = showOdds, nShowBets = 0,
      nShowPotentialLiability = 0, nModifier = modifier\<rparr>"

record CFieldEventDB =
  fev_nEventId :: u32
  fev_nStartTime :: u64
  fev_nGroupType :: u8
  fev_nMarketType :: u8
  fev_nSport :: u32
  fev_nTournament :: u32
  fev_nStage :: u32
  fev_nMarginPercent :: u32
  contenders :: "(u32, ContenderInfo) omap"

text \<open>\<open>contenders[id]\<close> of a \<open>std::map\<close>: a missing entry is created with the default value.\<close>

definition contender_at :: "(u32, ContenderInfo) omap \<Rightarrow> u32 \<Rightarrow> ContenderInfo" where
  "contender_at m i = (case om_lookup m i of Some c \<Rightarrow> c | None \<Rightarrow> new_ContenderInfo 0 0 0 0 0)"

definition contender_modify ::
  "u32 \<Rightarrow> (ContenderInfo \<Rightarrow> ContenderInfo) \<Rightarrow> (u32, ContenderInfo) omap \<Rightarrow> (u32, ContenderInfo) omap" where
  "contender_modify i f m = om_update i (f (contender_at m i)) m"

definition new_CFieldEventDB :: CFieldEventDB where
  "new_CFieldEventDB =
     \<lparr>fev_nEventId = 0, fev_nStartTime = 0, fev_nGroupType = 0, fev_nMarketType = 0, fev_nSport = 0,
      fev_nTournament = 0, fev_nStage = 0, fev_nMarginPercent = 0, contenders = om_empty\<rparr>"

definition ExtractDataFromTx_fieldEvent :: "CFieldEventTx \<Rightarrow> CFieldEventDB \<Rightarrow> CFieldEventDB" where
  "ExtractDataFromTx_fieldEvent tx ev = ev
     \<lparr>fev_nEventId := fe_nEventId tx, fev_nStartTime := ucast (fe_nStartTime tx),
      fev_nSport := ucast (fe_nSport tx), fev_nTournament := ucast (fe_nTournament tx),
      fev_nStage := ucast (fe_nStage tx), fev_nGroupType := fe_nGroupType tx,
      fev_nMarketType := fe_nMarketType tx, fev_nMarginPercent := fe_nMarginPercent tx,
      contenders := fold (\<lambda>(i, odds) m. om_update i (new_ContenderInfo odds 0 0 0 0) m)
        (entries (fe_mContendersInputOdds tx)) (contenders ev)\<rparr>"

definition ExtractDataFromTx_fieldOdds :: "CFieldUpdateOddsTx \<Rightarrow> CFieldEventDB \<Rightarrow> CFieldEventDB" where
  "ExtractDataFromTx_fieldOdds tx ev = ev
     \<lparr>contenders := fold (\<lambda>(i, odds). contender_modify i
          (\<lambda>c. c\<lparr>nInputOdds := odds, nOutrightOdds := 0, nPlaceOdds := 0, nShowOdds := 0\<rparr>))
        (entries (fuo_mContendersInputOdds tx)) (contenders ev)\<rparr>"

definition ExtractDataFromTx_fieldMargin :: "CFieldUpdateMarginTx \<Rightarrow> CFieldEventDB \<Rightarrow> CFieldEventDB" where
  "ExtractDataFromTx_fieldMargin tx ev = ev\<lparr>fev_nMarginPercent := fmg_nMarginPercent tx\<rparr>"

definition ExtractDataFromTx_fieldModifiers :: "CFieldUpdateModifiersTx \<Rightarrow> CFieldEventDB \<Rightarrow> CFieldEventDB" where
  "ExtractDataFromTx_fieldModifiers tx ev = ev
     \<lparr>contenders := fold (\<lambda>(i, mo). contender_modify i (\<lambda>c. c\<lparr>nModifier := mo\<rparr>))
        (entries (fum_mContendersModifires tx)) (contenders ev)\<rparr>"

definition NoneZeroOddsContendersCount :: "CFieldEventDB \<Rightarrow> nat" where
  "NoneZeroOddsContendersCount ev = length (filter (\<lambda>(_, c). nInputOdds c \<noteq> 0) (entries (contenders ev)))"

definition IsMarketOpen :: "CFieldEventDB \<Rightarrow> u8 \<Rightarrow> bool" where
  "IsMarketOpen ev type =
     (let contendersCount = NoneZeroOddsContendersCount ev in
      if type = outright then True
      else if type = show_outcome then \<not> (fev_nMarketType ev = outrightOnly \<or> contendersCount < 8)
      else if type = place then \<not> (fev_nMarketType ev = outrightOnly \<or> contendersCount < 5)
      else False)"

record CFieldResultDB =
  fres_nEventId :: u32
  fres_nResultType :: u8
  contendersResults :: "(u32, u8) omap"

section \<open>Bets, undo records and payout information\<close>

record CPeerlessLegDB =
  leg_nEventId :: u32
  leg_nOutcome :: u8

record CFieldLegDB =
  fleg_nEventId :: u32
  fleg_nOutcome :: u8
  fleg_nContenderId :: u32

text \<open>
  \<open>CPeerlessBetDB\<close> and \<open>CFieldBetDB\<close> have the same members over different leg and event types; one
  record over the two types models both.
\<close>

record ('leg, 'event) CBetDB =
  b_betAmount :: CAmount
  b_playerAddress :: CTxDestination
  b_legs :: "'leg list"
  b_lockedEvents :: "'event list"
  b_betTime :: int
  b_completed :: bool
  b_resultType :: BetResultType
  b_payout :: CAmount
  b_payoutHeight :: u32

type_synonym CPeerlessBetDB = "(CPeerlessLegDB, CPeerlessBaseEventDB) CBetDB"

type_synonym CFieldBetDB = "(CFieldLegDB, CFieldEventDB) CBetDB"

definition new_CBetDB ::
  "CAmount \<Rightarrow> CTxDestination \<Rightarrow> 'leg list \<Rightarrow> 'event list \<Rightarrow> int \<Rightarrow> ('leg, 'event) CBetDB" where
  "new_CBetDB amount address vLegs vEvents time =
     \<lparr>b_betAmount = amount, b_playerAddress = address, b_legs = vLegs, b_lockedEvents = vEvents,
      b_betTime = time, b_completed = False, b_resultType = betResultUnknown, b_payout = 0, b_payoutHeight = 0\<rparr>"

record CChainGamesEventDB =
  cgev_nEventId :: u32
  cgev_nEntryFee :: u32

record CChainGamesBetDB =
  cgbet_nEventId :: u32
  cgbet_betAmount :: CAmount
  cgbet_playerAddress :: CTxDestination
  cgbet_betTime :: int
  cgbet_payout :: CAmount
  cgbet_payoutHeight :: u32
  cgbet_completed :: bool

definition new_CChainGamesBetDB :: "u32 \<Rightarrow> CAmount \<Rightarrow> CTxDestination \<Rightarrow> int \<Rightarrow> CChainGamesBetDB" where
  "new_CChainGamesBetDB eventId amount address time =
     \<lparr>cgbet_nEventId = eventId, cgbet_betAmount = amount, cgbet_playerAddress = address,
      cgbet_betTime = time, cgbet_payout = 0, cgbet_payoutHeight = 0, cgbet_completed = False\<rparr>"

record CChainGamesResultDB =
  cgres_nEventId :: u16

definition qgDice :: u8 where "qgDice = 0x00"

record CQuickGamesBetDB =
  qgb_gameType :: u8
  qgb_vBetInfo :: bytes
  qgb_betAmount :: CAmount
  qgb_playerAddress :: CTxDestination
  qgb_betTime :: int
  qgb_resultType :: BetResultType
  qgb_payout :: CAmount
  qgb_completed :: bool

definition new_CQuickGamesBetDB ::
  "u8 \<Rightarrow> bytes \<Rightarrow> CAmount \<Rightarrow> CTxDestination \<Rightarrow> int \<Rightarrow> CQuickGamesBetDB" where
  "new_CQuickGamesBetDB gameType vBetInfo amount address time =
     \<lparr>qgb_gameType = gameType, qgb_vBetInfo = vBetInfo, qgb_betAmount = amount, qgb_playerAddress = address,
      qgb_betTime = time, qgb_resultType = betResultUnknown, qgb_payout = 0, qgb_completed = False\<rparr>"

datatype BettingUndoVariant = UndoPeerlessEvent CPeerlessExtendedEventDB | UndoFieldEvent CFieldEventDB

record CBettingUndoDB =
  undo_height :: u32
  undoVariant :: BettingUndoVariant

record CPayoutInfoDB =
  betKey :: PeerlessBetKey
  payoutType :: PayoutType

end
