(* ===== verification/DbCodec.thy ===== *)
theory DbCodec
  imports BetTypes
begin

text \<open>
  How the betting databases write their values (the \<open>SERIALIZE_METHODS\<close> of betting/bet_db.h) and the
  proof that each value the handlers store is read back unchanged.  \<open>v3\<close> is the start height of
  protocol version 3, below which an event also carries its legacy favourite flag.
\<close>

section \<open>Writers and readers\<close>

definition ser_CPeerlessBaseEventDB :: "int \<Rightarrow> CPeerlessBaseEventDB \<Rightarrow> bytes" where
  "ser_CPeerlessBaseEventDB v3 obj =
     ser_writedata32 (nEventId obj) @ ser_writedata64 (nStartTime obj) @
     ser_writedata32 (nSport obj) @ ser_writedata32 (nTournament obj) @ ser_writedata32 (nStage obj) @
     ser_writedata32 (nHomeTeam obj) @ ser_writedata32 (nAwayTeam obj) @
     ser_writedata32 (nHomeOdds obj) @ ser_writedata32 (nAwayOdds obj) @
     ser_writedata32 (nDrawOdds obj) @ ser_int32 (nSpreadPoints obj) @
     ser_writedata32 (nSpreadHomeOdds obj) @ ser_writedata32 (nSpreadAwayOdds obj) @
     ser_writedata32 (nTotalPoints obj) @ ser_writedata32 (nTotalOverOdds obj) @
     ser_writedata32 (nTotalUnderOdds obj) @ ser_int32 (nEventCreationHeight obj) @
     (if nEventCreationHeight obj < v3 then ser_bool (fLegacyInitialHomeFavorite obj) else [])"

definition unser_CPeerlessBaseEventDB :: "int \<Rightarrow> CPeerlessBaseEventDB reader" where
  "unser_CPeerlessBaseEventDB v3 s = do {
     (nEventId', s) \<leftarrow> ser_readdata32 s;
     (nStartTime', s) \<leftarrow> ser_readdata64 s;
     (nSport', s) \<leftarrow> ser_readdata32 s;
     (nTournament', s) \<leftarrow> ser_readdata32 s;
     (nStage', s) \<leftarrow> ser_readdata32 s;
     (nHomeTeam', s) \<leftarrow> ser_readdata32 s;
     (nAwayTeam', s) \<leftarrow> ser_readdata32 s;
     (nHomeOdds', s) \<leftarrow> ser_readdata32 s;
     (nAwayOdds', s) \<leftarrow> ser_readdata32 s;
     (nDrawOdds', s) \<leftarrow> ser_readdata32 s;
     (nSpreadPoints', s) \<leftarrow> unser_int32 s;
     (nSpreadHomeOdds', s) \<leftarrow> ser_readdata32 s;
     (nSpreadAwayOdds', s) \<leftarrow> ser_readdata32 s;
     (nTotalPoints', s) \<leftarrow> ser_readdata32 s;
     (nTotalOverOdds', s) \<leftarrow> ser_readdata32 s;
     (nTotalUnderOdds', s) \<leftarrow> ser_readdata32 s;
     (nEventCreationHeight', s) \<leftarrow> unser_int32 s;
     (fLegacy', s) \<leftarrow> (if nEventCreationHeight' < v3 then unser_bool s else Some (True, s));
     Some (\<lparr>nEventId = nEventId', nStartTime = nStartTime', nSport = nSport', nTournament = nTournament',
        nStage = nStage', nHomeTeam = nHomeTeam', nAwayTeam = nAwayTeam', nHomeOdds = nHomeOdds',
        nAwayOdds = nAwayOdds', nDrawOdds = nDrawOdds', nSpreadPoints = nSpreadPoints',
        nSpreadHomeOdds = nSpreadHomeOdds', nSpreadAwayOdds = nSpreadAwayOdds',
        nTotalPoints = nTotalPoints', nTotalOverOdds = nTotalOverOdds',
        nTotalUnderOdds = nTotalUnderOdds', nEventCreationHeight = nEventCreationHeight',
        fLegacyInitialHomeFavorite = fLegacy'\<rparr>, s) }"

definition ser_CPeerlessExtendedEventDB :: "int \<Rightarrow> CPeerlessExtendedEventDB \<Rightarrow> bytes" where
  "ser_CPeerlessExtendedEventDB v3 obj =
     ser_writedata32 (nEventId obj) @ ser_writedata64 (nStartTime obj) @
     ser_writedata32 (nSport obj) @ ser_writedata32 (nTournament obj) @ ser_writedata32 (nStage obj) @
     ser_writedata32 (nHomeTeam obj) @ ser_writedata32 (nAwayTeam obj) @
     ser_writedata32 (nHomeOdds obj) @ ser_writedata32 (nAwayOdds obj) @
     ser_writedata32 (nDrawOdds obj) @ ser_int32 (nSpreadPoints obj) @
     ser_writedata32 (nSpreadHomeOdds obj) @ ser_writedata32 (nSpreadAwayOdds obj) @
     ser_writedata32 (nTotalPoints obj) @ ser_writedata32 (nTotalOverOdds obj) @
     ser_writedata32 (nTotalUnderOdds obj) @ ser_writedata32 (nMoneyLineHomePotentialLiability obj) @
     ser_writedata32 (nMoneyLineAwayPotentialLiability obj) @
     ser_writedata32 (nMoneyLineDrawPotentialLiability obj) @
     ser_writedata32 (nSpreadHomePotentialLiability obj) @
     ser_writedata32 (nSpreadAwayPotentialLiability obj) @
     ser_writedata32 (nSpreadPushPotentialLiability obj) @
     ser_writedata32 (nTotalOverPotentialLiability obj) @
     ser_writedata32 (nTotalUnderPotentialLiability obj) @
     ser_writedata32 (nTotalPushPotentialLiability obj) @ ser_writedata32 (nMoneyLineHomeBets obj) @
     ser_writedata32 (nMoneyLineAwayBets obj) @ ser_writedata32 (nMoneyLineDrawBets obj) @
     ser_writedata32 (nSpreadHomeBets obj) @ ser_writedata32 (nSpreadAwayBets obj) @
     ser_writedata32 (nSpreadPushBets obj) @ ser_writedata32 (nTotalOverBets obj) @
     ser_writedata32 (nTotalUnderBets obj) @ ser_writedata32 (nTotalPushBets obj) @
     ser_int32 (nEventCreationHeight obj) @
     (if nEventCreationHeight obj < v3 then ser_bool (fLegacyInitialHomeFavorite obj) else [])"

definition unser_CPeerlessExtendedEventDB :: "int \<Rightarrow> CPeerlessExtendedEventDB reader" where
  "unser_CPeerlessExtendedEventDB v3 s = do {
     (nEventId', s) \<leftarrow> ser_readdata32 s;
     (nStartTime', s) \<leftarrow> ser_readdata64 s;
     (nSport', s) \<leftarrow> ser_readdata32 s;
     (nTournament', s) \<leftarrow> ser_readdata32 s;
     (nStage', s) \<leftarrow> ser_readdata32 s;
     (nHomeTeam', s) \<leftarrow> ser_readdata32 s;
     (nAwayTeam', s) \<leftarrow> ser_readdata32 s;
     (nHomeOdds', s) \<leftarrow> ser_readdata32 s;
     (nAwayOdds', s) \<leftarrow> ser_readdata32 s;
     (nDrawOdds', s) \<leftarrow> ser_readdata32 s;
     (nSpreadPoints', s) \<leftarrow> unser_int32 s;
     (nSpreadHomeOdds', s) \<leftarrow> ser_readdata32 s;
     (nSpreadAwayOdds', s) \<leftarrow> ser_readdata32 s;
     (nTotalPoints', s) \<leftarrow> ser_readdata32 s;
     (nTotalOverOdds', s) \<leftarrow> ser_readdata32 s;
     (nTotalUnderOdds', s) \<leftarrow> ser_readdata32 s;
     (nMoneyLineHomePotentialLiability', s) \<leftarrow> ser_readdata32 s;
     (nMoneyLineAwayPotentialLiability', s) \<leftarrow> ser_readdata32 s;
     (nMoneyLineDrawPotentialLiability', s) \<leftarrow> ser_readdata32 s;
     (nSpreadHomePotentialLiability', s) \<leftarrow> ser_readdata32 s;
     (nSpreadAwayPotentialLiability', s) \<leftarrow> ser_readdata32 s;
     (nSpreadPushPotentialLiability', s) \<leftarrow> ser_readdata32 s;
     (nTotalOverPotentialLiability', s) \<leftarrow> ser_readdata32 s;
     (nTotalUnderPotentialLiability', s) \<leftarrow> ser_readdata32 s;
     (nTotalPushPotentialLiability', s) \<leftarrow> ser_readdata32 s;
     (nMoneyLineHomeBets', s) \<leftarrow> ser_readdata32 s;
     (nMoneyLineAwayBets', s) \<leftarrow> ser_readdata32 s;
     (nMoneyLineDrawBets', s) \<leftarrow> ser_readdata32 s;
     (nSpreadHomeBets', s) \<leftarrow> ser_readdata32 s;
     (nSpreadAwayBets', s) \<leftarrow> ser_readdata32 s;
     (nSpreadPushBets', s) \<leftarrow> ser_readdata32 s;
     (nTotalOverBets', s) \<leftarrow> ser_readdata32 s;
     (nTotalUnderBets', s) \<leftarrow> ser_readdata32 s;
     (nTotalPushBets', s) \<leftarrow> ser_readdata32 s;
     (nEventCreationHeight', s) \<leftarrow> unser_int32 s;
     (fLegacy', s) \<leftarrow> (if nEventCreationHeight' < v3 then unser_bool s else Some (True, s));
     Some (\<lparr>nEventId = nEventId', nStartTime = nStartTime', nSport = nSport', nTournament = nTournament',
        nStage = nStage', nHomeTeam = nHomeTeam', nAwayTeam = nAwayTeam', nHomeOdds = nHomeOdds',
        nAwayOdds = nAwayOdds', nDrawOdds = nDrawOdds', nSpreadPoints = nSpreadPoints',
        nSpreadHomeOdds = nSpreadHomeOdds', nSpreadAwayOdds = nSpreadAwayOdds',
        nTotalPoints = nTotalPoints', nTotalOverOdds = nTotalOverOdds',
        nTotalUnderOdds = nTotalUnderOdds', nEventCreationHeight = nEventCreationHeight',
        fLegacyInitialHomeFavorite = fLegacy',
        nMoneyLineHomePotentialLiability = nMoneyLineHomePotentialLiability',
        nMoneyLineAwayPotentialLiability = nMoneyLineAwayPotentialLiability',
        nMoneyLineDrawPotentialLiability = nMoneyLineDrawPotentialLiability',
        nSpreadHomePotentialLiability = nSpreadHomePotentialLiability',
        nSpreadAwayPotentialLiability = nSpreadAwayPotentialLiability',
        nSpreadPushPotentialLiability = nSpreadPushPotentialLiability',
        nTotalOverPotentialLiability = nTotalOverPotentialLiability',
        nTotalUnderPotentialLiability = nTotalUnderPotentialLiability',
        nTotalPushPotentialLiability = nTotalPushPotentialLiability',
        nMoneyLineHomeBets = nMoneyLineHomeBets', nMoneyLineAwayBets = nMoneyLineAwayBets',
        nMoneyLineDrawBets = nMoneyLineDrawBets', nSpreadHomeBets = nSpreadHomeBets',
        nSpreadAwayBets = nSpreadAwayBets', nSpreadPushBets = nSpreadPushBets',
        nTotalOverBets = nTotalOverBets', nTotalUnderBets = nTotalUnderBets',
        nTotalPushBets = nTotalPushBets'\<rparr>, s) }"

definition ser_CPeerlessResultDB :: "CPeerlessResultDB \<Rightarrow> bytes" where
  "ser_CPeerlessResultDB obj =
     ser_writedata32 (res_nEventId obj) @ ser_writedata32 (res_nResultType obj) @
     ser_writedata32 (res_nHomeScore obj) @ ser_writedata32 (res_nAwayScore obj)"

definition unser_CPeerlessResultDB :: "CPeerlessResultDB reader" where
  "unser_CPeerlessResultDB s = do {
     (res_nEventId', s) \<leftarrow> ser_readdata32 s;
     (res_nResultType', s) \<leftarrow> ser_readdata32 s;
     (res_nHomeScore', s) \<leftarrow> ser_readdata32 s;
     (res_nAwayScore', s) \<leftarrow> ser_readdata32 s;
     Some (\<lparr>res_nEventId = res_nEventId', res_nResultType = res_nResultType',
        res_nHomeScore = res_nHomeScore', res_nAwayScore = res_nAwayScore'\<rparr>, s) }"

definition ser_ContenderInfo :: "ContenderInfo \<Rightarrow> bytes" where
  "ser_ContenderInfo obj =
     ser_writedata32 (nInputOdds obj) @ ser_writedata32 (nOutrightOdds obj) @
     ser_writedata32 (nOutrightBets obj) @ ser_writedata32 (nOutrightPotentialLiability obj) @
     ser_writedata32 (nPlaceOdds obj) @ ser_writedata32 (nPlaceBets obj) @
     ser_writedata32 (nPlacePotentialLiability obj) @ ser_writedata32 (nShowOdds obj) @
     ser_writedata32 (nShowBets obj) @ ser_writedata32 (nShowPotentialLiability obj) @
     ser_writedata32 (nModifier obj)"

definition unser_ContenderInfo :: "ContenderInfo reader" where
  "unser_ContenderInfo s = do {
     (nInputOdds', s) \<leftarrow> ser_readdata32 s;
     (nOutrightOdds', s) \<leftarrow> ser_readdata32 s;
     (nOutrightBets', s) \<leftarrow> ser_readdata32 s;
     (nOutrightPotentialLiability', s) \<leftarrow> ser_readdata32 s;
     (nPlaceOdds', s) \<leftarrow> ser_readdata32 s;
     (nPlaceBets', s) \<leftarrow> ser_readdata32 s;
     (nPlacePotentialLiability', s) \<leftarrow> ser_readdata32 s;
     (nShowOdds', s) \<leftarrow> ser_readdata32 s;
     (nShowBets', s) \<leftarrow> ser_readdata32 s;
     (nShowPotentialLiability', s) \<leftarrow> ser_readdata32 s;
     (nModifier', s) \<leftarrow> ser_readdata32 s;
     Some (\<lparr>nInputOdds = nInputOdds', nOutrightOdds = nOutrightOdds', nOutrightBets = nOutrightBets',
        nOutrightPotentialLiability = nOutrightPotentialLiability', nPlaceOdds = nPlaceOdds',
        nPlaceBets = nPlaceBets', nPlacePotentialLiability = nPlacePotentialLiability',
        nShowOdds = nShowOdds', nShowBets = nShowBets',
        nShowPotentialLiability = nShowPotentialLiability', nModifier = nModifier'\<rparr>, s) }"

definition ser_CFieldEventDB :: "CFieldEventDB \<Rightarrow> bytes" where
  "ser_CFieldEventDB obj =
     ser_writedata32 (fev_nEventId obj) @ ser_writedata64 (fev_nStartTime obj) @
     ser_writedata8 (fev_nGroupType obj) @ ser_writedata8 (fev_nMarketType obj) @
     ser_writedata32 (fev_nSport obj) @ ser_writedata32 (fev_nTournament obj) @
     ser_writedata32 (fev_nStage obj) @ ser_writedata32 (fev_nMarginPercent obj) @
     SerializeMap ser_writedata32 ser_ContenderInfo (contenders obj)"

definition unser_CFieldEventDB :: "CFieldEventDB reader" where
  "unser_CFieldEventDB s = do {
     (fev_nEventId', s) \<leftarrow> ser_readdata32 s;
     (fev_nStartTime', s) \<leftarrow> ser_readdata64 s;
     (fev_nGroupType', s) \<leftarrow> ser_readdata8 s;
     (fev_nMarketType', s) \<leftarrow> ser_readdata8 s;
     (fev_nSport', s) \<leftarrow> ser_readdata32 s;
     (fev_nTournament', s) \<leftarrow> ser_readdata32 s;
     (fev_nStage', s) \<leftarrow> ser_readdata32 s;
     (fev_nMarginPercent', s) \<leftarrow> ser_readdata32 s;
     (contenders', s) \<leftarrow> UnserializeMap ser_readdata32 unser_ContenderInfo s;
     Some (\<lparr>fev_nEventId = fev_nEventId', fev_nStartTime = fev_nStartTime',
        fev_nGroupType = fev_nGroupType', fev_nMarketType = fev_nMarketType', fev_nSport = fev_nSport',
        fev_nTournament = fev_nTournament', fev_nStage = fev_nStage',
        fev_nMarginPercent = fev_nMarginPercent', contenders = contenders'\<rparr>, s) }"

definition ser_CFieldResultDB :: "CFieldResultDB \<Rightarrow> bytes" where
  "ser_CFieldResultDB obj =
     ser_writedata32 (fres_nEventId obj) @ ser_writedata8 (fres_nResultType obj) @
     SerializeMap ser_writedata32 ser_writedata8 (contendersResults obj)"

definition unser_CFieldResultDB :: "CFieldResultDB reader" where
  "unser_CFieldResultDB s = do {
     (fres_nEventId', s) \<leftarrow> ser_readdata32 s;
     (fres_nResultType', s) \<leftarrow> ser_readdata8 s;
     (contendersResults', s) \<leftarrow> UnserializeMap ser_readdata32 ser_readdata8 s;
     Some (\<lparr>fres_nEventId = fres_nEventId', fres_nResultType = fres_nResultType',
        contendersResults = contendersResults'\<rparr>, s) }"

definition ser_CChainGamesEventDB :: "CChainGamesEventDB \<Rightarrow> bytes" where
  "ser_CChainGamesEventDB obj =
     ser_writedata32 (cgev_nEventId obj) @ ser_writedata32 (cgev_nEntryFee obj)"

definition unser_CChainGamesEventDB :: "CChainGamesEventDB reader" where
  "unser_CChainGamesEventDB s = do {
     (cgev_nEventId', s) \<leftarrow> ser_readdata32 s;
     (cgev_nEntryFee', s) \<leftarrow> ser_readdata32 s;
     Some (\<lparr>cgev_nEventId = cgev_nEventId', cgev_nEntryFee = cgev_nEntryFee'\<rparr>, s) }"

definition ser_CChainGamesResultDB :: "CChainGamesResultDB \<Rightarrow> bytes" where
  "ser_CChainGamesResultDB obj =
     ser_writedata16 (cgres_nEventId obj)"

definition unser_CChainGamesResultDB :: "CChainGamesResultDB reader" where
  "unser_CChainGamesResultDB s = do {
     (cgres_nEventId', s) \<leftarrow> ser_readdata16 s;
     Some (\<lparr>cgres_nEventId = cgres_nEventId'\<rparr>, s) }"


text \<open>\<open>CMappingDB\<close> holds only its name.\<close>

definition ser_CMappingDB :: "bytes \<Rightarrow> bytes" where
  "ser_CMappingDB sName = ser_vector ser_writedata8 sName"

definition unser_CMappingDB :: "bytes reader" where
  "unser_CMappingDB s = unser_vector ser_readdata8 s"

fun undo_which :: "BettingUndoVariant \<Rightarrow> int" where
  "undo_which (UndoPeerlessEvent _) = 0"
| "undo_which (UndoFieldEvent _) = 1"

definition ser_CBettingUndoDB :: "int \<Rightarrow> CBettingUndoDB \<Rightarrow> bytes" where
  "ser_CBettingUndoDB v3 obj =
     ser_writedata32 (undo_height obj) @ ser_int32 (undo_which (undoVariant obj)) @
     (case undoVariant obj of
        UndoPeerlessEvent event \<Rightarrow> ser_CPeerlessExtendedEventDB v3 event
      | UndoFieldEvent event \<Rightarrow> ser_CFieldEventDB event)"

text \<open>An unknown discriminator only constructs an exception; the variant keeps its default value.\<close>

definition unser_CBettingUndoDB :: "int \<Rightarrow> CBettingUndoDB reader" where
  "unser_CBettingUndoDB v3 s = do {
     (height, s) \<leftarrow> ser_readdata32 s;
     (undoType, s) \<leftarrow> unser_int32 s;
     (var, s) \<leftarrow>
       (if undoType = 0 then do { (event, s) \<leftarrow> unser_CPeerlessExtendedEventDB v3 s; Some (UndoPeerlessEvent event, s) }
        else if undoType = 1 then do { (event, s) \<leftarrow> unser_CFieldEventDB s; Some (UndoFieldEvent event, s) }
        else Some (UndoPeerlessEvent new_CPeerlessExtendedEventDB, s));
     Some (\<lparr>undo_height = height, undoVariant = var\<rparr>, s) }"

text \<open>What the C++ types and the handlers guarantee of the stored values.\<close>

definition event_ok :: "int \<Rightarrow> 'a CPeerlessBaseEventDB_scheme \<Rightarrow> bool" where
  "event_ok v3 ev \<longleftrightarrow>
     - (2 ^ 31) \<le> nSpreadPoints ev \<and> nSpreadPoints ev < 2 ^ 31 \<and>
     - (2 ^ 31) \<le> nEventCreationHeight ev \<and> nEventCreationHeight ev < 2 ^ 31 \<and>
     (v3 \<le> nEventCreationHeight ev \<longrightarrow> fLegacyInitialHomeFavorite ev)"

definition fieldEvent_ok :: "CFieldEventDB \<Rightarrow> bool" where
  "fieldEvent_ok ev \<longleftrightarrow> length (entries (contenders ev)) \<le> MAX_SIZE"

definition undo_ok :: "int \<Rightarrow> CBettingUndoDB \<Rightarrow> bool" where
  "undo_ok v3 u = (case undoVariant u of UndoPeerlessEvent ev \<Rightarrow> event_ok v3 ev | UndoFieldEvent ev \<Rightarrow> fieldEvent_ok ev)"

section \<open>Every stored value is read back\<close>

lemmas more_roundtrips [codec_simps] = int32.roundtrip int64.roundtrip boolc.roundtrip [OF TrueI]

interpretation baseEvent: codec "ser_CPeerlessBaseEventDB v3" "unser_CPeerlessBaseEventDB v3" "event_ok v3" for v3
  by standard (auto simp: ser_CPeerlessBaseEventDB_def unser_CPeerlessBaseEventDB_def event_ok_def codec_simps)

interpretation event: codec "ser_CPeerlessExtendedEventDB v3" "unser_CPeerlessExtendedEventDB v3" "event_ok v3" for v3
  by standard (auto simp: ser_CPeerlessExtendedEventDB_def unser_CPeerlessExtendedEventDB_def event_ok_def codec_simps)

interpretation result: codec ser_CPeerlessResultDB unser_CPeerlessResultDB "\<lambda>_. True"
  by standard (simp add: ser_CPeerlessResultDB_def unser_CPeerlessResultDB_def codec_simps)

interpretation contender: codec ser_ContenderInfo unser_ContenderInfo "\<lambda>_. True"
  by standard (simp add: ser_ContenderInfo_def unser_ContenderInfo_def codec_simps)

interpretation contenderMap: codec "SerializeMap ser_writedata32 ser_ContenderInfo"
  "UnserializeMap ser_readdata32 unser_ContenderInfo"
  "\<lambda>m. length (entries m) \<le> MAX_SIZE \<and> list_all (\<lambda>item. True \<and> True) (entries m)"
  by (rule codec_map) (rule ser32.codec_axioms contender.codec_axioms)+

interpretation fieldEvent: codec ser_CFieldEventDB unser_CFieldEventDB fieldEvent_ok
  by standard (simp add: ser_CFieldEventDB_def unser_CFieldEventDB_def fieldEvent_ok_def codec_simps
      contenderMap.roundtrip)

interpretation fieldResult: codec ser_CFieldResultDB unser_CFieldResultDB
  "\<lambda>r. length (entries (contendersResults r)) \<le> MAX_SIZE"
  by standard (simp add: ser_CFieldResultDB_def unser_CFieldResultDB_def codec_simps)

interpretation cgEvent: codec ser_CChainGamesEventDB unser_CChainGamesEventDB "\<lambda>_. True"
  by standard (simp add: ser_CChainGamesEventDB_def unser_CChainGamesEventDB_def codec_simps)

interpretation cgResult: codec ser_CChainGamesResultDB unser_CChainGamesResultDB "\<lambda>_. True"
  by standard (simp add: ser_CChainGamesResultDB_def unser_CChainGamesResultDB_def codec_simps)

interpretation mapping: codec ser_CMappingDB unser_CMappingDB "\<lambda>s. length s \<le> MAX_SIZE"
  by standard (simp add: ser_CMappingDB_def unser_CMappingDB_def codec_simps)

interpretation undo: codec "ser_CBettingUndoDB v3" "unser_CBettingUndoDB v3" "undo_ok v3" for v3
  by standard (auto simp: ser_CBettingUndoDB_def unser_CBettingUndoDB_def undo_ok_def codec_simps
      event.roundtrip fieldEvent.roundtrip split: BettingUndoVariant.splits)

interpretation undos: codec "ser_vector (ser_CBettingUndoDB v3)" "unser_vector (unser_CBettingUndoDB v3)"
  "\<lambda>v. length v \<le> MAX_SIZE \<and> list_all (undo_ok v3) v" for v3
  by (rule codec_vector) (rule undo.codec_axioms)

end
