(* ===== verification/FlushableStorage.thy ===== *)
theory FlushableStorage
  imports Serialize
begin

text \<open>
  The layered key-value storage of flushablestorage/flushablestorage.h.  A \<open>storage\<close> is a LevelDB
  database or a flushable cache over another storage; the virtual methods are functions by cases on
  the two classes.  A LevelDB database is the sorted map from serialized keys to values it holds on
  disk (the keys of \<open>CDBWrapper\<close> carry a compact size prefix, which decides the order of keys of
  different lengths).  \<open>contents\<close> is the map a client sees through all layers; the locale \<open>kv_store\<close> is
  the contract of \<open>CStorageKV\<close> in terms of it.  Iterators deliver the visible entries in key order.
\<close>

section \<open>Storage operations\<close>

text \<open>\<open>MapKV\<close>: the pending changes of a cache, \<open>None\<close> for an erased key.\<close>

type_synonym MapKV = "(bytes, bytes option) omap"

datatype storage =
    LevelDB "(bytes, bytes) omap"
  | Flushable storage MapKV

definition db_key :: "bytes \<Rightarrow> bytes" where
  "db_key key = ser_vector ser_writedata8 key"

fun Exists :: "storage \<Rightarrow> bytes \<Rightarrow> bool" where
  "Exists (LevelDB disk) key \<longleftrightarrow> om_lookup disk (db_key key) \<noteq> None"
| "Exists (Flushable db changed) key =
     (case om_lookup changed key of Some second \<Rightarrow> second \<noteq> None | None \<Rightarrow> Exists db key)"

fun Write :: "storage \<Rightarrow> bytes \<Rightarrow> bytes \<Rightarrow> storage \<times> bool" where
  "Write (LevelDB disk) key value = (LevelDB (om_update (db_key key) value disk), True)"
| "Write (Flushable db changed) key value = (Flushable db (om_update key (Some value) changed), True)"

fun Erase :: "storage \<Rightarrow> bytes \<Rightarrow> storage \<times> bool" where
  "Erase (LevelDB disk) key = (LevelDB (om_delete (db_key key) disk), True)"
| "Erase (Flushable db changed) key = (Flushable db (om_update key None changed), True)"

fun Read :: "storage \<Rightarrow> bytes \<Rightarrow> bytes option" where
  "Read (LevelDB disk) key = om_lookup disk (db_key key)"
| "Read (Flushable db changed) key =
     (case om_lookup changed key of None \<Rightarrow> Read db key | Some second \<Rightarrow> second)"

fun Flush_loop :: "(bytes \<times> bytes option) list \<Rightarrow> storage \<Rightarrow> storage \<times> bool" where
  "Flush_loop [] db = (db, True)"
| "Flush_loop ((first, second) # it) db =
     (let (db, ok) = (case second of None \<Rightarrow> Erase db first | Some value \<Rightarrow> Write db first value) in
      if \<not> ok then (db, False) else Flush_loop it db)"

text \<open>A LevelDB storage has no \<open>Flush\<close>; it is left alone.\<close>

fun Flush :: "storage \<Rightarrow> storage \<times> bool" where
  "Flush (LevelDB disk) = (LevelDB disk, True)"
| "Flush (Flushable db changed) =
     (let (db, ok) = Flush_loop (entries changed) db in
      if \<not> ok then (Flushable db changed, False) else (Flushable db om_empty, True))"

fun GetCacheSize :: "storage \<Rightarrow> nat" where
  "GetCacheSize (LevelDB disk) = 0"
| "GetCacheSize (Flushable db changed) = length (entries changed)"

fun GetCacheSizeBytesToWrite :: "storage \<Rightarrow> u32" where
  "GetCacheSizeBytesToWrite (LevelDB disk) = 0"
| "GetCacheSizeBytesToWrite (Flushable db changed) =
     sum_list (map (\<lambda>(first, second).
       case second of None \<Rightarrow> 0 | Some value \<Rightarrow> of_nat (1 + length first + 1 + length value)) (entries changed))"

section \<open>Iterators\<close>

text \<open>
  The state of \<open>CFlushableStorageKVIterator\<close>: the entries of the change map the iterator has not
  passed (from \<open>mIt\<close> or \<open>rIt\<close> on), the entries the parent iterator still delivers (its current one
  first), and the current key, value and previous key.  \<open>mapOk\<close> (\<open>reverseOk\<close>) and \<open>parentOk\<close> say that the
  first and the second list is not empty.
\<close>

record kv_iterator =
  it_map :: "(bytes \<times> bytes option) list"
  it_parent :: "(bytes \<times> bytes) list"
  it_key :: bytes
  it_value :: bytes
  it_prevKey :: bytes

text \<open>
  \<open>Next\<close> and \<open>Prev\<close> are the same merge for the two directions; \<open>before\<close> is the order of the direction
  (\<open><\<close> for \<open>Next\<close>, \<open>>\<close> for \<open>Prev\<close>).  The inner loop takes the map's entry while it does not come after
  the parent's; otherwise the parent's entry is taken.
\<close>

function merge_loop ::
  "(bytes \<Rightarrow> bytes \<Rightarrow> bool) \<Rightarrow> (bytes \<times> bytes option) list \<Rightarrow> (bytes \<times> bytes) list \<Rightarrow> bytes \<Rightarrow> kv_iterator" where
  "merge_loop before m p prevKey =
     (case m of
        (mkey, second) # m' \<Rightarrow>
          if p = [] \<or> \<not> before (fst (hd p)) mkey then
            (case second of
               Some v \<Rightarrow>
                 if prevKey = [] \<or> before prevKey mkey then
                   \<lparr>it_map = m', it_parent = p, it_key = mkey, it_value = v, it_prevKey = mkey\<rparr>
                 else merge_loop before m' p prevKey
             | None \<Rightarrow> merge_loop before m' p mkey)
          else if prevKey = [] \<or> before prevKey (fst (hd p)) then
            \<lparr>it_map = m, it_parent = tl p, it_key = fst (hd p), it_value = snd (hd p), it_prevKey = fst (hd p)\<rparr>
          else merge_loop before m (tl p) prevKey
      | [] \<Rightarrow>
          (case p of
             [] \<Rightarrow> \<lparr>it_map = [], it_parent = [], it_key = [], it_value = [], it_prevKey = prevKey\<rparr>
           | (pkey, pvalue) # p' \<Rightarrow>
               if prevKey = [] \<or> before prevKey pkey then
                 \<lparr>it_map = [], it_parent = p', it_key = pkey, it_value = pvalue, it_prevKey = pkey\<rparr>
               else merge_loop before [] p' prevKey))"
  by pat_completeness auto
termination
  by (relation "measure (\<lambda>(_, m, p, _). length m + length p)") auto

definition it_Next :: "kv_iterator \<Rightarrow> kv_iterator" where
  "it_Next it = merge_loop (<) (it_map it) (it_parent it) (it_prevKey it)"

definition it_Prev :: "kv_iterator \<Rightarrow> kv_iterator" where
  "it_Prev it = merge_loop (>) (it_map it) (it_parent it) (it_prevKey it)"

definition it_Valid :: "kv_iterator \<Rightarrow> bool" where
  "it_Valid it \<longleftrightarrow> it_key it \<noteq> []"

definition it_init :: "(bytes \<times> bytes option) list \<Rightarrow> (bytes \<times> bytes) list \<Rightarrow> kv_iterator" where
  "it_init m p = \<lparr>it_map = m, it_parent = p, it_key = [], it_value = [], it_prevKey = []\<rparr>"

definition it_Seek :: "MapKV \<Rightarrow> (bytes \<times> bytes) list \<Rightarrow> bytes \<Rightarrow> kv_iterator" where
  "it_Seek changed parent key = it_Next (it_init (entries_from key changed) parent)"

definition it_SeekToFirst :: "MapKV \<Rightarrow> (bytes \<times> bytes) list \<Rightarrow> kv_iterator" where
  "it_SeekToFirst changed parent = it_Next (it_init (entries changed) parent)"

definition it_SeekToLast :: "MapKV \<Rightarrow> (bytes \<times> bytes) list \<Rightarrow> kv_iterator" where
  "it_SeekToLast changed parent = it_Prev (it_init (rev (entries changed)) parent)"

text \<open>
  The entries a client loop \<open>for (; it->Valid(); it->Next())\<close> sees, and those of the \<open>Prev\<close> loop.  The
  fuel is the number of entries not yet passed; each step passes at least one.
\<close>

primrec it_collect :: "(kv_iterator \<Rightarrow> kv_iterator) \<Rightarrow> nat \<Rightarrow> kv_iterator \<Rightarrow> (bytes \<times> bytes) list" where
  "it_collect step 0 it = (if it_Valid it then [(it_key it, it_value it)] else [])"
| "it_collect step (Suc n) it =
     (if it_Valid it then (it_key it, it_value it) # it_collect step n (step it) else [])"

definition it_all :: "(kv_iterator \<Rightarrow> kv_iterator) \<Rightarrow> kv_iterator \<Rightarrow> (bytes \<times> bytes) list" where
  "it_all step it = it_collect step (length (it_map it) + length (it_parent it)) it"

text \<open>The LevelDB iterator delivers the decoded key of every disk entry in disk order.\<close>

definition disk_entry :: "bytes \<times> bytes \<Rightarrow> bytes \<times> bytes" where
  "disk_entry e = (case unser_vector ser_readdata8 (fst e) of Some (key, _) \<Rightarrow> (key, snd e) | None \<Rightarrow> ([], snd e))"

fun scan_from :: "storage \<Rightarrow> bytes \<Rightarrow> (bytes \<times> bytes) list" where
  "scan_from (LevelDB disk) key = map disk_entry (entries_from (db_key key) disk)"
| "scan_from (Flushable db changed) key = it_all it_Next (it_Seek changed (scan_from db key) key)"

fun scan_first :: "storage \<Rightarrow> (bytes \<times> bytes) list" where
  "scan_first (LevelDB disk) = map disk_entry (entries disk)"
| "scan_first (Flushable db changed) = it_all it_Next (it_SeekToFirst changed (scan_first db))"

fun scan_last :: "storage \<Rightarrow> (bytes \<times> bytes) list" where
  "scan_last (LevelDB disk) = map disk_entry (rev (entries disk))"
| "scan_last (Flushable db changed) = it_all it_Prev (it_SeekToLast changed (scan_last db))"

section \<open>Specification vocabulary\<close>

text \<open>A client's sequence of changes.\<close>

datatype kv_op = OpWrite bytes bytes | OpErase bytes

fun apply_op :: "kv_op \<Rightarrow> storage \<Rightarrow> storage" where
  "apply_op (OpWrite key value) s = fst (Write s key value)"
| "apply_op (OpErase key) s = fst (Erase s key)"

text \<open>The value a client sees for a key when \<open>m\<close> are the pending changes over the parent's entries \<open>p\<close>.\<close>

definition visible :: "(bytes \<times> bytes option) list \<Rightarrow> (bytes \<times> bytes) list \<Rightarrow> bytes \<Rightarrow> bytes option" where
  "visible m p k = (case map_of m k of Some second \<Rightarrow> second | None \<Rightarrow> map_of p k)"

text \<open>What a complete scan is: the visible entries that satisfy \<open>P\<close>, in the order of the direction.\<close>

definition scan_of :: "(bytes \<Rightarrow> bytes \<Rightarrow> bool) \<Rightarrow> (bytes \<Rightarrow> bool) \<Rightarrow> storage \<Rightarrow> (bytes \<times> bytes) list \<Rightarrow> bool" where
  "scan_of before P s es \<longleftrightarrow> sorted_wrt before (map fst es) \<and>
     (\<forall>k v. (k, v) \<in> set es \<longleftrightarrow> P k \<and> Read s k = Some v)"

text \<open>Every key at every layer has \<open>n\<close> bytes.  All betting databases except the undo database have one key length.\<close>

fun keys_len :: "nat \<Rightarrow> storage \<Rightarrow> bool" where
  "keys_len n (LevelDB disk) \<longleftrightarrow> (\<forall>e \<in> set (entries disk). \<exists>k. length k = n \<and> fst e = db_key k)"
| "keys_len n (Flushable db changed) \<longleftrightarrow> keys_len n db \<and> (\<forall>e \<in> set (entries changed). length (fst e) = n)"

section \<open>The storage contract\<close>

declare merge_loop.simps [simp del]

lemma length_CompactSize:
  "length (WriteCompactSize n) = (if n < 253 then 1 else if n \<le> 0xffff then 3 else if n \<le> 0xffffffff then 5 else 9)"
  by (simp add: WriteCompactSize_def ser_writedata8_def ser_writedata16_def ser_writedata32_def ser_writedata64_def)

lemma hd_CompactSize:
  "hd (WriteCompactSize n) = (if n < 253 then of_nat n else if n \<le> 0xffff then 253 else if n \<le> 0xffffffff then 254 else 255)"
  by (simp add: WriteCompactSize_def ser_writedata8_def)

lemma db_key_def2: "db_key key = WriteCompactSize (length key) @ key"
  by (induction key) (simp_all add: db_key_def ser_vector_def concat_map_singleton ser_writedata8_def [abs_def])

lemma db_key_inj [simp]: "db_key k = db_key k' \<longleftrightarrow> k = k'"
proof
  assume eq: "db_key k = db_key k'"
  have ne: "WriteCompactSize n \<noteq> []" for n using length_CompactSize [of n] by (auto split: if_splits)
  have "hd (WriteCompactSize (length k)) = hd (WriteCompactSize (length k'))"
    using arg_cong [OF eq, of hd] ne by (simp add: db_key_def2)
  then have "length (WriteCompactSize (length k)) = length (WriteCompactSize (length k'))"
    by (auto simp: hd_CompactSize length_CompactSize word_unat_eq_iff unat_of_nat split: if_splits)
  with eq show "k = k'" by (simp add: db_key_def2)
qed simp

lemma Read_Write [simp]: "Read (fst (Write s key value)) = (Read s)(key \<mapsto> value)"
  by (cases s) (auto simp: fun_eq_iff)

lemma Read_Erase [simp]: "Read (fst (Erase s key)) = (Read s)(key := None)"
  by (cases s) (auto simp: fun_eq_iff)

lemma Write_ok [simp]: "snd (Write s key value)"
  by (cases s) auto

lemma Erase_ok [simp]: "snd (Erase s key)"
  by (cases s) auto

lemma Exists_iff: "Exists s key \<longleftrightarrow> Read s key \<noteq> None"
  by (induction s) (auto split: option.splits)

text \<open>The contract of \<open>CStorageKV\<close>: reads see exactly the writes and erasures made before them.\<close>

locale kv_store =
  fixes kv_exists :: "'s \<Rightarrow> bytes \<Rightarrow> bool" and kv_read :: "'s \<Rightarrow> bytes \<Rightarrow> bytes option"
    and kv_write :: "'s \<Rightarrow> bytes \<Rightarrow> bytes \<Rightarrow> 's \<times> bool" and kv_erase :: "'s \<Rightarrow> bytes \<Rightarrow> 's \<times> bool"
  assumes exists_iff: "kv_exists s key \<longleftrightarrow> kv_read s key \<noteq> None"
    and write_ok: "snd (kv_write s key value)"
    and read_write: "kv_read (fst (kv_write s key value)) = (kv_read s)(key \<mapsto> value)"
    and erase_ok: "snd (kv_erase s key)"
    and read_erase: "kv_read (fst (kv_erase s key)) = (kv_read s)(key := None)"
begin

lemma write_then_erase: "kv_read s key = None \<Longrightarrow> kv_read (fst (kv_erase (fst (kv_write s key value)) key)) = kv_read s"
  by (auto simp: read_write read_erase)

lemma overwrite_back: "kv_read s key = Some old \<Longrightarrow> kv_read (fst (kv_write (fst (kv_write s key value)) key old)) = kv_read s"
  by (auto simp: read_write)

end

interpretation kv: kv_store Exists Read Write Erase
  by standard (simp_all add: Exists_iff)

lemma Flush_loop_Cons:
  "Flush_loop ((first, second) # it) db =
     Flush_loop it (case second of None \<Rightarrow> fst (Erase db first) | Some v \<Rightarrow> fst (Write db first v))"
  by (cases second) (simp_all add: case_prod_beta)

lemma Flush_loop_spec:
  "distinct (map fst es) \<Longrightarrow> snd (Flush_loop es db) \<and>
   Read (fst (Flush_loop es db)) = (\<lambda>k. case map_of es k of Some second \<Rightarrow> second | None \<Rightarrow> Read db k)"
proof (induction es arbitrary: db)
  case (Cons e es)
  obtain first second where e: "e = (first, second)" by (cases e)
  have "map_of es first = None" using Cons.prems e by (simp add: map_of_eq_None_iff)
  with Cons show ?case
    by (cases second) (auto simp: e Flush_loop_Cons fun_eq_iff simp del: Flush_loop.simps split: option.splits)
qed (simp add: fun_eq_iff)

lemma Flush_spec:
  "\<exists>db'. Flush (Flushable db changed) = (Flushable db' om_empty, True) \<and> Read db' = Read (Flushable db changed)"
  using Flush_loop_spec [of "entries changed" db]
  by (auto simp: case_prod_beta fun_eq_iff split: option.splits)

lemma Read_Flush [simp]: "Read (fst (Flush s)) = Read s"
proof (cases s)
  case (Flushable db changed)
  with Flush_spec [of db changed] show ?thesis by (auto simp: fun_eq_iff)
qed simp

lemma visible_nil: "visible [] [] k = None"
  by (simp add: visible_def)

section \<open>Iterators deliver the visible entries in order\<close>

text \<open>The order of one direction of iteration.\<close>

locale scan_order =
  fixes before :: "bytes \<Rightarrow> bytes \<Rightarrow> bool"
  assumes before_irrefl: "\<not> before x x"
    and before_trans: "before x y \<Longrightarrow> before y z \<Longrightarrow> before x z"
    and before_total: "x \<noteq> y \<Longrightarrow> before x y \<or> before y x"
begin

definition after :: "bytes \<Rightarrow> bytes \<Rightarrow> bool" where
  "after prev k \<longleftrightarrow> prev = [] \<or> before prev k"

definition merge_inv :: "(bytes \<times> bytes option) list \<Rightarrow> (bytes \<times> bytes) list \<Rightarrow> bytes \<Rightarrow> bool" where
  "merge_inv m p prev \<longleftrightarrow> sorted_wrt before (map fst m) \<and> sorted_wrt before (map fst p) \<and>
     [] \<notin> fst ` set m \<and> [] \<notin> fst ` set p \<and>
     (prev = [] \<or> (\<forall>k \<in> fst ` set m. before prev k) \<and> (\<forall>k \<in> fst ` set p. \<not> before k prev))"

definition step_ok where
  "step_ok m p prev it \<longleftrightarrow>
     (if it_key it = [] then (\<forall>k v. \<not> (after prev k \<and> visible m p k = Some v))
      else merge_inv (it_map it) (it_parent it) (it_key it) \<and> it_prevKey it = it_key it \<and>
        length (it_map it) + length (it_parent it) < length m + length p \<and>
        (\<forall>k v. after prev k \<and> visible m p k = Some v \<longleftrightarrow>
           k = it_key it \<and> v = it_value it \<or> before (it_key it) k \<and> visible (it_map it) (it_parent it) k = Some v))"

lemma sorted_distinct: "sorted_wrt before xs \<Longrightarrow> distinct xs"
  using before_irrefl by (induction xs) auto

lemma before_asym: "before x y \<Longrightarrow> \<not> before y x"
  using before_trans before_irrefl by blast

lemma take_map:
  assumes inv: "merge_inv ((mk, sec) # m) p prev" and le: "p = [] \<or> \<not> before (fst (hd p)) mk"
  shows "merge_inv m p mk" and "after prev mk"
    and "k \<noteq> mk \<Longrightarrow> visible ((mk, sec) # m) p k = Some v \<Longrightarrow> before mk k"
    and "k \<noteq> mk \<Longrightarrow> visible ((mk, sec) # m) p k = visible m p k"
    and "visible ((mk, sec) # m) p mk = sec"
proof -
  have ge: "\<forall>k \<in> fst ` set p. \<not> before k mk"
    using inv le by (cases p) (auto simp: merge_inv_def dest: before_trans)
  show "merge_inv m p mk" "after prev mk"
    using inv ge by (auto simp: merge_inv_def after_def)
  show "visible ((mk, sec) # m) p mk = sec" by (simp add: visible_def)
  assume "k \<noteq> mk"
  then show *: "visible ((mk, sec) # m) p k = visible m p k" by (simp add: visible_def)
  assume "visible ((mk, sec) # m) p k = Some v"
  then have "k \<in> fst ` set m \<or> k \<in> fst ` set p"
    unfolding * by (auto simp: visible_def split: option.splits dest: map_of_SomeD intro: rev_image_eqI)
  then show "before mk k"
    using inv ge before_total [OF \<open>k \<noteq> mk\<close>] by (auto simp: merge_inv_def)
qed

lemma take_parent:
  assumes inv: "merge_inv m ((pk, pv) # p) prev" and lt: "m = [] \<or> before pk (fst (hd m))"
  shows "after prev pk \<Longrightarrow> merge_inv m p pk" and "merge_inv m p prev" and "after prev pk \<or> pk = prev"
    and "k \<noteq> pk \<Longrightarrow> visible m ((pk, pv) # p) k = Some v \<Longrightarrow> before pk k"
    and "k \<noteq> pk \<Longrightarrow> visible m ((pk, pv) # p) k = visible m p k"
    and "visible m ((pk, pv) # p) pk = Some pv"
proof -
  have gt: "\<forall>k \<in> fst ` set m. before pk k"
    using inv lt by (cases m) (auto simp: merge_inv_def dest: before_trans)
  show "after prev pk \<Longrightarrow> merge_inv m p pk" "merge_inv m p prev"
    using inv gt before_asym by (auto simp: merge_inv_def after_def)
  show "after prev pk \<or> pk = prev"
    using inv before_total [of pk prev] by (auto simp: merge_inv_def after_def)
  have "map_of m pk = None" using gt before_irrefl by (auto simp: map_of_eq_None_iff)
  then show "visible m ((pk, pv) # p) pk = Some pv" by (simp add: visible_def)
  assume "k \<noteq> pk"
  then show *: "visible m ((pk, pv) # p) k = visible m p k" by (simp add: visible_def split: option.split)
  assume "visible m ((pk, pv) # p) k = Some v"
  then have "k \<in> fst ` set m \<or> k \<in> fst ` set p"
    unfolding * by (auto simp: visible_def split: option.splits dest: map_of_SomeD intro: rev_image_eqI)
  then show "before pk k"
    using inv gt by (auto simp: merge_inv_def)
qed

lemma after_via:
  "after prev j \<Longrightarrow> before j k \<Longrightarrow> after prev k"
  using before_trans by (auto simp: after_def)

lemma step_ok_cong:
  assumes "step_ok m' p' prev' it" and "length m' + length p' \<le> length m + length p"
    and "\<And>k v. after prev k \<and> visible m p k = Some v \<longleftrightarrow> after prev' k \<and> visible m' p' k = Some v"
  shows "step_ok m p prev it"
  using assms(1,2) unfolding step_ok_def assms(3) by (auto split: if_splits)

lemma merge_loop_step: "merge_inv m p prev \<Longrightarrow> step_ok m p prev (merge_loop before m p prev)"
proof (induction "length m + length p" arbitrary: m p prev rule: less_induct)
  case less
  consider (map) mk sec m' where "m = (mk, sec) # m'" "p = [] \<or> \<not> before (fst (hd p)) mk"
    | (parent) pk pv p' where "p = (pk, pv) # p'" "m = [] \<or> before pk (fst (hd m))"
    | (fin) "m = []" "p = []"
    by (cases m; cases p; cases "before (fst (hd p)) (fst (hd m))") auto
  then show ?case
  proof cases
    case map
    note t = take_map [OF less.prems [unfolded map(1)] map(2), folded map(1)]
    show ?thesis
    proof (cases sec)
      case None
      then have "merge_loop before m p prev = merge_loop before m' p mk"
        using map by (subst merge_loop.simps) simp
      moreover have "step_ok m' p mk (merge_loop before m' p mk)"
        using map(1) t(1) by (intro less.hyps) auto
      moreover have "after prev k \<and> visible m p k = Some v \<longleftrightarrow> after mk k \<and> visible m' p k = Some v" for k v
        using t None less.prems map(1) after_via [OF t(2)] before_irrefl
        by (cases "k = mk") (auto simp: after_def merge_inv_def)
      ultimately show ?thesis
        using map(1) by (simp add: step_ok_cong [of m' p mk])
    next
      case (Some w)
      then have "merge_loop before m p prev =
          \<lparr>it_map = m', it_parent = p, it_key = mk, it_value = w, it_prevKey = mk\<rparr>"
        using map t(2) by (subst merge_loop.simps) (simp add: after_def)
      moreover have "mk \<noteq> []" using less.prems map(1) by (auto simp: merge_inv_def)
      moreover have "after prev k \<and> visible m p k = Some v \<longleftrightarrow>
          k = mk \<and> v = w \<or> before mk k \<and> visible m' p k = Some v" for k v
        using t Some after_via [OF t(2)] before_irrefl by (cases "k = mk") auto
      ultimately show ?thesis using t(1) map(1) by (simp add: step_ok_def)
    qed
  next
    case parent
    note t = take_parent [OF less.prems [unfolded parent(1)] parent(2), folded parent(1)]
    have ne: "pk \<noteq> []" using less.prems parent(1) by (auto simp: merge_inv_def)
    show ?thesis
    proof (cases "after prev pk")
      case True
      then have "merge_loop before m p prev =
          \<lparr>it_map = m, it_parent = p', it_key = pk, it_value = pv, it_prevKey = pk\<rparr>"
        using parent by (subst merge_loop.simps) (auto simp: after_def split: list.splits)
      moreover have "after prev k \<and> visible m p k = Some v \<longleftrightarrow>
          k = pk \<and> v = pv \<or> before pk k \<and> visible m p' k = Some v" for k v
        using t True after_via [OF True] before_irrefl by (cases "k = pk") auto
      ultimately show ?thesis using t(1) [OF True] parent(1) ne by (simp add: step_ok_def)
    next
      case False
      then have "merge_loop before m p prev = merge_loop before m p' prev"
        using parent by (subst merge_loop.simps) (auto simp: after_def split: list.splits)
      moreover have "step_ok m p' prev (merge_loop before m p' prev)"
        using parent(1) t(2) by (intro less.hyps) auto
      moreover have "after prev k \<and> visible m p k = Some v \<longleftrightarrow> after prev k \<and> visible m p' k = Some v" for k v
        using t False by (cases "k = pk") auto
      ultimately show ?thesis
        using parent(1) by (simp add: step_ok_cong [of m p' prev])
    qed
  next
    case fin
    then show ?thesis by (subst merge_loop.simps) (simp add: step_ok_def visible_def)
  qed
qed

lemma collect_spec:
  assumes "step_ok m p prev it" and "it_key it \<noteq> [] \<Longrightarrow> length (it_map it) + length (it_parent it) \<le> n"
    and step: "\<And>it. step it = merge_loop before (it_map it) (it_parent it) (it_prevKey it)"
  shows "sorted_wrt before (map fst (it_collect step n it)) \<and>
    (\<forall>k v. (k, v) \<in> set (it_collect step n it) \<longleftrightarrow> after prev k \<and> visible m p k = Some v)"
  using assms(1,2)
proof (induction n arbitrary: m p prev it)
  case 0
  then show ?case
    by (cases "it_key it = []") (simp_all add: step_ok_def it_Valid_def visible_nil)
next
  case (Suc n)
  show ?case
  proof (cases "it_key it = []")
    case True
    with Suc.prems show ?thesis by (auto simp: step_ok_def it_Valid_def)
  next
    case False
    let ?it = "step it"
    have inv: "merge_inv (it_map it) (it_parent it) (it_key it)" and prev: "it_prevKey it = it_key it"
      using Suc.prems(1) False by (auto simp: step_ok_def)
    then have ok: "step_ok (it_map it) (it_parent it) (it_key it) ?it"
      using merge_loop_step step by simp
    have "it_key ?it \<noteq> [] \<Longrightarrow> length (it_map ?it) + length (it_parent ?it) \<le> n"
      using ok Suc.prems(2) False by (auto simp: step_ok_def)
    note IH = Suc.IH [OF ok this]
    have mem: "\<And>k v. after prev k \<and> visible m p k = Some v \<longleftrightarrow>
        k = it_key it \<and> v = it_value it \<or> (k, v) \<in> set (it_collect step n ?it)"
      using Suc.prems(1) False IH by (simp add: step_ok_def after_def)
    have "\<forall>k \<in> fst ` set (it_collect step n ?it). before (it_key it) k"
      using IH False by (auto simp: after_def)
    with IH mem False show ?thesis by (simp add: it_Valid_def)
  qed
qed

lemma all_spec:
  assumes "merge_inv m p []" and step: "\<And>it. step it = merge_loop before (it_map it) (it_parent it) (it_prevKey it)"
  shows "sorted_wrt before (map fst (it_all step (step (it_init m p)))) \<and>
    (\<forall>k v. (k, v) \<in> set (it_all step (step (it_init m p))) \<longleftrightarrow> visible m p k = Some v)"
proof -
  have "step_ok m p [] (step (it_init m p))"
    using merge_loop_step [OF assms(1)] by (simp add: step it_init_def)
  from collect_spec [OF this _ step] show ?thesis by (simp add: it_all_def after_def)
qed

lemma map_of_scan: "scan_of before P s p \<Longrightarrow> map_of p k = (if P k then Read s k else None)"
proof -
  assume sc: "scan_of before P s p"
  then have "distinct (map fst p)" using sorted_distinct by (auto simp: scan_of_def)
  then have "map_of p k = Some v \<longleftrightarrow> P k \<and> Read s k = Some v" for v
    using sc by (simp add: scan_of_def)
  then show ?thesis by (metis not_None_eq)
qed

lemma flushable_scan:
  assumes p: "scan_of before P db p" and m: "sorted_wrt before (map fst m)"
    and mo: "\<And>k. map_of m k = (if P k then om_lookup changed k else None)"
    and ne: "[] \<notin> fst ` set m" "[] \<notin> fst ` set p"
    and step: "\<And>it. step it = merge_loop before (it_map it) (it_parent it) (it_prevKey it)"
  shows "scan_of before P (Flushable db changed) (it_all step (step (it_init m p)))"
proof -
  have "merge_inv m p []" using p m ne by (simp add: merge_inv_def scan_of_def)
  moreover have "visible m p k = Some v \<longleftrightarrow> P k \<and> Read (Flushable db changed) k = Some v" for k v
    by (auto simp: visible_def mo map_of_scan [OF p] split: option.splits)
  ultimately show ?thesis
    using all_spec [OF _ step] by (simp add: scan_of_def)
qed

end

interpretation fwd: scan_order "(<)"
  by standard auto

interpretation bwd: scan_order "(>)"
  by standard auto

lemma db_key_less: "length k = length k' \<Longrightarrow> db_key k < db_key k' \<longleftrightarrow> k < k'"
  by (simp add: db_key_def2 list_less_append)

lemma db_key_le: "length k = length k' \<Longrightarrow> db_key k \<le> db_key k' \<longleftrightarrow> k \<le> k'"
  using db_key_less [of k' k] by (simp only: not_less [symmetric])

lemma disk_entry_db_key: "length k \<le> MAX_SIZE \<Longrightarrow> disk_entry (db_key k, v) = (k, v)"
  using vec8.roundtrip_nil [of k] by (simp add: disk_entry_def db_key_def list_all_iff)

lemma disk_scan:
  assumes "n \<le> MAX_SIZE" and "\<forall>e \<in> set es. \<exists>k. length k = n \<and> fst e = db_key k"
  obtains ks where "es = map (map_prod db_key id) ks" and "\<forall>e \<in> set ks. length (fst e) = n"
    and "map disk_entry es = ks"
proof -
  have "\<exists>ks. es = map (map_prod db_key id) ks \<and> (\<forall>e \<in> set ks. length (fst e) = n)"
    using assms(2)
  proof (induction es)
    case (Cons e es)
    then obtain ks k where "es = map (map_prod db_key id) ks \<and> (\<forall>e \<in> set ks. length (fst e) = n)"
      "length k = n" "fst e = db_key k" by (metis list.set_intros(1,2))
    then show ?case by (intro exI [of _ "(k, snd e) # ks"]) (simp add: prod_eq_iff)
  qed simp
  then obtain ks where ks: "es = map (map_prod db_key id) ks" "\<forall>e \<in> set ks. length (fst e) = n" by blast
  have "map disk_entry es = ks"
    unfolding ks(1) using ks(2) assms(1) by (induction ks) (auto simp: disk_entry_db_key)
  with ks show thesis by (rule that)
qed

lemma disk_scan_sorted:
  assumes "\<forall>e \<in> set ks. length (fst e) = n"
  shows "sorted_wrt (<) (map fst (map (map_prod db_key id) ks)) \<longleftrightarrow> sorted_wrt (<) (map fst ks)"
  using assms by (induction ks) (auto simp: db_key_less)

lemma Read_len: "keys_len n s \<Longrightarrow> Read s k = Some v \<Longrightarrow> length k = n"
proof (induction s)
  case (LevelDB disk)
  then have "(db_key k, v) \<in> set (entries disk)" by (simp add: in_entries_iff)
  with LevelDB show ?case by fastforce
next
  case (Flushable db changed)
  then show ?case
    by (auto split: option.splits simp: in_entries_iff [symmetric])
qed

lemma scan_keys: "keys_len n s \<Longrightarrow> scan_of before P s es \<Longrightarrow> 0 < n \<Longrightarrow> [] \<notin> fst ` set es"
  using Read_len by (fastforce simp: scan_of_def)

lemma scan_from_spec:
  assumes "0 < n" and "n \<le> MAX_SIZE" and "length key = n"
  shows "keys_len n s \<Longrightarrow> scan_of (<) (\<lambda>k. key \<le> k) s (scan_from s key)"
proof (induction s)
  case (LevelDB disk)
  let ?es = "entries_from (db_key key) disk"
  have "\<forall>e \<in> set ?es. \<exists>k. length k = n \<and> fst e = db_key k"
    using LevelDB by (auto simp: entries_from_def)
  then obtain ks where ks: "?es = map (map_prod db_key id) ks" "\<forall>e \<in> set ks. length (fst e) = n" "map disk_entry ?es = ks"
    using disk_scan [OF assms(2)] by blast
  have "sorted_wrt (<) (map fst ks)"
    using entries_from_sorted [of "db_key key" disk] unfolding ks(1) disk_scan_sorted [OF ks(2)] .
  moreover have "(k, v) \<in> set ks \<longleftrightarrow> key \<le> k \<and> Read (LevelDB disk) k = Some v" for k v
  proof -
    have "(k, v) \<in> set ks \<longleftrightarrow> (db_key k, v) \<in> set ?es" unfolding ks(1) by force
    also have "\<dots> \<longleftrightarrow> db_key key \<le> db_key k \<and> Read (LevelDB disk) k = Some v"
      by (simp add: in_entries_from_iff)
    also have "\<dots> \<longleftrightarrow> key \<le> k \<and> Read (LevelDB disk) k = Some v"
      using Read_len [OF LevelDB, of k v] assms(3) db_key_le [of key k] by auto
    finally show ?thesis .
  qed
  ultimately show ?case using ks(3) by (simp add: scan_of_def)
next
  case (Flushable db changed)
  then have p: "scan_of (<) (\<lambda>k. key \<le> k) db (scan_from db key)" by simp
  have "[] \<notin> fst ` set (entries_from key changed)"
    using Flushable.prems assms(1) by (force simp: entries_from_def)
  then show ?case
    using fwd.flushable_scan [OF p entries_from_sorted map_of_entries_from _ scan_keys [OF _ p assms(1)]] Flushable.prems
    by (simp add: it_Seek_def it_Next_def [abs_def])
qed

lemma scan_of_rev: "scan_of (>) P s (rev es) \<longleftrightarrow> scan_of (<) P s es"
  by (simp add: scan_of_def sorted_wrt_rev rev_map [symmetric])

lemma scan_of_unique: "scan_of (<) P s es \<Longrightarrow> scan_of (<) P s es' \<Longrightarrow> es = es'"
  using fwd.map_of_scan [of P s es] fwd.map_of_scan [of P s es']
  by (intro sorted_map_of_eq) (auto simp: scan_of_def)

lemma scan_LevelDB_first:
  assumes "n \<le> MAX_SIZE" and "keys_len n (LevelDB disk)"
  shows "scan_of (<) (\<lambda>_. True) (LevelDB disk) (map disk_entry (entries disk))"
proof -
  from assms(2) obtain ks where ks: "entries disk = map (map_prod db_key id) ks" "\<forall>e \<in> set ks. length (fst e) = n"
      "map disk_entry (entries disk) = ks"
    using disk_scan [OF assms(1), of "entries disk"] by auto
  have "sorted_wrt (<) (map fst ks)"
    using entries_sorted [of disk] unfolding ks(1) disk_scan_sorted [OF ks(2)] .
  moreover have "(k, v) \<in> set ks \<longleftrightarrow> (db_key k, v) \<in> set (entries disk)" for k v
    unfolding ks(1) by force
  ultimately show ?thesis unfolding ks(3) by (simp add: scan_of_def in_entries_iff)
qed

lemma scan_first_spec:
  assumes "0 < n" and "n \<le> MAX_SIZE"
  shows "keys_len n s \<Longrightarrow> scan_of (<) (\<lambda>_. True) s (scan_first s)"
proof (induction s)
  case (Flushable db changed)
  then have p: "scan_of (<) (\<lambda>_. True) db (scan_first db)" by simp
  have "[] \<notin> fst ` set (entries changed)" using Flushable.prems assms(1) by force
  then show ?case
    using fwd.flushable_scan [OF p entries_sorted _ _ scan_keys [OF _ p assms(1)], of changed] Flushable.prems
    by (simp add: it_SeekToFirst_def it_Next_def [abs_def])
qed (simp add: scan_LevelDB_first [OF assms(2)])

lemma scan_last_spec:
  assumes "0 < n" and "n \<le> MAX_SIZE"
  shows "keys_len n s \<Longrightarrow> scan_of (>) (\<lambda>_. True) s (scan_last s)"
proof (induction s)
  case (LevelDB disk)
  then show ?case using scan_LevelDB_first [OF assms(2)] by (simp add: rev_map [symmetric] scan_of_rev)
next
  case (Flushable db changed)
  then have p: "scan_of (>) (\<lambda>_. True) db (scan_last db)" by simp
  have "[] \<notin> fst ` set (rev (entries changed))" using Flushable.prems assms(1) by force
  moreover have "sorted_wrt (>) (map fst (rev (entries changed)))"
    by (simp add: rev_map [symmetric] sorted_wrt_rev)
  moreover have "map_of (rev (entries changed)) k = om_lookup changed k" for k
    by (subst map_of_inject_set [THEN iffD2, of _ "entries changed"]) (simp_all add: rev_map [symmetric])
  ultimately show ?case
    using bwd.flushable_scan [OF p _ _ _ scan_keys [OF _ p assms(1)], of "rev (entries changed)" changed] Flushable.prems
    by (simp add: it_SeekToLast_def it_Prev_def [abs_def])
qed

lemma keys_len_Write: "keys_len n s \<Longrightarrow> length key = n \<Longrightarrow> keys_len n (fst (Write s key v))"
  by (cases s) (auto dest!: in_entries_updateD in_entries_deleteD)

lemma keys_len_Erase: "keys_len n s \<Longrightarrow> length key = n \<Longrightarrow> keys_len n (fst (Erase s key))"
  by (cases s) (auto dest!: in_entries_updateD in_entries_deleteD)

lemma keys_len_Flush: "keys_len n s \<Longrightarrow> keys_len n (fst (Flush s))"
proof (cases s)
  case (Flushable db changed)
  have "keys_len n db \<Longrightarrow> \<forall>e \<in> set es. length (fst e) = n \<Longrightarrow> keys_len n (fst (Flush_loop es db))" for es
    by (induction es arbitrary: db)
      (auto simp: Flush_loop_Cons keys_len_Write keys_len_Erase simp del: Flush_loop.simps(2) split: option.splits)
  moreover assume "keys_len n s"
  ultimately show ?thesis
    using Flushable Flush_loop_spec [of "entries changed" db] by (simp add: case_prod_beta)
qed simp

section \<open>Main results\<close>

text \<open>
  C19: a flushable cache is a transaction on its parent.  Whatever sequence of writes and erasures a client
  makes on a fresh cache, the parent is untouched until \<open>Flush\<close>; \<open>Flush\<close> succeeds, empties the cache, and
  leaves a parent that reads exactly as if the sequence had been made on it directly.
\<close>

theorem cache_commit:
  "\<exists>changed db'.
     fold apply_op ops (Flushable db om_empty) = Flushable db changed \<and>
     Flush (Flushable db changed) = (Flushable db' om_empty, True) \<and>
     Read db' = Read (fold apply_op ops db)"
proof -
  have "\<exists>changed. fold apply_op ops (Flushable db c) = Flushable db changed \<and>
      (Read (Flushable db c) = Read s \<longrightarrow> Read (Flushable db changed) = Read (fold apply_op ops s))" for c s
  proof (induction ops arbitrary: c s)
    case (Cons op ops)
    obtain c' where c': "apply_op op (Flushable db c) = Flushable db c'" by (cases op) auto
    have "Read (Flushable db c') = Read (apply_op op s)" if "Read (Flushable db c) = Read s"
      unfolding c' [symmetric] using that
      by (cases op) (simp_all del: Read.simps Write.simps Erase.simps)
    with Cons.IH [of c' "apply_op op s"] c' show ?case by (auto simp del: Read.simps)
  qed auto
  from this [of om_empty db] obtain changed where
    "fold apply_op ops (Flushable db om_empty) = Flushable db changed"
    "Read (Flushable db changed) = Read (fold apply_op ops db)" by (auto simp: fun_eq_iff)
  with Flush_spec [of db changed] show ?thesis by auto
qed

text \<open>
  C23: seeking in a storage of any number of layers and iterating to the end delivers, in strictly ascending
  order and without omission or repetition, exactly the entries with a key not below the sought one that a
  read returns, provided all keys of the storage have one length (as the keys of the event, result, bet
  and mapping databases have).
\<close>

theorem Seek_delivers_visible:
  assumes "keys_len n s" and "0 < n" and "n \<le> MAX_SIZE" and "length key = n"
  shows "sorted_wrt (<) (map fst (scan_from s key)) \<and>
    (\<forall>k v. (k, v) \<in> set (scan_from s key) \<longleftrightarrow> key \<le> k \<and> Read s k = Some v)"
  using scan_from_spec [OF assms(2,3,4,1)] by (simp add: scan_of_def)

theorem Seek_delivers_visible_witness:
  "sorted_wrt (<) (map fst (scan_from (Flushable (LevelDB om_empty) (om_update [1, 2] (Some [9]) om_empty)) [1, 1])) \<and>
   (\<forall>k v. (k, v) \<in> set (scan_from (Flushable (LevelDB om_empty) (om_update [1, 2] (Some [9]) om_empty)) [1, 1]) \<longleftrightarrow>
     [1, 1] \<le> k \<and> Read (Flushable (LevelDB om_empty) (om_update [1, 2] (Some [9]) om_empty)) k = Some v)"
  by (rule Seek_delivers_visible [of 2]) (simp_all add: entries_update MAX_SIZE_def)

text \<open>
  C30: iterating backwards from the last entry delivers the entries of the forward iteration in reverse, provided all keys of the storage have one length.
\<close>

theorem SeekToLast_reverses_SeekToFirst:
  assumes "keys_len n s" and "0 < n" and "n \<le> MAX_SIZE"
  shows "scan_last s = rev (scan_first s)"
proof -
  have "scan_of (<) (\<lambda>_. True) s (rev (scan_last s))"
    using scan_last_spec [OF assms(2,3,1)] scan_of_rev [of _ s "rev (scan_last s)"] by simp
  from scan_of_unique [OF this scan_first_spec [OF assms(2,3,1)]] show ?thesis by (simp add: rev_swap)
qed

theorem SeekToLast_reverses_SeekToFirst_witness:
  "scan_last (Flushable (LevelDB (om_update (db_key [3]) [7] om_empty)) (om_update [2] (Some [9]) om_empty)) =
   rev (scan_first (Flushable (LevelDB (om_update (db_key [3]) [7] om_empty)) (om_update [2] (Some [9]) om_empty)))"
  by (rule SeekToLast_reverses_SeekToFirst [of 1]) (auto simp: entries_update MAX_SIZE_def)

end
