(* ===== verification/BetDB.thy ===== *)
theory BetDB
  imports DbCodec FlushableStorage
begin

text \<open>
  The typed databases of betting/bet_db.h.  \<open>BettingDB_*\<close> are the methods of \<open>CBettingDB\<close> over the
  operations of a byte storage; \<open>tdb_*\<close> are the same methods over a finite map of typed keys and values,
  which is what the handlers of the later theories use.  The locale \<open>betting_db\<close> proves, from the
  storage contract and the codec laws, that the two agree (a simulation with relation \<open>represents\<close>); it is
  interpreted for the databases of the betting view.  \<open>CBettingsView\<close> collects the databases and their
  undo and failed-transaction helpers.
\<close>

section \<open>CBettingDB over a byte storage\<close>

definition BettingDB_Exists :: "('s \<Rightarrow> bytes \<Rightarrow> bool) \<Rightarrow> ('k \<Rightarrow> bytes) \<Rightarrow> 's \<Rightarrow> 'k \<Rightarrow> bool" where
  "BettingDB_Exists dbExists DbTypeToBytes db key = dbExists db (DbTypeToBytes key)"

definition BettingDB_Write ::
  "('s \<Rightarrow> bytes \<Rightarrow> bool) \<Rightarrow> ('s \<Rightarrow> bytes \<Rightarrow> bytes \<Rightarrow> 's \<times> bool) \<Rightarrow> ('k \<Rightarrow> bytes) \<Rightarrow> ('v \<Rightarrow> bytes) \<Rightarrow>
   's \<Rightarrow> 'k \<Rightarrow> 'v \<Rightarrow> 's \<times> bool" where
  "BettingDB_Write dbExists dbWrite keyToBytes valueToBytes db key val =
     (let vKey = keyToBytes key; vValue = valueToBytes val in
      if dbExists db vKey then (db, False) else dbWrite db vKey vValue)"

definition BettingDB_Update ::
  "('s \<Rightarrow> bytes \<Rightarrow> bool) \<Rightarrow> ('s \<Rightarrow> bytes \<Rightarrow> bytes \<Rightarrow> 's \<times> bool) \<Rightarrow> ('k \<Rightarrow> bytes) \<Rightarrow> ('v \<Rightarrow> bytes) \<Rightarrow>
   's \<Rightarrow> 'k \<Rightarrow> 'v \<Rightarrow> 's \<times> bool" where
  "BettingDB_Update dbExists dbWrite keyToBytes valueToBytes db key val =
     (let vKey = keyToBytes key; vValue = valueToBytes val in
      if \<not> dbExists db vKey then (db, False) else dbWrite db vKey vValue)"

definition BettingDB_Erase ::
  "('s \<Rightarrow> bytes \<Rightarrow> bool) \<Rightarrow> ('s \<Rightarrow> bytes \<Rightarrow> 's \<times> bool) \<Rightarrow> ('k \<Rightarrow> bytes) \<Rightarrow> 's \<Rightarrow> 'k \<Rightarrow> 's \<times> bool" where
  "BettingDB_Erase dbExists dbErase keyToBytes db key =
     (let vKey = keyToBytes key in
      if \<not> dbExists db vKey then (db, False) else dbErase db vKey)"

text \<open>\<open>None\<close> is the failed assertion that the stored bytes are one value and nothing more.\<close>

definition BytesToDbType :: "'v reader \<Rightarrow> bytes \<Rightarrow> 'v option" where
  "BytesToDbType rd bytes = do { (val, stream) \<leftarrow> rd bytes; if stream \<noteq> [] then None else Some val }"

text \<open>\<open>Some None\<close> is \<open>return false\<close>: the key is not in the database.\<close>

definition BettingDB_Read ::
  "('s \<Rightarrow> bytes \<Rightarrow> bytes option) \<Rightarrow> ('k \<Rightarrow> bytes) \<Rightarrow> 'v reader \<Rightarrow> 's \<Rightarrow> 'k \<Rightarrow> 'v option option" where
  "BettingDB_Read dbRead keyToBytes rd db key =
     (case dbRead db (keyToBytes key) of
        None \<Rightarrow> Some None
      | Some vValue \<Rightarrow> map_option Some (BytesToDbType rd vValue))"

section \<open>CBettingDB over typed keys and values\<close>

definition tdb_Exists :: "('k::linorder, 'v) omap \<Rightarrow> 'k \<Rightarrow> bool" where
  "tdb_Exists db key \<longleftrightarrow> om_lookup db key \<noteq> None"

definition tdb_Write :: "('k::linorder, 'v) omap \<Rightarrow> 'k \<Rightarrow> 'v \<Rightarrow> ('k, 'v) omap \<times> bool" where
  "tdb_Write db key val = (if tdb_Exists db key then (db, False) else (om_update key val db, True))"

definition tdb_Update :: "('k::linorder, 'v) omap \<Rightarrow> 'k \<Rightarrow> 'v \<Rightarrow> ('k, 'v) omap \<times> bool" where
  "tdb_Update db key val = (if \<not> tdb_Exists db key then (db, False) else (om_update key val db, True))"

definition tdb_Erase :: "('k::linorder, 'v) omap \<Rightarrow> 'k \<Rightarrow> ('k, 'v) omap \<times> bool" where
  "tdb_Erase db key = (if \<not> tdb_Exists db key then (db, False) else (om_delete key db, True))"

definition tdb_Read :: "('k::linorder, 'v) omap \<Rightarrow> 'k \<Rightarrow> 'v option" where
  "tdb_Read db key = om_lookup db key"

named_theorems tdb_defs

declare tdb_Exists_def [tdb_defs] tdb_Write_def [tdb_defs] tdb_Update_def [tdb_defs]
  tdb_Erase_def [tdb_defs] tdb_Read_def [tdb_defs]

text \<open>A client's sequence of changes, on the byte storage and on the typed view.\<close>

datatype ('k, 'v) db_op = DbWrite 'k 'v | DbUpdate 'k 'v | DbErase 'k

fun BettingDB_run ::
  "('s \<Rightarrow> bytes \<Rightarrow> bool) \<Rightarrow> ('s \<Rightarrow> bytes \<Rightarrow> bytes \<Rightarrow> 's \<times> bool) \<Rightarrow> ('s \<Rightarrow> bytes \<Rightarrow> 's \<times> bool) \<Rightarrow>
   ('k \<Rightarrow> bytes) \<Rightarrow> ('v \<Rightarrow> bytes) \<Rightarrow> ('k, 'v) db_op list \<Rightarrow> 's \<Rightarrow> 's \<times> bool list" where
  "BettingDB_run ex wr er kb vb [] s = (s, [])"
| "BettingDB_run ex wr er kb vb (op # ops) s =
     (let (s, r) = (case op of
          DbWrite k v \<Rightarrow> BettingDB_Write ex wr kb vb s k v
        | DbUpdate k v \<Rightarrow> BettingDB_Update ex wr kb vb s k v
        | DbErase k \<Rightarrow> BettingDB_Erase ex er kb s k);
        (s, rs) = BettingDB_run ex wr er kb vb ops s
      in (s, r # rs))"

fun tdb_run :: "('k::linorder, 'v) db_op list \<Rightarrow> ('k, 'v) omap \<Rightarrow> ('k, 'v) omap \<times> bool list" where
  "tdb_run [] db = (db, [])"
| "tdb_run (op # ops) db =
     (let (db, r) = (case op of
          DbWrite k v \<Rightarrow> tdb_Write db k v
        | DbUpdate k v \<Rightarrow> tdb_Update db k v
        | DbErase k \<Rightarrow> tdb_Erase db k);
        (db, rs) = tdb_run ops db
      in (db, r # rs))"

fun op_values :: "('k, 'v) db_op \<Rightarrow> 'v list" where
  "op_values (DbWrite k v) = [v]"
| "op_values (DbUpdate k v) = [v]"
| "op_values (DbErase k) = []"

text \<open>The storage reads as the typed database: every key has the bytes of its value, or nothing.\<close>

definition represents ::
  "('s \<Rightarrow> bytes \<Rightarrow> bytes option) \<Rightarrow> ('k::linorder \<Rightarrow> bytes) \<Rightarrow> ('v \<Rightarrow> bytes) \<Rightarrow> ('v \<Rightarrow> bool) \<Rightarrow>
   's \<Rightarrow> ('k, 'v) omap \<Rightarrow> bool" where
  "represents rdb kb vb vok s db \<longleftrightarrow>
     (\<forall>k. rdb s (kb k) = map_option vb (om_lookup db k)) \<and> (\<forall>k v. om_lookup db k = Some v \<longrightarrow> vok v)"

section \<open>CBettingsView\<close>

text \<open>
  The typed view of all databases.  The key string LastHeight of the undo database is the separate
  field \<open>lastHeight\<close>: its 11 bytes are never the 32 bytes of an undo key.
\<close>

record CBettingsView =
  mappings :: "(MappingKey, bytes) omap"
  results :: "(EventKey, CPeerlessResultDB) omap"
  events :: "(EventKey, CPeerlessExtendedEventDB) omap"
  bets :: "(PeerlessBetKey, CPeerlessBetDB) omap"
  fieldEvents :: "(EventKey, CFieldEventDB) omap"
  fieldResults :: "(EventKey, CFieldResultDB) omap"
  fieldBets :: "(PeerlessBetKey, CFieldBetDB) omap"
  undos :: "(BettingUndoKey, CBettingUndoDB list) omap"
  lastHeight :: "u32 option"
  payoutsInfo :: "(PeerlessBetKey, CPayoutInfoDB) omap"
  quickGamesBets :: "(PeerlessBetKey, CQuickGamesBetDB) omap"
  chainGamesLottoEvents :: "(EventKey, CChainGamesEventDB) omap"
  chainGamesLottoBets :: "(PeerlessBetKey, CChainGamesBetDB) omap"
  chainGamesLottoResults :: "(EventKey, CChainGamesResultDB) omap"
  failedBettingTxs :: "(BettingUndoKey, unit) omap"

definition SetLastHeight :: "u32 \<Rightarrow> CBettingsView \<Rightarrow> CBettingsView" where
  "SetLastHeight height view = view\<lparr>lastHeight := Some height\<rparr>"

definition GetLastHeight :: "CBettingsView \<Rightarrow> u32" where
  "GetLastHeight view = (case lastHeight view of None \<Rightarrow> 0 | Some height \<Rightarrow> height)"

text \<open>\<open>None\<close> is the failed assertion that the key is new.\<close>

definition SaveBettingUndo :: "BettingUndoKey \<Rightarrow> CBettingUndoDB list \<Rightarrow> CBettingsView \<Rightarrow> CBettingsView option" where
  "SaveBettingUndo key vUndos view =
     (if tdb_Exists (undos view) key then None
      else Some (view\<lparr>undos := fst (tdb_Write (undos view) key vUndos)\<rparr>))"

definition EraseBettingUndo :: "BettingUndoKey \<Rightarrow> CBettingsView \<Rightarrow> CBettingsView \<times> bool" where
  "EraseBettingUndo key view = (let (db, ok) = tdb_Erase (undos view) key in (view\<lparr>undos := db\<rparr>, ok))"

definition GetBettingUndo :: "BettingUndoKey \<Rightarrow> CBettingsView \<Rightarrow> CBettingUndoDB list" where
  "GetBettingUndo key view = (case tdb_Read (undos view) key of Some vUndos \<Rightarrow> vUndos | None \<Rightarrow> [])"

definition ExistsBettingUndo :: "BettingUndoKey \<Rightarrow> CBettingsView \<Rightarrow> bool" where
  "ExistsBettingUndo key view = tdb_Exists (undos view) key"

definition SaveFailedTx :: "BettingUndoKey \<Rightarrow> CBettingsView \<Rightarrow> CBettingsView option" where
  "SaveFailedTx key view =
     (if tdb_Exists (failedBettingTxs view) key then None
      else Some (view\<lparr>failedBettingTxs := fst (tdb_Write (failedBettingTxs view) key ())\<rparr>))"

definition ExistFailedTx :: "BettingUndoKey \<Rightarrow> CBettingsView \<Rightarrow> bool" where
  "ExistFailedTx key view = tdb_Exists (failedBettingTxs view) key"

definition EraseFailedTx :: "BettingUndoKey \<Rightarrow> CBettingsView \<Rightarrow> CBettingsView" where
  "EraseFailedTx key view = view\<lparr>failedBettingTxs := fst (tdb_Erase (failedBettingTxs view) key)\<rparr>"

subsection \<open>The storages of a view\<close>

record CBettingsStorage =
  st_mappings :: storage
  st_results :: storage
  st_events :: storage
  st_bets :: storage
  st_fieldEvents :: storage
  st_fieldResults :: storage
  st_fieldBets :: storage
  st_undos :: storage
  st_payoutsInfo :: storage
  st_quickGamesBets :: storage
  st_chainGamesLottoEvents :: storage
  st_chainGamesLottoBets :: storage
  st_chainGamesLottoResults :: storage
  st_failedBettingTxs :: storage

text \<open>The copy constructor makes a view of empty caches over the storages of another view.\<close>

definition CBettingsView_cache :: "CBettingsStorage \<Rightarrow> CBettingsStorage" where
  "CBettingsView_cache phr =
     \<lparr>st_mappings = Flushable (st_mappings phr) om_empty,
      st_results = Flushable (st_results phr) om_empty,
      st_events = Flushable (st_events phr) om_empty,
      st_bets = Flushable (st_bets phr) om_empty,
      st_fieldEvents = Flushable (st_fieldEvents phr) om_empty,
      st_fieldResults = Flushable (st_fieldResults phr) om_empty,
      st_fieldBets = Flushable (st_fieldBets phr) om_empty,
      st_undos = Flushable (st_undos phr) om_empty,
      st_payoutsInfo = Flushable (st_payoutsInfo phr) om_empty,
      st_quickGamesBets = Flushable (st_quickGamesBets phr) om_empty,
      st_chainGamesLottoEvents = Flushable (st_chainGamesLottoEvents phr) om_empty,
      st_chainGamesLottoBets = Flushable (st_chainGamesLottoBets phr) om_empty,
      st_chainGamesLottoResults = Flushable (st_chainGamesLottoResults phr) om_empty,
      st_failedBettingTxs = Flushable (st_failedBettingTxs phr) om_empty\<rparr>"

text \<open>
  The conjunction of the flushes, evaluated from the left until one fails.  The last statement of the
  method follows the \<open>return\<close> and is never executed: the failed transactions are not flushed.
\<close>

definition CBettingsView_Flush :: "CBettingsStorage \<Rightarrow> CBettingsStorage \<times> bool" where
  "CBettingsView_Flush v =
     (let (s, ok) = Flush (st_mappings v); v = v\<lparr>st_mappings := s\<rparr> in if \<not> ok then (v, False) else
      let (s, ok) = Flush (st_results v); v = v\<lparr>st_results := s\<rparr> in if \<not> ok then (v, False) else
      let (s, ok) = Flush (st_events v); v = v\<lparr>st_events := s\<rparr> in if \<not> ok then (v, False) else
      let (s, ok) = Flush (st_bets v); v = v\<lparr>st_bets := s\<rparr> in if \<not> ok then (v, False) else
      let (s, ok) = Flush (st_fieldEvents v); v = v\<lparr>st_fieldEvents := s\<rparr> in if \<not> ok then (v, False) else
      let (s, ok) = Flush (st_fieldResults v); v = v\<lparr>st_fieldResults := s\<rparr> in if \<not> ok then (v, False) else
      let (s, ok) = Flush (st_fieldBets v); v = v\<lparr>st_fieldBets := s\<rparr> in if \<not> ok then (v, False) else
      let (s, ok) = Flush (st_undos v); v = v\<lparr>st_undos := s\<rparr> in if \<not> ok then (v, False) else
      let (s, ok) = Flush (st_payoutsInfo v); v = v\<lparr>st_payoutsInfo := s\<rparr> in if \<not> ok then (v, False) else
      let (s, ok) = Flush (st_quickGamesBets v); v = v\<lparr>st_quickGamesBets := s\<rparr> in if \<not> ok then (v, False) else
      let (s, ok) = Flush (st_chainGamesLottoEvents v); v = v\<lparr>st_chainGamesLottoEvents := s\<rparr> in
        if \<not> ok then (v, False) else
      let (s, ok) = Flush (st_chainGamesLottoBets v); v = v\<lparr>st_chainGamesLottoBets := s\<rparr> in
        if \<not> ok then (v, False) else
      let (s, ok) = Flush (st_chainGamesLottoResults v); v = v\<lparr>st_chainGamesLottoResults := s\<rparr> in (v, ok))"

subsection \<open>Pruning of undo data\<close>

definition lastHeightKey :: bytes where
  "lastHeightKey = ser_vector ser_writedata8 [76, 97, 115, 116, 72, 101, 105, 103, 104, 116]"

definition unser_uint256 :: "uint256 reader" where
  "unser_uint256 s = do { (x, s) \<leftarrow> be_read 32 s; Some (of_nat x, s) }"

text \<open>
  The loop over the iterator: the keys to delete.  \<open>None\<close> is a failed assertion of \<open>BytesToDbType\<close>, or
  the access \<open>vUndos[0]\<close> to an empty vector.
\<close>

fun PruneOlderUndos_loop :: "int \<Rightarrow> u32 \<Rightarrow> (bytes \<times> bytes) list \<Rightarrow> uint256 list option" where
  "PruneOlderUndos_loop v3 height [] = Some []"
| "PruneOlderUndos_loop v3 height ((k, v) # it) =
     (if k = lastHeightKey then PruneOlderUndos_loop v3 height it
      else do {
        key \<leftarrow> BytesToDbType unser_uint256 k;
        vUndos \<leftarrow> BytesToDbType (unser_vector (unser_CBettingUndoDB v3)) v;
        keys \<leftarrow> PruneOlderUndos_loop v3 height it;
        (case vUndos of [] \<Rightarrow> None
         | u # _ \<Rightarrow> Some (if undo_height u < height then key # keys else keys)) })"

definition PruneOlderUndos :: "int \<Rightarrow> u32 \<Rightarrow> storage \<Rightarrow> storage option" where
  "PruneOlderUndos v3 height db = do {
     vKeysToDelete \<leftarrow> PruneOlderUndos_loop v3 height (scan_from db []);
     Some (fold (\<lambda>key db. fst (BettingDB_Erase Exists Erase ser_uint256 db key)) vKeysToDelete db) }"

text \<open>
  \<open>committed s s'\<close>: the pending changes of \<open>s\<close> are in the parent of \<open>s'\<close> and its cache is empty.
  \<open>stale\<close>: the bytes of an undo vector whose first record is below a height.
\<close>

definition committed :: "storage \<Rightarrow> storage \<Rightarrow> bool" where
  "committed s s' =
     (case s of LevelDB disk \<Rightarrow> s' = s
      | Flushable db changed \<Rightarrow> \<exists>db'. s' = Flushable db' om_empty \<and> Read db' = Read s)"

definition stale :: "int \<Rightarrow> u32 \<Rightarrow> bytes \<Rightarrow> bool" where
  "stale v3 height v \<longleftrightarrow> (\<exists>u us. BytesToDbType (unser_vector (unser_CBettingUndoDB v3)) v = Some (u # us) \<and>
     undo_height u < height)"

section \<open>The typed databases are a faithful view of the byte storage\<close>

locale betting_db = kv_store kv_exists kv_read kv_write kv_erase + val: codec wr rd vok
  for kv_exists :: "'s \<Rightarrow> bytes \<Rightarrow> bool" and kv_read and kv_write and kv_erase
    and wr :: "'v \<Rightarrow> bytes" and rd and vok +
  fixes kb :: "'k::linorder \<Rightarrow> bytes"
  assumes key_inj: "kb k = kb k' \<longleftrightarrow> k = k'"
begin

lemma represents_Exists:
  "represents kv_read kb wr vok s db \<Longrightarrow> BettingDB_Exists kv_exists kb s k \<longleftrightarrow> tdb_Exists db k"
  by (simp add: represents_def BettingDB_Exists_def exists_iff tdb_Exists_def)

lemma represents_Write:
  assumes "represents kv_read kb wr vok s db" and "vok v"
  shows "represents kv_read kb wr vok (fst (BettingDB_Write kv_exists kv_write kb wr s k v)) (fst (tdb_Write db k v)) \<and>
    snd (BettingDB_Write kv_exists kv_write kb wr s k v) = snd (tdb_Write db k v)"
  using assms represents_Exists [OF assms(1), of k]
  by (auto simp: BettingDB_Write_def BettingDB_Exists_def tdb_Write_def represents_def read_write write_ok key_inj)

lemma represents_Update:
  assumes "represents kv_read kb wr vok s db" and "vok v"
  shows "represents kv_read kb wr vok (fst (BettingDB_Update kv_exists kv_write kb wr s k v)) (fst (tdb_Update db k v)) \<and>
    snd (BettingDB_Update kv_exists kv_write kb wr s k v) = snd (tdb_Update db k v)"
  using assms represents_Exists [OF assms(1), of k]
  by (auto simp: BettingDB_Update_def BettingDB_Exists_def tdb_Update_def represents_def read_write write_ok key_inj)

lemma represents_Erase:
  assumes "represents kv_read kb wr vok s db"
  shows "represents kv_read kb wr vok (fst (BettingDB_Erase kv_exists kv_erase kb s k)) (fst (tdb_Erase db k)) \<and>
    snd (BettingDB_Erase kv_exists kv_erase kb s k) = snd (tdb_Erase db k)"
  using assms represents_Exists [OF assms(1), of k]
  by (auto simp: BettingDB_Erase_def BettingDB_Exists_def tdb_Erase_def represents_def read_erase erase_ok key_inj)

lemma represents_Read:
  assumes "represents kv_read kb wr vok s db"
  shows "BettingDB_Read kv_read kb rd s k = Some (tdb_Read db k)"
  using assms
  by (cases "om_lookup db k")
    (auto simp: BettingDB_Read_def tdb_Read_def represents_def BytesToDbType_def val.roundtrip_nil)

lemma run_refines:
  assumes "represents kv_read kb wr vok s db" and "\<forall>op \<in> set ops. list_all vok (op_values op)"
  shows "represents kv_read kb wr vok (fst (BettingDB_run kv_exists kv_write kv_erase kb wr ops s)) (fst (tdb_run ops db)) \<and>
    snd (BettingDB_run kv_exists kv_write kv_erase kb wr ops s) = snd (tdb_run ops db)"
  using assms
proof (induction ops arbitrary: s db)
  case (Cons op ops)
  let ?s = "case op of DbWrite k v \<Rightarrow> BettingDB_Write kv_exists kv_write kb wr s k v
    | DbUpdate k v \<Rightarrow> BettingDB_Update kv_exists kv_write kb wr s k v
    | DbErase k \<Rightarrow> BettingDB_Erase kv_exists kv_erase kb s k"
  let ?db = "case op of DbWrite k v \<Rightarrow> tdb_Write db k v | DbUpdate k v \<Rightarrow> tdb_Update db k v | DbErase k \<Rightarrow> tdb_Erase db k"
  have "represents kv_read kb wr vok (fst ?s) (fst ?db) \<and> snd ?s = snd ?db"
    using Cons.prems represents_Write represents_Update represents_Erase by (cases op) auto
  with Cons.IH [of "fst ?s" "fst ?db"] Cons.prems(2) show ?case
    by (auto simp: case_prod_beta)
qed simp

end

interpretation eventsDB: betting_db Exists Read Write Erase
  "ser_CPeerlessExtendedEventDB v3" "unser_CPeerlessExtendedEventDB v3" "event_ok v3" ser_EventKey for v3
  by standard (simp add: ser_EventKey_def ser32be.ser_inj)

interpretation fieldEventsDB: betting_db Exists Read Write Erase
  ser_CFieldEventDB unser_CFieldEventDB fieldEvent_ok ser_EventKey
  by standard (simp add: ser_EventKey_def ser32be.ser_inj)

interpretation resultsDB: betting_db Exists Read Write Erase
  ser_CPeerlessResultDB unser_CPeerlessResultDB "\<lambda>_. True" ser_EventKey
  by standard (simp add: ser_EventKey_def ser32be.ser_inj)

interpretation mappingsDB: betting_db Exists Read Write Erase
  ser_CMappingDB unser_CMappingDB "\<lambda>s. length s \<le> MAX_SIZE" ser_MappingKey
  by standard (auto simp: ser_MappingKey_def ser32be.ser_inj prod_eq_iff)

interpretation undosDB: betting_db Exists Read Write Erase
  "ser_vector (ser_CBettingUndoDB v3)" "unser_vector (unser_CBettingUndoDB v3)"
  "\<lambda>v. length v \<le> MAX_SIZE \<and> list_all (undo_ok v3) v" ser_uint256 for v3
  by standard (simp add: ser_uint256_inj)

interpretation uint256c: canonical_codec ser_uint256 unser_uint256 "\<lambda>_. True"
  using be_word_codec [where 'w = 256, of 32]
  by (simp add: ser_uint256_def [abs_def] unser_uint256_def [abs_def])

lemma BytesToDbType_uint256: "BytesToDbType unser_uint256 k = Some key \<longleftrightarrow> k = ser_uint256 key"
  using uint256c.unser_iff [of k key "[]"]
  by (auto simp: BytesToDbType_def split: bind_splits if_splits)

lemma Flush_committed: "\<exists>s'. Flush s = (s', True) \<and> committed s s'"
proof (cases s)
  case (Flushable db changed)
  with Flush_spec [of db changed] show ?thesis by (auto simp: committed_def simp del: Flush.simps Read.simps)
qed (simp add: committed_def)

lemma PruneOlderUndos_loop_keys:
  "PruneOlderUndos_loop v3 height it = Some keys \<Longrightarrow> key \<in> set keys \<Longrightarrow>
   \<exists>v. (ser_uint256 key, v) \<in> set it \<and> stale v3 height v"
proof (induction it arbitrary: keys)
  case (Cons e it)
  obtain k v where e: "e = (k, v)" by (cases e)
  show ?case
  proof (cases "k = lastHeightKey")
    case True
    with Cons.prems(1) have "PruneOlderUndos_loop v3 height it = Some keys" by (simp add: e)
    from Cons.IH [OF this Cons.prems(2)] show ?thesis by auto
  next
    case False
    with Cons.prems(1) obtain key' u us keys' where *: "BytesToDbType unser_uint256 k = Some key'"
      "BytesToDbType (unser_vector (unser_CBettingUndoDB v3)) v = Some (u # us)"
      "PruneOlderUndos_loop v3 height it = Some keys'" "keys = (if undo_height u < height then key' # keys' else keys')"
      by (auto simp: e split: bind_splits list.splits)
    show ?thesis
    proof (cases "key \<in> set keys'")
      case True
      from Cons.IH [OF *(3) True] show ?thesis by auto
    next
      case False
      with Cons.prems(2) *(4) have "key = key'" "undo_height u < height" by (auto split: if_splits)
      with *(1,2) show ?thesis by (auto simp: e BytesToDbType_uint256 stale_def)
    qed
  qed
qed simp

lemma Read_erase_all:
  "Read (fold (\<lambda>key db. fst (BettingDB_Erase Exists Erase ser_uint256 db key)) keys db) k =
     (if k \<in> ser_uint256 ` set keys then None else Read db k)"
proof (induction keys arbitrary: db)
  case (Cons key keys)
  have "Read (fst (BettingDB_Erase Exists Erase ser_uint256 db key)) = (Read db)(ser_uint256 key := None)"
    by (auto simp: BettingDB_Erase_def Exists_iff fun_eq_iff Let_def)
  with Cons show ?case by auto
qed simp


lemma merge_loop_nil:
  "merge_loop before [] [] prevKey = \<lparr>it_map = [], it_parent = [], it_key = [], it_value = [], it_prevKey = prevKey\<rparr>"
  "merge_loop before [] ((pkey, pvalue) # p) prevKey =
     (if prevKey = [] \<or> before prevKey pkey then
        \<lparr>it_map = [], it_parent = p, it_key = pkey, it_value = pvalue, it_prevKey = pkey\<rparr>
      else merge_loop before [] p prevKey)"
  by (subst merge_loop.simps; simp)+

lemma lastHeightKey_eq: "lastHeightKey = [10, 76, 97, 115, 116, 72, 101, 105, 103, 104, 116]"
  by (simp add: lastHeightKey_def ser_vector_def WriteCompactSize_def ser_writedata8_def)

lemma scan_mixed:
  assumes "ser_uint256 key < lastHeightKey"
  shows "scan_from (Flushable (LevelDB (om_update (db_key (ser_uint256 key)) v
    (om_update (db_key lastHeightKey) h om_empty))) om_empty) [] = [(lastHeightKey, h)]"
proof -
  let ?k = "ser_uint256 key"
  have dk: "db_key [] = [0]" "db_key lastHeightKey = 11 # lastHeightKey" "db_key ?k = 32 # ?k"
    by (simp_all add: db_key_def2 WriteCompactSize_def ser_writedata8_def lastHeightKey_eq)
  have len: "length lastHeightKey = 11" by (simp add: lastHeightKey_eq)
  have p: "scan_from (LevelDB (om_update (db_key ?k) v (om_update (db_key lastHeightKey) h om_empty))) [] =
      [(lastHeightKey, h), (?k, v)]"
    using disk_entry_db_key [of lastHeightKey h] disk_entry_db_key [of ?k v]
    by (simp add: entries_from_def entries_update dk MAX_SIZE_def len)
  have ne: "lastHeightKey \<noteq> []" by (simp add: lastHeightKey_eq)
  show ?thesis
    using ne less_not_sym [OF assms] unfolding scan_from.simps(2) p
    by (simp add: it_Seek_def it_all_def it_Next_def it_init_def entries_from_def merge_loop_nil it_Valid_def)
qed

section \<open>Main results\<close>

text \<open>
  C17: the typed event database is a faithful view of the bytes.  Run any sequence of \<open>Write\<close>, \<open>Update\<close> and
  \<open>Erase\<close> calls of \<open>CBettingDB\<close> on a storage of any number of cache layers and on the typed map it
  represents: every call returns the same success flag, and afterwards every read of the storage decodes
  (its assertion holds) to what the typed map has.
\<close>

theorem events_db_refines:
  assumes "represents Read ser_EventKey (ser_CPeerlessExtendedEventDB v3) (event_ok v3) s db"
    and "\<forall>op \<in> set ops. list_all (event_ok v3) (op_values op)"
    and "BettingDB_run Exists Write Erase ser_EventKey (ser_CPeerlessExtendedEventDB v3) ops s = (s', rs)"
    and "tdb_run ops db = (db', rs')"
  shows "rs = rs' \<and> (\<forall>key. BettingDB_Read Read ser_EventKey (unser_CPeerlessExtendedEventDB v3) s' key = Some (tdb_Read db' key))"
  using eventsDB.run_refines [OF assms(1,2)] assms(3,4) eventsDB.represents_Read by auto

theorem events_db_refines_witness:
  "[True, False] = [True, False] \<and>
   (\<forall>key. BettingDB_Read Read ser_EventKey (unser_CPeerlessExtendedEventDB 100)
      (fst (BettingDB_run Exists Write Erase ser_EventKey (ser_CPeerlessExtendedEventDB 100)
        [DbWrite 7 new_CPeerlessExtendedEventDB, DbErase 8] (Flushable (LevelDB om_empty) om_empty))) key =
      Some (tdb_Read (om_update 7 new_CPeerlessExtendedEventDB om_empty) key))"
proof (rule events_db_refines [where db = om_empty and ops = "[DbWrite 7 new_CPeerlessExtendedEventDB, DbErase 8]"])
  show "BettingDB_run Exists Write Erase ser_EventKey (ser_CPeerlessExtendedEventDB 100)
      [DbWrite 7 new_CPeerlessExtendedEventDB, DbErase 8] (Flushable (LevelDB om_empty) om_empty) =
    (fst (BettingDB_run Exists Write Erase ser_EventKey (ser_CPeerlessExtendedEventDB 100)
      [DbWrite 7 new_CPeerlessExtendedEventDB, DbErase 8] (Flushable (LevelDB om_empty) om_empty)), [True, False])"
    by (simp add: BettingDB_Write_def BettingDB_Erase_def ser_EventKey_def ser32be.ser_inj)
qed (simp_all add: represents_def event_ok_def new_CPeerlessExtendedEventDB_def tdb_defs)

text \<open>
  C31: flushing a betting view succeeds and commits all its databases to the parent view, except the failed
  transactions: their pending changes stay in the cache, because the statement that would flush them
  follows the \<open>return\<close> of the method.
\<close>

theorem CBettingsView_Flush_commits:
  "\<exists>v'. CBettingsView_Flush v = (v', True) \<and>
     committed (st_mappings v) (st_mappings v') \<and> committed (st_results v) (st_results v') \<and>
     committed (st_events v) (st_events v') \<and> committed (st_bets v) (st_bets v') \<and>
     committed (st_fieldEvents v) (st_fieldEvents v') \<and> committed (st_fieldResults v) (st_fieldResults v') \<and>
     committed (st_fieldBets v) (st_fieldBets v') \<and> committed (st_undos v) (st_undos v') \<and>
     committed (st_payoutsInfo v) (st_payoutsInfo v') \<and> committed (st_quickGamesBets v) (st_quickGamesBets v') \<and>
     committed (st_chainGamesLottoEvents v) (st_chainGamesLottoEvents v') \<and>
     committed (st_chainGamesLottoBets v) (st_chainGamesLottoBets v') \<and>
     committed (st_chainGamesLottoResults v) (st_chainGamesLottoResults v') \<and>
     st_failedBettingTxs v' = st_failedBettingTxs v"
proof -
  have "Flush s = (fst (Flush s), True) \<and> committed s (fst (Flush s))" for s
    using Flush_committed [of s] by auto
  then have ok: "\<And>s. snd (Flush s)" and c: "\<And>s. committed s (fst (Flush s))" by (metis snd_conv)+
  show ?thesis
    by (simp add: CBettingsView_Flush_def case_prod_beta Let_def ok c)
qed

text \<open>
  pruning undo data never touches anything but undo vectors older than the given height: every other
  key of the undo database, the last height included, reads as before.
\<close>

lemma PruneOlderUndos_erases_stale:
  assumes "PruneOlderUndos v3 height db = Some db'"
  shows "Read db' k = Read db k \<or>
    Read db' k = None \<and> (\<exists>v. (k, v) \<in> set (scan_from db []) \<and> stale v3 height v)"
proof -
  from assms obtain keys where keys: "PruneOlderUndos_loop v3 height (scan_from db []) = Some keys"
    and db': "db' = fold (\<lambda>key db. fst (BettingDB_Erase Exists Erase ser_uint256 db key)) keys db"
    by (auto simp: PruneOlderUndos_def split: bind_splits)
  show ?thesis
  proof (cases "k \<in> ser_uint256 ` set keys")
    case True
    then obtain key where "key \<in> set keys" "k = ser_uint256 key" by auto
    with PruneOlderUndos_loop_keys [OF keys this(1)] show ?thesis
      by (auto simp: db' Read_erase_all BytesToDbType_uint256)
  qed (simp add: db' Read_erase_all)
qed

text \<open>
  Pruning is incomplete.  On disk the last height sorts before every undo key, because LevelDB compares
  the length prefix first; the cache iterator merges by the unprefixed bytes and skips every key that is
  not above the one it delivered before.  So an undo vector on disk whose key is below the eleven bytes of the
  last height key is never pruned, however old it is.
\<close>

lemma PruneOlderUndos_misses_low_keys:
  assumes "ser_uint256 key < lastHeightKey"
    and "db = Flushable (LevelDB (om_update (db_key (ser_uint256 key)) v
           (om_update (db_key lastHeightKey) h om_empty))) om_empty"
  shows "PruneOlderUndos v3 height db = Some db"
  unfolding assms(2) PruneOlderUndos_def scan_mixed [OF assms(1)] by simp

end
