(* ===== verification/Odds.thy ===== *)
theory Odds
  imports BetTypes
begin

text \<open>
  Odds and payouts of betting/bet_common.cpp: effective odds, payout and burn amounts, the odds a bet is
  settled with (\<open>GetBetOdds\<close> for team and field bets) and the odds it could win.  Odds are 32-bit words in
  units of one ten-thousandth; the arithmetic keeps the width and signedness of the C++ expressions.  The lemmas
  show the bounds of the payouts and that the markets are fair: opposite outcomes are never both
  winners.
\<close>

section \<open>Payout amounts\<close>

text \<open>
  \<open>CBigNum\<close> is an unbounded integer; \<open>getuint256\<close> drops the sign (\<open>mpz_export\<close> writes the magnitude) and
  \<open>GetLow64\<close> keeps 64 bits, which the assignment to \<open>CAmount\<close> reads as signed.
\<close>

definition GetLow64 :: "int \<Rightarrow> CAmount" where
  "GetLow64 x = i64 (\<bar>x\<bar> mod 2 ^ 64)"

text \<open>The result is the returned flag, \<open>nPayout\<close> and \<open>nBurn\<close>.\<close>

definition CalculatePayoutBurnAmounts :: "CAmount \<Rightarrow> u32 \<Rightarrow> bool \<times> CAmount \<times> CAmount" where
  "CalculatePayoutBurnAmounts betAmount odds =
     (if odds = 0 then (False, 0, 0)
      else if uint odds \<le> BET_ODDSDIVISOR then
        (True, i64 (betAmount * uint odds) sdiv BET_ODDSDIVISOR, 0)
      else
        let bBetAmount = betAmount mod 2 ^ 64;
            bOdds = uint odds;
            bWinningsT = bBetAmount * bOdds;
            bPayout = (bWinningsT - ((bWinningsT - bBetAmount * BET_ODDSDIVISOR) sdiv 1000) * 60) sdiv BET_ODDSDIVISOR;
            bBurn = bPayout - bWinningsT sdiv BET_ODDSDIVISOR
        in (True, GetLow64 bPayout, GetLow64 bBurn))"

definition CalculateEffectiveOdds :: "u32 \<Rightarrow> u32" where
  "CalculateEffectiveOdds onChainOdds =
     (if onChainOdds = 0 \<or> onChainOdds = 5000 \<or> onChainOdds = 10000 then onChainOdds
      else ucast (((((ucast onChainOdds :: u64) - 10000) * 9400) div 10000) + 10000))"

section \<open>Settlement of team bets\<close>

text \<open>\<open>((BET_ODDSDIVISOR / 2) * odds) / BET_ODDSDIVISOR\<close> in 32-bit unsigned arithmetic.\<close>

definition half_odds :: "u32 \<Rightarrow> u32" where
  "half_odds odds = (5000 * odds) div 10000"

text \<open>One of the two handicaps of a quarter handicap: on-chain and effective odds.\<close>

definition spread_leg_odds :: "int \<Rightarrow> u32 \<Rightarrow> u32 \<times> u32" where
  "spread_leg_odds margin odds =
     (if margin = 0 then (10000, 10000)
      else if margin > 0 then (odds, CalculateEffectiveOdds odds)
      else (0, 0))"

definition CalculateAsianSpreadOdds :: "'a CPeerlessBaseEventDB_scheme \<Rightarrow> int \<Rightarrow> bool \<Rightarrow> u32 \<times> u32" where
  "CalculateAsianSpreadOdds lockedEvent difference spreadHomeOutcome =
     (let sign = (if nSpreadPoints lockedEvent < 0 then - 1 else 1);
          sp1 = \<bar>nSpreadPoints lockedEvent sdiv 50\<bar> * 50 * sign;
          sp2 = (\<bar>nSpreadPoints lockedEvent sdiv 50\<bar> + 1) * 50 * sign;
          sp1 = (if \<not> spreadHomeOutcome then - sp1 else sp1);
          sp2 = (if \<not> spreadHomeOutcome then - sp2 else sp2);
          odds = (if spreadHomeOutcome then nSpreadHomeOdds lockedEvent else nSpreadAwayOdds lockedEvent);
          (oc_odd1, eff_odd1) = spread_leg_odds (i32 (sp1 + difference)) odds;
          (oc_odd2, eff_odd2) = spread_leg_odds (i32 (sp2 + difference)) odds
      in (half_odds oc_odd1 + half_odds oc_odd2, half_odds eff_odd1 + half_odds eff_odd2))"

text \<open>\<open>{odds, CalculateEffectiveOdds(odds)}\<close>, the refund pair and the losing pair.\<close>

definition win_odds :: "u32 \<Rightarrow> u32 \<times> u32" where
  "win_odds odds = (odds, CalculateEffectiveOdds odds)"

definition refund_odds :: "u32 \<times> u32" where
  "refund_odds = (10000, 10000)"

definition lose_odds :: "u32 \<times> u32" where
  "lose_odds = (0, 0)"

text \<open>The difference of two unsigned scores, converted to \<open>int32_t\<close>.\<close>

definition score_diff :: "u32 \<Rightarrow> u32 \<Rightarrow> int" where
  "score_diff a b = sint (a - b)"

definition GetBetOdds_moneyLine ::
  "u8 \<Rightarrow> 'a CPeerlessBaseEventDB_scheme \<Rightarrow> CPeerlessResultDB \<Rightarrow> bool \<Rightarrow> u32 \<times> u32" where
  "GetBetOdds_moneyLine outcome lockedEvent result fWagerrProtocolV3 =
     (let odds = (if outcome = moneyLineHomeWin then nHomeOdds lockedEvent
                  else if outcome = moneyLineAwayWin then nAwayOdds lockedEvent else nDrawOdds lockedEvent);
          won = (if outcome = moneyLineHomeWin then res_nHomeScore result > res_nAwayScore result
                 else if outcome = moneyLineAwayWin then res_nAwayScore result > res_nHomeScore result
                 else res_nHomeScore result = res_nAwayScore result)
      in if res_nResultType result = mlRefund \<or> (odds = 0 \<and> fWagerrProtocolV3) then refund_odds
         else if won then win_odds odds
         else lose_odds)"

definition GetBetOdds_spreadHome ::
  "'a CPeerlessBaseEventDB_scheme \<Rightarrow> CPeerlessResultDB \<Rightarrow> bool \<Rightarrow> u32 \<times> u32" where
  "GetBetOdds_spreadHome lockedEvent result fWagerrProtocolV3 =
     (let legacySpreadDiff =
            (if fLegacyInitialHomeFavorite lockedEvent then score_diff (res_nHomeScore result) (res_nAwayScore result)
             else score_diff (res_nAwayScore result) (res_nHomeScore result))
      in if res_nResultType result = spreadsRefund \<or> (nSpreadHomeOdds lockedEvent = 0 \<and> fWagerrProtocolV3)
         then refund_odds
         else if \<not> fWagerrProtocolV3 then
           (if legacySpreadDiff = nSpreadPoints lockedEvent then refund_odds
            else if fLegacyInitialHomeFavorite lockedEvent then
              (if legacySpreadDiff > nSpreadPoints lockedEvent then win_odds (nSpreadHomeOdds lockedEvent) else lose_odds)
            else
              (if legacySpreadDiff < nSpreadPoints lockedEvent then win_odds (nSpreadHomeOdds lockedEvent) else lose_odds))
         else
           let difference = score_diff (res_nHomeScore result) (res_nAwayScore result) in
           if nSpreadPoints lockedEvent smod 50 = 0 then
             (if i32 (nSpreadPoints lockedEvent + difference) = 0 then refund_odds
              else if i32 (nSpreadPoints lockedEvent + difference) > 0 then win_odds (nSpreadHomeOdds lockedEvent)
              else lose_odds)
           else if nSpreadPoints lockedEvent smod 25 = 0 then CalculateAsianSpreadOdds lockedEvent difference True
           else lose_odds)"

definition GetBetOdds_spreadAway ::
  "'a CPeerlessBaseEventDB_scheme \<Rightarrow> CPeerlessResultDB \<Rightarrow> bool \<Rightarrow> u32 \<times> u32" where
  "GetBetOdds_spreadAway lockedEvent result fWagerrProtocolV3 =
     (let legacySpreadDiff =
            (if fLegacyInitialHomeFavorite lockedEvent then score_diff (res_nHomeScore result) (res_nAwayScore result)
             else score_diff (res_nAwayScore result) (res_nHomeScore result))
      in if res_nResultType result = spreadsRefund \<or> (nSpreadAwayOdds lockedEvent = 0 \<and> fWagerrProtocolV3)
         then refund_odds
         else if \<not> fWagerrProtocolV3 then
           (if legacySpreadDiff = nSpreadPoints lockedEvent then refund_odds
            else if fLegacyInitialHomeFavorite lockedEvent then
              (if legacySpreadDiff < nSpreadPoints lockedEvent then win_odds (nSpreadAwayOdds lockedEvent) else lose_odds)
            else
              (if legacySpreadDiff > nSpreadPoints lockedEvent then win_odds (nSpreadAwayOdds lockedEvent) else lose_odds))
         else
           let difference = score_diff (res_nAwayScore result) (res_nHomeScore result) in
           if nSpreadPoints lockedEvent smod 50 = 0 then
             (if i32 (nSpreadPoints lockedEvent * (- 1) + difference) = 0 then refund_odds
              else if i32 (nSpreadPoints lockedEvent * (- 1) + difference) > 0 then win_odds (nSpreadAwayOdds lockedEvent)
              else lose_odds)
           else if nSpreadPoints lockedEvent smod 25 = 0 then CalculateAsianSpreadOdds lockedEvent difference False
           else lose_odds)"

definition GetBetOdds_totals ::
  "u8 \<Rightarrow> 'a CPeerlessBaseEventDB_scheme \<Rightarrow> CPeerlessResultDB \<Rightarrow> bool \<Rightarrow> u32 \<times> u32" where
  "GetBetOdds_totals outcome lockedEvent result fWagerrProtocolV3 =
     (let totalPoints = res_nHomeScore result + res_nAwayScore result;
          odds = (if outcome = totalOver then nTotalOverOdds lockedEvent else nTotalUnderOdds lockedEvent);
          won = (if outcome = totalOver then totalPoints > nTotalPoints lockedEvent
                 else totalPoints < nTotalPoints lockedEvent)
      in if res_nResultType result = totalsRefund \<or> (odds = 0 \<and> fWagerrProtocolV3) then refund_odds
         else if totalPoints = nTotalPoints lockedEvent then refund_odds
         else if won then win_odds odds
         else lose_odds)"

definition GetBetOdds ::
  "CPeerlessLegDB \<Rightarrow> 'a CPeerlessBaseEventDB_scheme \<Rightarrow> CPeerlessResultDB \<Rightarrow> bool \<Rightarrow> u32 \<times> u32" where
  "GetBetOdds bet lockedEvent result fWagerrProtocolV3 =
     (if res_nResultType result = eventRefund then refund_odds
      else if leg_nOutcome bet \<in> {moneyLineHomeWin, moneyLineAwayWin, moneyLineDraw} then
        GetBetOdds_moneyLine (leg_nOutcome bet) lockedEvent result fWagerrProtocolV3
      else if leg_nOutcome bet = spreadHome then GetBetOdds_spreadHome lockedEvent result fWagerrProtocolV3
      else if leg_nOutcome bet = spreadAway then GetBetOdds_spreadAway lockedEvent result fWagerrProtocolV3
      else if leg_nOutcome bet \<in> {totalOver, totalUnder} then
        GetBetOdds_totals (leg_nOutcome bet) lockedEvent result fWagerrProtocolV3
      else lose_odds)"

definition GetBetPotentialOdds :: "CPeerlessLegDB \<Rightarrow> 'a CPeerlessBaseEventDB_scheme \<Rightarrow> u32" where
  "GetBetPotentialOdds bet lockedEvent =
     (if leg_nOutcome bet = moneyLineHomeWin then nHomeOdds lockedEvent
      else if leg_nOutcome bet = moneyLineAwayWin then nAwayOdds lockedEvent
      else if leg_nOutcome bet = moneyLineDraw then nDrawOdds lockedEvent
      else if leg_nOutcome bet = spreadHome then nSpreadHomeOdds lockedEvent
      else if leg_nOutcome bet = spreadAway then nSpreadAwayOdds lockedEvent
      else if leg_nOutcome bet = totalOver then nTotalOverOdds lockedEvent
      else if leg_nOutcome bet = totalUnder then nTotalUnderOdds lockedEvent
      else 0)"

section \<open>Settlement of field bets\<close>

definition FieldGetBetOdds :: "CFieldLegDB \<Rightarrow> CFieldEventDB \<Rightarrow> CFieldResultDB \<Rightarrow> u32 \<times> u32" where
  "FieldGetBetOdds bet lockedEvent result =
     (if fres_nResultType result = eventRefund then refund_odds
      else
        let contenderResult =
              (case om_lookup (contendersResults result) (fleg_nContenderId bet) of Some r \<Rightarrow> r | None \<Rightarrow> DNF);
            contenderInfo = contender_at (contenders lockedEvent) (fleg_nContenderId bet)
        in
        if fleg_nOutcome bet = outright then
          (if contenderResult = place1 then win_odds (nOutrightOdds contenderInfo) else lose_odds)
        else if fleg_nOutcome bet = place then
          (if contenderResult = place1 \<or> contenderResult = place2 then win_odds (nPlaceOdds contenderInfo) else lose_odds)
        else if fleg_nOutcome bet = show_outcome then
          (if contenderResult = place1 \<or> contenderResult = place2 \<or> contenderResult = place3
           then win_odds (nShowOdds contenderInfo) else lose_odds)
        else lose_odds)"

definition FieldGetBetPotentialOdds :: "CFieldLegDB \<Rightarrow> CFieldEventDB \<Rightarrow> u32" where
  "FieldGetBetPotentialOdds bet lockedEvent =
     (case om_lookup (contenders lockedEvent) (fleg_nContenderId bet) of
        None \<Rightarrow> 0
      | Some contender \<Rightarrow>
          if fleg_nOutcome bet = outright then nOutrightOdds contender
          else if fleg_nOutcome bet = place then nPlaceOdds contender
          else if fleg_nOutcome bet = show_outcome then nShowOdds contender
          else 0)"

section \<open>Lemmas\<close>

lemma uint_u32: "0 \<le> uint (x :: u32)" "uint (x :: u32) < 4294967296"
  using unsigned_less [of x, where 'a = int] by simp_all

lemma uint_eff:
  assumes "10000 \<le> uint odds"
  shows "uint (CalculateEffectiveOdds odds) = 10000 + ((uint odds - 10000) * 9400) div 10000"
proof (cases "odds = 10000")
  case True
  then show ?thesis by (simp add: CalculateEffectiveOdds_def)
next
  case False
  let ?x = "uint odds"
  have ub: "?x < 4294967296" by (rule uint_u32)
  have ne: "odds \<noteq> 0" "odds \<noteq> 5000" using assms by auto
  define w where "w = (ucast odds :: u64)"
  have w: "uint w = ?x" using ub by (simp add: w_def unsigned_ucast_eq unsigned_take_bit_eq take_bit_int_eq_self)
  define v where "v = w - 10000"
  have "uint v = ?x - 10000" using assms ub w by (simp add: v_def uint_word_ariths)
  then have m: "uint (v * 9400) = (?x - 10000) * 9400" using assms ub by (simp add: uint_word_ariths)
  define q where "q = v * 9400 div 10000"
  have q: "uint q = (?x - 10000) * 9400 div 10000" unfolding q_def uint_div m by simp
  have r: "(?x - 10000) * 9400 div 10000 < 4037269248" "0 \<le> (?x - 10000) * 9400 div 10000"
    using assms ub by auto
  have "uint (q + 10000) = (?x - 10000) * 9400 div 10000 + 10000"
    using r by (simp add: uint_word_ariths q)
  then have "uint (ucast (q + 10000) :: u32) = (?x - 10000) * 9400 div 10000 + 10000"
    using r by (simp add: unsigned_ucast_eq unsigned_take_bit_eq take_bit_int_eq_self)
  then show ?thesis using False ne by (simp add: CalculateEffectiveOdds_def w_def v_def q_def)
qed

lemma half_odds_exact: "uint odds < 858994 \<Longrightarrow> uint (half_odds odds) = uint odds div 2"
proof -
  assume "uint odds < 858994"
  then have "uint (5000 * odds) = 5000 * uint odds" using uint_u32 [of odds] by (simp add: uint_word_ariths)
  then have "uint (half_odds odds) = 5000 * uint odds div 10000" unfolding half_odds_def uint_div by simp
  then show ?thesis by simp
qed

text \<open>
  C13: For a non-negative stake and odds above 10000 whose winnings fit, the payout and the burn add up to the
  winnings, the payout is at least the stake, and the burn is 6% of the profit, up to one unit of rounding either way.
\<close>

theorem CalculatePayoutBurnAmounts_conserves:
  assumes "0 \<le> betAmount" and "10000 < uint odds" and "betAmount * uint odds < 2 ^ 63 * 10000"
  shows "\<exists>nPayout nBurn. CalculatePayoutBurnAmounts betAmount odds = (True, nPayout, nBurn) \<and>
    nPayout + nBurn = betAmount * uint odds div 10000 \<and> betAmount \<le> nPayout \<and> 0 \<le> nBurn \<and>
    \<bar>nBurn - 60 * (betAmount * uint odds - betAmount * 10000) div 10000000\<bar> \<le> 1"
proof -
  define B where "B = betAmount"
  define W where "W = B * uint odds"
  have BW: "0 \<le> B" "10000 * B \<le> W" "W < 2 ^ 63 * 10000"
    using assms unfolding W_def B_def by (simp_all add: mult_left_mono mult.commute [of 10000])
  then have Bm: "betAmount mod 2 ^ 64 = B" by (simp add: B_def)
  define D where "D = (W - B * 10000) div 1000"
  define P where "P = (W - D * 60) div 10000"
  have D: "0 \<le> D" "1000 * D \<le> W - B * 10000" "W - B * 10000 < 1000 * D + 1000"
    using BW by (simp_all add: D_def) 
  have P: "0 \<le> W - D * 60" "B \<le> P" "P \<le> W div 10000" using BW D unfolding P_def by linarith+
  define E where "E = 60 * (W - B * 10000)"
  have "10000 * (W div 10000) \<le> W" "W < 10000 * (W div 10000) + 10000" "W - D * 60 < 10000 * P + 10000" "10000 * P \<le> W - D * 60"
    unfolding P_def by linarith+
  moreover have "60000 * D \<le> E" "E < 60000 * D + 60000" using D(2,3) by (simp_all add: E_def)
  moreover have "E < 10000000 * (E div 10000000) + 10000000" "10000000 * (E div 10000000) \<le> E" by linarith+
  ultimately have E: "\<bar>W div 10000 - P - E div 10000000\<bar> \<le> 1" by linarith
  have low: "GetLow64 x = \<bar>x\<bar>" if "\<bar>x\<bar> < 2 ^ 63" for x
    using that by (simp add: GetLow64_def i64_id)
  have lt: "W div 10000 < 2 ^ 63" using BW by linarith
  have "GetLow64 P = P" "GetLow64 (P - W div 10000) = W div 10000 - P"
    using low [of P] low [of "P - W div 10000"] P BW lt by linarith+
  moreover have "odds \<noteq> 0" "\<not> uint odds \<le> BET_ODDSDIVISOR" using assms(2) by (auto simp: BET_ODDSDIVISOR_def)
  ultimately have "CalculatePayoutBurnAmounts betAmount odds = (True, P, W div 10000 - P)"
    using BW D P
    by (simp add: CalculatePayoutBurnAmounts_def Let_def Bm [simplified] B_def [symmetric] W_def [symmetric]
        BET_ODDSDIVISOR_def sdiv_nonneg_eq D_def [symmetric] P_def [symmetric])
  with P lt E show ?thesis unfolding E_def B_def [symmetric] W_def [symmetric] by auto
qed

lemmas outcome_defs = moneyLineHomeWin_def moneyLineAwayWin_def moneyLineDraw_def spreadHome_def spreadAway_def
  totalOver_def totalUnder_def

lemmas settle_defs = win_odds_def refund_odds_def lose_odds_def

lemma half_odds_le: "uint (half_odds odds) \<le> uint odds div 2"
proof -
  have "uint (5000 * odds) \<le> 5000 * uint odds"
    using uint_u32 [of odds] by (simp add: uint_word_ariths zmod_le_nonneg_dividend)
  then have "uint (5000 * odds) div 10000 \<le> 5000 * uint odds div 10000" by (rule zdiv_mono1) simp
  then show ?thesis unfolding half_odds_def uint_div by simp
qed

lemma half_odds_sum_le:
  assumes "uint a \<le> m" "uint b \<le> m"
  shows "uint (half_odds a + half_odds b) \<le> m"
proof -
  have "uint (half_odds a + half_odds b) \<le> uint (half_odds a) + uint (half_odds b)"
    by (simp add: uint_word_ariths zmod_le_nonneg_dividend)
  then show ?thesis using half_odds_le [of a] half_odds_le [of b] assms by linarith
qed

lemma half_odds_10000 [simp]: "half_odds 10000 = 5000" "half_odds 0 = 0"
  by (simp_all add: half_odds_def)

lemma CalculateEffectiveOdds_10000 [simp]: "CalculateEffectiveOdds 10000 = 10000"
  by (simp add: CalculateEffectiveOdds_def)

text \<open>Neither component of a pair of odds exceeds the larger of the refund and the odds, or their effective odds.\<close>

definition odds_le :: "u32 \<times> u32 \<Rightarrow> u32 \<Rightarrow> bool" where
  "odds_le pair odds \<longleftrightarrow> uint (fst pair) \<le> max (uint odds) 10000 \<and> uint (snd pair) \<le> max (uint (CalculateEffectiveOdds odds)) 10000"

lemma odds_le_settle [simp]: "odds_le (win_odds odds) odds" "odds_le refund_odds odds" "odds_le lose_odds odds"
  by (simp_all add: odds_le_def settle_defs le_max_iff_disj)

lemma odds_le_spread_leg: "odds_le (spread_leg_odds m odds) odds"
  by (simp add: odds_le_def spread_leg_odds_def le_max_iff_disj)

lemma odds_le_half: "odds_le (a, b) odds \<Longrightarrow> odds_le (a', b') odds \<Longrightarrow> odds_le (half_odds a + half_odds a', half_odds b + half_odds b') odds"
  unfolding odds_le_def fst_conv snd_conv by (intro conjI half_odds_sum_le; elim conjE)

lemma odds_le_asian: "odds_le (CalculateAsianSpreadOdds ev d h) (if h then nSpreadHomeOdds ev else nSpreadAwayOdds ev)"
  unfolding CalculateAsianSpreadOdds_def Let_def case_prod_beta
  by (rule odds_le_half) (simp_all only: prod.collapse odds_le_spread_leg)

lemma odds_le_markets:
  "odds_le (GetBetOdds_moneyLine k ev result v3) (if k = moneyLineHomeWin then nHomeOdds ev else if k = moneyLineAwayWin then nAwayOdds ev else nDrawOdds ev)"
  "odds_le (GetBetOdds_totals k ev result v3) (if k = totalOver then nTotalOverOdds ev else nTotalUnderOdds ev)"
  "odds_le (GetBetOdds_spreadHome ev result v3) (nSpreadHomeOdds ev)"
  "odds_le (GetBetOdds_spreadAway ev result v3) (nSpreadAwayOdds ev)"
  using odds_le_asian [of ev _ True] odds_le_asian [of ev _ False]
  unfolding GetBetOdds_moneyLine_def GetBetOdds_totals_def GetBetOdds_spreadHome_def GetBetOdds_spreadAway_def by (simp_all add: Let_def)

lemma odds_le_GetBetOdds: "odds_le (GetBetOdds bet lockedEvent result v3) (GetBetPotentialOdds bet lockedEvent)"
proof -
  have ne: "moneyLineHomeWin \<noteq> moneyLineAwayWin" "moneyLineDraw \<notin> {moneyLineHomeWin, moneyLineAwayWin}"
    "totalOver \<noteq> totalUnder" "{spreadHome, spreadAway, totalOver, totalUnder} \<inter> {moneyLineHomeWin, moneyLineAwayWin, moneyLineDraw} = {}"
    "{totalOver, totalUnder} \<inter> {spreadHome, spreadAway} = {}" "spreadHome \<noteq> spreadAway"
    by (simp_all add: outcome_defs)
  then show ?thesis
    using odds_le_markets(1,2) [of "leg_nOutcome bet" lockedEvent result v3] odds_le_markets(3,4) [of lockedEvent result v3]
    unfolding GetBetOdds_def GetBetPotentialOdds_def by auto
qed

text \<open>
  C28: A team bet never settles above the odds of its market, whatever the scores and the result type.  The on-chain odds returned by \<open>GetBetOdds\<close> are at
  most the larger of the locked odds and the refund odds 10000; the effective odds, which are paid from protocol version 3 on, are at most the larger of the effective
  odds of the locked odds and 10000.  If the locked odds are at least 10000, the effective odds leave the player at most 94% of the profit.
\<close>

theorem GetBetOdds_bounded:
  defines "locked bet ev \<equiv> uint (GetBetPotentialOdds bet ev)"
  shows "uint (fst (GetBetOdds bet lockedEvent result v3)) \<le> max (locked bet lockedEvent) 10000 \<and>
    uint (snd (GetBetOdds bet lockedEvent result v3)) \<le> max (uint (CalculateEffectiveOdds (GetBetPotentialOdds bet lockedEvent))) 10000 \<and>
    (10000 \<le> locked bet lockedEvent \<longrightarrow>
      uint (snd (GetBetOdds bet lockedEvent result v3)) \<le> 10000 + (locked bet lockedEvent - 10000) * 9400 div 10000)"
  using odds_le_GetBetOdds [of bet lockedEvent result v3] uint_eff [of "GetBetPotentialOdds bet lockedEvent"]
  by (auto simp: odds_le_def locked_def)

text \<open>
  C21: When a money-line market is not refunded and its three odds are set, the scores decide it: the bet on the team with the higher score, or on
  the draw when the scores are equal, settles at the odds locked for it, the other two lose, and so exactly one of the three wins.
\<close>

theorem GetBetOdds_moneyLine_one_winner:
  defines "winner r \<equiv> if res_nHomeScore r > res_nAwayScore r then moneyLineHomeWin
    else if res_nHomeScore r < res_nAwayScore r then moneyLineAwayWin else moneyLineDraw"
  assumes "res_nResultType result \<notin> {eventRefund, mlRefund}"
    and "nHomeOdds lockedEvent \<noteq> 0" "nAwayOdds lockedEvent \<noteq> 0" "nDrawOdds lockedEvent \<noteq> 0"
  shows "(\<forall>k \<in> {moneyLineHomeWin, moneyLineAwayWin, moneyLineDraw}. GetBetOdds (bet\<lparr>leg_nOutcome := k\<rparr>) lockedEvent result v3 =
      (if k = winner result then win_odds (GetBetPotentialOdds (bet\<lparr>leg_nOutcome := k\<rparr>) lockedEvent) else lose_odds)) \<and>
    (\<exists>!k. k \<in> {moneyLineHomeWin, moneyLineAwayWin, moneyLineDraw} \<and>
      GetBetOdds (bet\<lparr>leg_nOutcome := k\<rparr>) lockedEvent result v3 \<noteq> lose_odds)"
proof -
  have win: "win_odds (nHomeOdds lockedEvent) \<noteq> lose_odds" "win_odds (nAwayOdds lockedEvent) \<noteq> lose_odds"
    "win_odds (nDrawOdds lockedEvent) \<noteq> lose_odds" using assms(3-5) by (simp_all add: settle_defs)
  have ne: "moneyLineHomeWin \<noteq> moneyLineAwayWin" "moneyLineHomeWin \<noteq> moneyLineDraw" "moneyLineAwayWin \<noteq> moneyLineDraw"
    by (simp_all add: outcome_defs)
  note facts = assms(2-5) win ne ne [symmetric]
  have odds: "GetBetOdds (bet\<lparr>leg_nOutcome := k\<rparr>) lockedEvent result v3 =
      (if k = winner result then win_odds (GetBetPotentialOdds (bet\<lparr>leg_nOutcome := k\<rparr>) lockedEvent) else lose_odds)"
    if k: "k \<in> {moneyLineHomeWin, moneyLineAwayWin, moneyLineDraw}" for k
  proof -
    have "GetBetOdds (bet\<lparr>leg_nOutcome := k\<rparr>) lockedEvent result v3 = GetBetOdds_moneyLine k lockedEvent result v3"
      using k assms(2) by (simp add: GetBetOdds_def)
    then show ?thesis
      using k by (elim insertE emptyE; cases "res_nHomeScore result" "res_nAwayScore result" rule: linorder_cases)
        (simp_all add: GetBetOdds_moneyLine_def GetBetPotentialOdds_def winner_def Let_def facts [simplified])
  qed
  have "winner result \<in> {moneyLineHomeWin, moneyLineAwayWin, moneyLineDraw}" by (simp add: winner_def)
  moreover have "win_odds (GetBetPotentialOdds (bet\<lparr>leg_nOutcome := winner result\<rparr>) lockedEvent) \<noteq> lose_odds"
    using win ne by (simp add: winner_def GetBetPotentialOdds_def)
  ultimately have "\<exists>!k. k \<in> {moneyLineHomeWin, moneyLineAwayWin, moneyLineDraw} \<and> GetBetOdds (bet\<lparr>leg_nOutcome := k\<rparr>) lockedEvent result v3 \<noteq> lose_odds"
    using odds by (intro ex1I [of _ "winner result"]) (simp, metis)
  then show ?thesis using odds by blast
qed

lemma sint_score_diff:
  assumes "uint a < 2 ^ 30" "uint b < 2 ^ 30"
  shows "score_diff a b = uint a - uint b"
proof -
  have "sint (word_of_int (uint a - uint b) :: u32) = (uint a - uint b + 2 ^ 31) mod 2 ^ 32 - 2 ^ 31"
    unfolding int_word_sint by simp
  moreover have "uint a < 1073741824" "uint b < 1073741824" using assms by simp_all
  then have "0 \<le> uint a - uint b + 2147483648" "uint a - uint b + 2147483648 < 4294967296"
    using uint_u32 [of a] uint_u32 [of b] by linarith+
  ultimately show ?thesis by (simp add: score_diff_def)
qed

text \<open>A V3 spread market on which both sides can be settled: no refund, both odds set, no overflow.\<close>

definition spread_open :: "'a CPeerlessBaseEventDB_scheme \<Rightarrow> CPeerlessResultDB \<Rightarrow> bool" where
  "spread_open ev result \<longleftrightarrow> res_nResultType result \<notin> {eventRefund, spreadsRefund} \<and>
     nSpreadHomeOdds ev \<noteq> 0 \<and> nSpreadAwayOdds ev \<noteq> 0 \<and> \<bar>nSpreadPoints ev\<bar> < 2 ^ 29 \<and>
     uint (res_nHomeScore result) < 2 ^ 30 \<and> uint (res_nAwayScore result) < 2 ^ 30"

definition home_margin :: "'a CPeerlessBaseEventDB_scheme \<Rightarrow> CPeerlessResultDB \<Rightarrow> int" where
  "home_margin ev result = nSpreadPoints ev + (uint (res_nHomeScore result) - uint (res_nAwayScore result))"

lemma smod_50: "(p :: int) smod 50 = 0 \<longleftrightarrow> 50 dvd p" "(p :: int) smod 25 = 0 \<longleftrightarrow> 25 dvd p"
  by (auto simp: signed_modulo_int_def abs_if sgn_if)

lemma spread_margins:
  assumes "spread_open ev result"
  shows "score_diff (res_nHomeScore result) (res_nAwayScore result) = home_margin ev result - nSpreadPoints ev"
    and "score_diff (res_nAwayScore result) (res_nHomeScore result) = nSpreadPoints ev - home_margin ev result"
    and "\<bar>home_margin ev result\<bar> < 2147483600"
proof -
  have b: "\<bar>nSpreadPoints ev\<bar> < 536870912" "uint (res_nHomeScore result) < 1073741824" "uint (res_nAwayScore result) < 1073741824"
    using assms by (simp_all add: spread_open_def)
  then show "\<bar>home_margin ev result\<bar> < 2147483600"
    using uint_u32(1) [of "res_nHomeScore result"] uint_u32(1) [of "res_nAwayScore result"]
    unfolding home_margin_def by linarith
  show "score_diff (res_nHomeScore result) (res_nAwayScore result) = home_margin ev result - nSpreadPoints ev"
    "score_diff (res_nAwayScore result) (res_nHomeScore result) = nSpreadPoints ev - home_margin ev result"
    using b by (simp_all add: home_margin_def sint_score_diff)
qed


text \<open>The two settlements a quarter handicap is split into: both halves won, half refunded, or lost.\<close>

definition half_sum :: "u32 \<times> u32 \<Rightarrow> u32 \<times> u32 \<Rightarrow> u32 \<times> u32" where
  "half_sum a b = (half_odds (fst a) + half_odds (fst b), half_odds (snd a) + half_odds (snd b))"

lemma quarter_points:
  fixes p :: int
  assumes "25 dvd p" "\<not> 50 dvd p"
  obtains K where "p > 0" "\<bar>p sdiv 50\<bar> = K" "p = 50 * K + 25" | K where "p < 0" "\<bar>p sdiv 50\<bar> = K" "p = - 50 * K - 25"
proof -
  obtain q where q: "p = 25 * q" using assms(1) by (elim dvdE)
  obtain k where k: "q = 2 * k + 1" using assms(2) q by (cases "even q") (auto elim!: evenE oddE)
  show ?thesis
  proof (cases "p > 0")
    case True
    then have "p sdiv 50 = k" using q k by (simp add: sdiv_nonneg_eq)
    then show ?thesis using that(1) [of k] True q k by simp
  next
    case False
    then have "p sdiv 50 = - ((- p) div 50)" using q k by (simp add: signed_divide_int_def sgn_if)
    moreover have "(- p) div 50 = - k - 1" using q k by linarith
    moreover have "k < 0" using False q k by linarith
    ultimately show ?thesis using that(2) [of "- k - 1"] q k by simp
  qed
qed

lemma half_sum_commute: "half_sum a b = half_sum b a"
  by (simp add: half_sum_def add.commute)

lemma CalculateAsianSpreadOdds_eq:
  assumes "25 dvd nSpreadPoints ev" "\<not> 50 dvd nSpreadPoints ev" "\<bar>(if h then nSpreadPoints ev else - nSpreadPoints ev) + d\<bar> < 2147483600"
  shows "CalculateAsianSpreadOdds ev d h =
    (let M = (if h then nSpreadPoints ev else - nSpreadPoints ev) + d;
         odds = (if h then nSpreadHomeOdds ev else nSpreadAwayOdds ev)
     in half_sum (spread_leg_odds (M - 25) odds) (spread_leg_odds (M + 25) odds))"
  using assms(1,2)
proof (cases rule: quarter_points)
  case (1 K)
  then show ?thesis using assms(3)
    by (cases h) (simp_all add: CalculateAsianSpreadOdds_def Let_def case_prod_beta half_sum_def i32_id abs_less_iff algebra_simps)
next
  case (2 K)
  show ?thesis using assms(3) 2(1) unfolding CalculateAsianSpreadOdds_def Let_def 2(2) unfolding 2(3)
    by (cases h) (simp_all add: case_prod_beta half_sum_def i32_id abs_less_iff algebra_simps)
qed

lemma quarter_margin:
  assumes "25 dvd nSpreadPoints ev" "\<not> 50 dvd nSpreadPoints ev" "50 dvd uint (res_nHomeScore result) - uint (res_nAwayScore result)"
  shows "home_margin ev result \<ge> 75 \<or> home_margin ev result = 25 \<or> home_margin ev result = - 25 \<or> home_margin ev result \<le> - 75"
  using assms unfolding home_margin_def by presburger

text \<open>
  On quarter handicaps (odd multiples of 25) a spread bet is the sum of two half bets on the neighbouring handicaps:
  a margin above 25 wins both halves, 25 wins one half and refunds the other, and the other side is settled oppositely.
\<close>

lemma GetBetOdds_quarter_spread:
  assumes "spread_open ev result" and "25 dvd nSpreadPoints ev" "\<not> 50 dvd nSpreadPoints ev"
    and "50 dvd uint (res_nHomeScore result) - uint (res_nAwayScore result)"
  shows "GetBetOdds (bet\<lparr>leg_nOutcome := spreadHome\<rparr>) ev result True =
      (let won = win_odds (nSpreadHomeOdds ev) in
       if home_margin ev result > 25 then half_sum won won
       else if home_margin ev result = 25 then half_sum won refund_odds
       else if home_margin ev result = - 25 then half_sum lose_odds refund_odds else lose_odds) \<and>
    GetBetOdds (bet\<lparr>leg_nOutcome := spreadAway\<rparr>) ev result True =
      (let won = win_odds (nSpreadAwayOdds ev) in
       if home_margin ev result > 25 then lose_odds
       else if home_margin ev result = 25 then half_sum lose_odds refund_odds
       else if home_margin ev result = - 25 then half_sum won refund_odds else half_sum won won)"
proof -
  define m where "m = home_margin ev result"
  note sm = spread_margins [OF assms(1), folded m_def]
  have "CalculateAsianSpreadOdds ev (m - nSpreadPoints ev) True =
      half_sum (spread_leg_odds (m - 25) (nSpreadHomeOdds ev)) (spread_leg_odds (m + 25) (nSpreadHomeOdds ev))"
    "CalculateAsianSpreadOdds ev (nSpreadPoints ev - m) False =
      half_sum (spread_leg_odds (- m - 25) (nSpreadAwayOdds ev)) (spread_leg_odds (25 - m) (nSpreadAwayOdds ev))"
    using sm(3) assms(2,3) by (simp_all add: CalculateAsianSpreadOdds_eq Let_def)
  moreover have "spread_leg_odds x odds = (if x = 0 then refund_odds else if x > 0 then win_odds odds else lose_odds)" for x odds
    by (simp add: spread_leg_odds_def settle_defs)
  moreover have "half_sum lose_odds lose_odds = lose_odds" by (simp add: half_sum_def lose_odds_def)
  ultimately show ?thesis
    using assms(1-3) sm quarter_margin [OF assms(2-4), folded m_def] unfolding m_def [symmetric]
    by (auto simp: spread_open_def GetBetOdds_def GetBetOdds_spreadHome_def GetBetOdds_spreadAway_def Let_def outcome_defs smod_50 half_sum_commute)
qed

lemma half_odds_wrapped:
  assumes "858994 \<le> uint odds" "uint odds \<le> 868993"
  shows "uint (half_odds odds) < 5000"
proof -
  have "uint (5000 * odds) = (5000 * uint odds) mod 4294967296" by (simp add: uint_word_ariths)
  also have "\<dots> = 5000 * uint odds - 4294967296"
    using assms by (subst minus_mod_self2 [symmetric], intro mod_pos_pos_trivial) simp_all
  finally have "uint (half_odds odds) = (5000 * uint odds - 4294967296) div 10000" unfolding half_odds_def uint_div by simp
  then show ?thesis using assms by simp
qed

text \<open>
  C40: The 32-bit product \<open>(BET_ODDSDIVISOR / 2) * odds\<close> wraps: for a fully won quarter handicap on the home team at odds from 91.3186 to 92.3823, which are below
  \<open>BET_MAXODDS\<close>, the effective odds, which are paid from protocol version 3 on, are below the refund odds, so the winner gets back less than the stake.
\<close>

theorem CalculateAsianSpreadOdds_wraps:
  assumes "25 dvd nSpreadPoints ev" "\<not> 50 dvd nSpreadPoints ev"
    and "75 \<le> nSpreadPoints ev + difference" "nSpreadPoints ev + difference < 2147483600"
    and "913186 \<le> uint (nSpreadHomeOdds ev)" "uint (nSpreadHomeOdds ev) \<le> 923823"
  shows "uint (snd (CalculateAsianSpreadOdds ev difference True)) < BET_ODDSDIVISOR"
proof -
  let ?o = "nSpreadHomeOdds ev"
  let ?h = "half_odds (CalculateEffectiveOdds ?o)"
  have "uint (CalculateEffectiveOdds ?o) = 10000 + ((uint ?o - 10000) * 9400) div 10000" by (rule uint_eff) (use assms(5) in simp)
  then have eff: "858994 \<le> uint (CalculateEffectiveOdds ?o)" "uint (CalculateEffectiveOdds ?o) \<le> 868993" using assms(5,6) by simp_all
  have "snd (CalculateAsianSpreadOdds ev difference True) = ?h + ?h"
    using assms by (simp add: CalculateAsianSpreadOdds_eq Let_def spread_leg_odds_def half_sum_def)
  moreover have "uint (?h + ?h) \<le> uint ?h + uint ?h" by (simp add: uint_word_ariths zmod_le_nonneg_dividend)
  ultimately show ?thesis using half_odds_wrapped [OF eff] by (simp add: BET_ODDSDIVISOR_def)
qed

lemmas field_outcome_defs = outright_def place_def show_outcome_def place1_def place2_def place3_def DNF_def

lemma word_le_small:
  "(r :: u8) \<le> 1 \<longleftrightarrow> r = 0 \<or> r = 1" "(r :: u8) \<le> 2 \<longleftrightarrow> r = 0 \<or> r = 1 \<or> r = 2"
  "(r :: u8) \<le> 3 \<longleftrightarrow> r = 0 \<or> r = 1 \<or> r = 2 \<or> r = 3"
  unfolding word_le_nat_alt word_unat_eq_iff by simp_all arith+

lemma win_odds_0: "win_odds 0 = lose_odds"
  by (simp add: settle_defs CalculateEffectiveOdds_def)

lemma contender_at_absent:
  assumes "om_lookup m i = None"
  shows "nOutrightOdds (contender_at m i) = 0" "nPlaceOdds (contender_at m i) = 0" "nShowOdds (contender_at m i) = 0"
  using assms by (simp_all add: contender_at_def new_ContenderInfo_def)

text \<open>
  C24: A field bet on outright, place or show wins exactly when its contender finished, with a place no greater than the
  number of the market (1, 2, 3), and then settles at the potential odds of the contender.  It loses otherwise, also when the result
  does not mention the contender or says that it did not race or finish; only the refund of the whole event, which is excluded here, gives the stake back.
\<close>

theorem FieldGetBetOdds_by_place:
  assumes "fres_nResultType result \<noteq> eventRefund" and "fleg_nOutcome bet \<in> {outright, place, show_outcome}"
  shows "FieldGetBetOdds bet lockedEvent result =
    (case om_lookup (contendersResults result) (fleg_nContenderId bet) of
       None \<Rightarrow> lose_odds
     | Some r \<Rightarrow> if r \<noteq> DNF \<and> r \<le> fleg_nOutcome bet
         then win_odds (FieldGetBetPotentialOdds bet lockedEvent) else lose_odds)"
proof -
  let ?i = "fleg_nContenderId bet"
  have "FieldGetBetPotentialOdds bet lockedEvent =
    (let c = contender_at (contenders lockedEvent) ?i in
     if fleg_nOutcome bet = outright then nOutrightOdds c else if fleg_nOutcome bet = place then nPlaceOdds c else nShowOdds c)"
    using assms(2) contender_at_absent [of "contenders lockedEvent" ?i]
    by (cases "om_lookup (contenders lockedEvent) ?i")
      (auto simp: FieldGetBetPotentialOdds_def contender_at_def Let_def field_outcome_defs)
  then show ?thesis using assms
    by (cases "om_lookup (contendersResults result) ?i")
      (auto simp: FieldGetBetOdds_def Let_def field_outcome_defs word_le_small)
qed

text \<open>A sample event and result on which the witnesses evaluate.\<close>

definition sample_event :: "int \<Rightarrow> u32 \<Rightarrow> CPeerlessExtendedEventDB" where
  "sample_event points odds = new_CPeerlessExtendedEventDB
     \<lparr>nHomeOdds := 25000, nAwayOdds := 31000, nDrawOdds := 28000,
      nSpreadPoints := points, nSpreadHomeOdds := odds, nSpreadAwayOdds := 19000\<rparr>"

definition sample_result :: "u32 \<Rightarrow> u32 \<Rightarrow> CPeerlessResultDB" where
  "sample_result home away = \<lparr>res_nEventId = 0, res_nResultType = standardResult, res_nHomeScore = home, res_nAwayScore = away\<rparr>"

lemmas sample_defs = sample_event_def sample_result_def new_CPeerlessExtendedEventDB_def
  standardResult_def eventRefund_def mlRefund_def spreadsRefund_def spread_open_def home_margin_def

theorem CalculatePayoutBurnAmounts_conserves_witness:
  "\<exists>nPayout nBurn. CalculatePayoutBurnAmounts 1000000000 25000 = (True, nPayout, nBurn) \<and>
    nPayout + nBurn = 2500000000 \<and> 1000000000 \<le> nPayout \<and> 0 \<le> nBurn \<and> \<bar>nBurn - 90000000\<bar> \<le> 1"
  using CalculatePayoutBurnAmounts_conserves [of 1000000000 25000] by simp

theorem GetBetOdds_moneyLine_one_winner_witness:
  "GetBetOdds \<lparr>leg_nEventId = 7, leg_nOutcome = moneyLineAwayWin\<rparr> (sample_event 0 20000) (sample_result 1 3) True = win_odds 31000 \<and>
   GetBetOdds \<lparr>leg_nEventId = 7, leg_nOutcome = moneyLineHomeWin\<rparr> (sample_event 0 20000) (sample_result 1 3) True = lose_odds"
  using GetBetOdds_moneyLine_one_winner [of "sample_result 1 3" "sample_event 0 20000" "\<lparr>leg_nEventId = 7, leg_nOutcome = 1\<rparr>" True]
  by (simp add: sample_defs outcome_defs GetBetPotentialOdds_def)

theorem GetBetOdds_bounded_witness:
  "uint (fst (GetBetOdds \<lparr>leg_nEventId = 7, leg_nOutcome = spreadHome\<rparr> (sample_event 25 20000) (sample_result 300 100) True)) \<le> 20000 \<and>
   uint (snd (GetBetOdds \<lparr>leg_nEventId = 7, leg_nOutcome = spreadHome\<rparr> (sample_event 25 20000) (sample_result 300 100) True)) \<le> 19400"
  using GetBetOdds_bounded [of "\<lparr>leg_nEventId = 7, leg_nOutcome = spreadHome\<rparr>" "sample_event 25 20000" "sample_result 300 100" True]
  by (simp add: GetBetPotentialOdds_def outcome_defs sample_defs)


theorem CalculateAsianSpreadOdds_wraps_witness:
  "uint (snd (CalculateAsianSpreadOdds (sample_event 25 920000) 100 True)) < BET_ODDSDIVISOR"
  by (rule CalculateAsianSpreadOdds_wraps) (simp_all add: sample_defs)

theorem FieldGetBetOdds_by_place_witness:
  "FieldGetBetOdds \<lparr>fleg_nEventId = 1, fleg_nOutcome = place, fleg_nContenderId = 5\<rparr>
     (new_CFieldEventDB\<lparr>contenders := om_update 5 (new_ContenderInfo 0 30000 20000 15000 0) om_empty\<rparr>)
     \<lparr>fres_nEventId = 1, fres_nResultType = standardResult, contendersResults = om_update 5 place2 om_empty\<rparr>
   = win_odds 20000"
  using FieldGetBetOdds_by_place [of "\<lparr>fres_nEventId = 1, fres_nResultType = standardResult, contendersResults = om_update 5 place2 om_empty\<rparr>"
      "\<lparr>fleg_nEventId = 1, fleg_nOutcome = place, fleg_nContenderId = 5\<rparr>"
      "new_CFieldEventDB\<lparr>contenders := om_update 5 (new_ContenderInfo 0 30000 20000 15000 0) om_empty\<rparr>"]
  by (simp add: sample_defs field_outcome_defs FieldGetBetPotentialOdds_def new_ContenderInfo_def)

end
