(* ===== verification/ChainEnv.thy ===== *)
theory ChainEnv
  imports BetDB Odds
begin

text \<open>
  What the betting code reads of the node: the consensus parameters of consensus/params.h, the active chain, the
  coins, \<open>GetTransaction\<close> of validation.cpp and the oracles of betting/oracles.cpp, with the tests that a
  transaction was posted by an oracle (betting/bet_common.cpp).  Block storage, the transaction index, the
  address codec and the script templates are the functions of the record \<open>betting_env\<close>.
\<close>

section \<open>Consensus parameters\<close>

record ConsensusParams =
  nWagerrProtocolV1StartHeight :: int
  nWagerrProtocolV2StartHeight :: int
  nWagerrProtocolV3StartHeight :: int
  nWagerrProtocolV4StartHeight :: int
  nWagerrProtocolV5StartHeight :: int
  nQuickGamesEndHeight :: int
  nBetBlocksIndexTimespanV2 :: int
  nBetBlocksIndexTimespanV3 :: int
  nOMNORewardPermille :: u64
  nDevRewardPermille :: u64
  nMinBetPayoutRange :: int
  nMaxBetPayoutRange :: int
  nMaxParlayBetPayoutRange :: int
  nBetPlaceTimeoutBlocks :: int
  nMaxParlayLegs :: u32

text \<open>
  The accessors return the member they are named after, except \<open>MaxParlayBetPayoutRange\<close>, which returns the
  limit of single bets.
\<close>

definition MaxParlayBetPayoutRange :: "ConsensusParams \<Rightarrow> int" where
  "MaxParlayBetPayoutRange c = nMaxBetPayoutRange c"

definition GetWBPVersion :: "ConsensusParams \<Rightarrow> int \<Rightarrow> u8" where
  "GetWBPVersion c nHeight =
     (if nHeight \<ge> nWagerrProtocolV5StartHeight c then 5
      else if nHeight \<ge> nWagerrProtocolV4StartHeight c then 4
      else if nHeight \<ge> nWagerrProtocolV3StartHeight c then 3
      else if nHeight \<ge> nWagerrProtocolV2StartHeight c then 2
      else if nHeight \<ge> nWagerrProtocolV1StartHeight c then 1 else 0)"

text \<open>The betting parameters of the regression-test network, which activates the protocols early.\<close>

definition CRegTestParams :: ConsensusParams where
  "CRegTestParams =
     \<lparr>nWagerrProtocolV1StartHeight = 251, nWagerrProtocolV2StartHeight = 251, nWagerrProtocolV3StartHeight = 300,
      nWagerrProtocolV4StartHeight = 400, nWagerrProtocolV5StartHeight = 550, nQuickGamesEndHeight = 300,
      nBetBlocksIndexTimespanV2 = 2880, nBetBlocksIndexTimespanV3 = 23040, nOMNORewardPermille = 24,
      nDevRewardPermille = 6, nMinBetPayoutRange = 25, nMaxBetPayoutRange = 10000, nMaxParlayBetPayoutRange = 4000,
      nBetPlaceTimeoutBlocks = 120, nMaxParlayLegs = 5\<rparr>"

section \<open>Oracles\<close>

record COracle =
  strAddress :: string
  strDevPayoutAddress :: string
  strOMNOPayoutAddress :: string
  nStartHeight :: int
  nEndHeight :: int

definition IsActive :: "COracle \<Rightarrow> int \<Rightarrow> bool" where
  "IsActive oracle nHeight \<longleftrightarrow> nHeight \<ge> nStartHeight oracle \<and> nHeight < nEndHeight oracle"

definition IsMyOracleTx :: "COracle \<Rightarrow> string \<Rightarrow> int \<Rightarrow> bool" where
  "IsMyOracleTx oracle txAddress nTxHeight = (if \<not> IsActive oracle nTxHeight then False else txAddress = strAddress oracle)"

text \<open>The oracles of the regression-test network, before and after the rotation of the keys.\<close>

definition vOracles_regtest :: "COracle list" where
  "vOracles_regtest =
     (let dev = ''TLuTVND9QbZURHmtuqD5ESECrGuB9jLZTs''; omno = ''THofaueWReDjeZQZEECiySqV9GP4byP3qr'';
          keysRotate = 270; V2Start = 251; max = 2147483647
      in [\<lparr>strAddress = ''TXuoB9DNEuZx1RCfKw3Hsv7jNUHTt4sVG1'', strDevPayoutAddress = dev, strOMNOPayoutAddress = omno,
           nStartHeight = V2Start, nEndHeight = keysRotate\<rparr>,
          \<lparr>strAddress = ''TFvZVYGdrxxNunQLzSnRSC58BSRA7si6zu'', strDevPayoutAddress = dev, strOMNOPayoutAddress = omno,
           nStartHeight = V2Start, nEndHeight = keysRotate\<rparr>,
          \<lparr>strAddress = ''TXuoB9DNEuZx1RCfKw3Hsv7jNUHTt4sVG1'', strDevPayoutAddress = dev, strOMNOPayoutAddress = omno,
           nStartHeight = keysRotate, nEndHeight = max\<rparr>,
          \<lparr>strAddress = ''TFvZVYGdrxxNunQLzSnRSC58BSRA7si6zu'', strDevPayoutAddress = dev, strOMNOPayoutAddress = omno,
           nStartHeight = keysRotate, nEndHeight = max\<rparr>])"

section \<open>The chain and its coins\<close>

record CBlock =
  vtx :: "CTransaction list"
  nTime :: u32

definition GetBlockTime :: "CBlock \<Rightarrow> int" where
  "GetBlockTime block = uint (nTime block)"

record Coin =
  coin_out :: CTxOut
  coin_nHeight :: int

definition coinEmpty :: Coin where
  "coinEmpty = \<lparr>coin_out = \<lparr>nValue = - 1, scriptPubKey = []\<rparr>, coin_nHeight = 0\<rparr>"

definition IsSpent :: "Coin \<Rightarrow> bool" where
  "IsSpent c \<longleftrightarrow> nValue (coin_out c) = - 1"

type_synonym CCoinsViewCache = "COutPoint \<Rightarrow> Coin"

text \<open>
  \<open>vChain\<close> holds the block of each height of the active chain as \<open>ReadBlockFromDisk\<close> returns it, \<open>None\<close> where the
  read fails.  \<open>FindTx\<close> is the transaction index (always \<open>None\<close> when the node has none), \<open>CoinsTip\<close> the coins at the
  tip of the chain.  \<open>spork20\<close> is the value of \<open>SPORK_20_BETTING_MAINTENANCE_MODE\<close>.
\<close>

record betting_env =
  consensus :: ConsensusParams
  Oracles :: "COracle list"
  vChain :: "CBlock option list"
  CoinsTip :: CCoinsViewCache
  FindTx :: "uint256 \<Rightarrow> CTransaction option"
  ExtractDestination :: "CScript \<Rightarrow> CTxDestination option"
  ExtractDestinations :: "CScript \<Rightarrow> CTxDestination list option"
  EncodeDestination :: "CTxDestination \<Rightarrow> string"
  DecodeDestination :: "string \<Rightarrow> CTxDestination"
  GetScriptForDestination :: "CTxDestination \<Rightarrow> CScript"
  SerializeHash :: "COutPoint \<Rightarrow> uint256"
  spork20 :: int

definition ChainHeight :: "betting_env \<Rightarrow> int" where
  "ChainHeight env = int (length (vChain env)) - 1"

definition ChainActive_at :: "betting_env \<Rightarrow> int \<Rightarrow> CBlock option option" where
  "ChainActive_at env nHeight =
     (if nHeight < 0 \<or> nHeight \<ge> int (length (vChain env)) then None else Some (vChain env ! nat nHeight))"

text \<open>Two million bytes divided by the nine bytes of an empty output.\<close>

definition MAX_OUTPUTS_PER_BLOCK :: nat where "MAX_OUTPUTS_PER_BLOCK = 222222"

function AccessByTxid_loop :: "CCoinsViewCache \<Rightarrow> uint256 \<Rightarrow> nat \<Rightarrow> Coin" where
  "AccessByTxid_loop view txid n =
     (if n < MAX_OUTPUTS_PER_BLOCK then
        let alternate = view \<lparr>op_hash = txid, op_n = of_nat n\<rparr> in
        if \<not> IsSpent alternate then alternate else AccessByTxid_loop view txid (n + 1)
      else coinEmpty)"
  by auto

termination by (relation "measure (\<lambda>(view, txid, n). MAX_OUTPUTS_PER_BLOCK - n)") auto

declare AccessByTxid_loop.simps [simp del]

definition AccessByTxid :: "CCoinsViewCache \<Rightarrow> uint256 \<Rightarrow> Coin" where
  "AccessByTxid view txid = AccessByTxid_loop view txid 0"

definition find_tx :: "CBlock \<Rightarrow> uint256 \<Rightarrow> CTransaction option" where
  "find_tx block hash = find (\<lambda>tx. tx_hash tx = hash) (vtx block)"

text \<open>
  \<open>GetTransaction\<close> without a mempool.  The first argument is the block index: \<open>None\<close> the null pointer,
  \<open>Some b\<close> a block whose read from disk gives \<open>b\<close>.
\<close>

definition GetTransaction :: "betting_env \<Rightarrow> CBlock option option \<Rightarrow> uint256 \<Rightarrow> bool \<Rightarrow> CTransaction option" where
  "GetTransaction env block_index hash fUseView =
     (case block_index of
        Some block \<Rightarrow> Option.bind block (\<lambda>block. find_tx block hash)
      | None \<Rightarrow>
          (case (if fUseView
                 then Option.bind (Option.bind (ChainActive_at env (coin_nHeight (AccessByTxid (CoinsTip env) hash))) (\<lambda>b. b))
                        (\<lambda>block. find_tx block hash)
                 else None) of
             Some tx \<Rightarrow> Some tx
           | None \<Rightarrow> FindTx env hash))"

section \<open>Transactions of oracles\<close>

text \<open>Access to a vector by index; \<open>None\<close> is the access out of range.\<close>

definition vec_at :: "'a list \<Rightarrow> nat \<Rightarrow> 'a option" where
  "vec_at xs i = (if i < length xs then Some (xs ! i) else None)"

definition IsValidOraclePrevTxOut :: "betting_env \<Rightarrow> CTxOut \<Rightarrow> int \<Rightarrow> bool" where
  "IsValidOraclePrevTxOut env prevTxOut nHeight =
     (case ExtractDestinations env (scriptPubKey prevTxOut) of
        None \<Rightarrow> False
      | Some prevAddrs \<Rightarrow>
          list_ex (\<lambda>prevAddr. list_ex (\<lambda>oracle. IsMyOracleTx oracle (EncodeDestination env prevAddr) nHeight) (Oracles env))
            prevAddrs)"

definition IsValidOracleTxIn :: "betting_env \<Rightarrow> CTxIn \<Rightarrow> int \<Rightarrow> bool option" where
  "IsValidOracleTxIn env txin nHeight =
     (case GetTransaction env None (op_hash (prevout txin)) True of
        Some txPrev \<Rightarrow> do {
          prevTxOut \<leftarrow> vec_at (vout txPrev) (unat (op_n (prevout txin)));
          Some (IsValidOraclePrevTxOut env prevTxOut nHeight) }
      | None \<Rightarrow> Some False)"

definition IsValidOracleTx :: "betting_env \<Rightarrow> CCoinsViewCache \<Rightarrow> CTransaction \<Rightarrow> int \<Rightarrow> bool option" where
  "IsValidOracleTx env view tx nHeight =
     (if IsCoinBase tx \<or> IsCoinStake tx then Some False
      else do {
        txin \<leftarrow> vec_at (vin tx) 0;
        let block_index_view = ChainActive_at env (coin_nHeight (AccessByTxid view (op_hash (prevout txin))));
        (case GetTransaction env block_index_view (op_hash (prevout txin)) False of
           Some txPrev \<Rightarrow> do {
             prevTxOut \<leftarrow> vec_at (vout txPrev) (unat (op_n (prevout txin)));
             Some (IsValidOraclePrevTxOut env prevTxOut nHeight) }
         | None \<Rightarrow> IsValidOracleTxIn env txin nHeight) })"

definition GetFeePayoutAddresses :: "betting_env \<Rightarrow> int \<Rightarrow> (string \<times> string) option" where
  "GetFeePayoutAddresses env nHeight =
     map_option (\<lambda>oracle. (strDevPayoutAddress oracle, strOMNOPayoutAddress oracle))
       (find (\<lambda>oracle. IsActive oracle nHeight) (Oracles env))"

definition GetFeePayoutScripts :: "betting_env \<Rightarrow> int \<Rightarrow> (CScript \<times> CScript) option" where
  "GetFeePayoutScripts env nHeight =
     map_option (\<lambda>oracle. (GetScriptForDestination env (DecodeDestination env (strDevPayoutAddress oracle)),
                           GetScriptForDestination env (DecodeDestination env (strOMNOPayoutAddress oracle))))
       (find (\<lambda>oracle. IsActive oracle nHeight) (Oracles env))"

end
