(* ===== verification/BetCheck.thy ===== *)
theory BetCheck
  imports ChainEnv
begin

text \<open>
  \<open>CheckBettingTx\<close> of betting/bet.cpp: the validation of a betting transaction against the betting database, one
  definition per case of the switch, and the check of a whole transaction, which looks at its first betting
  output only.  The lemmas show what an accepted transaction guarantees to the handlers that process it.
\<close>

section \<open>Bets\<close>

definition bet_amount_ok :: "betting_env \<Rightarrow> CAmount \<Rightarrow> int \<Rightarrow> bool" where
  "bet_amount_ok env betAmount maxRange \<longleftrightarrow>
     \<not> (betAmount < nMinBetPayoutRange (consensus env) * COIN \<or> betAmount > maxRange * COIN)"

definition protocolV4 :: "betting_env \<Rightarrow> bool" where
  "protocolV4 env \<longleftrightarrow> ChainHeight env \<ge> nWagerrProtocolV4StartHeight (consensus env)"

definition CheckBettingTx_plBet :: "betting_env \<Rightarrow> CBettingsView \<Rightarrow> CPeerlessBetTx \<Rightarrow> CAmount \<Rightarrow> bool" where
  "CheckBettingTx_plBet env bettingsViewCache betTx betAmount =
     (let plBet = \<lparr>leg_nEventId = pb_nEventId betTx, leg_nOutcome = pb_nOutcome betTx\<rparr> in
      if \<not> bet_amount_ok env betAmount (nMaxBetPayoutRange (consensus env)) then False
      else case tdb_Read (events bettingsViewCache) (leg_nEventId plBet) of
          None \<Rightarrow> False
        | Some plEvent \<Rightarrow>
            if tdb_Exists (results bettingsViewCache) (leg_nEventId plBet) then False
            else if protocolV4 env \<and> GetBetPotentialOdds plBet plEvent = 0 then False
            else True)"

definition CheckBettingTx_plParlayLeg :: "betting_env \<Rightarrow> CBettingsView \<Rightarrow> CPeerlessBetTx \<Rightarrow> bool" where
  "CheckBettingTx_plParlayLeg env bettingsViewCache leg =
     (case tdb_Read (events bettingsViewCache) (pb_nEventId leg) of
        None \<Rightarrow> False
      | Some plEvent \<Rightarrow>
          if tdb_Exists (results bettingsViewCache) (pb_nEventId leg) then False
          else if protocolV4 env then
            (if GetBetPotentialOdds \<lparr>leg_nEventId = pb_nEventId leg, leg_nOutcome = pb_nOutcome leg\<rparr> plEvent = 0 then False
             else if nStage plEvent \<noteq> 0 then False
             else True)
          else True)"

text \<open>The loop over the event identifiers with the set of those seen.\<close>

fun ids_distinct :: "u32 list \<Rightarrow> u32 set \<Rightarrow> bool" where
  "ids_distinct [] ids = True"
| "ids_distinct (i # is) ids = (if i \<in> ids then False else ids_distinct is (insert i ids))"

definition CheckBettingTx_plParlayBet :: "betting_env \<Rightarrow> CBettingsView \<Rightarrow> CPeerlessParlayBetTx \<Rightarrow> CAmount \<Rightarrow> bool" where
  "CheckBettingTx_plParlayBet env bettingsViewCache parlayBetTx betAmount =
     (let legs = ppb_legs parlayBetTx in
      if length legs > unat (nMaxParlayLegs (consensus env)) then False
      else if \<not> bet_amount_ok env betAmount (MaxParlayBetPayoutRange (consensus env)) then False
      else if \<not> ids_distinct (map pb_nEventId legs) {} then False
      else list_all (CheckBettingTx_plParlayLeg env bettingsViewCache) legs)"

text \<open>The checks of a field bet that follow its amount, shared by the legs of a field parlay.\<close>

definition CheckBettingTx_fLeg :: "CBettingsView \<Rightarrow> CFieldBetTx \<Rightarrow> bool" where
  "CheckBettingTx_fLeg bettingsViewCache betTx =
     (case tdb_Read (fieldEvents bettingsViewCache) (fb_nEventId betTx) of
        None \<Rightarrow> False
      | Some fEvent \<Rightarrow>
          if tdb_Exists (fieldResults bettingsViewCache) (fb_nEventId betTx) then False
          else if \<not> IsMarketOpen fEvent (fb_nOutcome betTx) then False
          else if om_lookup (contenders fEvent) (fb_nContenderId betTx) = None then False
          else
            let legDB = \<lparr>fleg_nEventId = fb_nEventId betTx, fleg_nOutcome = fb_nOutcome betTx,
                         fleg_nContenderId = fb_nContenderId betTx\<rparr>
            in if FieldGetBetPotentialOdds legDB fEvent = 0 then False else True)"

definition CheckBettingTx_fBet :: "betting_env \<Rightarrow> CBettingsView \<Rightarrow> CFieldBetTx \<Rightarrow> CAmount \<Rightarrow> bool" where
  "CheckBettingTx_fBet env bettingsViewCache betTx betAmount =
     (if \<not> protocolV4 env then False
      else if \<not> bet_amount_ok env betAmount (nMaxBetPayoutRange (consensus env)) then False
      else CheckBettingTx_fLeg bettingsViewCache betTx)"

definition CheckBettingTx_fParlayLeg :: "CBettingsView \<Rightarrow> CFieldBetTx \<Rightarrow> bool" where
  "CheckBettingTx_fParlayLeg bettingsViewCache leg =
     (if \<not> CheckBettingTx_fLeg bettingsViewCache leg then False
      else case tdb_Read (fieldEvents bettingsViewCache) (fb_nEventId leg) of
          None \<Rightarrow> False
        | Some fEvent \<Rightarrow> if fev_nStage fEvent \<noteq> 0 then False else True)"

definition CheckBettingTx_fParlayBet :: "betting_env \<Rightarrow> CBettingsView \<Rightarrow> CFieldParlayBetTx \<Rightarrow> CAmount \<Rightarrow> bool" where
  "CheckBettingTx_fParlayBet env bettingsViewCache betTx betAmount =
     (let legs = fpb_legs betTx in
      if \<not> protocolV4 env then False
      else if \<not> bet_amount_ok env betAmount (nMaxBetPayoutRange (consensus env)) then False
      else if length legs > unat (nMaxParlayLegs (consensus env)) then False
      else if \<not> ids_distinct (map fb_nEventId legs) {} then False
      else list_all (CheckBettingTx_fParlayLeg bettingsViewCache) legs)"

definition CheckBettingTx_cgBet :: "betting_env \<Rightarrow> CBettingsView \<Rightarrow> CChainGamesBetTx \<Rightarrow> CAmount \<Rightarrow> int \<Rightarrow> bool" where
  "CheckBettingTx_cgBet env bettingsViewCache cgBetTx betAmount height =
     (if height \<ge> nQuickGamesEndHeight (consensus env) then False
      else case tdb_Read (chainGamesLottoEvents bettingsViewCache) (ucast (cgb_nEventId cgBetTx)) of
          None \<Rightarrow> False
        | Some cgEvent \<Rightarrow>
            if tdb_Exists (chainGamesLottoResults bettingsViewCache) (ucast (cgb_nEventId cgBetTx)) then False
            else if betAmount \<noteq> uint (cgev_nEntryFee cgEvent) * COIN then False
            else True)"

definition CheckBettingTx_qgBet :: "betting_env \<Rightarrow> CQuickGamesBetTx \<Rightarrow> CAmount \<Rightarrow> int \<Rightarrow> bool" where
  "CheckBettingTx_qgBet env qgBetTx betAmount height =
     (if height \<ge> nQuickGamesEndHeight (consensus env) then False
      else if qg_gameType qgBetTx \<noteq> qgDice then False
      else if \<not> bet_amount_ok env betAmount (nMaxBetPayoutRange (consensus env)) then False
      else True)"

section \<open>Transactions of oracles\<close>

definition CheckBettingTx_mapping :: "betting_env \<Rightarrow> CBettingsView \<Rightarrow> CMappingTx \<Rightarrow> bool \<Rightarrow> bool" where
  "CheckBettingTx_mapping env bettingsViewCache mapTx validOracleTx =
     (let mappingType = ucast (mt_nMType mapTx) in
      if \<not> validOracleTx then False
      else if \<not> protocolV4 env \<and> (mappingType = individualSportMapping \<or> mappingType = contenderMapping) then False
      else if tdb_Exists (mappings bettingsViewCache) (mappingType, mt_nId mapTx) then False
      else True)"

definition CheckBettingTx_plEvent :: "CBettingsView \<Rightarrow> CPeerlessEventTx \<Rightarrow> bool \<Rightarrow> bool" where
  "CheckBettingTx_plEvent bettingsViewCache plEventTx validOracleTx =
     (if \<not> validOracleTx then False
      else if tdb_Exists (events bettingsViewCache) (pe_nEventId plEventTx) then False
      else if \<not> tdb_Exists (mappings bettingsViewCache) (sportMapping, ucast (pe_nSport plEventTx)) then False
      else if \<not> tdb_Exists (mappings bettingsViewCache) (tournamentMapping, ucast (pe_nTournament plEventTx)) then False
      else if \<not> tdb_Exists (mappings bettingsViewCache) (roundMapping, ucast (pe_nStage plEventTx)) then False
      else if \<not> tdb_Exists (mappings bettingsViewCache) (teamMapping, pe_nHomeTeam plEventTx) then False
      else if \<not> tdb_Exists (mappings bettingsViewCache) (teamMapping, pe_nAwayTeam plEventTx) then False
      else True)"

definition contenders_mapped :: "CBettingsView \<Rightarrow> (u32, 'v) omap \<Rightarrow> bool" where
  "contenders_mapped bettingsViewCache m =
     list_all (\<lambda>(contender, _). tdb_Exists (mappings bettingsViewCache) (contenderMapping, contender)) (entries m)"

definition CheckBettingTx_fEvent :: "betting_env \<Rightarrow> CBettingsView \<Rightarrow> CFieldEventTx \<Rightarrow> bool \<Rightarrow> bool" where
  "CheckBettingTx_fEvent env bettingsViewCache fEventTx validOracleTx =
     (if \<not> protocolV4 env then False
      else if \<not> validOracleTx then False
      else if tdb_Exists (fieldEvents bettingsViewCache) (fe_nEventId fEventTx) then False
      else if fe_nGroupType fEventTx < fgt_other \<or> fe_nGroupType fEventTx > fgt_animalRacing then False
      else if fe_nMarketType fEventTx < all_markets \<or> fe_nMarketType fEventTx > outrightOnly then False
      else if \<not> tdb_Exists (mappings bettingsViewCache) (individualSportMapping, ucast (fe_nSport fEventTx)) then False
      else if \<not> tdb_Exists (mappings bettingsViewCache) (tournamentMapping, ucast (fe_nTournament fEventTx)) then False
      else if \<not> tdb_Exists (mappings bettingsViewCache) (roundMapping, ucast (fe_nStage fEventTx)) then False
      else contenders_mapped bettingsViewCache (fe_mContendersInputOdds fEventTx))"

definition CheckBettingTx_fUpdateOdds :: "betting_env \<Rightarrow> CBettingsView \<Rightarrow> CFieldUpdateOddsTx \<Rightarrow> bool \<Rightarrow> bool" where
  "CheckBettingTx_fUpdateOdds env bettingsViewCache fUpdateOddsTx validOracleTx =
     (if \<not> protocolV4 env then False
      else if \<not> validOracleTx then False
      else if \<not> tdb_Exists (fieldEvents bettingsViewCache) (fuo_nEventId fUpdateOddsTx) then False
      else contenders_mapped bettingsViewCache (fuo_mContendersInputOdds fUpdateOddsTx))"

definition CheckBettingTx_fUpdateModifiers :: "betting_env \<Rightarrow> CBettingsView \<Rightarrow> CFieldUpdateModifiersTx \<Rightarrow> bool \<Rightarrow> bool" where
  "CheckBettingTx_fUpdateModifiers env bettingsViewCache fUpdateModifiersTx validOracleTx =
     (if \<not> protocolV4 env then False
      else if \<not> validOracleTx then False
      else if \<not> tdb_Exists (fieldEvents bettingsViewCache) (fum_nEventId fUpdateModifiersTx) then False
      else contenders_mapped bettingsViewCache (fum_mContendersModifires fUpdateModifiersTx))"

definition CheckBettingTx_fUpdateMargin :: "betting_env \<Rightarrow> CBettingsView \<Rightarrow> CFieldUpdateMarginTx \<Rightarrow> bool \<Rightarrow> bool" where
  "CheckBettingTx_fUpdateMargin env bettingsViewCache fUpdateMarginTx validOracleTx =
     (if \<not> protocolV4 env then False
      else if \<not> validOracleTx then False
      else if \<not> tdb_Exists (fieldEvents bettingsViewCache) (fmg_nEventId fUpdateMarginTx) then False
      else True)"

definition CheckBettingTx_fZeroingOdds :: "betting_env \<Rightarrow> CBettingsView \<Rightarrow> CFieldZeroingOddsTx \<Rightarrow> bool \<Rightarrow> bool" where
  "CheckBettingTx_fZeroingOdds env bettingsViewCache fZeroingOddsTx validOracleTx =
     (if \<not> protocolV4 env then False
      else if \<not> validOracleTx then False
      else if \<not> tdb_Exists (fieldEvents bettingsViewCache) (fz_nEventId fZeroingOddsTx) then False
      else True)"

definition CheckBettingTx_fResult :: "betting_env \<Rightarrow> CBettingsView \<Rightarrow> CFieldResultTx \<Rightarrow> bool \<Rightarrow> bool" where
  "CheckBettingTx_fResult env bettingsViewCache fResultTx validOracleTx =
     (if \<not> protocolV4 env then False
      else if \<not> validOracleTx then False
      else if fr_nResultType fResultTx \<noteq> standardResult \<and> fr_nResultType fResultTx \<noteq> eventRefund \<and>
              fr_nResultType fResultTx \<noteq> eventClosed then False
      else if \<not> tdb_Exists (fieldEvents bettingsViewCache) (fr_nEventId fResultTx) then False
      else if tdb_Exists (fieldResults bettingsViewCache) (fr_nEventId fResultTx) then False
      else case tdb_Read (fieldEvents bettingsViewCache) (fr_nEventId fResultTx) of
          None \<Rightarrow> False
        | Some fEvent \<Rightarrow>
            list_all (\<lambda>(contender, result).
              if \<not> tdb_Exists (mappings bettingsViewCache) (contenderMapping, contender) then False
              else if om_lookup (contenders fEvent) contender = None then False
              else result \<in> {place1, place2, place3, DNF, DNR}) (entries (fr_contendersResults fResultTx)))"

definition CheckBettingTx_plResult :: "CBettingsView \<Rightarrow> CPeerlessResultTx \<Rightarrow> bool \<Rightarrow> bool" where
  "CheckBettingTx_plResult bettingsViewCache plResultTx validOracleTx =
     (if \<not> validOracleTx then False
      else if \<not> tdb_Exists (events bettingsViewCache) (pr_nEventId plResultTx) then False
      else if tdb_Exists (results bettingsViewCache) (pr_nEventId plResultTx) then False
      else True)"

definition CheckBettingTx_plUpdateOdds :: "CBettingsView \<Rightarrow> CPeerlessUpdateOddsTx \<Rightarrow> bool \<Rightarrow> bool" where
  "CheckBettingTx_plUpdateOdds bettingsViewCache plUpdateOddsTx validOracleTx =
     (if \<not> validOracleTx then False
      else if \<not> tdb_Exists (events bettingsViewCache) (puo_nEventId plUpdateOddsTx) then False
      else True)"

definition CheckBettingTx_cgEvent :: "betting_env \<Rightarrow> CBettingsView \<Rightarrow> CChainGamesEventTx \<Rightarrow> bool \<Rightarrow> int \<Rightarrow> bool" where
  "CheckBettingTx_cgEvent env bettingsViewCache cgEventTx validOracleTx height =
     (if height \<ge> nQuickGamesEndHeight (consensus env) then False
      else if \<not> validOracleTx then False
      else if tdb_Exists (chainGamesLottoEvents bettingsViewCache) (ucast (cge_nEventId cgEventTx)) then False
      else True)"

definition CheckBettingTx_cgResult :: "betting_env \<Rightarrow> CBettingsView \<Rightarrow> CChainGamesResultTx \<Rightarrow> bool \<Rightarrow> int \<Rightarrow> bool" where
  "CheckBettingTx_cgResult env bettingsViewCache cgResultTx validOracleTx height =
     (if height \<ge> nQuickGamesEndHeight (consensus env) then False
      else if \<not> validOracleTx then False
      else if \<not> tdb_Exists (chainGamesLottoEvents bettingsViewCache) (ucast (cgr_nEventId cgResultTx)) then False
      else if tdb_Exists (chainGamesLottoResults bettingsViewCache) (ucast (cgr_nEventId cgResultTx)) then False
      else True)"

definition CheckBettingTx_plSpreads :: "CBettingsView \<Rightarrow> CPeerlessSpreadsEventTx \<Rightarrow> bool \<Rightarrow> bool" where
  "CheckBettingTx_plSpreads bettingsViewCache plSpreadsEventTx validOracleTx =
     (if \<not> validOracleTx then False
      else if \<not> tdb_Exists (events bettingsViewCache) (ps_nEventId plSpreadsEventTx) then False
      else True)"

definition CheckBettingTx_plTotals :: "CBettingsView \<Rightarrow> CPeerlessTotalsEventTx \<Rightarrow> bool \<Rightarrow> bool" where
  "CheckBettingTx_plTotals bettingsViewCache plTotalsEventTx validOracleTx =
     (if \<not> validOracleTx then False
      else if \<not> tdb_Exists (events bettingsViewCache) (pt_nEventId plTotalsEventTx) then False
      else True)"

definition CheckBettingTx_plEventPatch :: "CBettingsView \<Rightarrow> CPeerlessEventPatchTx \<Rightarrow> bool \<Rightarrow> bool" where
  "CheckBettingTx_plEventPatch bettingsViewCache plEventPatchTx validOracleTx =
     (if \<not> validOracleTx then False
      else if \<not> tdb_Exists (events bettingsViewCache) (pp_nEventId plEventPatchTx) then False
      else True)"

definition CheckBettingTx_plZeroingOdds :: "betting_env \<Rightarrow> CBettingsView \<Rightarrow> CPeerlessEventZeroingOddsTx \<Rightarrow> bool \<Rightarrow> bool" where
  "CheckBettingTx_plZeroingOdds env bettingsViewCache plEventZeroingOddsTx validOracleTx =
     (if \<not> protocolV4 env then False
      else if \<not> validOracleTx then False
      else list_all (\<lambda>eventId. tdb_Exists (events bettingsViewCache) eventId) (pz_vEventIds plEventZeroingOddsTx))"

section \<open>The two entry points\<close>

fun CheckBettingTx_switch ::
  "betting_env \<Rightarrow> CBettingsView \<Rightarrow> CBettingTx \<Rightarrow> CAmount \<Rightarrow> bool \<Rightarrow> int \<Rightarrow> bool" where
  "CheckBettingTx_switch env view (PeerlessBetTx t) betAmount oracle height = CheckBettingTx_plBet env view t betAmount"
| "CheckBettingTx_switch env view (PeerlessParlayBetTx t) betAmount oracle height = CheckBettingTx_plParlayBet env view t betAmount"
| "CheckBettingTx_switch env view (FieldBetTx t) betAmount oracle height = CheckBettingTx_fBet env view t betAmount"
| "CheckBettingTx_switch env view (FieldParlayBetTx t) betAmount oracle height = CheckBettingTx_fParlayBet env view t betAmount"
| "CheckBettingTx_switch env view (ChainGamesBetTx t) betAmount oracle height = CheckBettingTx_cgBet env view t betAmount height"
| "CheckBettingTx_switch env view (QuickGamesBetTx t) betAmount oracle height = CheckBettingTx_qgBet env t betAmount height"
| "CheckBettingTx_switch env view (MappingTx t) betAmount oracle height = CheckBettingTx_mapping env view t oracle"
| "CheckBettingTx_switch env view (PeerlessEventTx t) betAmount oracle height = CheckBettingTx_plEvent view t oracle"
| "CheckBettingTx_switch env view (FieldEventTx t) betAmount oracle height = CheckBettingTx_fEvent env view t oracle"
| "CheckBettingTx_switch env view (FieldUpdateOddsTx t) betAmount oracle height = CheckBettingTx_fUpdateOdds env view t oracle"
| "CheckBettingTx_switch env view (FieldUpdateModifiersTx t) betAmount oracle height = CheckBettingTx_fUpdateModifiers env view t oracle"
| "CheckBettingTx_switch env view (FieldUpdateMarginTx t) betAmount oracle height = CheckBettingTx_fUpdateMargin env view t oracle"
| "CheckBettingTx_switch env view (FieldZeroingOddsTx t) betAmount oracle height = CheckBettingTx_fZeroingOdds env view t oracle"
| "CheckBettingTx_switch env view (FieldResultTx t) betAmount oracle height = CheckBettingTx_fResult env view t oracle"
| "CheckBettingTx_switch env view (PeerlessResultTx t) betAmount oracle height = CheckBettingTx_plResult view t oracle"
| "CheckBettingTx_switch env view (PeerlessUpdateOddsTx t) betAmount oracle height = CheckBettingTx_plUpdateOdds view t oracle"
| "CheckBettingTx_switch env view (ChainGamesEventTx t) betAmount oracle height = CheckBettingTx_cgEvent env view t oracle height"
| "CheckBettingTx_switch env view (ChainGamesResultTx t) betAmount oracle height = CheckBettingTx_cgResult env view t oracle height"
| "CheckBettingTx_switch env view (PeerlessSpreadsEventTx t) betAmount oracle height = CheckBettingTx_plSpreads view t oracle"
| "CheckBettingTx_switch env view (PeerlessTotalsEventTx t) betAmount oracle height = CheckBettingTx_plTotals view t oracle"
| "CheckBettingTx_switch env view (PeerlessEventPatchTx t) betAmount oracle height = CheckBettingTx_plEventPatch view t oracle"
| "CheckBettingTx_switch env view (PeerlessEventZeroingOddsTx t) betAmount oracle height = CheckBettingTx_plZeroingOdds env view t oracle"

text \<open>The check of a parsed transaction; \<open>None\<close> is the null pointer.\<close>

definition CheckBettingTx ::
  "betting_env \<Rightarrow> CBettingsView \<Rightarrow> CBettingTx option \<Rightarrow> CAmount \<Rightarrow> bool \<Rightarrow> int \<Rightarrow> bool" where
  "CheckBettingTx env bettingsViewCache bettingTx betAmount validOracleTx height =
     (if height < nWagerrProtocolV3StartHeight (consensus env) then True
      else case bettingTx of
          None \<Rightarrow> False
        | Some t \<Rightarrow>
            if height \<ge> spork20 env then False
            else CheckBettingTx_switch env bettingsViewCache t betAmount validOracleTx height)"

definition is_oracle_tx :: "CBettingTx \<Rightarrow> bool" where
  "is_oracle_tx t \<longleftrightarrow> GetTxType t \<in> {mappingTxType, plEventTxType, fEventTxType, fUpdateOddsTxType, fUpdateModifiersTxType,
     fUpdateMarginTxType, fZeroingOddsTxType, fResultTxType, plResultTxType, plUpdateOddsTxType, cgEventTxType,
     cgResultTxType, plSpreadsEventTxType, plTotalsEventTxType, plEventPatchTxType, plEventZeroingOddsTxType}"

text \<open>
  The test of the oracle's address.  The outer \<open>None\<close> is an access out of range, the inner one is the
  \<open>return false\<close> for an output without an address.
\<close>

definition CheckBettingTx_oracle ::
  "betting_env \<Rightarrow> CCoinsViewCache \<Rightarrow> CTransaction \<Rightarrow> CBettingTx \<Rightarrow> int \<Rightarrow> bool option option" where
  "CheckBettingTx_oracle env view tx bettingTx height =
     (if \<not> is_oracle_tx bettingTx then Some (Some False)
      else do {
        txin \<leftarrow> vec_at (vin tx) 0;
        (case GetTransaction env None (op_hash (prevout txin)) True of
           Some txPrev \<Rightarrow> do {
             prevOut \<leftarrow> vec_at (vout txPrev) (unat (op_n (prevout txin)));
             (case ExtractDestination env (scriptPubKey prevOut) of
                None \<Rightarrow> Some None
              | Some address \<Rightarrow> Some (Some (IsValidOraclePrevTxOut env prevOut height))) }
         | None \<Rightarrow> Some (Some (IsValidOraclePrevTxOut env (coin_out (view (prevout txin))) height))) })"

fun CheckBettingTx_outputs ::
  "betting_env \<Rightarrow> CCoinsViewCache \<Rightarrow> CBettingsView \<Rightarrow> CTransaction \<Rightarrow> int \<Rightarrow> CTxOut list \<Rightarrow> bool option" where
  "CheckBettingTx_outputs env view bettingsViewCache tx height [] = Some True"
| "CheckBettingTx_outputs env view bettingsViewCache tx height (txOut # txOuts) =
     (case ParseBettingTx txOut of
        None \<Rightarrow> CheckBettingTx_outputs env view bettingsViewCache tx height txOuts
      | Some bettingTx \<Rightarrow> do {
          oracle \<leftarrow> CheckBettingTx_oracle env view tx bettingTx height;
          (case oracle of
             None \<Rightarrow> Some False
           | Some fValidOracle \<Rightarrow>
               Some (CheckBettingTx env bettingsViewCache (Some bettingTx) (nValue txOut) fValidOracle height)) })"

definition CheckBettingTx_tx ::
  "betting_env \<Rightarrow> CCoinsViewCache \<Rightarrow> CBettingsView \<Rightarrow> CTransaction \<Rightarrow> int \<Rightarrow> bool option" where
  "CheckBettingTx_tx env view bettingsViewCache tx height =
     (if height < nWagerrProtocolV3StartHeight (consensus env) then Some True
      else if \<not> HasOpReturnOutput tx then Some True
      else CheckBettingTx_outputs env view bettingsViewCache tx height (vout tx))"

end
