(* ===== verification/FieldOdds.thy ===== *)
theory FieldOdds
  imports BetTypes
begin

text \<open>
  \<open>CFieldEventDB::CalcOdds\<close> of betting/bet_db.cpp: the odds of the outright, place and show markets of a field
  event.  The code computes with \<open>double\<close>; its floating-point operations are the functions of the record
  \<open>double_ops\<close>, so the lemmas hold for every rounding: contenders without input odds get no odds, closed markets
  get no odds, nothing else of the event changes, and the enumerations of finishing orders are complete.
\<close>

section \<open>Floating point\<close>

text \<open>
  \<open>dlit m k\<close> is the literal \<open>m / 10 ^ k\<close>, \<open>dcast\<close> the conversion of an unsigned integer, \<open>dtrunc\<close> the cast to
  \<open>uint32_t\<close>; \<open>dcast64\<close> and \<open>dtrunc64\<close> convert from \<open>uint64_t\<close> and to \<open>CAmount\<close>.
\<close>

record 'd double_ops =
  dlit :: "int \<Rightarrow> nat \<Rightarrow> 'd"
  dcast :: "u32 \<Rightarrow> 'd"
  dadd :: "'d \<Rightarrow> 'd \<Rightarrow> 'd"
  dsub :: "'d \<Rightarrow> 'd \<Rightarrow> 'd"
  dmul :: "'d \<Rightarrow> 'd \<Rightarrow> 'd"
  ddiv :: "'d \<Rightarrow> 'd \<Rightarrow> 'd"
  dpow :: "'d \<Rightarrow> 'd \<Rightarrow> 'd"
  dneg :: "'d \<Rightarrow> 'd"
  dround :: "'d \<Rightarrow> 'd"
  dless :: "'d \<Rightarrow> 'd \<Rightarrow> bool"
  deq :: "'d \<Rightarrow> 'd \<Rightarrow> bool"
  dtrunc :: "'d \<Rightarrow> u32"
  dcast64 :: "u64 \<Rightarrow> 'd"
  dtrunc64 :: "'d \<Rightarrow> CAmount"

definition DOUBLE_ODDS :: "'d double_ops \<Rightarrow> u32 \<Rightarrow> 'd" where
  "DOUBLE_ODDS fp odds = ddiv fp (dcast fp odds) (dlit fp 10000 0)"

definition DOUBLE_MODIFIER :: "'d double_ops \<Rightarrow> u32 \<Rightarrow> 'd" where
  "DOUBLE_MODIFIER fp mo = ddiv fp (dcast fp mo) (dlit fp 100 0)"

definition DOUBLE_MARGIN :: "'d double_ops \<Rightarrow> u32 \<Rightarrow> 'd" where
  "DOUBLE_MARGIN fp mrg = ddiv fp (ddiv fp (dcast fp mrg) (dlit fp 100 0)) (dlit fp 100 0)"

section \<open>Fair and outright odds\<close>

definition fair_stepMargin :: "'d double_ops \<Rightarrow> (u32 \<times> ContenderInfo) list \<Rightarrow> 'd \<Rightarrow> 'd" where
  "fair_stepMargin fp cs X = foldl (\<lambda>stepMargin (_, c).
     if nInputOdds c = 0 then stepMargin
     else
       let delim = dadd fp (dsub fp (DOUBLE_ODDS fp (nInputOdds c)) (dlit fp 1 0)) X in
       if \<not> deq fp delim (dlit fp 0 0) then dadd fp stepMargin (ddiv fp X delim) else stepMargin) (dlit fp 0 0) cs"

text \<open>The parts of a step of the search for \<open>X\<close>.\<close>

definition margin_is_zero :: "'d double_ops \<Rightarrow> 'd \<Rightarrow> bool" where
  "margin_is_zero fp d = deq fp (ddiv fp (dround fp (dmul fp d (dlit fp 100000 0))) (dlit fp 100000 0)) (dlit fp 0 0)"

definition clamp_add :: "'d double_ops \<Rightarrow> 'd \<Rightarrow> 'd \<Rightarrow> 'd" where
  "clamp_add fp X delta = (if dless fp (dadd fp X delta) (dlit fp 0 0) then dlit fp 0 0 else dadd fp X delta)"

definition fair_delta :: "'d double_ops \<Rightarrow> 'd \<Rightarrow> nat \<Rightarrow> 'd" where
  "fair_delta fp stepMargin it =
     (let d = dsub fp stepMargin (dlit fp 1 0) in
      if dless fp (dlit fp 0 0) d then ddiv fp (dlit fp (- 99) 2) (dcast fp (of_nat it))
      else if margin_is_zero fp d then dlit fp 0 0
      else ddiv fp (dlit fp 99 2) (dcast fp (of_nat it)))"

function fair_loop :: "'d double_ops \<Rightarrow> (u32 \<times> ContenderInfo) list \<Rightarrow> 'd \<Rightarrow> nat \<Rightarrow> 'd" where
  "fair_loop fp cs X it =
     (let delta = fair_delta fp (fair_stepMargin fp cs X) it;
          X = clamp_add fp X delta;
          it = it + 1
      in if \<not> deq fp delta (dlit fp 0 0) \<and> it < 200 then fair_loop fp cs X it else X)"
  by auto

termination by (relation "measure (\<lambda>(fp, cs, X, it). 200 - it)") auto

declare fair_loop.simps [simp del]

definition CalculateFairOdds :: "'d double_ops \<Rightarrow> CFieldEventDB \<Rightarrow> (u32, u32) omap" where
  "CalculateFairOdds fp ev =
     (let X = fair_loop fp (entries (contenders ev)) (dlit fp 1 0) 1 in
      om_map (\<lambda>_ c.
        if nInputOdds c = 0 then 0
        else
          let fairOdds = ddiv fp (dlit fp 1 0)
                (ddiv fp X (dsub fp (dadd fp X (DOUBLE_ODDS fp (nInputOdds c))) (dlit fp 1 0)))
          in dtrunc fp (dround fp (dmul fp fairOdds (dlit fp 10000 0)))) (contenders ev))"

text \<open>
  \<open>map.at\<close>, which throws on a missing key.  The maps of odds below have exactly the contenders as keys
  (\<open>CalculateFairOdds_keys\<close>), and every key read is a contender: the default is never used.
\<close>

definition odds_at :: "(u32, u32) omap \<Rightarrow> u32 \<Rightarrow> u32" where
  "odds_at m i = (case om_lookup m i of Some odds \<Rightarrow> odds | None \<Rightarrow> 0)"

definition outright_value :: "'d double_ops \<Rightarrow> (u32, u32) omap \<Rightarrow> u32 \<Rightarrow> ContenderInfo \<Rightarrow> 'd \<Rightarrow> 'd" where
  "outright_value fp mContendersFairOdds i c X =
     (let modifier = DOUBLE_MODIFIER fp (nModifier c);
          fairOdds = DOUBLE_ODDS fp (odds_at mContendersFairOdds i)
      in dadd fp (dlit fp 1 0) (dmul fp (dsub fp fairOdds (dlit fp 1 0)) (dadd fp X modifier)))"

definition outright_stepMargin ::
  "'d double_ops \<Rightarrow> (u32, u32) omap \<Rightarrow> (u32 \<times> ContenderInfo) list \<Rightarrow> 'd \<Rightarrow> 'd" where
  "outright_stepMargin fp mContendersFairOdds cs X = foldl (\<lambda>stepMargin (i, c).
     if nInputOdds c = 0 then stepMargin
     else
       let delim = outright_value fp mContendersFairOdds i c X in
       if \<not> deq fp delim (dlit fp 0 0) then dadd fp stepMargin (ddiv fp (dlit fp 1 0) delim) else stepMargin)
     (dlit fp 0 0) cs"

definition outright_delta :: "'d double_ops \<Rightarrow> 'd \<Rightarrow> 'd \<Rightarrow> nat \<Rightarrow> 'd" where
  "outright_delta fp stepMargin margin it =
     (let d = dsub fp stepMargin margin in
      if dless fp (dlit fp 0 0) d then ddiv fp (dlit fp 99 2) (dcast fp (of_nat it))
      else if margin_is_zero fp d then dlit fp 0 0
      else ddiv fp (dlit fp (- 99) 2) (dcast fp (of_nat it)))"

function outright_loop ::
  "'d double_ops \<Rightarrow> (u32, u32) omap \<Rightarrow> (u32 \<times> ContenderInfo) list \<Rightarrow> 'd \<Rightarrow> 'd \<Rightarrow> nat \<Rightarrow> 'd" where
  "outright_loop fp mContendersFairOdds cs margin X it =
     (let delta = outright_delta fp (outright_stepMargin fp mContendersFairOdds cs X) margin it;
          X = clamp_add fp X delta;
          it = it + 1
      in if \<not> deq fp delta (dlit fp 0 0) \<and> it < 200 then outright_loop fp mContendersFairOdds cs margin X it else X)"
  by auto

termination by (relation "measure (\<lambda>(fp, fo, cs, m, X, it). 200 - it)") auto

declare outright_loop.simps [simp del]

definition CalculateOutrightOdds :: "'d double_ops \<Rightarrow> CFieldEventDB \<Rightarrow> (u32, u32) omap \<Rightarrow> (u32, u32) omap" where
  "CalculateOutrightOdds fp ev mContendersFairOdds =
     (let margin = DOUBLE_MARGIN fp (fev_nMarginPercent ev);
          X = outright_loop fp mContendersFairOdds (entries (contenders ev)) margin (dlit fp 1 0) 1
      in om_map (\<lambda>i c.
           if nInputOdds c = 0 then 0
           else dtrunc fp (dround fp (dmul fp (outright_value fp mContendersFairOdds i c X) (dlit fp 10000 0))))
         (contenders ev))"

section \<open>Place and show odds\<close>

definition GetLambda :: "'d double_ops \<Rightarrow> nat \<Rightarrow> 'd" where
  "GetLambda fp ContendersSize =
     (if ContendersSize = 3 then dlit fp 6667 4
      else if ContendersSize = 4 then dlit fp 6996 4
      else if ContendersSize = 5 then dlit fp 7207 4
      else if ContendersSize = 6 then dlit fp 7359 4
      else if ContendersSize = 7 then dlit fp 7475 4
      else if ContendersSize = 8 then dlit fp 7569 4
      else if ContendersSize = 9 then dlit fp 7648 4
      else if ContendersSize = 10 then dlit fp 7714 4
      else if ContendersSize = 11 then dlit fp 7771 4
      else if ContendersSize = 12 then dlit fp 7822 4
      else if ContendersSize = 13 then dlit fp 7867 4
      else if ContendersSize = 14 then dlit fp 7907 4
      else dlit fp 76 2)"

definition GetRHO :: "'d double_ops \<Rightarrow> nat \<Rightarrow> 'd" where
  "GetRHO fp ContendersSize =
     (if ContendersSize = 4 then dlit fp 5336 4
      else if ContendersSize = 5 then dlit fp 5703 4
      else if ContendersSize = 6 then dlit fp 5952 4
      else if ContendersSize = 7 then dlit fp 6138 4
      else if ContendersSize = 8 then dlit fp 6285 4
      else if ContendersSize = 9 then dlit fp 6406 4
      else if ContendersSize = 10 then dlit fp 6508 4
      else if ContendersSize = 11 then dlit fp 6596 4
      else if ContendersSize = 12 then dlit fp 6672 4
      else if ContendersSize = 13 then dlit fp 6741 4
      else if ContendersSize = 14 then dlit fp 6802 4
      else dlit fp 62 2)"

definition inv_odds :: "'d double_ops \<Rightarrow> u32 \<Rightarrow> 'd" where
  "inv_odds fp odds = ddiv fp (dlit fp 1 0) (DOUBLE_ODDS fp odds)"

text \<open>The sum of \<open>pow(1 / odds, e)\<close> over the contenders with odds that are not in \<open>skip\<close>.\<close>

definition pow_sum :: "'d double_ops \<Rightarrow> (u32 \<times> u32) list \<Rightarrow> u32 list \<Rightarrow> 'd \<Rightarrow> 'd" where
  "pow_sum fp cs skip e = foldl (\<lambda>den (i, odds).
     if odds = 0 then den else if i \<in> set skip then den
     else dadd fp den (dpow fp (inv_odds fp odds) e)) (dlit fp 0 0) cs"

definition CalculateAnimalPlaceOdds :: "'d double_ops \<Rightarrow> u32 \<Rightarrow> 'd \<Rightarrow> (u32, u32) omap \<Rightarrow> u32" where
  "CalculateAnimalPlaceOdds fp idx lambda mContendersFairOdds =
     (let cs = entries mContendersFairOdds;
          resultProb = foldl (\<lambda>resultProb (idx1, odds).
            if odds = 0 then resultProb else if idx1 = idx then resultProb
            else
              let den = pow_sum fp cs [idx1] lambda;
                  probIdx1 = inv_odds fp (odds_at mContendersFairOdds idx1);
                  probIdx2 = inv_odds fp (odds_at mContendersFairOdds idx)
              in dadd fp resultProb (ddiv fp (dmul fp probIdx1 (dpow fp probIdx2 lambda)) den))
            (inv_odds fp (odds_at mContendersFairOdds idx)) cs
      in dtrunc fp (dmul fp (ddiv fp (dlit fp 1 0) resultProb) (dlit fp 10000 0)))"

definition CalculateAnimalShowOdds :: "'d double_ops \<Rightarrow> u32 \<Rightarrow> 'd \<Rightarrow> 'd \<Rightarrow> (u32, u32) omap \<Rightarrow> u32" where
  "CalculateAnimalShowOdds fp idx lambda rho mContendersFairOdds =
     (let cs = entries mContendersFairOdds;
          resultProb = foldl (\<lambda>resultProb (idx1, odds1).
            if odds1 = 0 then resultProb else if idx1 = idx then resultProb
            else foldl (\<lambda>resultProb (idx2, odds2).
              if odds2 = 0 then resultProb else if idx2 = idx then resultProb else if idx2 = idx1 then resultProb
              else
                let den1 = pow_sum fp cs [idx1] lambda;
                    den2 = pow_sum fp cs [idx1, idx2] rho;
                    probIdx1 = inv_odds fp (odds_at mContendersFairOdds idx1);
                    probIdx2 = inv_odds fp (odds_at mContendersFairOdds idx2);
                    probIdx3 = inv_odds fp (odds_at mContendersFairOdds idx)
                in dadd fp resultProb
                     (ddiv fp (dmul fp (dmul fp probIdx1 (dpow fp probIdx2 lambda)) (dpow fp probIdx3 rho)) (dmul fp den1 den2)))
              resultProb cs)
            (inv_odds fp (CalculateAnimalPlaceOdds fp idx lambda mContendersFairOdds)) cs
      in dtrunc fp (dmul fp (ddiv fp (dlit fp 1 0) resultProb) (dlit fp 10000 0)))"

definition Permutations2 :: "(u32, u32) omap \<Rightarrow> u32 list list" where
  "Permutations2 mContendersOdds =
     concat (map (\<lambda>(i, odds_i). if odds_i = 0 then [] else
       concat (map (\<lambda>(j, odds_j). if odds_j = 0 then [] else if i = j then [] else [[i, j]])
         (entries mContendersOdds))) (entries mContendersOdds))"

definition Permutations3 :: "(u32, u32) omap \<Rightarrow> u32 list list" where
  "Permutations3 mContendersOdds =
     concat (map (\<lambda>(i, odds_i). if odds_i = 0 then [] else
       concat (map (\<lambda>(j, odds_j). if odds_j = 0 then [] else if i = j then [] else
         concat (map (\<lambda>(k, odds_k). if odds_k = 0 then [] else if k = i then [] else if k = j then [] else [[i, j, k]])
           (entries mContendersOdds))) (entries mContendersOdds))) (entries mContendersOdds))"

text \<open>The product, over the positions \<open>i\<close>, of one minus the probabilities before \<open>i\<close>.\<close>

fun order_den :: "'d double_ops \<Rightarrow> 'd \<Rightarrow> 'd \<Rightarrow> 'd list \<Rightarrow> 'd" where
  "order_den fp den q [] = den"
| "order_den fp den q (prob # probs) = order_den fp (dmul fp den q) (dsub fp q prob) probs"

definition CalculateOddsInFirstN :: "'d double_ops \<Rightarrow> u32 \<Rightarrow> u32 list list \<Rightarrow> (u32, u32) omap \<Rightarrow> u32" where
  "CalculateOddsInFirstN fp idx permutations mContendersFairOdds =
     (let resultProb = foldl (\<lambda>resultProb perm.
            if idx \<notin> set perm then resultProb
            else
              let currentProbs = map (\<lambda>i. inv_odds fp (odds_at mContendersFairOdds i)) perm;
                  evalExactOrder = foldl (dmul fp) (dlit fp 1 0) currentProbs;
                  den = order_den fp (dlit fp 1 0) (dlit fp 1 0) currentProbs
              in dadd fp resultProb (ddiv fp evalExactOrder den)) (dlit fp 0 0) permutations
      in dtrunc fp (dmul fp (ddiv fp (dlit fp 1 0) resultProb) (dlit fp 10000 0)))"

text \<open>
  The Newton steps of \<open>CalculateX\<close> and \<open>CalculateM\<close>: one step for every entry with odds, with the
  derivative taken from the values at \<open>X + h\<close> and \<open>X - h\<close>.
\<close>

definition newton_step :: "'d double_ops \<Rightarrow> ('d \<Rightarrow> 'd) \<Rightarrow> 'd \<Rightarrow> 'd \<Rightarrow> 'd" where
  "newton_step fp F realMarginIn X =
     (let h = dlit fp 1 6;
          f = dsub fp (F X) realMarginIn;
          fd = dsub fp (F (dadd fp X h)) realMarginIn;
          fs = dsub fp (F (dsub fp X h)) realMarginIn;
          der = ddiv fp (dsub fp fd fs) h
      in dsub fp X (ddiv fp f der))"

definition sum_X :: "'d double_ops \<Rightarrow> (u32 \<times> u32) list \<Rightarrow> 'd \<Rightarrow> 'd" where
  "sum_X fp vContendersOddsMods X = foldl (\<lambda>f (odds, mo).
     let fairOdds = DOUBLE_ODDS fp odds; modifier = DOUBLE_MODIFIER fp mo in
     if deq fp fairOdds (dlit fp 0 0) then f
     else dadd fp f (ddiv fp (dlit fp 1 0)
            (dadd fp (dlit fp 1 0) (dmul fp (dadd fp X modifier) (dsub fp fairOdds (dlit fp 1 0)))))) (dlit fp 0 0) vContendersOddsMods"

definition CalculateX :: "'d double_ops \<Rightarrow> (u32 \<times> u32) list \<Rightarrow> 'd \<Rightarrow> 'd" where
  "CalculateX fp vContendersOddsMods realMarginIn = foldl (\<lambda>X (odds, _).
     if odds = 0 then X else newton_step fp (sum_X fp vContendersOddsMods) realMarginIn X) (dlit fp 1 0) vContendersOddsMods"

definition sum_M :: "'d double_ops \<Rightarrow> (u32 \<times> u32) list \<Rightarrow> 'd \<Rightarrow> 'd" where
  "sum_M fp vContendersOddsMods m = foldl (\<lambda>f (odds, mo).
     let fairOdds = DOUBLE_ODDS fp odds; modifier = DOUBLE_MODIFIER fp mo in
     if deq fp fairOdds (dlit fp 0 0) then f
     else dadd fp f (dpow fp (ddiv fp (dlit fp 1 0) fairOdds) (dadd fp m modifier))) (dlit fp 0 0) vContendersOddsMods"

definition CalculateM :: "'d double_ops \<Rightarrow> (u32 \<times> u32) list \<Rightarrow> 'd \<Rightarrow> 'd" where
  "CalculateM fp vContendersOddsMods realMarginIn = foldl (\<lambda>m (odds, _).
     if odds = 0 then m else newton_step fp (sum_M fp vContendersOddsMods) realMarginIn m) (dlit fp 1 0) vContendersOddsMods"

definition CalculateMarketOdds :: "'d double_ops \<Rightarrow> 'd \<Rightarrow> 'd \<Rightarrow> u32 \<Rightarrow> u16 \<Rightarrow> u32" where
  "CalculateMarketOdds fp X m oddsMods modifier =
     (if oddsMods = 0 then 0
      else
        let o' = DOUBLE_ODDS fp oddsMods;
            dmod = dcast fp (ucast modifier);
            oddsX = dadd fp (dlit fp 1 0) (dmul fp (dadd fp X dmod) (dsub fp o' (dlit fp 1 0)));
            p = ddiv fp (dlit fp 1 0) o';
            oddsM = dpow fp p (dsub fp (dneg fp m) dmod)
        in dtrunc fp (dmul fp (ddiv fp (dadd fp oddsM oddsX) (dlit fp 2 0)) (dlit fp 10000 0)))"

section \<open>CalcOdds\<close>

text \<open>The odds and modifiers of a market, one entry per contender in the order of the map.\<close>

definition odds_mods :: "CFieldEventDB \<Rightarrow> (u32, u32) omap \<Rightarrow> (u32 \<Rightarrow> u32) \<Rightarrow> (u32 \<times> u32) list" where
  "odds_mods ev mContendersFairOdds oddsOf =
     map (\<lambda>(i, odds). if odds = 0 then (0, 0) else (oddsOf i, nModifier (contender_at (contenders ev) i)))
       (entries mContendersFairOdds)"

definition place_odds_mods :: "'d double_ops \<Rightarrow> CFieldEventDB \<Rightarrow> (u32, u32) omap \<Rightarrow> (u32 \<times> u32) list" where
  "place_odds_mods fp ev mContendersFairOdds =
     (if fev_nGroupType ev = fgt_animalRacing then
        let lambda = GetLambda fp (NoneZeroOddsContendersCount ev)
        in odds_mods ev mContendersFairOdds (\<lambda>i. CalculateAnimalPlaceOdds fp i lambda mContendersFairOdds)
      else if fev_nGroupType ev = fgt_other then
        let vIdsPermutations = Permutations2 mContendersFairOdds
        in odds_mods ev mContendersFairOdds (\<lambda>i. CalculateOddsInFirstN fp i vIdsPermutations mContendersFairOdds)
      else [])"

definition show_odds_mods :: "'d double_ops \<Rightarrow> CFieldEventDB \<Rightarrow> (u32, u32) omap \<Rightarrow> (u32 \<times> u32) list" where
  "show_odds_mods fp ev mContendersFairOdds =
     (if fev_nGroupType ev = fgt_animalRacing then
        let lambda = GetLambda fp (NoneZeroOddsContendersCount ev); rho = GetRHO fp (NoneZeroOddsContendersCount ev)
        in odds_mods ev mContendersFairOdds (\<lambda>i. CalculateAnimalShowOdds fp i lambda rho mContendersFairOdds)
      else if fev_nGroupType ev = fgt_other then
        let vIdsPermutations = Permutations3 mContendersFairOdds
        in odds_mods ev mContendersFairOdds (\<lambda>i. CalculateOddsInFirstN fp i vIdsPermutations mContendersFairOdds)
      else [])"

text \<open>
  The odds of a market that is open, one for each contender in the order of the map; \<open>None\<close> is the access out
  of range to \<open>vContenders...OddsMods[i]\<close> when the event has a group type without a case.
\<close>

definition market_odds ::
  "'d double_ops \<Rightarrow> CFieldEventDB \<Rightarrow> bool \<Rightarrow> 'd \<Rightarrow> (u32 \<times> u32) list \<Rightarrow> u32 list option" where
  "market_odds fp ev isOpen realMarginIn oddsMods =
     (let cs = entries (contenders ev) in
      if \<not> isOpen then Some (map (\<lambda>_. 0) cs)
      else if length oddsMods < length cs then None
      else
        let m = CalculateM fp oddsMods realMarginIn; X = CalculateX fp oddsMods realMarginIn
        in Some (map2 (\<lambda>(_, c) (odds, _). CalculateMarketOdds fp X m odds (ucast (nModifier c))) cs oddsMods))"

definition CalcOdds :: "'d double_ops \<Rightarrow> CFieldEventDB \<Rightarrow> CFieldEventDB option" where
  "CalcOdds fp ev = do {
     let mContendersFairOdds = CalculateFairOdds fp ev;
     let mContendersOutrightOdds = CalculateOutrightOdds fp ev mContendersFairOdds;
     let margin = DOUBLE_MARGIN fp (fev_nMarginPercent ev);
     placeOdds \<leftarrow> market_odds fp ev (IsMarketOpen ev place) (dmul fp margin (dlit fp 2 0))
       (place_odds_mods fp ev mContendersFairOdds);
     showOdds \<leftarrow> market_odds fp ev (IsMarketOpen ev show_outcome) (dmul fp margin (dlit fp 3 0))
       (show_odds_mods fp ev mContendersFairOdds);
     let keys = map fst (entries (contenders ev));
     let placeOf = map_of (zip keys placeOdds);
     let showOf = map_of (zip keys showOdds);
     Some (ev\<lparr>contenders := om_map (\<lambda>i c. c
       \<lparr>nOutrightOdds := odds_at mContendersOutrightOdds i,
        nPlaceOdds := (case placeOf i of Some odds \<Rightarrow> odds | None \<Rightarrow> 0),
        nShowOdds := (case showOf i of Some odds \<Rightarrow> odds | None \<Rightarrow> 0)\<rparr>) (contenders ev)\<rparr>) }"

section \<open>Correctness\<close>

lemma entries_FairOdds:
  "\<exists>g. (\<forall>i c. nInputOdds c = 0 \<longrightarrow> g i c = 0) \<and>
     entries (CalculateFairOdds fp ev) = map (\<lambda>(i, c). (i, g i c)) (entries (contenders ev))"
  unfolding CalculateFairOdds_def Let_def entries_om_map by (rule exI, rule conjI [OF _ refl]) simp

lemma CalculateFairOdds_keys: "map fst (entries (CalculateFairOdds fp ev)) = map fst (entries (contenders ev))"
proof -
  obtain g where "entries (CalculateFairOdds fp ev) = map (\<lambda>(i, c). (i, g i c)) (entries (contenders ev))"
    using entries_FairOdds by blast
  then show ?thesis by (auto intro: map_cong)
qed

lemma odds_mods_entries:
  assumes "entries fo = map (\<lambda>(i, c). (i, g i c)) (entries (contenders ev))"
  shows "odds_mods ev fo oddsOf = map (\<lambda>(i, c). if g i c = 0 then (0, 0)
    else (oddsOf i, nModifier (contender_at (contenders ev) i))) (entries (contenders ev))"
  unfolding odds_mods_def assms by (auto intro: map_cong)

lemma map2_same: "map2 f xs (map g xs) = map (\<lambda>x. f x (g x)) xs"
  by (induction xs) auto

lemma market_odds_entries:
  assumes "entries fo = map (\<lambda>(i, c). (i, g i c)) (entries (contenders ev))" and "\<And>i c. nInputOdds c = 0 \<Longrightarrow> g i c = 0"
  shows "\<exists>F. market_odds fp ev isOpen m (odds_mods ev fo oddsOf) = Some (map (\<lambda>(i, c). F i c) (entries (contenders ev))) \<and>
    (\<forall>i c. nInputOdds c = 0 \<longrightarrow> F i c = 0) \<and> (\<not> isOpen \<longrightarrow> (\<forall>i c. F i c = 0))"
proof (cases isOpen)
  case False
  then show ?thesis by (intro exI [of _ "\<lambda>_ _. 0"]) (auto simp: market_odds_def Let_def)
next
  case True
  let ?ms = "odds_mods ev fo oddsOf"
  let ?F = "\<lambda>i c. CalculateMarketOdds fp (CalculateX fp ?ms m) (CalculateM fp ?ms m) (if g i c = 0 then 0 else oddsOf i) (ucast (nModifier c))"
  have "market_odds fp ev isOpen m ?ms = Some (map (\<lambda>(i, c). ?F i c) (entries (contenders ev)))"
    using True odds_mods_entries [OF assms(1), of oddsOf] 
    by (auto simp: market_odds_def Let_def map2_same intro!: map_cong split: if_splits)
  moreover have "\<forall>i c. nInputOdds c = 0 \<longrightarrow> ?F i c = 0" using assms(2) by (simp add: CalculateMarketOdds_def)
  ultimately show ?thesis using True by (intro exI [of _ ?F]) simp
qed

lemma group_odds_mods:
  assumes "fev_nGroupType ev \<in> {fgt_other, fgt_animalRacing}"
  shows "(\<exists>f. place_odds_mods fp ev fo = odds_mods ev fo f) \<and> (\<exists>f. show_odds_mods fp ev fo = odds_mods ev fo f)"
proof (cases "fev_nGroupType ev = fgt_animalRacing")
  case True
  then show ?thesis unfolding place_odds_mods_def show_odds_mods_def Let_def by auto
next
  case False
  then show ?thesis using assms unfolding place_odds_mods_def show_odds_mods_def Let_def by auto
qed

lemma map_of_zip_keys: "map_of (zip (map fst xs) (map (\<lambda>(i, c). F i c) xs)) i = map_option (F i) (map_of xs i)"
  by (induction xs) auto

text \<open>
  C29: For the two group types the oracle may use, \<open>CalcOdds\<close> returns an event that differs only in the computed odds of its
  contenders, whatever the floating-point arithmetic does: a contender without input odds gets zero odds in every market,
  and a market that is not open gets zero odds for every contender.
\<close>

theorem CalcOdds_correct:
  assumes "fev_nGroupType ev \<in> {fgt_other, fgt_animalRacing}"
  shows "\<exists>ev'. CalcOdds fp ev = Some ev' \<and> ev'\<lparr>contenders := contenders ev\<rparr> = ev \<and>
    (\<forall>i. case om_lookup (contenders ev) i of
       None \<Rightarrow> om_lookup (contenders ev') i = None
     | Some c \<Rightarrow> \<exists>c'. om_lookup (contenders ev') i = Some c' \<and>
         c'\<lparr>nOutrightOdds := nOutrightOdds c, nPlaceOdds := nPlaceOdds c, nShowOdds := nShowOdds c\<rparr> = c \<and>
         (nInputOdds c = 0 \<longrightarrow> nOutrightOdds c' = 0 \<and> nPlaceOdds c' = 0 \<and> nShowOdds c' = 0) \<and>
         (\<not> IsMarketOpen ev place \<longrightarrow> nPlaceOdds c' = 0) \<and> (\<not> IsMarketOpen ev show_outcome \<longrightarrow> nShowOdds c' = 0))"
proof -
  define fo where "fo = CalculateFairOdds fp ev"
  obtain g where g: "entries fo = map (\<lambda>(i, c). (i, g i c)) (entries (contenders ev))" "\<And>i c. nInputOdds c = 0 \<Longrightarrow> g i c = 0"
    using entries_FairOdds [of fp ev] unfolding fo_def by blast
  obtain f1 f2 where f: "place_odds_mods fp ev fo = odds_mods ev fo f1" "show_odds_mods fp ev fo = odds_mods ev fo f2"
    using group_odds_mods [OF assms, of fp fo] by blast
  define mp where "mp = dmul fp (DOUBLE_MARGIN fp (fev_nMarginPercent ev)) (dlit fp 2 0)"
  define ms where "ms = dmul fp (DOUBLE_MARGIN fp (fev_nMarginPercent ev)) (dlit fp 3 0)"
  obtain P where P: "market_odds fp ev (IsMarketOpen ev place) mp (place_odds_mods fp ev fo) =
        Some (map (\<lambda>(i, c). P i c) (entries (contenders ev)))"
      "\<forall>i c. nInputOdds c = 0 \<longrightarrow> P i c = 0" "\<not> IsMarketOpen ev place \<Longrightarrow> \<forall>i c. P i c = 0"
    using market_odds_entries [OF g] unfolding f by metis
  obtain S where S: "market_odds fp ev (IsMarketOpen ev show_outcome) ms (show_odds_mods fp ev fo) =
        Some (map (\<lambda>(i, c). S i c) (entries (contenders ev)))"
      "\<forall>i c. nInputOdds c = 0 \<longrightarrow> S i c = 0" "\<not> IsMarketOpen ev show_outcome \<Longrightarrow> \<forall>i c. S i c = 0"
    using market_odds_entries [OF g] unfolding f by metis
  have out: "om_lookup (contenders ev) i = Some c \<Longrightarrow> nInputOdds c = 0 \<Longrightarrow> odds_at (CalculateOutrightOdds fp ev fo) i = 0" for i c
    by (simp add: odds_at_def CalculateOutrightOdds_def Let_def)
  show ?thesis
    unfolding CalcOdds_def Let_def fo_def [symmetric] mp_def [symmetric] ms_def [symmetric] P(1) S(1)
    using P(2,3) S(2,3) out
    by (auto simp: map_of_zip_keys map_of_entries split: option.split)
qed

lemma nonzero_iff: "odds_at m i \<noteq> 0 \<longleftrightarrow> (\<exists>odds. (i, odds) \<in> set (entries m) \<and> odds \<noteq> 0)"
  by (auto simp: odds_at_def in_entries_iff split: option.splits)

lemma distinct_concat_keys:
  assumes "distinct (map fst xs)" and "\<And>x. x \<in> set xs \<Longrightarrow> distinct (f x)"
    and "\<And>x p. x \<in> set xs \<Longrightarrow> p \<in> set (f x) \<Longrightarrow> h p = fst x"
  shows "distinct (concat (map f xs))"
  using assms
proof (induction xs)
  case (Cons x xs)
  have "p \<notin> set (f y)" if "p \<in> set (f x)" "y \<in> set xs" for p y
  proof
    assume "p \<in> set (f y)"
    then have "fst x = fst y" using Cons.prems(3) [of x p] Cons.prems(3) [of y p] that by simp
    then show False using Cons.prems(1) that by simp
  qed
  then have "set (f x) \<inter> set (concat (map f xs)) = {}" by auto
  moreover have "distinct (concat (map f xs))"
    by (rule Cons.IH) (use Cons.prems in simp_all)
  ultimately show ?case using Cons.prems(2) [of x] by simp
qed simp

lemma set_concat_nonzero:
  "p \<in> set (concat (map (\<lambda>(i, odds). if odds = 0 then [] else f i) (entries m))) \<longleftrightarrow> (\<exists>i. odds_at m i \<noteq> 0 \<and> p \<in> set (f i))"
proof -
  have "p \<in> set (concat (map (\<lambda>(i, odds). if odds = 0 then [] else f i) xs)) \<longleftrightarrow> (\<exists>i odds. (i, odds) \<in> set xs \<and> odds \<noteq> 0 \<and> p \<in> set (f i))"
    for xs :: "(u32 \<times> u32) list"
    by (induction xs) (auto split: if_splits)
  then show ?thesis unfolding nonzero_iff by auto
qed

text \<open>
  \<open>Permutations3\<close> enumerates every order of three distinct contenders with odds, each exactly once.
\<close>

lemma Permutations3_complete:
  "distinct (Permutations3 m) \<and> set (Permutations3 m) =
     {[i, j, k] | i j k. distinct [i, j, k] \<and> odds_at m i \<noteq> 0 \<and> odds_at m j \<noteq> 0 \<and> odds_at m k \<noteq> 0}"
proof
  have d: "distinct (map fst (entries m))" by (rule entries_distinct)
  define K where "K i j = concat (map (\<lambda>(k, odds_k). if odds_k = 0 then [] else if k = i then [] else if k = j then [] else [[i, j, k]])
           (entries m))" for i j
  define J where "J i = concat (map (\<lambda>(j, odds_j). if odds_j = 0 then [] else if i = j then [] else K i j) (entries m))" for i
  have P: "Permutations3 m = concat (map (\<lambda>(i, odds_i). if odds_i = 0 then [] else J i) (entries m))"
    unfolding Permutations3_def J_def K_def by (rule refl)
  have K: "p \<in> set (K i j) \<longleftrightarrow> (\<exists>k. odds_at m k \<noteq> 0 \<and> k \<noteq> i \<and> k \<noteq> j \<and> p = [i, j, k])" for p i j
    unfolding K_def set_concat_nonzero by auto
  have J: "p \<in> set (J i) \<longleftrightarrow> (\<exists>j. odds_at m j \<noteq> 0 \<and> i \<noteq> j \<and> p \<in> set (K i j))" for p i
    unfolding J_def set_concat_nonzero by auto
  have dK: "distinct (K i j)" for i j
    unfolding K_def by (rule distinct_concat_keys [OF d, where h = "\<lambda>p. p ! 2"]) (auto split: if_splits)
  have dJ: "distinct (J i)" for i
    unfolding J_def by (rule distinct_concat_keys [OF d, where h = "\<lambda>p. p ! 1"]) (auto simp: dK K split: if_splits)
  show "distinct (Permutations3 m)"
    unfolding P by (rule distinct_concat_keys [OF d, where h = hd]) (auto simp: dJ J K split: if_splits)
  show "set (Permutations3 m) =
     {[i, j, k] | i j k. distinct [i, j, k] \<and> odds_at m i \<noteq> 0 \<and> odds_at m j \<noteq> 0 \<and> odds_at m k \<noteq> 0}"
    unfolding P by (rule set_eqI) (simp only: set_concat_nonzero J K mem_Collect_eq, auto)
qed

text \<open>Fixed-point arithmetic with six decimals: an executable instance of the floating-point operations.\<close>

definition fixed_ops :: "int double_ops" where
  "fixed_ops =
     \<lparr>dlit = (\<lambda>m k. m * 1000000 div 10 ^ k), dcast = (\<lambda>x. uint x * 1000000), dadd = (+), dsub = (-),
      dmul = (\<lambda>x y. x * y div 1000000), ddiv = (\<lambda>x y. x * 1000000 div y), dpow = (\<lambda>x _. x), dneg = uminus,
      dround = (\<lambda>x. (x + 500000) div 1000000 * 1000000), dless = (<), deq = (=),
      dtrunc = (\<lambda>x. of_int (x div 1000000)), dcast64 = (\<lambda>x. uint x * 1000000), dtrunc64 = (\<lambda>x. x div 1000000)\<rparr>"

theorem CalcOdds_correct_witness:
  "\<exists>ev'. CalcOdds fixed_ops
     (new_CFieldEventDB\<lparr>fev_nGroupType := fgt_other,
        contenders := om_update 1 (new_ContenderInfo 0 9 9 9 0) (om_update 2 (new_ContenderInfo 15000 0 0 0 0) om_empty)\<rparr>) = Some ev' \<and>
     (\<exists>c. om_lookup (contenders ev') 1 = Some c \<and> nOutrightOdds c = 0 \<and> nPlaceOdds c = 0 \<and> nShowOdds c = 0)"
proof -
  let ?ev = "new_CFieldEventDB\<lparr>fev_nGroupType := fgt_other,
    contenders := om_update 1 (new_ContenderInfo 0 9 9 9 0) (om_update 2 (new_ContenderInfo 15000 0 0 0 0) om_empty)\<rparr>"
  have "fev_nGroupType ?ev \<in> {fgt_other, fgt_animalRacing}" by simp
  from CalcOdds_correct [OF this, of fixed_ops] obtain ev' where ev': "CalcOdds fixed_ops ?ev = Some ev'"
    and c: "case om_lookup (contenders ?ev) 1 of None \<Rightarrow> om_lookup (contenders ev') 1 = None
     | Some c \<Rightarrow> \<exists>c'. om_lookup (contenders ev') 1 = Some c' \<and>
         c'\<lparr>nOutrightOdds := nOutrightOdds c, nPlaceOdds := nPlaceOdds c, nShowOdds := nShowOdds c\<rparr> = c \<and>
         (nInputOdds c = 0 \<longrightarrow> nOutrightOdds c' = 0 \<and> nPlaceOdds c' = 0 \<and> nShowOdds c' = 0) \<and>
         (\<not> IsMarketOpen ?ev place \<longrightarrow> nPlaceOdds c' = 0) \<and> (\<not> IsMarketOpen ?ev show_outcome \<longrightarrow> nShowOdds c' = 0)"
    by blast
  from c show ?thesis using ev' by (auto simp: new_ContenderInfo_def)
qed

end
