(* ===== verification/BetProcess.thy ===== *)
theory BetProcess
  imports BetCheck FieldOdds
begin

text \<open>
  \<open>ProcessBettingTx\<close> of betting/bet.cpp: what a connected transaction does to the betting databases, one
  definition per case of its switch.  The state is the cache \<open>bettingsViewCache\<close> and the list \<open>vCurResultIDs\<close> of
  the results found in the block; the odds a bet is locked at come from the view below the cache (the global
  \<open>bettingsView\<close>).  \<open>None\<close> is an abort: a failed assertion of \<open>SaveBettingUndo\<close> or \<open>SaveFailedTx\<close>, an access out of
  range or the use of a null pointer.
\<close>

type_synonym process_state = "CBettingsView \<times> u32 list"

definition undo_event :: "int \<Rightarrow> CPeerlessExtendedEventDB \<Rightarrow> CBettingUndoDB" where
  "undo_event height plEvent = \<lparr>undo_height = of_int height, undoVariant = UndoPeerlessEvent plEvent\<rparr>"

definition undo_fieldEvent :: "int \<Rightarrow> CFieldEventDB \<Rightarrow> CBettingUndoDB" where
  "undo_fieldEvent height fEvent = \<lparr>undo_height = of_int height, undoVariant = UndoFieldEvent fEvent\<rparr>"

section \<open>Bets\<close>

text \<open>\<open>liability += amount / COIN\<close> on a 32-bit member.\<close>

definition add_coins :: "u32 \<Rightarrow> CAmount \<Rightarrow> u32" where
  "add_coins x amount = x + of_int (amount sdiv COIN)"

definition payout_at :: "CAmount \<Rightarrow> u32 \<Rightarrow> CAmount" where
  "payout_at betAmount odds = fst (snd (CalculatePayoutBurnAmounts betAmount odds))"

text \<open>The accumulators a single bet adds to; the odds are those of the cached event.\<close>

definition accumulate_bet ::
  "u8 \<Rightarrow> CAmount \<Rightarrow> CPeerlessExtendedEventDB \<Rightarrow> CPeerlessExtendedEventDB \<Rightarrow> CPeerlessExtendedEventDB" where
  "accumulate_bet outcome betAmount cached ev =
     (if outcome = moneyLineHomeWin then ev
        \<lparr>nMoneyLineHomePotentialLiability := add_coins (nMoneyLineHomePotentialLiability ev) (payout_at betAmount (nHomeOdds cached)),
         nMoneyLineHomeBets := nMoneyLineHomeBets ev + 1\<rparr>
      else if outcome = moneyLineAwayWin then ev
        \<lparr>nMoneyLineAwayPotentialLiability := add_coins (nMoneyLineAwayPotentialLiability ev) (payout_at betAmount (nAwayOdds cached)),
         nMoneyLineAwayBets := nMoneyLineAwayBets ev + 1\<rparr>
      else if outcome = moneyLineDraw then ev
        \<lparr>nMoneyLineDrawPotentialLiability := add_coins (nMoneyLineDrawPotentialLiability ev) (payout_at betAmount (nDrawOdds cached)),
         nMoneyLineDrawBets := nMoneyLineDrawBets ev + 1\<rparr>
      else if outcome = spreadHome then ev
        \<lparr>nSpreadHomePotentialLiability := add_coins (nSpreadHomePotentialLiability ev) (payout_at betAmount (nSpreadHomeOdds cached)),
         nSpreadPushPotentialLiability := add_coins (nSpreadPushPotentialLiability ev) betAmount,
         nSpreadHomeBets := nSpreadHomeBets ev + 1, nSpreadPushBets := nSpreadPushBets ev + 1\<rparr>
      else if outcome = spreadAway then ev
        \<lparr>nSpreadAwayPotentialLiability := add_coins (nSpreadAwayPotentialLiability ev) (payout_at betAmount (nSpreadAwayOdds cached)),
         nSpreadPushPotentialLiability := add_coins (nSpreadPushPotentialLiability ev) betAmount,
         nSpreadAwayBets := nSpreadAwayBets ev + 1, nSpreadPushBets := nSpreadPushBets ev + 1\<rparr>
      else if outcome = totalOver then ev
        \<lparr>nTotalOverPotentialLiability := add_coins (nTotalOverPotentialLiability ev) (payout_at betAmount (nTotalOverOdds cached)),
         nTotalPushPotentialLiability := add_coins (nTotalPushPotentialLiability ev) betAmount,
         nTotalOverBets := nTotalOverBets ev + 1, nTotalPushBets := nTotalPushBets ev + 1\<rparr>
      else if outcome = totalUnder then ev
        \<lparr>nTotalUnderPotentialLiability := add_coins (nTotalUnderPotentialLiability ev) (payout_at betAmount (nTotalUnderOdds cached)),
         nTotalPushPotentialLiability := add_coins (nTotalPushPotentialLiability ev) betAmount,
         nTotalUnderBets := nTotalUnderBets ev + 1, nTotalPushBets := nTotalPushBets ev + 1\<rparr>
      else ev)"

text \<open>A parlay leg only counts the bet.\<close>

definition count_bet :: "u8 \<Rightarrow> CPeerlessExtendedEventDB \<Rightarrow> CPeerlessExtendedEventDB" where
  "count_bet outcome ev =
     (if outcome = moneyLineHomeWin then ev\<lparr>nMoneyLineHomeBets := nMoneyLineHomeBets ev + 1\<rparr>
      else if outcome = moneyLineAwayWin then ev\<lparr>nMoneyLineAwayBets := nMoneyLineAwayBets ev + 1\<rparr>
      else if outcome = moneyLineDraw then ev\<lparr>nMoneyLineDrawBets := nMoneyLineDrawBets ev + 1\<rparr>
      else if outcome = spreadHome then
        ev\<lparr>nSpreadHomeBets := nSpreadHomeBets ev + 1, nSpreadPushBets := nSpreadPushBets ev + 1\<rparr>
      else if outcome = spreadAway then
        ev\<lparr>nSpreadAwayBets := nSpreadAwayBets ev + 1, nSpreadPushBets := nSpreadPushBets ev + 1\<rparr>
      else if outcome = totalOver then
        ev\<lparr>nTotalOverBets := nTotalOverBets ev + 1, nTotalPushBets := nTotalPushBets ev + 1\<rparr>
      else if outcome = totalUnder then
        ev\<lparr>nTotalUnderBets := nTotalUnderBets ev + 1, nTotalPushBets := nTotalPushBets ev + 1\<rparr>
      else ev)"

definition ProcessBettingTx_plBet ::
  "CBettingsView \<Rightarrow> int \<Rightarrow> int \<Rightarrow> CTxDestination \<Rightarrow> CAmount \<Rightarrow> COutPoint \<Rightarrow> uint256 \<Rightarrow> CPeerlessBetTx \<Rightarrow>
   CBettingsView \<Rightarrow> CBettingsView option" where
  "ProcessBettingTx_plBet bettingsView height blockTime address betAmount outP bettingTxId betTx view =
     (let plBet = \<lparr>leg_nEventId = pb_nEventId betTx, leg_nOutcome = pb_nOutcome betTx\<rparr>;
          eventKey = leg_nEventId plBet
      in case (tdb_Read (events bettingsView) eventKey, tdb_Read (events view) eventKey) of
          (Some plCachedEvent, Some plEvent) \<Rightarrow> do {
            view \<leftarrow> SaveBettingUndo bettingTxId [undo_event height plEvent] view;
            let plEvent = accumulate_bet (leg_nOutcome plBet) betAmount plCachedEvent plEvent;
            let (db, ok) = tdb_Update (events view) eventKey plEvent;
            let view = view\<lparr>events := db\<rparr>;
            if \<not> ok then Some view
            else Some (view\<lparr>bets := fst (tdb_Write (bets view) (PeerlessBetKey (of_int height) outP)
                   (new_CBetDB betAmount address [plBet] [CPeerlessBaseEventDB.truncate plCachedEvent] blockTime))\<rparr>) }
        | _ \<Rightarrow> Some view)"

fun parlay_legs ::
  "CBettingsView \<Rightarrow> int \<Rightarrow> CPeerlessLegDB list \<Rightarrow> CBettingsView \<Rightarrow>
   CBettingsView \<times> CBettingUndoDB list \<times> CPeerlessBaseEventDB list" where
  "parlay_legs bettingsView height [] view = (view, [], [])"
| "parlay_legs bettingsView height (leg # legs) view =
     (case (tdb_Read (events bettingsView) (leg_nEventId leg), tdb_Read (events view) (leg_nEventId leg)) of
        (Some plCachedEvent, Some plEvent) \<Rightarrow>
          let view = view\<lparr>events := fst (tdb_Update (events view) (leg_nEventId leg) (count_bet (leg_nOutcome leg) plEvent))\<rparr>;
              (view, vUndos, lockedEvents) = parlay_legs bettingsView height legs view
          in (view, undo_event height plEvent # vUndos, CPeerlessBaseEventDB.truncate plCachedEvent # lockedEvents)
      | _ \<Rightarrow> parlay_legs bettingsView height legs view)"

definition ProcessBettingTx_plParlayBet ::
  "CBettingsView \<Rightarrow> int \<Rightarrow> int \<Rightarrow> bool \<Rightarrow> CTxDestination \<Rightarrow> CAmount \<Rightarrow> COutPoint \<Rightarrow> uint256 \<Rightarrow> CPeerlessParlayBetTx \<Rightarrow>
   CBettingsView \<Rightarrow> CBettingsView option" where
  "ProcessBettingTx_plParlayBet bettingsView height blockTime wagerrProtocolV3 address betAmount outP bettingTxId parlayBetTx view =
     (if \<not> wagerrProtocolV3 then Some view
      else
        let legs = map (\<lambda>leg. \<lparr>leg_nEventId = pb_nEventId leg, leg_nOutcome = pb_nOutcome leg\<rparr>) (ppb_legs parlayBetTx);
            (view, vUndos, lockedEvents) = parlay_legs bettingsView height legs view
        in if legs = [] then Some view
           else do {
             view \<leftarrow> SaveBettingUndo bettingTxId vUndos view;
             Some (view\<lparr>bets := fst (tdb_Write (bets view) (PeerlessBetKey (of_int height) outP)
               (new_CBetDB betAmount address legs lockedEvents blockTime))\<rparr>) })"

text \<open>The accumulators of a contender; \<open>contenders[id]\<close> creates a missing contender in both events.\<close>

definition field_payout :: "CAmount \<Rightarrow> u32 \<Rightarrow> CAmount" where
  "field_payout betAmount odds = i64 (betAmount * uint (CalculateEffectiveOdds odds)) sdiv BET_ODDSDIVISOR"

definition accumulate_fieldBet :: "u8 \<Rightarrow> CAmount \<Rightarrow> ContenderInfo \<Rightarrow> ContenderInfo \<Rightarrow> ContenderInfo" where
  "accumulate_fieldBet outcome betAmount cached c =
     (if outcome = outright then c
        \<lparr>nOutrightPotentialLiability := add_coins (nOutrightPotentialLiability c) (field_payout betAmount (nOutrightOdds cached)),
         nOutrightBets := nOutrightBets c + 1\<rparr>
      else if outcome = place then c
        \<lparr>nPlacePotentialLiability := add_coins (nPlacePotentialLiability c) (field_payout betAmount (nPlaceOdds cached)),
         nPlaceBets := nPlaceBets c + 1\<rparr>
      else if outcome = show_outcome then c
        \<lparr>nShowPotentialLiability := add_coins (nShowPotentialLiability c) (field_payout betAmount (nShowOdds cached)),
         nShowBets := nShowBets c + 1\<rparr>
      else c)"

definition field_outcome :: "u8 \<Rightarrow> bool" where
  "field_outcome outcome \<longleftrightarrow> outcome = outright \<or> outcome = place \<or> outcome = show_outcome"

definition ProcessBettingTx_fBet ::
  "betting_env \<Rightarrow> CBettingsView \<Rightarrow> int \<Rightarrow> int \<Rightarrow> CTxDestination \<Rightarrow> CAmount \<Rightarrow> COutPoint \<Rightarrow> uint256 \<Rightarrow> CFieldBetTx \<Rightarrow>
   CBettingsView \<Rightarrow> CBettingsView option" where
  "ProcessBettingTx_fBet env bettingsView height blockTime address betAmount outP bettingTxId fBetTx view =
     (if \<not> protocolV4 env then Some view
      else case (tdb_Read (fieldEvents bettingsView) (fb_nEventId fBetTx), tdb_Read (fieldEvents view) (fb_nEventId fBetTx)) of
          (Some fCachedEvent, Some fEvent) \<Rightarrow> do {
            view \<leftarrow> SaveBettingUndo bettingTxId [undo_fieldEvent height fEvent] view;
            let i = fb_nContenderId fBetTx;
            let outcome = fb_nOutcome fBetTx;
            let cached = contender_at (contenders fCachedEvent) i;
            let fCachedEvent = (if field_outcome outcome
              then fCachedEvent\<lparr>contenders := contender_modify i (\<lambda>c. c) (contenders fCachedEvent)\<rparr> else fCachedEvent);
            let fEvent = (if field_outcome outcome
              then fEvent\<lparr>contenders := contender_modify i (accumulate_fieldBet outcome betAmount cached) (contenders fEvent)\<rparr>
              else fEvent);
            let (db, ok) = tdb_Update (fieldEvents view) (fb_nEventId fBetTx) fEvent;
            let view = view\<lparr>fieldEvents := db\<rparr>;
            if \<not> ok then Some view
            else
              let fLeg = \<lparr>fleg_nEventId = fb_nEventId fBetTx, fleg_nOutcome = outcome, fleg_nContenderId = i\<rparr>
              in Some (view\<lparr>fieldBets := fst (tdb_Write (fieldBets view) (PeerlessBetKey (of_int height) outP)
                   (new_CBetDB betAmount address [fLeg] [fCachedEvent] blockTime))\<rparr>) }
        | _ \<Rightarrow> Some view)"

definition count_fieldBet :: "u8 \<Rightarrow> ContenderInfo \<Rightarrow> ContenderInfo" where
  "count_fieldBet outcome c =
     (if outcome = outright then c\<lparr>nOutrightBets := nOutrightBets c + 1\<rparr>
      else if outcome = place then c\<lparr>nPlaceBets := nPlaceBets c + 1\<rparr>
      else if outcome = show_outcome then c\<lparr>nShowBets := nShowBets c + 1\<rparr>
      else c)"

fun field_parlay_legs ::
  "CBettingsView \<Rightarrow> int \<Rightarrow> CFieldLegDB list \<Rightarrow> CBettingsView \<Rightarrow>
   CBettingsView \<times> CBettingUndoDB list \<times> CFieldEventDB list" where
  "field_parlay_legs bettingsView height [] view = (view, [], [])"
| "field_parlay_legs bettingsView height (leg # legs) view =
     (case (tdb_Read (fieldEvents bettingsView) (fleg_nEventId leg), tdb_Read (fieldEvents view) (fleg_nEventId leg)) of
        (Some fCachedEvent, Some fEvent) \<Rightarrow>
          let fEvent' = (if field_outcome (fleg_nOutcome leg)
                then fEvent\<lparr>contenders := contender_modify (fleg_nContenderId leg) (count_fieldBet (fleg_nOutcome leg)) (contenders fEvent)\<rparr>
                else fEvent);
              view = view\<lparr>fieldEvents := fst (tdb_Update (fieldEvents view) (fleg_nEventId leg) fEvent')\<rparr>;
              (view, vUndos, lockedEvents) = field_parlay_legs bettingsView height legs view
          in (view, undo_fieldEvent height fEvent # vUndos, fCachedEvent # lockedEvents)
      | _ \<Rightarrow> field_parlay_legs bettingsView height legs view)"

definition ProcessBettingTx_fParlayBet ::
  "betting_env \<Rightarrow> CBettingsView \<Rightarrow> int \<Rightarrow> int \<Rightarrow> CTxDestination \<Rightarrow> CAmount \<Rightarrow> COutPoint \<Rightarrow> uint256 \<Rightarrow> CFieldParlayBetTx \<Rightarrow>
   CBettingsView \<Rightarrow> CBettingsView option" where
  "ProcessBettingTx_fParlayBet env bettingsView height blockTime address betAmount outP bettingTxId fParlayBetTx view =
     (if \<not> protocolV4 env then Some view
      else
        let legs = map (\<lambda>leg. \<lparr>fleg_nEventId = fb_nEventId leg, fleg_nOutcome = fb_nOutcome leg,
              fleg_nContenderId = fb_nContenderId leg\<rparr>) (fpb_legs fParlayBetTx);
            (view, vUndos, lockedEvents) = field_parlay_legs bettingsView height legs view
        in if legs = [] then Some view
           else do {
             view \<leftarrow> SaveBettingUndo bettingTxId vUndos view;
             Some (view\<lparr>fieldBets := fst (tdb_Write (fieldBets view) (PeerlessBetKey (of_int height) outP)
               (new_CBetDB betAmount address legs lockedEvents blockTime))\<rparr>) })"

definition ProcessBettingTx_cgBet ::
  "betting_env \<Rightarrow> CBettingsView \<Rightarrow> int \<Rightarrow> int \<Rightarrow> bool \<Rightarrow> CTxDestination \<Rightarrow> CAmount \<Rightarrow> COutPoint \<Rightarrow> CChainGamesBetTx \<Rightarrow>
   CBettingsView \<Rightarrow> CBettingsView" where
  "ProcessBettingTx_cgBet env bettingsView height blockTime wagerrProtocolV3 address betAmount outP cgBetTx view =
     (if \<not> wagerrProtocolV3 then view
      else if height \<ge> nQuickGamesEndHeight (consensus env) then view
      else if \<not> tdb_Exists (chainGamesLottoEvents bettingsView) (ucast (cgb_nEventId cgBetTx)) then view
      else view\<lparr>chainGamesLottoBets := fst (tdb_Write (chainGamesLottoBets view) (PeerlessBetKey (of_int height) outP)
             (new_CChainGamesBetDB (ucast (cgb_nEventId cgBetTx)) betAmount address blockTime))\<rparr>)"

definition ProcessBettingTx_qgBet ::
  "betting_env \<Rightarrow> int \<Rightarrow> int \<Rightarrow> bool \<Rightarrow> CTxDestination \<Rightarrow> CAmount \<Rightarrow> COutPoint \<Rightarrow> CQuickGamesBetTx \<Rightarrow>
   CBettingsView \<Rightarrow> CBettingsView" where
  "ProcessBettingTx_qgBet env height blockTime wagerrProtocolV3 address betAmount outP qgBetTx view =
     (if \<not> wagerrProtocolV3 then view
      else if height \<ge> nQuickGamesEndHeight (consensus env) then view
      else view\<lparr>quickGamesBets := fst (tdb_Write (quickGamesBets view) (PeerlessBetKey (of_int height) outP)
             (new_CQuickGamesBetDB (qg_gameType qgBetTx) (qg_vBetInfo qgBetTx) betAmount address blockTime))\<rparr>)"

section \<open>Transactions of oracles\<close>

text \<open>
  A change of a team event: the old event goes to the undo database, then the changed event is written.
  Before protocol V3 a transaction for an unknown event is recorded as failed.
\<close>

definition change_event ::
  "int \<Rightarrow> bool \<Rightarrow> uint256 \<Rightarrow> EventKey \<Rightarrow> (CPeerlessExtendedEventDB \<Rightarrow> CPeerlessExtendedEventDB) \<Rightarrow>
   CBettingsView \<Rightarrow> CBettingsView option" where
  "change_event height wagerrProtocolV3 bettingTxId eventKey f view =
     (case tdb_Read (events view) eventKey of
        Some plEvent \<Rightarrow> do {
          view \<leftarrow> SaveBettingUndo bettingTxId [undo_event height plEvent] view;
          Some (view\<lparr>events := fst (tdb_Update (events view) eventKey (f plEvent))\<rparr>) }
      | None \<Rightarrow> if \<not> wagerrProtocolV3 then SaveFailedTx bettingTxId view else Some view)"

definition change_fieldEvent ::
  "betting_env \<Rightarrow> int \<Rightarrow> uint256 \<Rightarrow> EventKey \<Rightarrow> (CFieldEventDB \<Rightarrow> CFieldEventDB option) \<Rightarrow>
   CBettingsView \<Rightarrow> CBettingsView option" where
  "change_fieldEvent env height bettingTxId fEventKey f view =
     (if \<not> protocolV4 env then Some view
      else case tdb_Read (fieldEvents view) fEventKey of
          Some fEvent \<Rightarrow> do {
            view \<leftarrow> SaveBettingUndo bettingTxId [undo_fieldEvent height fEvent] view;
            fEvent \<leftarrow> f fEvent;
            Some (view\<lparr>fieldEvents := fst (tdb_Update (fieldEvents view) fEventKey fEvent)\<rparr>) }
        | None \<Rightarrow> Some view)"

definition ProcessBettingTx_mapping ::
  "betting_env \<Rightarrow> bool \<Rightarrow> uint256 \<Rightarrow> CMappingTx \<Rightarrow> CBettingsView \<Rightarrow> CBettingsView option" where
  "ProcessBettingTx_mapping env wagerrProtocolV3 bettingTxId mapTx view =
     (let mappingType = ucast (mt_nMType mapTx) in
      if \<not> protocolV4 env \<and> (mappingType = individualSportMapping \<or> mappingType = contenderMapping) then Some view
      else
        let (db, ok) = tdb_Write (mappings view) (mappingType, mt_nId mapTx) (mt_sName mapTx);
            view = view\<lparr>mappings := db\<rparr>
        in if \<not> ok \<and> \<not> wagerrProtocolV3 then SaveFailedTx bettingTxId view else Some view)"

text \<open>Before V3 a repeated event transaction patches the existing event; spreads, totals and accumulators stay.\<close>

definition patch_event :: "CPeerlessExtendedEventDB \<Rightarrow> CPeerlessExtendedEventDB \<Rightarrow> CPeerlessExtendedEventDB" where
  "patch_event plEvent plEventToPatch = plEventToPatch
     \<lparr>nStartTime := nStartTime plEvent, nSport := nSport plEvent, nTournament := nTournament plEvent,
      nStage := nStage plEvent, nHomeTeam := nHomeTeam plEvent, nAwayTeam := nAwayTeam plEvent,
      nHomeOdds := nHomeOdds plEvent, nAwayOdds := nAwayOdds plEvent, nDrawOdds := nDrawOdds plEvent\<rparr>"

definition ProcessBettingTx_plEvent ::
  "int \<Rightarrow> bool \<Rightarrow> uint256 \<Rightarrow> CPeerlessEventTx \<Rightarrow> CBettingsView \<Rightarrow> CBettingsView option" where
  "ProcessBettingTx_plEvent height wagerrProtocolV3 bettingTxId plEventTx view =
     (let plEvent = ExtractDataFromTx_event plEventTx new_CPeerlessExtendedEventDB;
          plEvent = (if \<not> wagerrProtocolV3
            then plEvent\<lparr>nEventCreationHeight := height,
                   fLegacyInitialHomeFavorite := (pe_nHomeOdds plEventTx < pe_nAwayOdds plEventTx)\<rparr>
            else plEvent);
          eventKey = nEventId plEvent;
          (db, ok) = tdb_Write (events view) eventKey plEvent;
          view = view\<lparr>events := db\<rparr>
      in if ok then Some view
         else case (if \<not> wagerrProtocolV3 then tdb_Read (events view) eventKey else None) of
             Some plEventToPatch \<Rightarrow> do {
               view \<leftarrow> SaveBettingUndo bettingTxId [undo_event height plEventToPatch] view;
               Some (view\<lparr>events := fst (tdb_Update (events view) eventKey (patch_event plEvent plEventToPatch))\<rparr>) }
           | None \<Rightarrow> if \<not> wagerrProtocolV3 then SaveFailedTx bettingTxId view else Some view)"

definition ProcessBettingTx_fEvent ::
  "'d double_ops \<Rightarrow> betting_env \<Rightarrow> CFieldEventTx \<Rightarrow> CBettingsView \<Rightarrow> CBettingsView option" where
  "ProcessBettingTx_fEvent fp env fEventTx view =
     (if \<not> protocolV4 env then Some view
      else do {
        fEvent \<leftarrow> CalcOdds fp (ExtractDataFromTx_fieldEvent fEventTx new_CFieldEventDB);
        Some (view\<lparr>fieldEvents := fst (tdb_Write (fieldEvents view) (fev_nEventId fEvent) fEvent)\<rparr>) })"

definition ProcessBettingTx_fUpdateOdds ::
  "'d double_ops \<Rightarrow> betting_env \<Rightarrow> int \<Rightarrow> uint256 \<Rightarrow> CFieldUpdateOddsTx \<Rightarrow> CBettingsView \<Rightarrow> CBettingsView option" where
  "ProcessBettingTx_fUpdateOdds fp env height bettingTxId t view =
     change_fieldEvent env height bettingTxId (fuo_nEventId t) (\<lambda>ev. CalcOdds fp (ExtractDataFromTx_fieldOdds t ev)) view"

definition ProcessBettingTx_fUpdateModifiers ::
  "'d double_ops \<Rightarrow> betting_env \<Rightarrow> int \<Rightarrow> uint256 \<Rightarrow> CFieldUpdateModifiersTx \<Rightarrow> CBettingsView \<Rightarrow> CBettingsView option" where
  "ProcessBettingTx_fUpdateModifiers fp env height bettingTxId t view =
     change_fieldEvent env height bettingTxId (fum_nEventId t) (\<lambda>ev. CalcOdds fp (ExtractDataFromTx_fieldModifiers t ev)) view"

definition ProcessBettingTx_fUpdateMargin ::
  "'d double_ops \<Rightarrow> betting_env \<Rightarrow> int \<Rightarrow> uint256 \<Rightarrow> CFieldUpdateMarginTx \<Rightarrow> CBettingsView \<Rightarrow> CBettingsView option" where
  "ProcessBettingTx_fUpdateMargin fp env height bettingTxId t view =
     change_fieldEvent env height bettingTxId (fmg_nEventId t) (\<lambda>ev. CalcOdds fp (ExtractDataFromTx_fieldMargin t ev)) view"

definition ProcessBettingTx_fZeroingOdds ::
  "betting_env \<Rightarrow> int \<Rightarrow> uint256 \<Rightarrow> CFieldZeroingOddsTx \<Rightarrow> CBettingsView \<Rightarrow> CBettingsView option" where
  "ProcessBettingTx_fZeroingOdds env height bettingTxId t view =
     change_fieldEvent env height bettingTxId (fz_nEventId t) (\<lambda>ev. Some (ev
       \<lparr>contenders := om_map (\<lambda>_ c. c\<lparr>nInputOdds := 0, nOutrightOdds := 0, nPlaceOdds := 0, nShowOdds := 0\<rparr>) (contenders ev)\<rparr>)) view"

definition ProcessBettingTx_fResult :: "betting_env \<Rightarrow> CFieldResultTx \<Rightarrow> process_state \<Rightarrow> process_state" where
  "ProcessBettingTx_fResult env fResultTx = (\<lambda>(view, vCurResultIDs).
     if \<not> protocolV4 env then (view, vCurResultIDs)
     else case tdb_Read (fieldEvents view) (fr_nEventId fResultTx) of
         None \<Rightarrow> (view, vCurResultIDs)
       | Some fieldEvent \<Rightarrow>
           let fEventResult = \<lparr>fres_nEventId = fr_nEventId fResultTx, fres_nResultType = fr_nResultType fResultTx,
                 contendersResults = om_map (\<lambda>i _. case om_lookup (fr_contendersResults fResultTx) i of Some r \<Rightarrow> r | None \<Rightarrow> DNF)
                   (contenders fieldEvent)\<rparr>;
               (db, ok) = tdb_Write (fieldResults view) (fres_nEventId fEventResult) fEventResult;
               view = view\<lparr>fieldResults := db\<rparr>
           in if \<not> ok then (view, vCurResultIDs) else (view, vCurResultIDs @ [fres_nEventId fEventResult]))"

definition ProcessBettingTx_plResult ::
  "bool \<Rightarrow> uint256 \<Rightarrow> CPeerlessResultTx \<Rightarrow> process_state \<Rightarrow> process_state option" where
  "ProcessBettingTx_plResult wagerrProtocolV3 bettingTxId plResultTx = (\<lambda>(view, vCurResultIDs).
     if \<not> wagerrProtocolV3 \<and> length vCurResultIDs > 0 then Some (view, vCurResultIDs)
     else
       let plResult = \<lparr>res_nEventId = pr_nEventId plResultTx, res_nResultType = ucast (pr_nResultType plResultTx),
             res_nHomeScore = ucast (pr_nHomeScore plResultTx), res_nAwayScore = ucast (pr_nAwayScore plResultTx)\<rparr>
       in if \<not> tdb_Exists (events view) (res_nEventId plResult) then
            (if \<not> wagerrProtocolV3 then do { view \<leftarrow> SaveFailedTx bettingTxId view; Some (view, vCurResultIDs) }
             else Some (view, vCurResultIDs))
          else
            let (db, ok) = tdb_Write (results view) (res_nEventId plResult) plResult;
                view = view\<lparr>results := db\<rparr>
            in if ok then Some (view, vCurResultIDs @ [res_nEventId plResult])
               else if \<not> wagerrProtocolV3 then do {
                 let view = view\<lparr>results := fst (tdb_Update (results view) (res_nEventId plResult) plResult)\<rparr>;
                 view \<leftarrow> SaveFailedTx bettingTxId view;
                 Some (view, vCurResultIDs @ [res_nEventId plResult]) }
               else Some (view, vCurResultIDs))"

definition ProcessBettingTx_plUpdateOdds ::
  "int \<Rightarrow> bool \<Rightarrow> uint256 \<Rightarrow> CPeerlessUpdateOddsTx \<Rightarrow> CBettingsView \<Rightarrow> CBettingsView option" where
  "ProcessBettingTx_plUpdateOdds height wagerrProtocolV3 bettingTxId t view =
     change_event height wagerrProtocolV3 bettingTxId (puo_nEventId t) (ExtractDataFromTx_updateOdds t) view"

definition ProcessBettingTx_cgEvent ::
  "betting_env \<Rightarrow> int \<Rightarrow> bool \<Rightarrow> CChainGamesEventTx \<Rightarrow> CBettingsView \<Rightarrow> CBettingsView" where
  "ProcessBettingTx_cgEvent env height wagerrProtocolV3 cgEventTx view =
     (if \<not> wagerrProtocolV3 then view
      else if height \<ge> nQuickGamesEndHeight (consensus env) then view
      else view\<lparr>chainGamesLottoEvents := fst (tdb_Write (chainGamesLottoEvents view) (ucast (cge_nEventId cgEventTx))
             \<lparr>cgev_nEventId = ucast (cge_nEventId cgEventTx), cgev_nEntryFee = ucast (cge_nEntryFee cgEventTx)\<rparr>)\<rparr>)"

definition ProcessBettingTx_cgResult ::
  "betting_env \<Rightarrow> int \<Rightarrow> bool \<Rightarrow> CChainGamesResultTx \<Rightarrow> process_state \<Rightarrow> process_state" where
  "ProcessBettingTx_cgResult env height wagerrProtocolV3 cgResultTx = (\<lambda>(view, vCurResultIDs).
     if \<not> wagerrProtocolV3 then (view, vCurResultIDs)
     else if height \<ge> nQuickGamesEndHeight (consensus env) then (view, vCurResultIDs)
     else if \<not> tdb_Exists (chainGamesLottoEvents view) (ucast (cgr_nEventId cgResultTx)) then (view, vCurResultIDs)
     else
       let (db, ok) = tdb_Write (chainGamesLottoResults view) (ucast (cgr_nEventId cgResultTx)) \<lparr>cgres_nEventId = cgr_nEventId cgResultTx\<rparr>;
           view = view\<lparr>chainGamesLottoResults := db\<rparr>
       in if \<not> ok then (view, vCurResultIDs) else (view, vCurResultIDs @ [ucast (cgr_nEventId cgResultTx)]))"

definition ProcessBettingTx_plSpreads ::
  "int \<Rightarrow> bool \<Rightarrow> uint256 \<Rightarrow> CPeerlessSpreadsEventTx \<Rightarrow> CBettingsView \<Rightarrow> CBettingsView option" where
  "ProcessBettingTx_plSpreads height wagerrProtocolV3 bettingTxId t view =
     change_event height wagerrProtocolV3 bettingTxId (ps_nEventId t) (ExtractDataFromTx_spreads t) view"

definition ProcessBettingTx_plTotals ::
  "int \<Rightarrow> bool \<Rightarrow> uint256 \<Rightarrow> CPeerlessTotalsEventTx \<Rightarrow> CBettingsView \<Rightarrow> CBettingsView option" where
  "ProcessBettingTx_plTotals height wagerrProtocolV3 bettingTxId t view =
     change_event height wagerrProtocolV3 bettingTxId (pt_nEventId t) (ExtractDataFromTx_totals t) view"

definition ProcessBettingTx_plEventPatch ::
  "int \<Rightarrow> bool \<Rightarrow> uint256 \<Rightarrow> CPeerlessEventPatchTx \<Rightarrow> CBettingsView \<Rightarrow> CBettingsView option" where
  "ProcessBettingTx_plEventPatch height wagerrProtocolV3 bettingTxId t view =
     change_event height wagerrProtocolV3 bettingTxId (pp_nEventId t) (ExtractDataFromTx_patch t) view"

definition zero_odds :: "CPeerlessExtendedEventDB \<Rightarrow> CPeerlessExtendedEventDB" where
  "zero_odds ev = ev\<lparr>nHomeOdds := 0, nAwayOdds := 0, nDrawOdds := 0, nSpreadHomeOdds := 0, nSpreadAwayOdds := 0,
     nTotalOverOdds := 0, nTotalUnderOdds := 0\<rparr>"

fun zero_events :: "int \<Rightarrow> u32 list \<Rightarrow> CBettingsView \<Rightarrow> CBettingsView \<times> CBettingUndoDB list" where
  "zero_events height [] view = (view, [])"
| "zero_events height (eventId # eventIds) view =
     (case tdb_Read (events view) eventId of
        Some plEvent \<Rightarrow>
          let view = view\<lparr>events := fst (tdb_Update (events view) eventId (zero_odds plEvent))\<rparr>;
              (view, vUndos) = zero_events height eventIds view
          in (view, undo_event height plEvent # vUndos)
      | None \<Rightarrow> zero_events height eventIds view)"

definition ProcessBettingTx_plZeroingOdds ::
  "betting_env \<Rightarrow> int \<Rightarrow> uint256 \<Rightarrow> CPeerlessEventZeroingOddsTx \<Rightarrow> CBettingsView \<Rightarrow> CBettingsView option" where
  "ProcessBettingTx_plZeroingOdds env height bettingTxId t view =
     (if \<not> protocolV4 env then Some view
      else
        let (view, vUndos) = zero_events height (pz_vEventIds t) view
        in if vUndos \<noteq> [] then SaveBettingUndo bettingTxId vUndos view else Some view)"

section \<open>The transaction\<close>

text \<open>What the handlers know of the output they process.\<close>

record output_ctx =
  oc_height :: int
  oc_blockTime :: int
  oc_v3 :: bool
  oc_address :: CTxDestination
  oc_betAmount :: CAmount
  oc_outPoint :: COutPoint
  oc_bettingTxId :: uint256

definition on_view :: "(CBettingsView \<Rightarrow> CBettingsView option) \<Rightarrow> process_state \<Rightarrow> process_state option" where
  "on_view f s = map_option (\<lambda>view. (view, snd s)) (f (fst s))"

fun ProcessBettingTx_player ::
  "betting_env \<Rightarrow> CBettingsView \<Rightarrow> output_ctx \<Rightarrow> CBettingTx \<Rightarrow> process_state \<Rightarrow> process_state option" where
  "ProcessBettingTx_player env up c (PeerlessBetTx t) s =
     on_view (ProcessBettingTx_plBet up (oc_height c) (oc_blockTime c) (oc_address c) (oc_betAmount c) (oc_outPoint c) (oc_bettingTxId c) t) s"
| "ProcessBettingTx_player env up c (PeerlessParlayBetTx t) s =
     on_view (ProcessBettingTx_plParlayBet up (oc_height c) (oc_blockTime c) (oc_v3 c) (oc_address c) (oc_betAmount c) (oc_outPoint c) (oc_bettingTxId c) t) s"
| "ProcessBettingTx_player env up c (FieldBetTx t) s =
     on_view (ProcessBettingTx_fBet env up (oc_height c) (oc_blockTime c) (oc_address c) (oc_betAmount c) (oc_outPoint c) (oc_bettingTxId c) t) s"
| "ProcessBettingTx_player env up c (FieldParlayBetTx t) s =
     on_view (ProcessBettingTx_fParlayBet env up (oc_height c) (oc_blockTime c) (oc_address c) (oc_betAmount c) (oc_outPoint c) (oc_bettingTxId c) t) s"
| "ProcessBettingTx_player env up c (ChainGamesBetTx t) s =
     on_view (\<lambda>view. Some (ProcessBettingTx_cgBet env up (oc_height c) (oc_blockTime c) (oc_v3 c) (oc_address c) (oc_betAmount c) (oc_outPoint c) t view)) s"
| "ProcessBettingTx_player env up c (QuickGamesBetTx t) s =
     on_view (\<lambda>view. Some (ProcessBettingTx_qgBet env (oc_height c) (oc_blockTime c) (oc_v3 c) (oc_address c) (oc_betAmount c) (oc_outPoint c) t view)) s"
| "ProcessBettingTx_player env up c _ s = Some s"

fun ProcessBettingTx_oracle ::
  "'d double_ops \<Rightarrow> betting_env \<Rightarrow> output_ctx \<Rightarrow> CBettingTx \<Rightarrow> process_state \<Rightarrow> process_state option" where
  "ProcessBettingTx_oracle fp env c (MappingTx t) s = on_view (ProcessBettingTx_mapping env (oc_v3 c) (oc_bettingTxId c) t) s"
| "ProcessBettingTx_oracle fp env c (PeerlessEventTx t) s = on_view (ProcessBettingTx_plEvent (oc_height c) (oc_v3 c) (oc_bettingTxId c) t) s"
| "ProcessBettingTx_oracle fp env c (FieldEventTx t) s = on_view (ProcessBettingTx_fEvent fp env t) s"
| "ProcessBettingTx_oracle fp env c (FieldUpdateOddsTx t) s = on_view (ProcessBettingTx_fUpdateOdds fp env (oc_height c) (oc_bettingTxId c) t) s"
| "ProcessBettingTx_oracle fp env c (FieldUpdateModifiersTx t) s = on_view (ProcessBettingTx_fUpdateModifiers fp env (oc_height c) (oc_bettingTxId c) t) s"
| "ProcessBettingTx_oracle fp env c (FieldUpdateMarginTx t) s = on_view (ProcessBettingTx_fUpdateMargin fp env (oc_height c) (oc_bettingTxId c) t) s"
| "ProcessBettingTx_oracle fp env c (FieldZeroingOddsTx t) s = on_view (ProcessBettingTx_fZeroingOdds env (oc_height c) (oc_bettingTxId c) t) s"
| "ProcessBettingTx_oracle fp env c (FieldResultTx t) s = Some (ProcessBettingTx_fResult env t s)"
| "ProcessBettingTx_oracle fp env c (PeerlessResultTx t) s = ProcessBettingTx_plResult (oc_v3 c) (oc_bettingTxId c) t s"
| "ProcessBettingTx_oracle fp env c (PeerlessUpdateOddsTx t) s = on_view (ProcessBettingTx_plUpdateOdds (oc_height c) (oc_v3 c) (oc_bettingTxId c) t) s"
| "ProcessBettingTx_oracle fp env c (ChainGamesEventTx t) s = on_view (\<lambda>view. Some (ProcessBettingTx_cgEvent env (oc_height c) (oc_v3 c) t view)) s"
| "ProcessBettingTx_oracle fp env c (ChainGamesResultTx t) s = Some (ProcessBettingTx_cgResult env (oc_height c) (oc_v3 c) t s)"
| "ProcessBettingTx_oracle fp env c (PeerlessSpreadsEventTx t) s = on_view (ProcessBettingTx_plSpreads (oc_height c) (oc_v3 c) (oc_bettingTxId c) t) s"
| "ProcessBettingTx_oracle fp env c (PeerlessTotalsEventTx t) s = on_view (ProcessBettingTx_plTotals (oc_height c) (oc_v3 c) (oc_bettingTxId c) t) s"
| "ProcessBettingTx_oracle fp env c (PeerlessEventPatchTx t) s = on_view (ProcessBettingTx_plEventPatch (oc_height c) (oc_v3 c) (oc_bettingTxId c) t) s"
| "ProcessBettingTx_oracle fp env c (PeerlessEventZeroingOddsTx t) s = on_view (ProcessBettingTx_plZeroingOdds env (oc_height c) (oc_bettingTxId c) t) s"
| "ProcessBettingTx_oracle fp env c _ s = Some s"

text \<open>
  The transaction that is spent and the address of its output.  The outer \<open>None\<close> is an access out of range, the
  inner one the \<open>return\<close> when no address can be found; \<open>txPrev\<close> is null when only the coin is known.
\<close>

definition prev_address :: "betting_env \<Rightarrow> CTransaction \<Rightarrow> COutPoint \<Rightarrow> CTxDestination option option" where
  "prev_address env txPrev out = map_option (\<lambda>txOut. ExtractDestination env (scriptPubKey txOut)) (vec_at (vout txPrev) (unat (op_n out)))"

definition find_prev ::
  "betting_env \<Rightarrow> CCoinsViewCache \<Rightarrow> CBlock \<Rightarrow> COutPoint \<Rightarrow> (CTransaction option \<times> CTxDestination) option option" where
  "find_prev env view block out =
     (let txPrev = GetTransaction env None (op_hash out) True;
          fallback =
            (let txPrev = (case find_tx block (op_hash out) of Some blockTx \<Rightarrow> Some blockTx | None \<Rightarrow> txPrev) in
             case txPrev of
               None \<Rightarrow> Some (map_option (\<lambda>a. (None, a)) (ExtractDestination env (scriptPubKey (coin_out (view out)))))
             | Some t \<Rightarrow> map_option (map_option (\<lambda>a. (Some t, a))) (prev_address env t out))
      in case txPrev of
          None \<Rightarrow> fallback
        | Some t \<Rightarrow>
            (case prev_address env t out of
               None \<Rightarrow> None
             | Some None \<Rightarrow> fallback
             | Some (Some a) \<Rightarrow> Some (Some (Some t, a))))"

text \<open>One output: the flag says that the loop goes on.\<close>

definition is_player_tx :: "CBettingTx \<Rightarrow> bool" where
  "is_player_tx t \<longleftrightarrow> GetTxType t \<in> {plBetTxType, plParlayBetTxType, fBetTxType, fParlayBetTxType, cgBetTxType, qgBetTxType}"

definition ProcessBettingTx_output ::
  "'d double_ops \<Rightarrow> betting_env \<Rightarrow> CCoinsViewCache \<Rightarrow> CBettingsView \<Rightarrow> CTransaction \<Rightarrow> int \<Rightarrow> CBlock \<Rightarrow> bool \<Rightarrow>
   nat \<Rightarrow> CTxOut \<Rightarrow> process_state \<Rightarrow> (bool \<times> process_state) option" where
  "ProcessBettingTx_output fp env view bettingsView tx height block wagerrProtocolV3 i txOut s =
     (case ParseBettingTx txOut of
        None \<Rightarrow> Some (True, s)
      | Some bettingTx \<Rightarrow> do {
          txin \<leftarrow> vec_at (vin tx) 0;
          prev \<leftarrow> find_prev env view block (prevout txin);
          (case prev of
             None \<Rightarrow> Some (False, s)
           | Some (txPrev, address) \<Rightarrow> do {
               let outP = \<lparr>op_hash = tx_hash tx, op_n = of_nat i\<rparr>;
               let c = \<lparr>oc_height = height, oc_blockTime = GetBlockTime block, oc_v3 = wagerrProtocolV3, oc_address = address,
                        oc_betAmount = nValue txOut, oc_outPoint = outP, oc_bettingTxId = SerializeHash env outP\<rparr>;
               if is_player_tx bettingTx then do {
                 s \<leftarrow> ProcessBettingTx_player env bettingsView c bettingTx s;
                 Some (True, s) }
               else do {
                 t \<leftarrow> txPrev;
                 prevOut \<leftarrow> vec_at (vout t) (unat (op_n (prevout txin)));
                 if \<not> IsValidOraclePrevTxOut env prevOut height then Some (True, s)
                 else do {
                   s \<leftarrow> ProcessBettingTx_oracle fp env c bettingTx s;
                   Some (True, s) } } }) })"

fun ProcessBettingTx_outputs ::
  "'d double_ops \<Rightarrow> betting_env \<Rightarrow> CCoinsViewCache \<Rightarrow> CBettingsView \<Rightarrow> CTransaction \<Rightarrow> int \<Rightarrow> CBlock \<Rightarrow> bool \<Rightarrow>
   nat \<Rightarrow> CTxOut list \<Rightarrow> process_state \<Rightarrow> process_state option" where
  "ProcessBettingTx_outputs fp env view up tx height block v3 i [] s = Some s"
| "ProcessBettingTx_outputs fp env view up tx height block v3 i (txOut # txOuts) s =
     (case ProcessBettingTx_output fp env view up tx height block v3 i txOut s of
        None \<Rightarrow> None
      | Some (go, s) \<Rightarrow>
          if go then ProcessBettingTx_outputs fp env view up tx height block v3 (i + 1) txOuts s else Some s)"

definition ProcessBettingTx ::
  "'d double_ops \<Rightarrow> betting_env \<Rightarrow> CCoinsViewCache \<Rightarrow> CBettingsView \<Rightarrow> CTransaction \<Rightarrow> int \<Rightarrow> CBlock \<Rightarrow> bool \<Rightarrow>
   process_state \<Rightarrow> process_state option" where
  "ProcessBettingTx fp env view bettingsView tx height block wagerrProtocolV3 s =
     (if \<not> HasOpReturnOutput tx then Some s
      else ProcessBettingTx_outputs fp env view bettingsView tx height block wagerrProtocolV3 0 (vout tx) s)"

text \<open>The loop of \<open>ConnectBlock\<close> over the transactions of a block.\<close>

fun ProcessBettingTxs ::
  "'d double_ops \<Rightarrow> betting_env \<Rightarrow> CCoinsViewCache \<Rightarrow> CBettingsView \<Rightarrow> int \<Rightarrow> CBlock \<Rightarrow> bool \<Rightarrow> CTransaction list \<Rightarrow>
   process_state \<Rightarrow> process_state option" where
  "ProcessBettingTxs fp env view up height block v3 [] s = Some s"
| "ProcessBettingTxs fp env view up height block v3 (tx # txs) s = do {
     s \<leftarrow> ProcessBettingTx fp env view up tx height block v3 s;
     ProcessBettingTxs fp env view up height block v3 txs s }"

end
