(* ===== verification/BetUndo.thy ===== *)
theory BetUndo
  imports BetProcess
begin

text \<open>
  \<open>UndoBettingTx\<close> of betting/bet.cpp: what a disconnected transaction undoes in the betting databases, one
  definition per group of cases with the same body.  A handler returns the view and the flag the code returns;
  \<open>None\<close> is an access out of range.
\<close>

section \<open>Undo of event changes\<close>

definition undo_one :: "CBettingUndoDB \<Rightarrow> CBettingsView \<Rightarrow> CBettingsView" where
  "undo_one undo view =
     (case undoVariant undo of
        UndoPeerlessEvent event \<Rightarrow> view\<lparr>events := fst (tdb_Update (events view) (nEventId event) event)\<rparr>
      | UndoFieldEvent event \<Rightarrow> view\<lparr>fieldEvents := fst (tdb_Update (fieldEvents view) (fev_nEventId event) event)\<rparr>)"

text \<open>The exceptions for inconsistent undo data are constructed and not thrown.\<close>

definition UndoEventChanges :: "BettingUndoKey \<Rightarrow> CBettingsView \<Rightarrow> CBettingsView \<times> bool" where
  "UndoEventChanges undoKey view = EraseBettingUndo undoKey (fold undo_one (GetBettingUndo undoKey view) view)"

section \<open>Handlers\<close>

definition UndoBettingTx_plBet :: "u32 \<Rightarrow> COutPoint \<Rightarrow> uint256 \<Rightarrow> CPeerlessBetTx \<Rightarrow> CBettingsView \<Rightarrow> CBettingsView \<times> bool" where
  "UndoBettingTx_plBet height outP bettingTxId betTx view =
     (if tdb_Exists (events view) (pb_nEventId betTx) then
        let (view, ok) = UndoEventChanges bettingTxId view in
        if \<not> ok then (view, False)
        else (view\<lparr>bets := fst (tdb_Erase (bets view) (PeerlessBetKey height outP))\<rparr>, True)
      else (view, True))"

definition UndoBettingTx_plParlayBet ::
  "bool \<Rightarrow> u32 \<Rightarrow> COutPoint \<Rightarrow> uint256 \<Rightarrow> CPeerlessParlayBetTx \<Rightarrow> CBettingsView \<Rightarrow> CBettingsView \<times> bool" where
  "UndoBettingTx_plParlayBet wagerrProtocolV3 height outP bettingTxId parlayBetTx view =
     (let legs = ppb_legs parlayBetTx;
          allEventsExist = list_all (\<lambda>leg. tdb_Exists (events view) (pb_nEventId leg)) legs
      in if \<not> wagerrProtocolV3 then (view, True)
         else if legs \<noteq> [] \<and> allEventsExist then
           let (view, ok) = UndoEventChanges bettingTxId view in
           if \<not> ok then (view, False)
           else (view\<lparr>bets := fst (tdb_Erase (bets view) (PeerlessBetKey height outP))\<rparr>, True)
         else (view, True))"

definition UndoBettingTx_fBet ::
  "bool \<Rightarrow> u32 \<Rightarrow> COutPoint \<Rightarrow> uint256 \<Rightarrow> CFieldBetTx \<Rightarrow> CBettingsView \<Rightarrow> CBettingsView \<times> bool" where
  "UndoBettingTx_fBet wagerrProtocolV4 height outP bettingTxId fBetTx view =
     (if \<not> wagerrProtocolV4 then (view, True)
      else if \<not> tdb_Exists (fieldEvents view) (fb_nEventId fBetTx) then (view, True)
      else
        let (view, ok) = UndoEventChanges bettingTxId view in
        if \<not> ok then (view, False)
        else (view\<lparr>fieldBets := fst (tdb_Erase (fieldBets view) (PeerlessBetKey height outP))\<rparr>, True))"

definition UndoBettingTx_fParlayBet ::
  "bool \<Rightarrow> u32 \<Rightarrow> COutPoint \<Rightarrow> uint256 \<Rightarrow> CFieldParlayBetTx \<Rightarrow> CBettingsView \<Rightarrow> CBettingsView \<times> bool" where
  "UndoBettingTx_fParlayBet wagerrProtocolV4 height outP bettingTxId fParlayBetTx view =
     (let legs = fpb_legs fParlayBetTx;
          allEventsExist = list_all (\<lambda>leg. tdb_Exists (fieldEvents view) (fb_nEventId leg)) legs
      in if \<not> wagerrProtocolV4 then (view, True)
         else if legs \<noteq> [] \<and> allEventsExist then
           let (view, ok) = UndoEventChanges bettingTxId view in
           if \<not> ok then (view, False)
           else (view\<lparr>fieldBets := fst (tdb_Erase (fieldBets view) (PeerlessBetKey height outP))\<rparr>, True)
         else (view, True))"

text \<open>The event of a chain game is looked up in the view below the cache.\<close>

definition UndoBettingTx_cgBet ::
  "CBettingsView \<Rightarrow> bool \<Rightarrow> u32 \<Rightarrow> COutPoint \<Rightarrow> CChainGamesBetTx \<Rightarrow> CBettingsView \<Rightarrow> CBettingsView \<times> bool" where
  "UndoBettingTx_cgBet bettingsView wagerrProtocolV3 height outP cgBetTx view =
     (if \<not> wagerrProtocolV3 then (view, True)
      else if \<not> tdb_Exists (chainGamesLottoEvents bettingsView) (ucast (cgb_nEventId cgBetTx)) then (view, True)
      else let (db, ok) = tdb_Erase (chainGamesLottoBets view) (PeerlessBetKey height outP)
           in (view\<lparr>chainGamesLottoBets := db\<rparr>, ok))"

definition UndoBettingTx_qgBet :: "bool \<Rightarrow> u32 \<Rightarrow> COutPoint \<Rightarrow> CBettingsView \<Rightarrow> CBettingsView \<times> bool" where
  "UndoBettingTx_qgBet wagerrProtocolV3 height outP view =
     (if \<not> wagerrProtocolV3 then (view, True)
      else let (db, ok) = tdb_Erase (quickGamesBets view) (PeerlessBetKey height outP)
           in (view\<lparr>quickGamesBets := db\<rparr>, ok))"

definition UndoBettingTx_mapping :: "bool \<Rightarrow> CMappingTx \<Rightarrow> CBettingsView \<Rightarrow> CBettingsView \<times> bool" where
  "UndoBettingTx_mapping wagerrProtocolV4 mapTx view =
     (let mappingType = ucast (mt_nMType mapTx); key = (mappingType, mt_nId mapTx) in
      if (mappingType = individualSportMapping \<or> mappingType = contenderMapping) \<and> \<not> wagerrProtocolV4 then (view, False)
      else if tdb_Exists (mappings view) key then
        let (db, ok) = tdb_Erase (mappings view) key in (view\<lparr>mappings := db\<rparr>, ok)
      else (view, True))"

definition UndoBettingTx_plEvent :: "bool \<Rightarrow> uint256 \<Rightarrow> CPeerlessEventTx \<Rightarrow> CBettingsView \<Rightarrow> CBettingsView \<times> bool" where
  "UndoBettingTx_plEvent wagerrProtocolV3 bettingTxId plEventTx view =
     (if tdb_Exists (events view) (pe_nEventId plEventTx) then
        if \<not> wagerrProtocolV3 \<and> ExistsBettingUndo bettingTxId view then UndoEventChanges bettingTxId view
        else let (db, ok) = tdb_Erase (events view) (pe_nEventId plEventTx) in (view\<lparr>events := db\<rparr>, ok)
      else (view, True))"

definition UndoBettingTx_fEvent :: "bool \<Rightarrow> CFieldEventTx \<Rightarrow> CBettingsView \<Rightarrow> CBettingsView \<times> bool" where
  "UndoBettingTx_fEvent wagerrProtocolV4 fEventTx view =
     (if \<not> wagerrProtocolV4 then (view, True)
      else if tdb_Exists (fieldEvents view) (fe_nEventId fEventTx) then
        let (db, ok) = tdb_Erase (fieldEvents view) (fe_nEventId fEventTx) in (view\<lparr>fieldEvents := db\<rparr>, ok)
      else (view, True))"

text \<open>The shared body of the transactions that update one field event, and of those that update one team event.\<close>

definition UndoBettingTx_fieldUpdate :: "bool \<Rightarrow> EventKey \<Rightarrow> uint256 \<Rightarrow> CBettingsView \<Rightarrow> CBettingsView \<times> bool" where
  "UndoBettingTx_fieldUpdate wagerrProtocolV4 eventKey bettingTxId view =
     (if \<not> wagerrProtocolV4 then (view, True)
      else if tdb_Exists (fieldEvents view) eventKey then UndoEventChanges bettingTxId view
      else (view, True))"

definition UndoBettingTx_eventUpdate :: "EventKey \<Rightarrow> uint256 \<Rightarrow> CBettingsView \<Rightarrow> CBettingsView \<times> bool" where
  "UndoBettingTx_eventUpdate eventKey bettingTxId view =
     (if tdb_Exists (events view) eventKey then UndoEventChanges bettingTxId view else (view, True))"

definition UndoBettingTx_fResult :: "bool \<Rightarrow> CFieldResultTx \<Rightarrow> CBettingsView \<Rightarrow> CBettingsView \<times> bool" where
  "UndoBettingTx_fResult wagerrProtocolV4 fResultTx view =
     (if \<not> wagerrProtocolV4 then (view, True)
      else if fr_nResultType fResultTx \<noteq> standardResult \<and> fr_nResultType fResultTx \<noteq> eventRefund \<and>
              fr_nResultType fResultTx \<noteq> eventClosed then (view, True)
      else if \<not> tdb_Exists (fieldEvents view) (fr_nEventId fResultTx) then (view, True)
      else if tdb_Exists (fieldResults view) (fr_nEventId fResultTx) then
        let (db, ok) = tdb_Erase (fieldResults view) (fr_nEventId fResultTx) in (view\<lparr>fieldResults := db\<rparr>, ok)
      else (view, True))"

definition UndoBettingTx_plResult :: "CPeerlessResultTx \<Rightarrow> CBettingsView \<Rightarrow> CBettingsView \<times> bool" where
  "UndoBettingTx_plResult plResultTx view =
     (if tdb_Exists (results view) (pr_nEventId plResultTx) then
        let (db, ok) = tdb_Erase (results view) (pr_nEventId plResultTx) in (view\<lparr>results := db\<rparr>, ok)
      else (view, True))"

definition UndoBettingTx_cgEvent :: "bool \<Rightarrow> CChainGamesEventTx \<Rightarrow> CBettingsView \<Rightarrow> CBettingsView \<times> bool" where
  "UndoBettingTx_cgEvent wagerrProtocolV3 cgEventTx view =
     (if \<not> wagerrProtocolV3 then (view, True)
      else let (db, ok) = tdb_Erase (chainGamesLottoEvents view) (ucast (cge_nEventId cgEventTx))
           in (view\<lparr>chainGamesLottoEvents := db\<rparr>, ok))"

definition UndoBettingTx_cgResult :: "bool \<Rightarrow> CChainGamesResultTx \<Rightarrow> CBettingsView \<Rightarrow> CBettingsView \<times> bool" where
  "UndoBettingTx_cgResult wagerrProtocolV3 cgResultTx view =
     (if \<not> wagerrProtocolV3 then (view, True)
      else let (db, ok) = tdb_Erase (chainGamesLottoResults view) (ucast (cgr_nEventId cgResultTx))
           in (view\<lparr>chainGamesLottoResults := db\<rparr>, ok))"

definition UndoBettingTx_plZeroingOdds ::
  "bool \<Rightarrow> uint256 \<Rightarrow> CPeerlessEventZeroingOddsTx \<Rightarrow> CBettingsView \<Rightarrow> CBettingsView \<times> bool" where
  "UndoBettingTx_plZeroingOdds wagerrProtocolV4 bettingTxId t view =
     (if \<not> wagerrProtocolV4 then (view, True)
      else if list_all (\<lambda>eventId. tdb_Exists (events view) eventId) (pz_vEventIds t) then UndoEventChanges bettingTxId view
      else (view, True))"

section \<open>The transaction\<close>

record undo_ctx =
  uc_height :: u32
  uc_v3 :: bool
  uc_v4 :: bool
  uc_outPoint :: COutPoint
  uc_bettingTxId :: uint256

fun UndoBettingTx_player :: "CBettingsView \<Rightarrow> undo_ctx \<Rightarrow> CBettingTx \<Rightarrow> CBettingsView \<Rightarrow> CBettingsView \<times> bool" where
  "UndoBettingTx_player up c (PeerlessBetTx t) view = UndoBettingTx_plBet (uc_height c) (uc_outPoint c) (uc_bettingTxId c) t view"
| "UndoBettingTx_player up c (PeerlessParlayBetTx t) view = UndoBettingTx_plParlayBet (uc_v3 c) (uc_height c) (uc_outPoint c) (uc_bettingTxId c) t view"
| "UndoBettingTx_player up c (FieldBetTx t) view = UndoBettingTx_fBet (uc_v4 c) (uc_height c) (uc_outPoint c) (uc_bettingTxId c) t view"
| "UndoBettingTx_player up c (FieldParlayBetTx t) view = UndoBettingTx_fParlayBet (uc_v4 c) (uc_height c) (uc_outPoint c) (uc_bettingTxId c) t view"
| "UndoBettingTx_player up c (ChainGamesBetTx t) view = UndoBettingTx_cgBet up (uc_v3 c) (uc_height c) (uc_outPoint c) t view"
| "UndoBettingTx_player up c (QuickGamesBetTx t) view = UndoBettingTx_qgBet (uc_v3 c) (uc_height c) (uc_outPoint c) view"
| "UndoBettingTx_player up c _ view = (view, True)"

fun UndoBettingTx_oracle :: "undo_ctx \<Rightarrow> CBettingTx \<Rightarrow> CBettingsView \<Rightarrow> CBettingsView \<times> bool" where
  "UndoBettingTx_oracle c (MappingTx t) view = UndoBettingTx_mapping (uc_v4 c) t view"
| "UndoBettingTx_oracle c (PeerlessEventTx t) view = UndoBettingTx_plEvent (uc_v3 c) (uc_bettingTxId c) t view"
| "UndoBettingTx_oracle c (FieldEventTx t) view = UndoBettingTx_fEvent (uc_v4 c) t view"
| "UndoBettingTx_oracle c (FieldUpdateOddsTx t) view = UndoBettingTx_fieldUpdate (uc_v4 c) (fuo_nEventId t) (uc_bettingTxId c) view"
| "UndoBettingTx_oracle c (FieldUpdateModifiersTx t) view = UndoBettingTx_fieldUpdate (uc_v4 c) (fum_nEventId t) (uc_bettingTxId c) view"
| "UndoBettingTx_oracle c (FieldUpdateMarginTx t) view = UndoBettingTx_fieldUpdate (uc_v4 c) (fmg_nEventId t) (uc_bettingTxId c) view"
| "UndoBettingTx_oracle c (FieldZeroingOddsTx t) view = UndoBettingTx_fieldUpdate (uc_v4 c) (fz_nEventId t) (uc_bettingTxId c) view"
| "UndoBettingTx_oracle c (FieldResultTx t) view = UndoBettingTx_fResult (uc_v4 c) t view"
| "UndoBettingTx_oracle c (PeerlessResultTx t) view = UndoBettingTx_plResult t view"
| "UndoBettingTx_oracle c (PeerlessUpdateOddsTx t) view = UndoBettingTx_eventUpdate (puo_nEventId t) (uc_bettingTxId c) view"
| "UndoBettingTx_oracle c (ChainGamesEventTx t) view = UndoBettingTx_cgEvent (uc_v3 c) t view"
| "UndoBettingTx_oracle c (ChainGamesResultTx t) view = UndoBettingTx_cgResult (uc_v3 c) t view"
| "UndoBettingTx_oracle c (PeerlessSpreadsEventTx t) view = UndoBettingTx_eventUpdate (ps_nEventId t) (uc_bettingTxId c) view"
| "UndoBettingTx_oracle c (PeerlessTotalsEventTx t) view = UndoBettingTx_eventUpdate (pt_nEventId t) (uc_bettingTxId c) view"
| "UndoBettingTx_oracle c (PeerlessEventPatchTx t) view = UndoBettingTx_eventUpdate (pp_nEventId t) (uc_bettingTxId c) view"
| "UndoBettingTx_oracle c (PeerlessEventZeroingOddsTx t) view = UndoBettingTx_plZeroingOdds (uc_v4 c) (uc_bettingTxId c) t view"
| "UndoBettingTx_oracle c _ view = (view, True)"

definition UndoBettingTx_output ::
  "betting_env \<Rightarrow> CCoinsViewCache \<Rightarrow> CBettingsView \<Rightarrow> CTransaction \<Rightarrow> u32 \<Rightarrow> nat \<Rightarrow> CTxOut \<Rightarrow> CBettingsView \<Rightarrow>
   (CBettingsView \<times> bool) option" where
  "UndoBettingTx_output env coins bettingsView tx height i txOut view =
     (case ParseBettingTx txOut of
        None \<Rightarrow> Some (view, True)
      | Some bettingTx \<Rightarrow>
          let wagerrProtocolV3 = height \<ge> of_int (nWagerrProtocolV3StartHeight (consensus env));
              wagerrProtocolV4 = height \<ge> of_int (nWagerrProtocolV4StartHeight (consensus env));
              outP = \<lparr>op_hash = tx_hash tx, op_n = of_nat i\<rparr>;
              bettingTxId = SerializeHash env outP;
              c = \<lparr>uc_height = height, uc_v3 = wagerrProtocolV3, uc_v4 = wagerrProtocolV4, uc_outPoint = outP, uc_bettingTxId = bettingTxId\<rparr>
          in if \<not> wagerrProtocolV3 \<and> ExistFailedTx bettingTxId view then Some (EraseFailedTx bettingTxId view, True)
             else if is_player_tx bettingTx then Some (UndoBettingTx_player bettingsView c bettingTx view)
             else do {
               validOracleTx \<leftarrow> IsValidOracleTx env coins tx (sint height);
               if \<not> validOracleTx then Some (view, True) else Some (UndoBettingTx_oracle c bettingTx view) })"

text \<open>The outputs from the last to the first; \<open>return false\<close> stops.\<close>

fun UndoBettingTx_outputs ::
  "betting_env \<Rightarrow> CCoinsViewCache \<Rightarrow> CBettingsView \<Rightarrow> CTransaction \<Rightarrow> u32 \<Rightarrow> (nat \<times> CTxOut) list \<Rightarrow> CBettingsView \<Rightarrow>
   (CBettingsView \<times> bool) option" where
  "UndoBettingTx_outputs env coins up tx height [] view = Some (view, True)"
| "UndoBettingTx_outputs env coins up tx height ((i, txOut) # txOuts) view =
     (case UndoBettingTx_output env coins up tx height i txOut view of
        None \<Rightarrow> None
      | Some (view, ok) \<Rightarrow> if ok then UndoBettingTx_outputs env coins up tx height txOuts view else Some (view, False))"

definition UndoBettingTx ::
  "betting_env \<Rightarrow> CCoinsViewCache \<Rightarrow> CBettingsView \<Rightarrow> CTransaction \<Rightarrow> u32 \<Rightarrow> CBettingsView \<Rightarrow> (CBettingsView \<times> bool) option" where
  "UndoBettingTx env coins bettingsView tx height view =
     UndoBettingTx_outputs env coins bettingsView tx height (rev (enumerate 0 (vout tx))) view"

text \<open>The loop of \<open>BettingUndo\<close> over the transactions of a block, which are given in the order of the loop.\<close>

fun UndoBettingTxs ::
  "betting_env \<Rightarrow> CCoinsViewCache \<Rightarrow> CBettingsView \<Rightarrow> u32 \<Rightarrow> CTransaction list \<Rightarrow> CBettingsView \<Rightarrow> (CBettingsView \<times> bool) option" where
  "UndoBettingTxs env coins up height [] view = Some (view, True)"
| "UndoBettingTxs env coins up height (tx # txs) view =
     (case UndoBettingTx env coins up tx height view of
        None \<Rightarrow> None
      | Some (view, ok) \<Rightarrow> if ok then UndoBettingTxs env coins up height txs view else Some (view, False))"

end
