(* ===== verification/SampleChain.thy ===== *)
theory SampleChain
  imports BetProcess
begin

text \<open>
  A sample chain of the regression-test network, a view with one event, and transactions with one betting output,
  on which the witnesses of the properties about transactions evaluate.
\<close>

text \<open>Every spent output belongs to the active oracle.\<close>

definition sample_prev :: CTransaction where
  "sample_prev = \<lparr>vin = [], vout = [\<lparr>nValue = COIN, scriptPubKey = [0]\<rparr>], tx_hash = 7\<rparr>"

definition sample_coins :: CCoinsViewCache where
  "sample_coins = (\<lambda>_. \<lparr>coin_out = \<lparr>nValue = COIN, scriptPubKey = [0]\<rparr>, coin_nHeight = 0\<rparr>)"

definition sample_env :: betting_env where
  "sample_env = \<lparr>consensus = CRegTestParams, Oracles = vOracles_regtest,
     vChain = replicate 450 (Some \<lparr>vtx = [sample_prev], nTime = 0\<rparr>), CoinsTip = sample_coins, FindTx = (\<lambda>_. None),
     ExtractDestination = (\<lambda>_. Some (CKeyID 5)), ExtractDestinations = (\<lambda>_. Some [CKeyID 5]),
     EncodeDestination = (\<lambda>_. ''TFvZVYGdrxxNunQLzSnRSC58BSRA7si6zu''), DecodeDestination = (\<lambda>_. CKeyID 5),
     GetScriptForDestination = (\<lambda>_. []), SerializeHash = (\<lambda>p. op_hash p + ucast (op_n p)), spork20 = 4070908800\<rparr>"

definition sample_tx :: "uint256 \<Rightarrow> CAmount \<Rightarrow> bytes \<Rightarrow> CTransaction" where
  "sample_tx hash amount payload = \<lparr>vin = [\<lparr>prevout = \<lparr>op_hash = 7, op_n = 0\<rparr>, scriptSig = []\<rparr>],
     vout = [\<lparr>nValue = 1, scriptPubKey = [0]\<rparr>, \<lparr>nValue = amount, scriptPubKey = push_data [OP_RETURN] payload\<rparr>], tx_hash = hash\<rparr>"

lemma sample_prev_found [simp]: "GetTransaction sample_env None 7 u = (if u then Some sample_prev else None)"
  by (simp add: GetTransaction_def sample_env_def ChainActive_at_def AccessByTxid_def AccessByTxid_loop.simps sample_coins_def
      IsSpent_def COIN_def MAX_OUTPUTS_PER_BLOCK_def find_tx_def sample_prev_def)

lemma sample_oracle_tx [simp]: "IsValidOraclePrevTxOut sample_env prevOut 450"
  by (simp add: IsValidOraclePrevTxOut_def sample_env_def vOracles_regtest_def IsMyOracleTx_def IsActive_def Let_def)

lemma sample_env_simps [simp]:
  "vChain sample_env = replicate 450 (Some \<lparr>vtx = [sample_prev], nTime = 0\<rparr>)" "consensus sample_env = CRegTestParams"
  "ChainHeight sample_env = 449" "SerializeHash sample_env = (\<lambda>p. op_hash p + ucast (op_n p))" "spork20 sample_env = 4070908800"
  "ExtractDestination sample_env = (\<lambda>_. Some (CKeyID 5))" "FindTx sample_env = (\<lambda>_. None)"
  by (simp_all add: sample_env_def ChainHeight_def)

lemma sample_IsValidOracleTx [simp]: "IsValidOracleTx sample_env sample_coins (sample_tx h a p) 450 = Some True"
  by (simp add: IsValidOracleTx_def sample_tx_def IsCoinBase_def IsCoinStake_def COutPoint_IsNull_def CTxOut_IsEmpty_def Let_def
      AccessByTxid_def AccessByTxid_loop.simps sample_coins_def IsSpent_def COIN_def MAX_OUTPUTS_PER_BLOCK_def
      ChainActive_at_def GetTransaction_def find_tx_def vec_at_def sample_prev_def)


lemmas parse_sample = ParseBettingTx_def GetScriptOp_def push_data_def opcode_defs CBettingTxHeader_size_def
  unser_CBettingTxHeader_def version_defs BetTxTypes_of_def all_BetTxTypes_def DeserializeBettingTx_def ser_readdata32_def eval_simps

lemma sample_bet [simp]: "ParseBettingTx \<lparr>nValue = v, scriptPubKey = push_data [OP_RETURN] [66, 1, 3, 5, 0, 0, 0, 1]\<rparr> =
  Some (PeerlessBetTx \<lparr>pb_nEventId = 5, pb_nOutcome = 1\<rparr>)"
  by (simp add: parse_sample unser_CPeerlessBetTx_def)

lemma sample_odds [simp]:
  "ParseBettingTx \<lparr>nValue = v, scriptPubKey = push_data [OP_RETURN] [66, 1, 5, 5, 0, 0, 0, 48, 117, 0, 0, 48, 117, 0, 0, 48, 117, 0, 0]\<rparr> =
  Some (PeerlessUpdateOddsTx \<lparr>puo_nEventId = 5, puo_nHomeOdds = 30000, puo_nAwayOdds = 30000, puo_nDrawOdds = 30000\<rparr>)"
  by (simp add: parse_sample unser_CPeerlessUpdateOddsTx_def)

lemma sample_plain [simp]: "ParseBettingTx \<lparr>nValue = v, scriptPubKey = [0]\<rparr> = None"
  by (simp add: parse_sample)

definition sample_view :: CBettingsView where
  "sample_view = \<lparr>mappings = om_empty, results = om_empty,
     events = om_update 5 (new_CPeerlessExtendedEventDB\<lparr>nEventId := 5, nHomeOdds := 20000, nAwayOdds := 20000, nDrawOdds := 20000\<rparr>) om_empty,
     bets = om_empty, fieldEvents = om_empty, fieldResults = om_empty, fieldBets = om_empty, undos = om_empty, lastHeight = None,
     payoutsInfo = om_empty, quickGamesBets = om_empty, chainGamesLottoEvents = om_empty, chainGamesLottoBets = om_empty,
     chainGamesLottoResults = om_empty, failedBettingTxs = om_empty\<rparr>"

lemma sample_find_prev [simp]: "find_prev sample_env coins block \<lparr>op_hash = 7, op_n = 0\<rparr> = Some (Some (Some sample_prev, CKeyID 5))"
  by (simp add: find_prev_def prev_address_def sample_prev_def vec_at_def)

lemma sample_tx_simps [simp]:
  "HasOpReturnOutput (sample_tx hash amount payload)" "tx_hash (sample_tx hash amount payload) = hash"
  "vin (sample_tx hash amount payload) = [\<lparr>prevout = \<lparr>op_hash = 7, op_n = 0\<rparr>, scriptSig = []\<rparr>]"
  "vout (sample_tx hash amount payload) = [\<lparr>nValue = 1, scriptPubKey = [0]\<rparr>, \<lparr>nValue = amount, scriptPubKey = push_data [OP_RETURN] payload\<rparr>]"
  by (simp_all add: sample_tx_def HasOpReturnOutput_def push_data_def)

lemma sample_view_simps [simp]:
  "om_lookup (events sample_view) 5 = Some (new_CPeerlessExtendedEventDB\<lparr>nEventId := 5, nHomeOdds := 20000, nAwayOdds := 20000, nDrawOdds := 20000\<rparr>)"
  "undos sample_view = om_empty" "bets sample_view = om_empty" "fieldBets sample_view = om_empty" "results sample_view = om_empty"
  by (simp_all add: sample_view_def)


end
