(* ===== verification/BetRoundtrip.thy ===== *)
theory BetRoundtrip
  imports BetUndo SampleChain
begin

text \<open>
  \<open>UndoBettingTx\<close> inverts \<open>ProcessBettingTx\<close> (betting/bet.cpp): for every kind of transaction, what the check accepted and
  the processing wrote is taken back by the undo; and undoing the transactions of a block in reverse order gives back the view
  the block was connected to.
\<close>

section \<open>Restored maps\<close>

text \<open>
  While a block is undone, an entry the block created may disappear earlier than it was created (two transactions of
  the block create it, the undo of the second one erases it).  \<open>restored base u s\<close> says that \<open>u\<close> is \<open>s\<close> up to
  entries that were not in \<open>base\<close> and are already gone.
\<close>

definition restored :: "('k::linorder, 'v) omap \<Rightarrow> ('k, 'v) omap \<Rightarrow> ('k, 'v) omap \<Rightarrow> bool" where
  "restored base u s \<longleftrightarrow> (\<forall>k. om_lookup u k = om_lookup s k \<or> om_lookup base k = None \<and> om_lookup u k = None)"

lemma restored_refl [simp]: "restored base s s"
  by (simp add: restored_def)

lemma restored_base: "restored base u base \<Longrightarrow> u = base"
  by (rule om_ext) (auto simp: restored_def)

lemma restored_at: "restored base u s \<Longrightarrow> om_lookup base k \<noteq> None \<Longrightarrow> om_lookup u k = om_lookup s k"
  by (auto simp: restored_def)

lemma restored_create:
  assumes "om_lookup base k = None" "restored base u (fst (tdb_Write s k v))"
  shows "restored base (om_delete k u) s"
  using assms by (auto simp: restored_def tdb_defs split: if_splits)

lemma fst_tdb_Erase: "fst (tdb_Erase db k) = om_delete k db"
  by (auto simp: tdb_defs delete_absent)

lemma snd_tdb_Erase: "snd (tdb_Erase db k) = tdb_Exists db k"
  by (auto simp: tdb_defs)

text \<open>The events \<open>es\<close> of \<open>m\<close> were changed, and nothing else.\<close>

definition changed :: "('e \<Rightarrow> EventKey) \<Rightarrow> (EventKey, 'e) omap \<Rightarrow> (EventKey, 'e) omap \<Rightarrow> 'e list \<Rightarrow> bool" where
  "changed key m m' es \<longleftrightarrow>
     (\<forall>e\<in>set es. om_lookup m (key e) = Some e) \<and> (\<forall>k. k \<notin> key ` set es \<longrightarrow> om_lookup m' k = om_lookup m k) \<and>
     (\<forall>k\<in>key ` set es. om_lookup m' k \<noteq> None)"

lemma lookup_fold_update:
  assumes "\<forall>e\<in>set es. om_lookup m (key e) = Some e"
  shows "om_lookup (fold (\<lambda>e. om_update (key e) e) es u) k = (if k \<in> key ` set es then om_lookup m k else om_lookup u k)"
  using assms by (induction es arbitrary: u) auto

lemma restored_undo:
  assumes "changed key s s' es" "restored base u s'" "\<forall>e\<in>set es. om_lookup base (key e) \<noteq> None"
  shows "restored base (fold (\<lambda>e. om_update (key e) e) es u) s"
  unfolding restored_def
proof
  fix k
  have l: "om_lookup (fold (\<lambda>e. om_update (key e) e) es u) k = (if k \<in> key ` set es then om_lookup s k else om_lookup u k)"
    using assms(1) by (intro lookup_fold_update) (simp add: changed_def)
  show "om_lookup (fold (\<lambda>e. om_update (key e) e) es u) k = om_lookup s k \<or>
    om_lookup base k = None \<and> om_lookup (fold (\<lambda>e. om_update (key e) e) es u) k = None"
  proof (cases "k \<in> key ` set es")
    case False
    then have "om_lookup s' k = om_lookup s k" using assms(1) by (simp add: changed_def)
    then show ?thesis using assms(2) [unfolded restored_def, rule_format, of k] l False by auto
  qed (simp add: l)
qed

section \<open>Undo of event changes\<close>

text \<open>The two event databases of the view, as the undo data sees them.\<close>

locale undo_db =
  fixes get :: "CBettingsView \<Rightarrow> (EventKey, 'e) omap"
    and put :: "(EventKey, 'e) omap \<Rightarrow> CBettingsView \<Rightarrow> CBettingsView"
    and key :: "'e \<Rightarrow> EventKey"
    and variant :: "'e \<Rightarrow> BettingUndoVariant"
  assumes get_put: "get (put m v) = m"
    and put_get: "put (get v) v = v"
    and put_put: "put m (put m' v) = put m v"
    and undos_put: "undos (put m v) = undos v"
    and undo_one_put: "undoVariant u = variant e \<Longrightarrow> undo_one u v = put (fst (tdb_Update (get v) (key e) e)) v"
begin

lemma fold_undo_one:
  assumes "\<forall>e\<in>set es. om_lookup (get v) (key e) \<noteq> None"
  shows "fold undo_one (map (\<lambda>e. \<lparr>undo_height = h, undoVariant = variant e\<rparr>) es) v =
    put (fold (\<lambda>e. om_update (key e) e) es (get v)) v"
  using assms
proof (induction es arbitrary: v)
  case (Cons e es)
  have "undo_one \<lparr>undo_height = h, undoVariant = variant e\<rparr> v = put (om_update (key e) e (get v)) v"
    using Cons.prems by (subst undo_one_put [of _ e]) (simp_all add: tdb_defs)
  moreover have "\<forall>e'\<in>set es. om_lookup (get (put (om_update (key e) e (get v)) v)) (key e') \<noteq> None"
    using Cons.prems by (simp add: get_put)
  ultimately show ?case using Cons.IH by (simp add: get_put put_put)
qed (simp add: put_get)

lemma UndoEventChanges_restores:
  assumes "changed key s s' es" "restored base (get u) s'" "\<forall>e\<in>set es. om_lookup base (key e) \<noteq> None"
    and "om_lookup (undos u) txId = Some (map (\<lambda>e. \<lparr>undo_height = h, undoVariant = variant e\<rparr>) es)"
  shows "\<exists>m. UndoEventChanges txId u = ((put m u)\<lparr>undos := om_delete txId (undos u)\<rparr>, True) \<and> restored base m s"
proof -
  let ?m = "fold (\<lambda>e. om_update (key e) e) es (get u)"
  have "\<forall>e\<in>set es. om_lookup (get u) (key e) \<noteq> None"
    using assms(1,3) restored_at [OF assms(2)] by (auto simp: changed_def)
  then have "UndoEventChanges txId u = ((put ?m u)\<lparr>undos := om_delete txId (undos u)\<rparr>, True)"
    using assms(4)
    by (simp add: UndoEventChanges_def GetBettingUndo_def EraseBettingUndo_def tdb_defs fold_undo_one undos_put)
  then show ?thesis using restored_undo [OF assms(1-3)] by blast
qed

end

interpretation teamEvents: undo_db events "\<lambda>m v. v\<lparr>events := m\<rparr>" nEventId UndoPeerlessEvent
  by unfold_locales (simp_all add: undo_one_def)

interpretation raceEvents: undo_db fieldEvents "\<lambda>m v. v\<lparr>fieldEvents := m\<rparr>" fev_nEventId UndoFieldEvent
  by unfold_locales (simp_all add: undo_one_def)


section \<open>Undo of one transaction\<close>

definition undoes_to :: "CBettingsView \<Rightarrow> CBettingsView \<Rightarrow> CBettingsView \<Rightarrow> bool" where
  "undoes_to base u s \<longleftrightarrow>
     restored (mappings base) (mappings u) (mappings s) \<and> restored (results base) (results u) (results s) \<and>
     restored (events base) (events u) (events s) \<and> restored (fieldEvents base) (fieldEvents u) (fieldEvents s) \<and>
     restored (fieldResults base) (fieldResults u) (fieldResults s) \<and>
     bets u = bets s \<and> fieldBets u = fieldBets s \<and> undos u = undos s \<and> lastHeight u = lastHeight s \<and>
     payoutsInfo u = payoutsInfo s \<and> quickGamesBets u = quickGamesBets s \<and>
     chainGamesLottoEvents u = chainGamesLottoEvents s \<and> chainGamesLottoBets u = chainGamesLottoBets s \<and>
     chainGamesLottoResults u = chainGamesLottoResults s \<and> failedBettingTxs u = failedBettingTxs s"

lemma undoes_to_refl [simp]: "undoes_to base s s"
  by (simp add: undoes_to_def)

lemma undoes_to_base: "undoes_to base u base \<Longrightarrow> u = base"
  by (rule CBettingsView.equality) (auto simp: undoes_to_def dest: restored_base)

text \<open>
  What a view keeps while a block is processed: events are stored under their own identifier, and the events of
  the base view are still there.
\<close>

definition keyed_map :: "('e \<Rightarrow> EventKey) \<Rightarrow> (EventKey, 'e) omap \<Rightarrow> bool" where
  "keyed_map key m \<longleftrightarrow> (\<forall>k e. om_lookup m k = Some e \<longrightarrow> key e = k)"

lemma keyed_map_update [simp]: "keyed_map key m \<Longrightarrow> key e = k \<Longrightarrow> keyed_map key (om_update k e m)"
  by (simp add: keyed_map_def)

definition keyed :: "CBettingsView \<Rightarrow> bool" where
  "keyed s \<longleftrightarrow> keyed_map nEventId (events s) \<and> keyed_map fev_nEventId (fieldEvents s)"

definition covers :: "CBettingsView \<Rightarrow> CBettingsView \<Rightarrow> bool" where
  "covers base s \<longleftrightarrow> (\<forall>k. om_lookup (events base) k \<noteq> None \<longrightarrow> om_lookup (events s) k \<noteq> None) \<and>
     (\<forall>k. om_lookup (fieldEvents base) k \<noteq> None \<longrightarrow> om_lookup (fieldEvents s) k \<noteq> None)"

lemma changed_single:
  assumes "om_lookup m k = Some e" "key e = k"
  shows "changed key m (om_update k e' m) [e]"
  using assms by (auto simp: changed_def)

text \<open>A saved change of team events is undone, and with it the bet that made it.\<close>

lemma undo_team:
  assumes "changed nEventId (events s) m' es" and "\<forall>e\<in>set es. om_lookup (events base) (nEventId e) \<noteq> None"
    and "om_lookup (undos s) txId = None"
    and "undoes_to base u (s\<lparr>events := m', undos := om_update txId (map (undo_event h) es) (undos s), bets := B\<rparr>)"
  shows "\<exists>u'. UndoEventChanges txId u = (u', True) \<and> undoes_to base u' (s\<lparr>bets := B\<rparr>)"
proof -
  have un: "undos u = om_update txId (map (undo_event h) es) (undos s)" and r: "restored (events base) (events u) m'"
    using assms(4) by (simp_all add: undoes_to_def)
  have "om_lookup (undos u) txId = Some (map (\<lambda>e. \<lparr>undo_height = of_int h, undoVariant = UndoPeerlessEvent e\<rparr>) es)"
    by (simp add: un undo_event_def)
  from teamEvents.UndoEventChanges_restores [OF assms(1) r assms(2) this]
  obtain m where "UndoEventChanges txId u = (u\<lparr>events := m, undos := om_delete txId (undos u)\<rparr>, True)"
    and "restored (events base) m (events s)" by blast
  moreover have "om_delete txId (undos u) = undos s" using assms(3) by (simp add: un delete_update delete_absent)
  ultimately show ?thesis using assms(4) by (simp add: undoes_to_def)
qed

lemma undo_race:
  assumes "changed fev_nEventId (fieldEvents s) m' es" and "\<forall>e\<in>set es. om_lookup (fieldEvents base) (fev_nEventId e) \<noteq> None"
    and "om_lookup (undos s) txId = None"
    and "undoes_to base u (s\<lparr>fieldEvents := m', undos := om_update txId (map (undo_fieldEvent h) es) (undos s), fieldBets := B\<rparr>)"
  shows "\<exists>u'. UndoEventChanges txId u = (u', True) \<and> undoes_to base u' (s\<lparr>fieldBets := B\<rparr>)"
proof -
  have un: "undos u = om_update txId (map (undo_fieldEvent h) es) (undos s)" and r: "restored (fieldEvents base) (fieldEvents u) m'"
    using assms(4) by (simp_all add: undoes_to_def)
  have "om_lookup (undos u) txId = Some (map (\<lambda>e. \<lparr>undo_height = of_int h, undoVariant = UndoFieldEvent e\<rparr>) es)"
    by (simp add: un undo_fieldEvent_def)
  from raceEvents.UndoEventChanges_restores [OF assms(1) r assms(2) this]
  obtain m where "UndoEventChanges txId u = (u\<lparr>fieldEvents := m, undos := om_delete txId (undos u)\<rparr>, True)"
    and "restored (fieldEvents base) m (fieldEvents s)" by blast
  moreover have "om_delete txId (undos u) = undos s" using assms(3) by (simp add: un delete_update delete_absent)
  ultimately show ?thesis using assms(4) by (simp add: undoes_to_def)
qed

definition undone :: "CBettingsView \<Rightarrow> (CBettingsView \<Rightarrow> CBettingsView \<times> bool) \<Rightarrow> CBettingsView \<Rightarrow> CBettingsView \<Rightarrow> bool" where
  "undone base undo s s' \<longleftrightarrow> keyed s' \<and> covers base s' \<and>
     (\<forall>u. undoes_to base u s' \<longrightarrow> (\<exists>u'. undo u = (u', True) \<and> undoes_to base u' s))"

lemma undone_refl: "keyed s \<Longrightarrow> covers base s \<Longrightarrow> undone base (\<lambda>u. (u, True)) s s"
  by (simp add: undone_def)

lemma changed_covers:
  assumes "changed key m m' es" "om_lookup m k \<noteq> None"
  shows "om_lookup m' k \<noteq> None"
  using assms by (cases "k \<in> key ` set es") (auto simp: changed_def)

lemma undone_team:
  assumes "keyed s" "covers base s" "om_lookup (undos s) txId = None"
    and "changed nEventId (events s) m' es" "keyed_map nEventId m'" "\<forall>e\<in>set es. om_lookup (events base) (nEventId e) \<noteq> None"
    and "s' = s\<lparr>events := m', undos := om_update txId (map (undo_event h) es) (undos s), bets := B\<rparr>"
  shows "undone base (UndoEventChanges txId) (s\<lparr>bets := B\<rparr>) s'"
  unfolding undone_def
proof (intro conjI allI impI)
  show "keyed s'" using assms by (simp add: keyed_def)
  show "covers base s'" using assms(2,7) changed_covers [OF assms(4)] by (simp add: covers_def)
  show "\<exists>u'. UndoEventChanges txId u = (u', True) \<and> undoes_to base u' (s\<lparr>bets := B\<rparr>)" if "undoes_to base u s'" for u
    using undo_team [OF assms(4,6,3)] that unfolding assms(7) by blast
qed

lemma undone_race:
  assumes "keyed s" "covers base s" "om_lookup (undos s) txId = None"
    and "changed fev_nEventId (fieldEvents s) m' es" "keyed_map fev_nEventId m'" "\<forall>e\<in>set es. om_lookup (fieldEvents base) (fev_nEventId e) \<noteq> None"
    and "s' = s\<lparr>fieldEvents := m', undos := om_update txId (map (undo_fieldEvent h) es) (undos s), fieldBets := B\<rparr>"
  shows "undone base (UndoEventChanges txId) (s\<lparr>fieldBets := B\<rparr>) s'"
  unfolding undone_def
proof (intro conjI allI impI)
  show "keyed s'" using assms by (simp add: keyed_def)
  show "covers base s'" using assms(2,7) changed_covers [OF assms(4)] by (simp add: covers_def)
  show "\<exists>u'. UndoEventChanges txId u = (u', True) \<and> undoes_to base u' (s\<lparr>fieldBets := B\<rparr>)" if "undoes_to base u s'" for u
    using undo_race [OF assms(4,6,3)] that unfolding assms(7) by blast
qed

text \<open>The event a transaction names is in the base view, so it is there when the transaction is undone.\<close>

lemma exists_undone:
  assumes "undoes_to base u s'" "covers base s'"
  shows "om_lookup (events base) k \<noteq> None \<Longrightarrow> tdb_Exists (events u) k"
    and "om_lookup (fieldEvents base) k \<noteq> None \<Longrightarrow> tdb_Exists (fieldEvents u) k"
  using assms by (auto simp: undoes_to_def covers_def tdb_defs dest: restored_at)

lemma undone_eventUpdate:
  assumes "undone base (UndoEventChanges txId) s s'" "om_lookup (events base) k \<noteq> None"
  shows "undone base (UndoBettingTx_eventUpdate k txId) s s'"
  using assms exists_undone(1) [of base _ s' k] by (simp add: undone_def UndoBettingTx_eventUpdate_def)

lemma undone_fieldUpdate:
  assumes "undone base (UndoEventChanges txId) s s'" "om_lookup (fieldEvents base) k \<noteq> None"
  shows "undone base (UndoBettingTx_fieldUpdate True k txId) s s'"
  using assms exists_undone(2) [of base _ s' k] by (simp add: undone_def UndoBettingTx_fieldUpdate_def)

text \<open>Frame: other undo and bet keys stay unused.\<close>

definition fresh :: "CBettingsView \<Rightarrow> uint256 \<Rightarrow> PeerlessBetKey \<Rightarrow> bool" where
  "fresh s txId key \<longleftrightarrow> om_lookup (undos s) txId = None \<and> om_lookup (bets s) key = None \<and> om_lookup (fieldBets s) key = None"

lemma change_event_undone:
  assumes "change_event h True txId k f s = Some s'" "keyed s" "covers base s" "om_lookup (events base) k \<noteq> None"
    and "om_lookup (undos s) txId = None" "\<And>e. nEventId (f e) = nEventId e"
  shows "undone base (UndoBettingTx_eventUpdate k txId) s s'"
proof -
  obtain e where e: "om_lookup (events s) k = Some e" using assms(3,4) by (auto simp: covers_def)
  then have k: "nEventId e = k" using assms(2) by (simp add: keyed_def keyed_map_def)
  have s': "s' = s\<lparr>events := om_update k (f e) (events s), undos := om_update txId (map (undo_event h) [e]) (undos s), bets := bets s\<rparr>"
    using assms(1,5) e by (auto simp: change_event_def SaveBettingUndo_def tdb_defs)
  have "undone base (UndoEventChanges txId) (s\<lparr>bets := bets s\<rparr>) s'"
    using assms k e by (intro undone_team [OF assms(2,3,5) changed_single [where key = nEventId, OF e k] _ _ s']) (simp_all add: keyed_def)
  then show ?thesis using undone_eventUpdate [OF _ assms(4)] by simp
qed

lemma change_fieldEvent_undone:
  assumes "change_fieldEvent env h txId k f s = Some s'" "protocolV4 env" "keyed s" "covers base s" "om_lookup (fieldEvents base) k \<noteq> None"
    and "om_lookup (undos s) txId = None" "\<And>e e'. f e = Some e' \<Longrightarrow> fev_nEventId e' = fev_nEventId e"
  shows "undone base (UndoBettingTx_fieldUpdate True k txId) s s'"
proof -
  obtain e where e: "om_lookup (fieldEvents s) k = Some e" using assms(4,5) by (auto simp: covers_def)
  then have k: "fev_nEventId e = k" using assms(3) by (simp add: keyed_def keyed_map_def)
  obtain e' where e': "f e = Some e'" and
    s': "s' = s\<lparr>fieldEvents := om_update k e' (fieldEvents s), undos := om_update txId (map (undo_fieldEvent h) [e]) (undos s), fieldBets := fieldBets s\<rparr>"
    using assms(1,2,6) e by (auto simp: change_fieldEvent_def SaveBettingUndo_def tdb_defs bind_eq_Some_conv)
  have "undone base (UndoEventChanges txId) (s\<lparr>fieldBets := fieldBets s\<rparr>) s'"
    using assms k e assms(7) [OF e'] by (intro undone_race [OF assms(3,4,6) changed_single [where key = fev_nEventId, OF e k] _ _ s']) (simp_all add: keyed_def)
  then show ?thesis using undone_fieldUpdate [OF _ assms(5)] by simp
qed

lemma mapping_undone:
  assumes "ProcessBettingTx_mapping env True txId t s = Some s'" "CheckBettingTx_mapping env base t True" "keyed s" "covers base s"
    and "protocolV4 env \<Longrightarrow> v4"
  shows "undone base (UndoBettingTx_mapping v4 t) s s'"
proof -
  let ?k = "(ucast (mt_nMType t), mt_nId t) :: MappingKey"
  have b: "om_lookup (mappings base) ?k = None"
    using assms(2) by (auto simp: CheckBettingTx_mapping_def Let_def tdb_defs split: if_splits)
  have c: "\<not> (\<not> protocolV4 env \<and> (ucast (mt_nMType t) = individualSportMapping \<or> ucast (mt_nMType t) = contenderMapping))"
    using assms(2) by (auto simp: CheckBettingTx_mapping_def Let_def split: if_splits)
  have s': "s' = s\<lparr>mappings := fst (tdb_Write (mappings s) ?k (mt_sName t))\<rparr>"
    using assms(1) c by (auto simp: ProcessBettingTx_mapping_def Let_def case_prod_beta split: if_splits)
  have u: "UndoBettingTx_mapping v4 t u = (u\<lparr>mappings := om_delete ?k (mappings u)\<rparr>, True)" for u
    using c assms(5) by (auto simp: UndoBettingTx_mapping_def Let_def case_prod_beta tdb_defs)
  show ?thesis
    unfolding undone_def u s' using assms(3,4) restored_create [OF b]
    by (auto simp: keyed_def covers_def undoes_to_def)
qed

lemma plEvent_undone:
  assumes "ProcessBettingTx_plEvent h True txId t s = Some s'" "CheckBettingTx_plEvent base t True" "keyed s" "covers base s"
  shows "undone base (UndoBettingTx_plEvent True txId t) s s'"
proof -
  let ?e = "ExtractDataFromTx_event t new_CPeerlessExtendedEventDB"
  have k: "nEventId ?e = pe_nEventId t" by (simp add: ExtractDataFromTx_event_def)
  have b: "om_lookup (events base) (pe_nEventId t) = None"
    using assms(2) by (auto simp: CheckBettingTx_plEvent_def tdb_defs split: if_splits)
  have s': "s' = s\<lparr>events := fst (tdb_Write (events s) (pe_nEventId t) ?e)\<rparr>"
    using assms(1) k by (auto simp: ProcessBettingTx_plEvent_def Let_def case_prod_beta split: if_splits)
  have u: "UndoBettingTx_plEvent True txId t u = (u\<lparr>events := om_delete (pe_nEventId t) (events u)\<rparr>, True)" for u
    by (auto simp: UndoBettingTx_plEvent_def Let_def case_prod_beta tdb_defs)
  show ?thesis
    unfolding undone_def u s' using assms(3,4) restored_create [OF b] k
    by (auto simp: keyed_def covers_def undoes_to_def tdb_defs)
qed

lemma CalcOdds_id: "CalcOdds fp ev = Some ev' \<Longrightarrow> fev_nEventId ev' = fev_nEventId ev"
  by (auto simp: CalcOdds_def Let_def bind_eq_Some_conv)

lemma fEvent_undone:
  assumes "ProcessBettingTx_fEvent fp env t s = Some s'" "CheckBettingTx_fEvent env base t True" "keyed s" "covers base s"
  shows "undone base (UndoBettingTx_fEvent True t) s s'"
proof -
  have v4: "protocolV4 env" and b: "om_lookup (fieldEvents base) (fe_nEventId t) = None"
    using assms(2) by (auto simp: CheckBettingTx_fEvent_def tdb_defs split: if_splits)
  obtain e where e: "CalcOdds fp (ExtractDataFromTx_fieldEvent t new_CFieldEventDB) = Some e"
    and s': "s' = s\<lparr>fieldEvents := fst (tdb_Write (fieldEvents s) (fev_nEventId e) e)\<rparr>"
    using assms(1) v4 by (auto simp: ProcessBettingTx_fEvent_def bind_eq_Some_conv)
  have k: "fev_nEventId e = fe_nEventId t" using CalcOdds_id [OF e] by (simp add: ExtractDataFromTx_fieldEvent_def)
  have u: "UndoBettingTx_fEvent True t u = (u\<lparr>fieldEvents := om_delete (fe_nEventId t) (fieldEvents u)\<rparr>, True)" for u
    by (auto simp: UndoBettingTx_fEvent_def Let_def case_prod_beta tdb_defs)
  show ?thesis
    unfolding undone_def u s' k using assms(3,4) restored_create [OF b] k
    by (auto simp: keyed_def covers_def undoes_to_def tdb_defs)
qed

lemma fResult_undone:
  assumes "ProcessBettingTx_fResult env t (s, ids) = (s', ids')" "CheckBettingTx_fResult env base t True" "keyed s" "covers base s"
  shows "undone base (UndoBettingTx_fResult True t) s s'"
proof -
  have v4: "protocolV4 env" and b: "om_lookup (fieldResults base) (fr_nEventId t) = None"
    and ev: "om_lookup (fieldEvents base) (fr_nEventId t) \<noteq> None"
    and ty: "fr_nResultType t = standardResult \<or> fr_nResultType t = eventRefund \<or> fr_nResultType t = eventClosed"
    using assms(2) by (auto simp: CheckBettingTx_fResult_def tdb_defs split: if_splits)
  obtain v where s': "s' = s\<lparr>fieldResults := fst (tdb_Write (fieldResults s) (fr_nEventId t) v)\<rparr>"
    using assms(1,4) ev v4 by (auto simp: ProcessBettingTx_fResult_def covers_def tdb_Read_def Let_def case_prod_beta split: if_splits option.splits)
  have u: "UndoBettingTx_fResult True t u = (u\<lparr>fieldResults := om_delete (fr_nEventId t) (fieldResults u)\<rparr>, True)"
    if "tdb_Exists (fieldEvents u) (fr_nEventId t)" for u
    using that ty by (auto simp: UndoBettingTx_fResult_def Let_def case_prod_beta tdb_defs)
  have c: "covers base s'" using assms(4) by (simp add: s' covers_def)
  show ?thesis
    unfolding undone_def using assms(3) c restored_create [OF b] u exists_undone(2) [OF _ c ev]
    by (auto simp: keyed_def undoes_to_def s')
qed

lemma plResult_undone:
  assumes "ProcessBettingTx_plResult True txId t (s, ids) = Some (s', ids')" "CheckBettingTx_plResult base t True" "keyed s" "covers base s"
  shows "undone base (UndoBettingTx_plResult t) s s'"
proof -
  have b: "om_lookup (results base) (pr_nEventId t) = None" and ev: "om_lookup (events base) (pr_nEventId t) \<noteq> None"
    using assms(2) by (auto simp: CheckBettingTx_plResult_def tdb_defs split: if_splits)
  obtain v where s': "s' = s\<lparr>results := fst (tdb_Write (results s) (pr_nEventId t) v)\<rparr>"
    using assms(1,4) ev by (auto simp: ProcessBettingTx_plResult_def covers_def tdb_Exists_def Let_def case_prod_beta split: if_splits)
  have u: "UndoBettingTx_plResult t u = (u\<lparr>results := om_delete (pr_nEventId t) (results u)\<rparr>, True)" for u
    by (auto simp: UndoBettingTx_plResult_def Let_def case_prod_beta tdb_defs)
  show ?thesis
    unfolding undone_def u s' using assms(3,4) restored_create [OF b]
    by (auto simp: keyed_def covers_def undoes_to_def)
qed

lemma event_ids [simp]:
  "nEventId (accumulate_bet outcome amount cached ev) = nEventId ev" "nEventId (count_bet outcome ev) = nEventId ev"
  "nEventId (zero_odds ev) = nEventId ev"
  by (simp_all add: accumulate_bet_def count_bet_def zero_odds_def)

lemma undone_bet:
  assumes "undone base (UndoEventChanges txId) (s\<lparr>bets := om_update key b (bets s)\<rparr>) s'" "om_lookup (bets s) key = None"
    and "\<And>u. undoes_to base u s' \<Longrightarrow> undo u = (let (v, ok) = UndoEventChanges txId u in
        if \<not> ok then (v, False) else (v\<lparr>bets := fst (tdb_Erase (bets v) key)\<rparr>, True))"
  shows "undone base undo s s'"
  unfolding undone_def
proof (intro conjI allI impI)
  show "keyed s'" "covers base s'" using assms(1) by (simp_all add: undone_def)
  show "\<exists>u'. undo u = (u', True) \<and> undoes_to base u' s" if u: "undoes_to base u s'" for u
  proof -
    obtain u' where "UndoEventChanges txId u = (u', True)" "undoes_to base u' (s\<lparr>bets := om_update key b (bets s)\<rparr>)"
      using assms(1) u by (auto simp: undone_def)
    then show ?thesis using assms(2,3) u by (auto simp: fst_tdb_Erase undoes_to_def)
  qed
qed

lemma undone_fieldBet:
  assumes "undone base (UndoEventChanges txId) (s\<lparr>fieldBets := om_update key b (fieldBets s)\<rparr>) s'" "om_lookup (fieldBets s) key = None"
    and "\<And>u. undoes_to base u s' \<Longrightarrow> undo u = (let (v, ok) = UndoEventChanges txId u in
        if \<not> ok then (v, False) else (v\<lparr>fieldBets := fst (tdb_Erase (fieldBets v) key)\<rparr>, True))"
  shows "undone base undo s s'"
  unfolding undone_def
proof (intro conjI allI impI)
  show "keyed s'" "covers base s'" using assms(1) by (simp_all add: undone_def)
  show "\<exists>u'. undo u = (u', True) \<and> undoes_to base u' s" if u: "undoes_to base u s'" for u
  proof -
    obtain u' where "UndoEventChanges txId u = (u', True)" "undoes_to base u' (s\<lparr>fieldBets := om_update key b (fieldBets s)\<rparr>)"
      using assms(1) u by (auto simp: undone_def)
    then show ?thesis using assms(2,3) u by (auto simp: fst_tdb_Erase undoes_to_def)
  qed
qed

lemma plBet_undone:
  assumes "ProcessBettingTx_plBet base h bt addr amt outP txId t s = Some s'" "om_lookup (events base) (pb_nEventId t) \<noteq> None"
    and "keyed s" "covers base s" "fresh s txId (PeerlessBetKey (of_int h) outP)"
  shows "undone base (UndoBettingTx_plBet (of_int h) outP txId t) s s'"
proof -
  let ?k = "pb_nEventId t" and ?key = "PeerlessBetKey (of_int h) outP"
  obtain c where c: "om_lookup (events base) ?k = Some c" using assms(2) by auto
  obtain e where e: "om_lookup (events s) ?k = Some e" using assms(2,4) by (auto simp: covers_def)
  have k: "nEventId e = ?k" using assms(3) e by (simp add: keyed_def keyed_map_def)
  have fr: "om_lookup (undos s) txId = None" "om_lookup (bets s) ?key = None" using assms(5) by (simp_all add: fresh_def)
  let ?e = "accumulate_bet (pb_nOutcome t) amt c e"
  define b where "b = new_CBetDB amt addr [\<lparr>leg_nEventId = ?k, leg_nOutcome = pb_nOutcome t\<rparr>] [CPeerlessBaseEventDB.truncate c] bt"
  have s': "s' = s\<lparr>events := om_update ?k ?e (events s), undos := om_update txId (map (undo_event h) [e]) (undos s),
      bets := om_update ?key b (bets s)\<rparr>"
    using assms(1) c e fr by (auto simp: b_def ProcessBettingTx_plBet_def Let_def SaveBettingUndo_def tdb_defs)
  have "covers base s'" using assms(4) by (auto simp: s' covers_def)
  have "undone base (UndoEventChanges txId) (s\<lparr>bets := om_update ?key b (bets s)\<rparr>) s'"
    using assms(3) k c by (intro undone_team [OF assms(3,4) fr(1) changed_single [where key = nEventId, OF e k] _ _ s']) (simp_all add: keyed_def)
  then show ?thesis
  proof (rule undone_bet [OF _ fr(2)])
    fix u
    assume "undoes_to base u s'"
    then have "tdb_Exists (events u) ?k" using exists_undone(1) [OF _ _ assms(2)] \<open>covers base s'\<close> by blast
    then show "UndoBettingTx_plBet (of_int h) outP txId t u = (let (v, ok) = UndoEventChanges txId u in
        if \<not> ok then (v, False) else (v\<lparr>bets := fst (tdb_Erase (bets v) ?key)\<rparr>, True))"
      by (simp only: UndoBettingTx_plBet_def if_True)
  qed
qed

lemma fBet_undone:
  assumes "ProcessBettingTx_fBet env base h bt addr amt outP txId t s = Some s'" "protocolV4 env" "om_lookup (fieldEvents base) (fb_nEventId t) \<noteq> None"
    and "keyed s" "covers base s" "fresh s txId (PeerlessBetKey (of_int h) outP)"
  shows "undone base (UndoBettingTx_fBet True (of_int h) outP txId t) s s'"
proof -
  let ?k = "fb_nEventId t" and ?key = "PeerlessBetKey (of_int h) outP"
  obtain c where c: "om_lookup (fieldEvents base) ?k = Some c" using assms(3) by auto
  obtain e where e: "om_lookup (fieldEvents s) ?k = Some e" using assms(3,5) by (auto simp: covers_def)
  have k: "fev_nEventId e = ?k" using assms(4) e by (simp add: keyed_def keyed_map_def)
  have fr: "om_lookup (undos s) txId = None" "om_lookup (fieldBets s) ?key = None" using assms(6) by (simp_all add: fresh_def)
  define c' where "c' = (if field_outcome (fb_nOutcome t)
    then c\<lparr>contenders := contender_modify (fb_nContenderId t) (\<lambda>c. c) (contenders c)\<rparr> else c)"
  define e' where "e' = (if field_outcome (fb_nOutcome t)
    then e\<lparr>contenders := contender_modify (fb_nContenderId t) (accumulate_fieldBet (fb_nOutcome t) amt
      (contender_at (contenders c) (fb_nContenderId t))) (contenders e)\<rparr> else e)"
  define b where "b = new_CBetDB amt addr [\<lparr>fleg_nEventId = ?k, fleg_nOutcome = fb_nOutcome t, fleg_nContenderId = fb_nContenderId t\<rparr>] [c'] bt"
  have s': "s' = s\<lparr>fieldEvents := om_update ?k e' (fieldEvents s), undos := om_update txId (map (undo_fieldEvent h) [e]) (undos s),
      fieldBets := om_update ?key b (fieldBets s)\<rparr>"
    using assms(1,2) c e fr unfolding b_def e'_def c'_def by (auto simp: ProcessBettingTx_fBet_def Let_def SaveBettingUndo_def tdb_defs)
  have e': "fev_nEventId e' = fev_nEventId e" by (simp add: e'_def)
  have "covers base s'" using assms(5) by (auto simp: s' covers_def)
  have "undone base (UndoEventChanges txId) (s\<lparr>fieldBets := om_update ?key b (fieldBets s)\<rparr>) s'"
    using assms(4) k c e' by (intro undone_race [OF assms(4,5) fr(1) changed_single [where key = fev_nEventId, OF e k] _ _ s']) (simp_all add: keyed_def)
  then show ?thesis
  proof (rule undone_fieldBet [OF _ fr(2)])
    fix u
    assume "undoes_to base u s'"
    then have "tdb_Exists (fieldEvents u) ?k" using exists_undone(2) [OF _ _ assms(3)] \<open>covers base s'\<close> by blast
    then show "UndoBettingTx_fBet True (of_int h) outP txId t u = (let (v, ok) = UndoEventChanges txId u in
        if \<not> ok then (v, False) else (v\<lparr>fieldBets := fst (tdb_Erase (fieldBets v) ?key)\<rparr>, True))"
      by (simp only: UndoBettingTx_fBet_def not_True_eq_False if_True if_False)
  qed
qed

lemma changed_Nil [simp]: "changed key m m []"
  by (simp add: changed_def)

lemma changed_Cons:
  assumes "om_lookup m k = Some e" "key e = k" "k \<notin> key ` set es" "changed key (om_update k e' m) m' es"
  shows "changed key m m' (e # es)"
  unfolding changed_def
proof (intro conjI)
  have d: "\<And>x. x \<in> set es \<Longrightarrow> key x \<noteq> k" using assms(3) by auto
  show "\<forall>x\<in>set (e # es). om_lookup m (key x) = Some x" using assms d by (auto simp: changed_def)
  show "\<forall>j. j \<notin> key ` set (e # es) \<longrightarrow> om_lookup m' j = om_lookup m j" using assms by (simp add: changed_def)
  have "om_lookup m' k = Some e'" using assms(3,4) by (simp add: changed_def)
  then show "\<forall>j\<in>key ` set (e # es). om_lookup m' j \<noteq> None" using assms(2,4) by (auto simp: changed_def)
qed

lemma parlay_legs_changed:
  assumes "keyed_map nEventId (events s)" "distinct (map leg_nEventId legs)"
    and "\<forall>leg\<in>set legs. om_lookup (events up) (leg_nEventId leg) \<noteq> None \<and> om_lookup (events s) (leg_nEventId leg) \<noteq> None"
  shows "\<exists>m' es locked. parlay_legs up h legs s = (s\<lparr>events := m'\<rparr>, map (undo_event h) es, locked) \<and>
    map nEventId es = map leg_nEventId legs \<and> changed nEventId (events s) m' es \<and> keyed_map nEventId m'"
  using assms
proof (induction legs arbitrary: s)
  case Nil
  then show ?case by (intro exI [of _ "events s"] exI [of _ "[]"]) simp
next
  case (Cons leg legs)
  let ?k = "leg_nEventId leg"
  obtain c e where c: "om_lookup (events up) ?k = Some c" and e: "om_lookup (events s) ?k = Some e" using Cons.prems(3) by auto
  have k: "nEventId e = ?k" using Cons.prems(1) e by (simp add: keyed_map_def)
  define s1 where "s1 = s\<lparr>events := om_update ?k (count_bet (leg_nOutcome leg) e) (events s)\<rparr>"
  have k1: "keyed_map nEventId (events s1)" using Cons.prems(1) k by (simp add: s1_def)
  have "om_lookup (events s) j \<noteq> None \<Longrightarrow> om_lookup (events s1) j \<noteq> None" for j by (simp add: s1_def)
  then have ex: "\<forall>leg\<in>set legs. om_lookup (events up) (leg_nEventId leg) \<noteq> None \<and> om_lookup (events s1) (leg_nEventId leg) \<noteq> None"
    using Cons.prems(3) by simp
  obtain m' es locked where IH: "parlay_legs up h legs s1 = (s1\<lparr>events := m'\<rparr>, map (undo_event h) es, locked)"
    "map nEventId es = map leg_nEventId legs" "changed nEventId (events s1) m' es" "keyed_map nEventId m'"
    using Cons.IH [OF k1 _ ex] Cons.prems(2) by auto
  have "nEventId ` set es = leg_nEventId ` set legs" using arg_cong [OF IH(2), of set] by simp
  then have "?k \<notin> nEventId ` set es" using Cons.prems(2) by simp
  then have "changed nEventId (events s) m' (e # es)" using changed_Cons [where key = nEventId, OF e k] IH(3) by (simp add: s1_def)
  moreover have "parlay_legs up h (leg # legs) s = (s\<lparr>events := m'\<rparr>, map (undo_event h) (e # es), CPeerlessBaseEventDB.truncate c # locked)"
    using c e IH(1) by (simp add: tdb_defs s1_def)
  ultimately show ?case using IH(2,4) k
    by (intro exI [of _ m'] exI [of _ "e # es"] exI [of _ "CPeerlessBaseEventDB.truncate c # locked"]) simp
qed

lemma ids_distinct_iff: "ids_distinct is ids \<longleftrightarrow> distinct is \<and> set is \<inter> ids = {}"
  by (induction "is" ids rule: ids_distinct.induct) auto

lemma plParlayBet_undone:
  assumes "ProcessBettingTx_plParlayBet base h bt True addr amt outP txId t s = Some s'"
    and "CheckBettingTx_plParlayBet env base t amt" "keyed s" "covers base s" "fresh s txId (PeerlessBetKey (of_int h) outP)"
  shows "undone base (UndoBettingTx_plParlayBet True (of_int h) outP txId t) s s'"
proof (cases "ppb_legs t = []")
  case True
  then have "UndoBettingTx_plParlayBet True (of_int h) outP txId t = (\<lambda>u. (u, True))" "s' = s"
    using assms(1) by (auto simp: ProcessBettingTx_plParlayBet_def UndoBettingTx_plParlayBet_def)
  then show ?thesis using assms by (simp add: undone_refl)
next
  case False
  define legs where "legs = map (\<lambda>leg. \<lparr>leg_nEventId = pb_nEventId leg, leg_nOutcome = pb_nOutcome leg\<rparr>) (ppb_legs t)"
  have ids: "map leg_nEventId legs = map pb_nEventId (ppb_legs t)" by (simp add: legs_def)
  let ?key = "PeerlessBetKey (of_int h) outP"
  have d: "distinct (map leg_nEventId legs)" and b: "\<forall>leg\<in>set (ppb_legs t). om_lookup (events base) (pb_nEventId leg) \<noteq> None"
    using assms(2) unfolding ids
    by (auto simp: CheckBettingTx_plParlayBet_def Let_def ids_distinct_iff list_all_iff CheckBettingTx_plParlayLeg_def tdb_Read_def split: if_splits option.splits)
  have fr: "om_lookup (undos s) txId = None" "om_lookup (bets s) ?key = None" using assms(5) by (simp_all add: fresh_def)
  obtain m' es locked where P: "parlay_legs base h legs s = (s\<lparr>events := m'\<rparr>, map (undo_event h) es, locked)"
    "map nEventId es = map leg_nEventId legs" "changed nEventId (events s) m' es" "keyed_map nEventId m'"
    using parlay_legs_changed [of s legs base h] d b assms(3,4) by (auto simp: keyed_def covers_def legs_def)
  have im: "nEventId ` set es = pb_nEventId ` set (ppb_legs t)" using arg_cong [OF P(2), of set] by (simp add: legs_def image_image)
  have eb: "\<forall>e\<in>set es. om_lookup (events base) (nEventId e) \<noteq> None"
  proof
    fix e
    assume "e \<in> set es"
    then have "nEventId e \<in> pb_nEventId ` set (ppb_legs t)" using im by blast
    then show "om_lookup (events base) (nEventId e) \<noteq> None" using b by auto
  qed
  have s': "s' = s\<lparr>events := m', undos := om_update txId (map (undo_event h) es) (undos s),
      bets := om_update ?key (new_CBetDB amt addr legs locked bt) (bets s)\<rparr>"
    using assms(1) False P(1) fr unfolding ProcessBettingTx_plParlayBet_def legs_def [symmetric]
    by (auto simp: legs_def SaveBettingUndo_def tdb_defs)
  have U: "undone base (UndoEventChanges txId) (s\<lparr>bets := om_update ?key (new_CBetDB amt addr legs locked bt) (bets s)\<rparr>) s'"
    by (rule undone_team [OF assms(3,4) fr(1) P(3,4) eb s'])
  then show ?thesis
  proof (rule undone_bet [OF _ fr(2)])
    fix u
    assume "undoes_to base u s'"
    moreover have "covers base s'" using U by (simp add: undone_def)
    ultimately have "list_all (\<lambda>leg. tdb_Exists (events u) (pb_nEventId leg)) (ppb_legs t)"
      using b exists_undone(1) by (simp add: list_all_iff)
    then show "UndoBettingTx_plParlayBet True (of_int h) outP txId t u = (let (v, ok) = UndoEventChanges txId u in
        if \<not> ok then (v, False) else (v\<lparr>bets := fst (tdb_Erase (bets v) ?key)\<rparr>, True))"
      using False by (simp add: UndoBettingTx_plParlayBet_def)
  qed
qed


lemma field_parlay_legs_changed:
  assumes "keyed_map fev_nEventId (fieldEvents s)" "distinct (map fleg_nEventId legs)"
    and "\<forall>leg\<in>set legs. om_lookup (fieldEvents up) (fleg_nEventId leg) \<noteq> None \<and> om_lookup (fieldEvents s) (fleg_nEventId leg) \<noteq> None"
  shows "\<exists>m' es locked. field_parlay_legs up h legs s = (s\<lparr>fieldEvents := m'\<rparr>, map (undo_fieldEvent h) es, locked) \<and>
    map fev_nEventId es = map fleg_nEventId legs \<and> changed fev_nEventId (fieldEvents s) m' es \<and> keyed_map fev_nEventId m'"
  using assms
proof (induction legs arbitrary: s)
  case Nil
  then show ?case by (intro exI [of _ "fieldEvents s"] exI [of _ "[]"]) simp
next
  case (Cons leg legs)
  let ?k = "fleg_nEventId leg"
  obtain c e where c: "om_lookup (fieldEvents up) ?k = Some c" and e: "om_lookup (fieldEvents s) ?k = Some e" using Cons.prems(3) by auto
  have k: "fev_nEventId e = ?k" using Cons.prems(1) e by (simp add: keyed_map_def)
  define e' where "e' = (if field_outcome (fleg_nOutcome leg)
    then e\<lparr>contenders := contender_modify (fleg_nContenderId leg) (count_fieldBet (fleg_nOutcome leg)) (contenders e)\<rparr> else e)"
  define s1 where "s1 = s\<lparr>fieldEvents := om_update ?k e' (fieldEvents s)\<rparr>"
  have k1: "keyed_map fev_nEventId (fieldEvents s1)" using Cons.prems(1) k by (simp add: s1_def e'_def)
  have "om_lookup (fieldEvents s) j \<noteq> None \<Longrightarrow> om_lookup (fieldEvents s1) j \<noteq> None" for j by (simp add: s1_def)
  then have ex: "\<forall>leg\<in>set legs. om_lookup (fieldEvents up) (fleg_nEventId leg) \<noteq> None \<and> om_lookup (fieldEvents s1) (fleg_nEventId leg) \<noteq> None"
    using Cons.prems(3) by simp
  obtain m' es locked where IH: "field_parlay_legs up h legs s1 = (s1\<lparr>fieldEvents := m'\<rparr>, map (undo_fieldEvent h) es, locked)"
    "map fev_nEventId es = map fleg_nEventId legs" "changed fev_nEventId (fieldEvents s1) m' es" "keyed_map fev_nEventId m'"
    using Cons.IH [OF k1 _ ex] Cons.prems(2) by auto
  have "fev_nEventId ` set es = fleg_nEventId ` set legs" using arg_cong [OF IH(2), of set] by simp
  then have "?k \<notin> fev_nEventId ` set es" using Cons.prems(2) by simp
  then have "changed fev_nEventId (fieldEvents s) m' (e # es)"
    using changed_Cons [where key = fev_nEventId, OF e k] IH(3) by (simp add: s1_def)
  moreover have "field_parlay_legs up h (leg # legs) s = (s\<lparr>fieldEvents := m'\<rparr>, map (undo_fieldEvent h) (e # es), c # locked)"
    using c e IH(1) by (simp add: tdb_defs s1_def e'_def Let_def)
  ultimately show ?case using IH(2,4) k
    by (intro exI [of _ m'] exI [of _ "e # es"] exI [of _ "c # locked"]) simp
qed

lemma fParlayBet_undone:
  assumes "ProcessBettingTx_fParlayBet env base h bt addr amt outP txId t s = Some s'"
    and "CheckBettingTx_fParlayBet env base t amt" "keyed s" "covers base s" "fresh s txId (PeerlessBetKey (of_int h) outP)"
  shows "undone base (UndoBettingTx_fParlayBet True (of_int h) outP txId t) s s'"
proof (cases "fpb_legs t = []")
  case True
  then have "UndoBettingTx_fParlayBet True (of_int h) outP txId t = (\<lambda>u. (u, True))" "s' = s"
    using assms(1) by (auto simp: ProcessBettingTx_fParlayBet_def UndoBettingTx_fParlayBet_def split: if_splits)
  then show ?thesis using assms by (simp add: undone_refl)
next
  case False
  define legs where "legs = map (\<lambda>leg. \<lparr>fleg_nEventId = fb_nEventId leg, fleg_nOutcome = fb_nOutcome leg,
    fleg_nContenderId = fb_nContenderId leg\<rparr>) (fpb_legs t)"
  have ids: "map fleg_nEventId legs = map fb_nEventId (fpb_legs t)" by (simp add: legs_def)
  let ?key = "PeerlessBetKey (of_int h) outP"
  have v4: "protocolV4 env" and d: "distinct (map fleg_nEventId legs)"
    and b: "\<forall>leg\<in>set (fpb_legs t). om_lookup (fieldEvents base) (fb_nEventId leg) \<noteq> None"
    using assms(2) unfolding ids
    by (auto simp: CheckBettingTx_fParlayBet_def Let_def ids_distinct_iff list_all_iff CheckBettingTx_fParlayLeg_def tdb_Read_def split: if_splits option.splits)
  have fr: "om_lookup (undos s) txId = None" "om_lookup (fieldBets s) ?key = None" using assms(5) by (simp_all add: fresh_def)
  obtain m' es locked where P: "field_parlay_legs base h legs s = (s\<lparr>fieldEvents := m'\<rparr>, map (undo_fieldEvent h) es, locked)"
    "map fev_nEventId es = map fleg_nEventId legs" "changed fev_nEventId (fieldEvents s) m' es" "keyed_map fev_nEventId m'"
    using field_parlay_legs_changed [of s legs base h] d b assms(3,4) by (auto simp: keyed_def covers_def legs_def)
  have im: "fev_nEventId ` set es = fb_nEventId ` set (fpb_legs t)" using arg_cong [OF P(2), of set] by (simp add: legs_def image_image)
  have eb: "\<forall>e\<in>set es. om_lookup (fieldEvents base) (fev_nEventId e) \<noteq> None"
  proof
    fix e
    assume "e \<in> set es"
    then have "fev_nEventId e \<in> fb_nEventId ` set (fpb_legs t)" using im by blast
    then show "om_lookup (fieldEvents base) (fev_nEventId e) \<noteq> None" using b by auto
  qed
  have s': "s' = s\<lparr>fieldEvents := m', undos := om_update txId (map (undo_fieldEvent h) es) (undos s),
      fieldBets := om_update ?key (new_CBetDB amt addr legs locked bt) (fieldBets s)\<rparr>"
    using assms(1) v4 False P(1) fr unfolding ProcessBettingTx_fParlayBet_def legs_def [symmetric]
    by (auto simp: legs_def SaveBettingUndo_def tdb_defs)
  have U: "undone base (UndoEventChanges txId) (s\<lparr>fieldBets := om_update ?key (new_CBetDB amt addr legs locked bt) (fieldBets s)\<rparr>) s'"
    by (rule undone_race [OF assms(3,4) fr(1) P(3,4) eb s'])
  then show ?thesis
  proof (rule undone_fieldBet [OF _ fr(2)])
    fix u
    assume "undoes_to base u s'"
    moreover have "covers base s'" using U by (simp add: undone_def)
    ultimately have "list_all (\<lambda>leg. tdb_Exists (fieldEvents u) (fb_nEventId leg)) (fpb_legs t)"
      using b exists_undone(2) by (simp add: list_all_iff)
    then show "UndoBettingTx_fParlayBet True (of_int h) outP txId t u = (let (v, ok) = UndoEventChanges txId u in
        if \<not> ok then (v, False) else (v\<lparr>fieldBets := fst (tdb_Erase (fieldBets v) ?key)\<rparr>, True))"
      using False by (simp add: UndoBettingTx_fParlayBet_def)
  qed
qed

lemma zero_events_changed:
  assumes "keyed_map nEventId (events s)" "distinct ids" "\<forall>i\<in>set ids. om_lookup (events s) i \<noteq> None"
  shows "\<exists>m' es. zero_events h ids s = (s\<lparr>events := m'\<rparr>, map (undo_event h) es) \<and>
    map nEventId es = ids \<and> changed nEventId (events s) m' es \<and> keyed_map nEventId m'"
  using assms
proof (induction ids arbitrary: s)
  case Nil
  then show ?case by (intro exI [of _ "events s"] exI [of _ "[]"]) simp
next
  case (Cons i ids)
  obtain e where e: "om_lookup (events s) i = Some e" using Cons.prems(3) by auto
  have k: "nEventId e = i" using Cons.prems(1) e by (simp add: keyed_map_def)
  define s1 where "s1 = s\<lparr>events := om_update i (zero_odds e) (events s)\<rparr>"
  have k1: "keyed_map nEventId (events s1)" using Cons.prems(1) k by (simp add: s1_def)
  have "om_lookup (events s) j \<noteq> None \<Longrightarrow> om_lookup (events s1) j \<noteq> None" for j by (simp add: s1_def)
  then have ex: "\<forall>j\<in>set ids. om_lookup (events s1) j \<noteq> None" using Cons.prems(3) by simp
  obtain m' es where IH: "zero_events h ids s1 = (s1\<lparr>events := m'\<rparr>, map (undo_event h) es)"
    "map nEventId es = ids" "changed nEventId (events s1) m' es" "keyed_map nEventId m'"
    using Cons.IH [OF k1 _ ex] Cons.prems(2) by auto
  have "i \<notin> nEventId ` set es" using arg_cong [OF IH(2), of set] Cons.prems(2) by simp
  then have "changed nEventId (events s) m' (e # es)"
    using changed_Cons [where key = nEventId, OF e k] IH(3) by (simp add: s1_def)
  moreover have "zero_events h (i # ids) s = (s\<lparr>events := m'\<rparr>, map (undo_event h) (e # es))"
    using e IH(1) by (simp add: tdb_defs s1_def)
  ultimately show ?case using IH(2,4) k by (intro exI [of _ m'] exI [of _ "e # es"]) simp
qed

lemma plZeroingOdds_undone:
  assumes "ProcessBettingTx_plZeroingOdds env h txId t s = Some s'" "CheckBettingTx_plZeroingOdds env base t True"
    and "keyed s" "covers base s" "om_lookup (undos s) txId = None" "distinct (pz_vEventIds t)" "pz_vEventIds t \<noteq> []"
  shows "undone base (UndoBettingTx_plZeroingOdds True txId t) s s'"
proof -
  have v4: "protocolV4 env" and b: "\<forall>i\<in>set (pz_vEventIds t). om_lookup (events base) i \<noteq> None"
    using assms(2) by (auto simp: CheckBettingTx_plZeroingOdds_def list_all_iff tdb_defs split: if_splits)
  obtain m' es where P: "zero_events h (pz_vEventIds t) s = (s\<lparr>events := m'\<rparr>, map (undo_event h) es)"
    "map nEventId es = pz_vEventIds t" "changed nEventId (events s) m' es" "keyed_map nEventId m'"
    using zero_events_changed [of s "pz_vEventIds t" h] b assms(3,4,6) by (auto simp: keyed_def covers_def)
  have eb: "\<forall>e\<in>set es. om_lookup (events base) (nEventId e) \<noteq> None" using b unfolding P(2) [symmetric] by simp
  have "es \<noteq> []" using P(2) assms(7) by auto
  then have s': "s' = s\<lparr>events := m', undos := om_update txId (map (undo_event h) es) (undos s), bets := bets s\<rparr>"
    using assms(1,5) v4 P(1) by (auto simp: ProcessBettingTx_plZeroingOdds_def SaveBettingUndo_def tdb_defs)
  have U: "undone base (UndoEventChanges txId) (s\<lparr>bets := bets s\<rparr>) s'"
    by (rule undone_team [OF assms(3,4,5) P(3,4) eb s'])
  then have "covers base s'" by (simp add: undone_def)
  then have "UndoBettingTx_plZeroingOdds True txId t u = UndoEventChanges txId u" if "undoes_to base u s'" for u
    using that b exists_undone(1) by (simp add: UndoBettingTx_plZeroingOdds_def list_all_iff)
  then show ?thesis using U by (simp add: undone_def)
qed

section \<open>Undo of one output\<close>

lemma cache_ids [simp]:
  "nEventId (ExtractDataFromTx_updateOdds uo e) = nEventId e" "nEventId (ExtractDataFromTx_spreads sp e) = nEventId e"
  "nEventId (ExtractDataFromTx_totals tt e) = nEventId e" "nEventId (ExtractDataFromTx_patch pp e) = nEventId e"
  by (simp_all add: ExtractDataFromTx_updateOdds_def ExtractDataFromTx_spreads_def ExtractDataFromTx_totals_def ExtractDataFromTx_patch_def)

lemma fieldCache_ids [simp]:
  "fev_nEventId (ExtractDataFromTx_fieldOdds fo fe) = fev_nEventId fe"
  "fev_nEventId (ExtractDataFromTx_fieldModifiers fm fe) = fev_nEventId fe" "fev_nEventId (ExtractDataFromTx_fieldMargin fg fe) = fev_nEventId fe"
  by (simp_all add: ExtractDataFromTx_fieldOdds_def ExtractDataFromTx_fieldModifiers_def ExtractDataFromTx_fieldMargin_def)

text \<open>The context in which an output is undone, from the one in which it was processed.\<close>

definition undo_ctx_of :: "output_ctx \<Rightarrow> bool \<Rightarrow> undo_ctx" where
  "undo_ctx_of c v4 = \<lparr>uc_height = of_int (oc_height c), uc_v3 = oc_v3 c, uc_v4 = v4, uc_outPoint = oc_outPoint c,
     uc_bettingTxId = oc_bettingTxId c\<rparr>"

lemma undo_ctx_of_simps [simp]:
  "uc_height (undo_ctx_of c v4) = of_int (oc_height c)" "uc_v3 (undo_ctx_of c v4) = oc_v3 c" "uc_v4 (undo_ctx_of c v4) = v4"
  "uc_outPoint (undo_ctx_of c v4) = oc_outPoint c" "uc_bettingTxId (undo_ctx_of c v4) = oc_bettingTxId c"
  by (simp_all add: undo_ctx_of_def)

lemma on_view_Some: "on_view f (s, ids) = Some (s', ids') \<longleftrightarrow> f s = Some s' \<and> ids' = ids"
  by (auto simp: on_view_def)

lemma player_undone:
  assumes "ProcessBettingTx_player env base c t (s, ids) = Some (s', ids')" "is_player_tx t"
    and "CheckBettingTx_switch env base t (oc_betAmount c) oracle h" "nQuickGamesEndHeight (consensus env) \<le> h"
    and "keyed s" "covers base s" "fresh s (oc_bettingTxId c) (PeerlessBetKey (of_int (oc_height c)) (oc_outPoint c))"
    and "oc_v3 c" "protocolV4 env \<Longrightarrow> v4"
  shows "undone base (\<lambda>u. UndoBettingTx_player up (undo_ctx_of c v4) t u) s s'"
proof (cases t)
  case (PeerlessBetTx b)
  then show ?thesis using assms plBet_undone [of base _ _ _ _ _ _ b s s']
    by (auto simp: on_view_Some CheckBettingTx_plBet_def Let_def tdb_Read_def split: if_splits option.splits)
next
  case (PeerlessParlayBetTx b)
  then show ?thesis using assms plParlayBet_undone [of base _ _ _ _ _ _ b s s' env] by (auto simp: on_view_Some)
next
  case (FieldBetTx b)
  then have "protocolV4 env" "om_lookup (fieldEvents base) (fb_nEventId b) \<noteq> None" using assms(3)
    by (auto simp: CheckBettingTx_fBet_def CheckBettingTx_fLeg_def tdb_Read_def split: if_splits option.splits)
  then show ?thesis using FieldBetTx assms fBet_undone [of env base _ _ _ _ _ _ b s s'] by (auto simp: on_view_Some)
next
  case (FieldParlayBetTx b)
  then have "protocolV4 env" using assms(3) by (auto simp: CheckBettingTx_fParlayBet_def Let_def split: if_splits)
  then show ?thesis using FieldParlayBetTx assms fParlayBet_undone [of env base _ _ _ _ _ _ b s s'] by (auto simp: on_view_Some)
qed (use assms in \<open>simp_all add: is_player_tx_def CheckBettingTx_cgBet_def CheckBettingTx_qgBet_def\<close>)

definition zeroing_ok :: "CBettingTx \<Rightarrow> bool" where
  "zeroing_ok t = (case t of PeerlessEventZeroingOddsTx z \<Rightarrow> pz_vEventIds z \<noteq> [] \<and> distinct (pz_vEventIds z) | _ \<Rightarrow> True)"

lemmas update_checks = CheckBettingTx_fUpdateOdds_def CheckBettingTx_fUpdateModifiers_def CheckBettingTx_fUpdateMargin_def
  CheckBettingTx_fZeroingOdds_def CheckBettingTx_plUpdateOdds_def CheckBettingTx_plSpreads_def CheckBettingTx_plTotals_def
  CheckBettingTx_plEventPatch_def tdb_Exists_def

lemma oracle_v4:
  assumes "CheckBettingTx_switch env base t amt oracle h"
    "GetTxType t \<in> {fEventTxType, fUpdateOddsTxType, fUpdateModifiersTxType, fUpdateMarginTxType, fZeroingOddsTxType, fResultTxType, plEventZeroingOddsTxType}"
  shows "protocolV4 env"
  using assms by (cases t)
    (auto simp: update_checks CheckBettingTx_fEvent_def CheckBettingTx_fResult_def CheckBettingTx_plZeroingOdds_def split: if_splits)

lemma oracle_undone:
  assumes "ProcessBettingTx_oracle fp env c t (s, ids) = Some (s', ids')" "\<not> is_player_tx t"
    and "CheckBettingTx_switch env base t amt True h" "nQuickGamesEndHeight (consensus env) \<le> h"
    and "keyed s" "covers base s" "om_lookup (undos s) (oc_bettingTxId c) = None"
    and "oc_v3 c" "protocolV4 env \<Longrightarrow> v4" "zeroing_ok t"
  shows "undone base (\<lambda>u. UndoBettingTx_oracle (undo_ctx_of c v4) t u) s s'"
proof -
  note kc = assms(5,6)
  note race = change_fieldEvent_undone [OF _ _ kc _ assms(7)]
  note team = change_event_undone [OF _ kc _ assms(7)]
  show ?thesis
  proof (cases t)
    case (MappingTx m)
    then show ?thesis using assms mapping_undone [of env _ m s s' base v4] by (auto simp: on_view_Some)
  next
    case (PeerlessEventTx e)
    then show ?thesis using assms plEvent_undone [of _ _ e s s' base] by (auto simp: on_view_Some)
  next
    case (FieldEventTx e)
    then show ?thesis using assms fEvent_undone [of fp env e s s' base] oracle_v4 [OF assms(3)] by (auto simp: on_view_Some)
  next
    case (FieldUpdateOddsTx e)
    then show ?thesis using assms(1,3,8,9) oracle_v4 [OF assms(3)]
      by (auto simp: on_view_Some ProcessBettingTx_fUpdateOdds_def update_checks split: if_splits intro!: race dest: CalcOdds_id)
  next
    case (FieldUpdateModifiersTx e)
    then show ?thesis using assms(1,3,8,9) oracle_v4 [OF assms(3)]
      by (auto simp: on_view_Some ProcessBettingTx_fUpdateModifiers_def update_checks split: if_splits intro!: race dest: CalcOdds_id)
  next
    case (FieldUpdateMarginTx e)
    then show ?thesis using assms(1,3,8,9) oracle_v4 [OF assms(3)]
      by (auto simp: on_view_Some ProcessBettingTx_fUpdateMargin_def update_checks split: if_splits intro!: race dest: CalcOdds_id)
  next
    case (FieldZeroingOddsTx e)
    then show ?thesis using assms(1,3,8,9) oracle_v4 [OF assms(3)]
      by (auto simp: on_view_Some ProcessBettingTx_fZeroingOdds_def update_checks split: if_splits intro!: race)
  next
    case (FieldResultTx e)
    then show ?thesis using assms fResult_undone [of env e s ids s' ids' base] oracle_v4 [OF assms(3)] by auto
  next
    case (PeerlessResultTx e)
    then show ?thesis using assms plResult_undone [of _ e s ids s' ids' base] by auto
  next
    case (PeerlessUpdateOddsTx e)
    then show ?thesis using assms(1,3,8)
      by (auto simp: on_view_Some ProcessBettingTx_plUpdateOdds_def update_checks split: if_splits intro!: team)
  next
    case (PeerlessSpreadsEventTx e)
    then show ?thesis using assms(1,3,8)
      by (auto simp: on_view_Some ProcessBettingTx_plSpreads_def update_checks split: if_splits intro!: team)
  next
    case (PeerlessTotalsEventTx e)
    then show ?thesis using assms(1,3,8)
      by (auto simp: on_view_Some ProcessBettingTx_plTotals_def update_checks split: if_splits intro!: team)
  next
    case (PeerlessEventPatchTx e)
    then show ?thesis using assms(1,3,8)
      by (auto simp: on_view_Some ProcessBettingTx_plEventPatch_def update_checks split: if_splits intro!: team)
  next
    case (PeerlessEventZeroingOddsTx e)
    then show ?thesis using assms plZeroingOdds_undone [of env _ _ e s s' base] oracle_v4 [OF assms(3)]
      by (auto simp: on_view_Some zeroing_ok_def)
  qed (use assms in \<open>simp_all add: is_player_tx_def CheckBettingTx_cgEvent_def CheckBettingTx_cgResult_def\<close>)
qed

text \<open>
  Frame: undoing an output touches the undo data and the bets of that output only.  By the lemmas above this
  is also what processing it touches.
\<close>

definition same_except :: "uint256 \<Rightarrow> PeerlessBetKey \<Rightarrow> CBettingsView \<Rightarrow> CBettingsView \<Rightarrow> bool" where
  "same_except txId key u v \<longleftrightarrow> (\<forall>k. k \<noteq> txId \<longrightarrow> om_lookup (undos u) k = om_lookup (undos v) k) \<and>
     (\<forall>k. k \<noteq> key \<longrightarrow> om_lookup (bets u) k = om_lookup (bets v) k \<and> om_lookup (fieldBets u) k = om_lookup (fieldBets v) k)"

lemma undo_one_frame [simp]: "undos (undo_one x v) = undos v" "bets (undo_one x v) = bets v" "fieldBets (undo_one x v) = fieldBets v"
  by (simp_all add: undo_one_def split: BettingUndoVariant.split)

lemma fold_undo_one_frame [simp]:
  "undos (fold undo_one xs v) = undos v" "bets (fold undo_one xs v) = bets v" "fieldBets (fold undo_one xs v) = fieldBets v"
  by (induction xs arbitrary: v) simp_all

lemma UndoEventChanges_frame: "same_except txId key (fst (UndoEventChanges txId v)) v"
  by (auto simp: UndoEventChanges_def EraseBettingUndo_def same_except_def tdb_defs)

lemma same_except_refl [simp]: "same_except txId key v v"
  by (simp add: same_except_def)

lemma same_except_erase:
  "UndoEventChanges txId v = (w, ok) \<Longrightarrow> same_except txId key (w\<lparr>bets := fst (tdb_Erase (bets w) key)\<rparr>) v"
  "UndoEventChanges txId v = (w, ok) \<Longrightarrow> same_except txId key (w\<lparr>fieldBets := fst (tdb_Erase (fieldBets w) key)\<rparr>) v"
  "UndoEventChanges txId v = (w, ok) \<Longrightarrow> same_except txId key w v"
  using UndoEventChanges_frame [of txId key v] by (auto simp: same_except_def fst_tdb_Erase)

lemma same_except_other [simp]:
  "same_except txId key (v\<lparr>mappings := a\<rparr>) v" "same_except txId key (v\<lparr>results := b\<rparr>) v" "same_except txId key (v\<lparr>events := d\<rparr>) v"
  "same_except txId key (v\<lparr>fieldEvents := e\<rparr>) v" "same_except txId key (v\<lparr>fieldResults := f\<rparr>) v"
  "same_except txId key (v\<lparr>chainGamesLottoBets := g\<rparr>) v" "same_except txId key (v\<lparr>quickGamesBets := h\<rparr>) v"
  "same_except txId key (v\<lparr>chainGamesLottoEvents := i\<rparr>) v" "same_except txId key (v\<lparr>chainGamesLottoResults := j\<rparr>) v"
  by (simp_all add: same_except_def)

lemmas undo_handlers = UndoBettingTx_plBet_def UndoBettingTx_plParlayBet_def UndoBettingTx_fBet_def UndoBettingTx_fParlayBet_def
  UndoBettingTx_cgBet_def UndoBettingTx_qgBet_def UndoBettingTx_mapping_def UndoBettingTx_plEvent_def UndoBettingTx_fEvent_def
  UndoBettingTx_fieldUpdate_def UndoBettingTx_eventUpdate_def UndoBettingTx_fResult_def UndoBettingTx_plResult_def
  UndoBettingTx_cgEvent_def UndoBettingTx_cgResult_def UndoBettingTx_plZeroingOdds_def

lemma undo_frame:
  "same_except (uc_bettingTxId c) (PeerlessBetKey (uc_height c) (uc_outPoint c)) (fst (UndoBettingTx_player up c t v)) v"
  "same_except (uc_bettingTxId c) (PeerlessBetKey (uc_height c) (uc_outPoint c)) (fst (UndoBettingTx_oracle c t v)) v"
  by (cases t; auto simp: undo_handlers Let_def UndoEventChanges_frame same_except_erase split: prod.splits)+

lemma undone_frame:
  assumes "undone base undo s s'" "\<And>v. same_except txId key (fst (undo v)) v"
  shows "same_except txId key s s'"
proof -
  obtain u' where "undo s' = (u', True)" "undoes_to base u' s" using assms(1) undoes_to_refl unfolding undone_def by blast
  then show ?thesis using assms(2) [of s'] by (simp add: same_except_def undoes_to_def)
qed

section \<open>Undo of a block\<close>

text \<open>The heights and the environments of connecting (\<open>env\<close>) and disconnecting (\<open>env'\<close>) a block of protocol version 3 or 4.\<close>

definition undo_env :: "betting_env \<Rightarrow> betting_env \<Rightarrow> int \<Rightarrow> bool" where
  "undo_env env env' h \<longleftrightarrow> h < 2 ^ 31 \<and> 0 \<le> nWagerrProtocolV3StartHeight (consensus env) \<and> nWagerrProtocolV3StartHeight (consensus env) \<le> h \<and>
     0 \<le> nWagerrProtocolV4StartHeight (consensus env) \<and> nQuickGamesEndHeight (consensus env) \<le> h \<and> ChainHeight env \<le> h \<and>
     consensus env' = consensus env \<and> SerializeHash env' = SerializeHash env"

definition outpoint :: "CTransaction \<Rightarrow> nat \<Rightarrow> COutPoint" where
  "outpoint tx i = \<lparr>op_hash = tx_hash tx, op_n = of_nat i\<rparr>"

definition spare :: "betting_env \<Rightarrow> int \<Rightarrow> CBettingsView \<Rightarrow> COutPoint \<Rightarrow> bool" where
  "spare env h s p \<longleftrightarrow> fresh s (SerializeHash env p) (PeerlessBetKey (of_int h) p)"

text \<open>
  A transaction whose address is known when the block is connected, and, for a transaction of an oracle, whose spent transaction
  is indexed and recognised again when the block is disconnected.
\<close>

definition prev_known ::
  "betting_env \<Rightarrow> betting_env \<Rightarrow> CCoinsViewCache \<Rightarrow> CCoinsViewCache \<Rightarrow> CBlock \<Rightarrow> int \<Rightarrow> CTransaction \<Rightarrow> CBettingTx \<Rightarrow> bool" where
  "prev_known env env' coins coins' block h tx t \<longleftrightarrow>
     (\<exists>txin txins. vin tx = txin # txins \<and> find_prev env coins block (prevout txin) \<noteq> Some None \<and>
       (is_player_tx t \<or> GetTransaction env None (op_hash (prevout txin)) True \<noteq> None \<and> IsValidOracleTx env' coins' tx h = Some True))"

lemma undo_env_word:
  assumes "undo_env env env' h"
  shows "of_int (nWagerrProtocolV3StartHeight (consensus env')) \<le> (of_int h :: u32)" "sint (of_int h :: u32) = h"
    and "protocolV4 env \<Longrightarrow> of_int (nWagerrProtocolV4StartHeight (consensus env')) \<le> (of_int h :: u32)"
proof -
  let ?a = "nWagerrProtocolV3StartHeight (consensus env)" and ?b = "nWagerrProtocolV4StartHeight (consensus env)"
  note e = assms [unfolded undo_env_def]
  have h: "0 \<le> h" "h < 2 ^ 31" using e by linarith+
  have w: "uint (of_int x :: u32) = x" if "0 \<le> x" "x \<le> h" for x
    using that h by (simp add: uint_word_of_int mod_pos_pos_trivial)
  show "of_int (nWagerrProtocolV3StartHeight (consensus env')) \<le> (of_int h :: u32)"
    using e w [of ?a] w [of h] by (simp add: word_le_def)
  show "sint (of_int h :: u32) = h" using h by (simp add: int_word_sint)
  show "of_int (nWagerrProtocolV4StartHeight (consensus env')) \<le> (of_int h :: u32)" if "protocolV4 env"
    using e that w [of ?b] w [of h] by (simp add: word_le_def protocolV4_def)
qed

lemma oracle_valid:
  assumes "CheckBettingTx_switch env base t amt valid h" "\<not> is_player_tx t" "nQuickGamesEndHeight (consensus env) \<le> h"
  shows "valid" "is_oracle_tx t"
  using assms by (cases t; auto simp: is_player_tx_def is_oracle_tx_def update_checks CheckBettingTx_mapping_def CheckBettingTx_plEvent_def
      CheckBettingTx_fEvent_def CheckBettingTx_fResult_def CheckBettingTx_plResult_def CheckBettingTx_cgEvent_def CheckBettingTx_cgResult_def
      CheckBettingTx_plZeroingOdds_def Let_def split: if_splits)+

text \<open>What an accepted transaction of an oracle spends is an output of an oracle, for the processing as for the check.\<close>

lemma oracle_prev:
  assumes "CheckBettingTx_oracle env cv tx t h = Some (Some True)" "is_oracle_tx t" "vin tx = txin # txins"
    and "GetTransaction env None (op_hash (prevout txin)) True \<noteq> None"
  shows "\<exists>txPrev prevOut a. find_prev env coins block (prevout txin) = Some (Some (Some txPrev, a)) \<and>
    vec_at (vout txPrev) (unat (op_n (prevout txin))) = Some prevOut \<and> IsValidOraclePrevTxOut env prevOut h"
  using assms by (auto simp: CheckBettingTx_oracle_def find_prev_def prev_address_def vec_at_def Let_def split: option.splits if_splits)

lemma output_undone:
  assumes P: "ProcessBettingTx_output fp env coins base tx h block True i txOut (s, ids) = Some (go, s', ids')"
    and t: "ParseBettingTx txOut = Some t" and env: "undo_env env env' h"
    and chk: "CheckBettingTx_oracle env cv tx t h = Some (Some valid)" "CheckBettingTx env base (Some t) (nValue txOut) valid h"
    and prev: "prev_known env env' coins coins' block h tx t" "zeroing_ok t"
    and s: "keyed s" "covers base s" "spare env h s (outpoint tx i)"
  shows "\<exists>undo. (\<forall>u. UndoBettingTx_output env' coins' up tx (of_int h) i txOut u = Some (undo u)) \<and> undone base undo s s' \<and>
    (\<forall>v. same_except (SerializeHash env (outpoint tx i)) (PeerlessBetKey (of_int h) (outpoint tx i)) (fst (undo v)) v)"
proof -
  define v4 where "v4 = (of_int (nWagerrProtocolV4StartHeight (consensus env')) \<le> (of_int h :: u32))"
  have qg: "nQuickGamesEndHeight (consensus env) \<le> h" using env by (simp add: undo_env_def)
  have sw: "CheckBettingTx_switch env base t (nValue txOut) valid h"
    using chk(2) env by (auto simp: CheckBettingTx_def undo_env_def split: if_splits)
  have H: "SerializeHash env' = SerializeHash env" using env by (simp add: undo_env_def)
  have v4': "protocolV4 env \<Longrightarrow> v4" using undo_env_word(3) [OF env] by (simp add: v4_def)
  obtain txin txins where vin: "vin tx = txin # txins" and fp: "find_prev env coins block (prevout txin) \<noteq> Some None"
    and or: "is_player_tx t \<or> GetTransaction env None (op_hash (prevout txin)) True \<noteq> None \<and> IsValidOracleTx env' coins' tx h = Some True"
    using prev(1) by (auto simp: prev_known_def)
  obtain txPrev addr where a: "find_prev env coins block (prevout txin) = Some (Some (txPrev, addr))"
    using P t vin fp by (cases "find_prev env coins block (prevout txin)") (auto simp: ProcessBettingTx_output_def vec_at_def)
  define c where "c = \<lparr>oc_height = h, oc_blockTime = GetBlockTime block, oc_v3 = True, oc_address = addr,
    oc_betAmount = nValue txOut, oc_outPoint = outpoint tx i, oc_bettingTxId = SerializeHash env (outpoint tx i)\<rparr>"
  note fr = s(3) [unfolded spare_def]
  show ?thesis
  proof (cases "is_player_tx t")
    case True
    have "ProcessBettingTx_player env base c t (s, ids) = Some (s', ids')"
      using P t vin a True by (auto simp: ProcessBettingTx_output_def vec_at_def c_def outpoint_def Let_def bind_eq_Some_conv)
    then have "undone base (\<lambda>u. UndoBettingTx_player up (undo_ctx_of c v4) t u) s s'"
      using True sw qg s fr v4' by (intro player_undone) (auto simp: c_def)
    moreover have "UndoBettingTx_output env' coins' up tx (of_int h) i txOut u = Some (UndoBettingTx_player up (undo_ctx_of c v4) t u)" for u
      using t True undo_env_word(1) [OF env] H by (simp add: UndoBettingTx_output_def undo_ctx_of_def c_def outpoint_def v4_def Let_def)
    ultimately show ?thesis using undo_frame(1) [of "undo_ctx_of c v4" up t] by (auto simp: c_def)
  next
    case False
    note ov = oracle_valid [OF sw False qg]
    have ch: "CheckBettingTx_oracle env cv tx t h = Some (Some True)" using chk(1) ov(1) by simp
    obtain t' o' a' where "find_prev env coins block (prevout txin) = Some (Some (Some t', a'))"
      "vec_at (vout t') (unat (op_n (prevout txin))) = Some o'" "IsValidOraclePrevTxOut env o' h"
      using oracle_prev [OF ch ov(2) vin, of coins block] or False by blast
    then have "ProcessBettingTx_oracle fp env c t (s, ids) = Some (s', ids')"
      using P t vin a False by (auto simp: ProcessBettingTx_output_def vec_at_def c_def outpoint_def Let_def bind_eq_Some_conv split: if_splits)
    then have "undone base (\<lambda>u. UndoBettingTx_oracle (undo_ctx_of c v4) t u) s s'"
      using False sw ov qg s fr v4' prev(2) by (intro oracle_undone) (auto simp: c_def fresh_def)
    moreover have "UndoBettingTx_output env' coins' up tx (of_int h) i txOut u = Some (UndoBettingTx_oracle (undo_ctx_of c v4) t u)" for u
      using t False or undo_env_word [OF env] H by (simp add: UndoBettingTx_output_def undo_ctx_of_def c_def outpoint_def v4_def Let_def)
    ultimately show ?thesis using undo_frame(2) [of "undo_ctx_of c v4" t] by (auto simp: c_def)
  qed
qed


text \<open>A transaction with at most one betting output; the other outputs are skipped.\<close>

definition one_betting_output :: "CTransaction \<Rightarrow> bool" where
  "one_betting_output tx \<longleftrightarrow> length (filter (\<lambda>txOut. ParseBettingTx txOut \<noteq> None) (vout tx)) \<le> 1"

lemma process_skip:
  assumes "\<forall>x\<in>set pre. ParseBettingTx x = None"
  shows "ProcessBettingTx_outputs fp env view up tx h block v3 i (pre @ rest) s =
    ProcessBettingTx_outputs fp env view up tx h block v3 (i + length pre) rest s"
  using assms by (induction pre arbitrary: i) (simp_all add: ProcessBettingTx_output_def)

lemma check_skip:
  assumes "\<forall>x\<in>set pre. ParseBettingTx x = None"
  shows "CheckBettingTx_outputs env cv view tx h (pre @ rest) = CheckBettingTx_outputs env cv view tx h rest"
  using assms by (induction pre) simp_all

lemma undo_skip:
  assumes "\<forall>x\<in>set pre. ParseBettingTx (snd x) = None"
  shows "UndoBettingTx_outputs env coins up tx h (pre @ rest) u = UndoBettingTx_outputs env coins up tx h rest u"
  using assms by (induction pre) (auto simp: UndoBettingTx_output_def)

lemma enumerate_unparsed: "\<forall>x\<in>set xs. ParseBettingTx x = None \<Longrightarrow> \<forall>x\<in>set (rev (enumerate n xs)). ParseBettingTx (snd x) = None"
  by (auto simp: in_set_enumerate_eq)

lemma ParseBettingTx_OP_RETURN:
  assumes "ParseBettingTx txOut = Some t"
  shows "scriptPubKey txOut \<noteq> [] \<and> hd (scriptPubKey txOut) = OP_RETURN"
  using assms by (cases "scriptPubKey txOut")
    (auto simp: ParseBettingTx_def GetScriptOp_def ser_readdata8.simps bind_eq_Some_conv split: if_splits)

lemma tx_no_output:
  assumes "\<forall>x\<in>set (vout tx). ParseBettingTx x = None"
  shows "ProcessBettingTx fp env view up tx h block v3 s = Some s" "UndoBettingTx env coins up tx h' u = Some (u, True)"
  using process_skip [OF assms, where fp = fp and rest = "[]"] undo_skip [OF enumerate_unparsed [OF assms], of _ _ _ _ _ 0 "[]"]
  by (simp_all add: ProcessBettingTx_def UndoBettingTx_def)

lemma tx_one_output:
  assumes "vout tx = pre @ txOut # post" "\<forall>x\<in>set (pre @ post). ParseBettingTx x = None" "ParseBettingTx txOut = Some t"
  shows "ProcessBettingTx fp env view up tx h block v3 s =
      map_option snd (ProcessBettingTx_output fp env view up tx h block v3 (length pre) txOut s)"
    and "UndoBettingTx env coins up tx h' u = UndoBettingTx_output env coins up tx h' (length pre) txOut u"
    and "nWagerrProtocolV3StartHeight (consensus env) \<le> h \<Longrightarrow> CheckBettingTx_tx env cv view' tx h = CheckBettingTx_outputs env cv view' tx h (txOut # post)"
proof -
  have op: "HasOpReturnOutput tx" using ParseBettingTx_OP_RETURN [OF assms(3)] assms(1) by (simp add: HasOpReturnOutput_def)
  have pre: "\<forall>x\<in>set pre. ParseBettingTx x = None" and post: "\<forall>x\<in>set post. ParseBettingTx x = None" using assms(2) by auto
  have "ProcessBettingTx_outputs fp env view up tx h block v3 j post s' = Some s'" for j s' using process_skip [OF post, where fp = fp and rest = "[]"] by simp
  then show "ProcessBettingTx fp env view up tx h block v3 s =
      map_option snd (ProcessBettingTx_output fp env view up tx h block v3 (length pre) txOut s)"
    using op by (auto simp: ProcessBettingTx_def assms(1) process_skip [OF pre] split: option.split)
  have "UndoBettingTx_outputs env coins up tx h' (rev (enumerate 0 pre)) u' = Some (u', True)" for u'
    using undo_skip [OF enumerate_unparsed [OF pre], of _ _ _ _ _ 0 "[]"] by simp
  then show "UndoBettingTx env coins up tx h' u = UndoBettingTx_output env coins up tx h' (length pre) txOut u"
    using undo_skip [OF enumerate_unparsed [OF post]]
    by (auto simp: UndoBettingTx_def assms(1) enumerate_append_eq split: option.split)
  show "CheckBettingTx_tx env cv view' tx h = CheckBettingTx_outputs env cv view' tx h (txOut # post)"
    if "nWagerrProtocolV3StartHeight (consensus env) \<le> h"
    using op that check_skip [OF pre] by (simp add: CheckBettingTx_tx_def assms(1))
qed

definition outpoints :: "CTransaction \<Rightarrow> COutPoint set" where
  "outpoints tx = set (map (outpoint tx) [0..<length (vout tx)])"

definition undoable_tx ::
  "betting_env \<Rightarrow> betting_env \<Rightarrow> CCoinsViewCache \<Rightarrow> CCoinsViewCache \<Rightarrow> CBlock \<Rightarrow> CBettingsView \<Rightarrow> int \<Rightarrow> CTransaction \<Rightarrow> bool" where
  "undoable_tx env env' coins coins' block base h tx \<longleftrightarrow>
     one_betting_output tx \<and> (\<exists>cv. CheckBettingTx_tx env cv base tx h = Some True) \<and>
     (\<forall>txOut\<in>set (vout tx). \<forall>t. ParseBettingTx txOut = Some t \<longrightarrow> prev_known env env' coins coins' block h tx t \<and> zeroing_ok t)"

lemma spare_frame:
  assumes "same_except (SerializeHash env p) (PeerlessBetKey (of_int h) p) s s'" "spare env h s q" "q \<noteq> p"
    and "inj_on (SerializeHash env) P" "p \<in> P" "q \<in> P"
  shows "spare env h s' q"
proof -
  have "SerializeHash env q \<noteq> SerializeHash env p" using assms(3-6) by (auto dest: inj_onD)
  then show ?thesis using assms(1-3) by (auto simp: same_except_def spare_def fresh_def)
qed

lemma tx_undone:
  assumes P: "ProcessBettingTx fp env coins base tx h block True (s, ids) = Some (s', ids')"
    and env: "undo_env env env' h" and tx: "undoable_tx env env' coins coins' block base h tx"
    and s: "keyed s" "covers base s" "\<forall>p\<in>outpoints tx. spare env h s p"
    and inj: "inj_on (SerializeHash env) P" "outpoints tx \<subseteq> P"
  shows "\<exists>undo. (\<forall>u. UndoBettingTx env' coins' up tx (of_int h) u = Some (undo u)) \<and> undone base undo s s' \<and>
    (\<forall>p\<in>P - outpoints tx. spare env h s p \<longrightarrow> spare env h s' p)"
proof (cases "filter (\<lambda>txOut. ParseBettingTx txOut \<noteq> None) (vout tx)")
  case Nil
  then have none: "\<forall>x\<in>set (vout tx). ParseBettingTx x = None" by (simp add: filter_empty_conv)
  have "s' = s" using P tx_no_output(1) [OF none, of fp] by simp
  then show ?thesis using tx_no_output(2) [OF none] undone_refl [OF s(1,2)] by (intro exI [of _ "\<lambda>u. (u, True)"]) simp
next
  case (Cons txOut xs)
  then have "xs = []" using tx by (simp add: undoable_tx_def one_betting_output_def)
  with Cons obtain pre post t where v: "vout tx = pre @ txOut # post" and t: "ParseBettingTx txOut = Some t"
    and pre: "\<forall>x\<in>set pre. ParseBettingTx x = None" and post: "filter (\<lambda>txOut. ParseBettingTx txOut \<noteq> None) post = []"
    by (auto simp: filter_eq_Cons_iff)
  have rest: "\<forall>x\<in>set (pre @ post). ParseBettingTx x = None" using pre post by (auto simp: filter_empty_conv)
  note one = tx_one_output [OF v rest t]
  let ?i = "length pre"
  have p: "outpoint tx ?i \<in> outpoints tx" unfolding outpoints_def set_map by (rule imageI) (simp add: v)
  obtain go where P': "ProcessBettingTx_output fp env coins base tx h block True ?i txOut (s, ids) = Some (go, s', ids')"
    using P one(1) [of fp env coins base h block True "(s, ids)"] by auto
  obtain cv where "CheckBettingTx_tx env cv base tx h = Some True" using tx by (auto simp: undoable_tx_def)
  moreover have "nWagerrProtocolV3StartHeight (consensus env) \<le> h" using env by (simp add: undo_env_def)
  ultimately obtain valid where chk: "CheckBettingTx_oracle env cv tx t h = Some (Some valid)"
    "CheckBettingTx env base (Some t) (nValue txOut) valid h"
    using one(3) [of env h cv base] t by (auto simp: bind_eq_Some_conv split: option.splits)
  have "prev_known env env' coins coins' block h tx t" "zeroing_ok t" using tx v t by (auto simp: undoable_tx_def)
  from output_undone [OF P' t env chk this s(1,2), of up] s(3) p obtain undo where
    u: "\<And>u. UndoBettingTx_output env' coins' up tx (of_int h) ?i txOut u = Some (undo u)" "undone base undo s s'"
      "\<And>v. same_except (SerializeHash env (outpoint tx ?i)) (PeerlessBetKey (of_int h) (outpoint tx ?i)) (fst (undo v)) v"
    by auto
  have fr: "spare env h s' q" if "q \<in> P - outpoints tx" "spare env h s q" for q
    using that p inj spare_frame [OF undone_frame [OF u(2,3)], of q P] by auto
  show ?thesis using u(1,2) fr one(2) [of env' coins' up "of_int h"] by (intro exI [of _ undo]) simp
qed

lemma UndoBettingTxs_append:
  "UndoBettingTxs env coins up h (xs @ ys) u =
   (case UndoBettingTxs env coins up h xs u of
      None \<Rightarrow> None | Some (v, ok) \<Rightarrow> if ok then UndoBettingTxs env coins up h ys v else Some (v, False))"
  by (induction xs arbitrary: u) (auto split: option.split)

lemma outpoints_disjoint: "tx_hash a \<noteq> tx_hash b \<Longrightarrow> p \<in> outpoints a \<Longrightarrow> p \<notin> outpoints b"
  by (auto simp: outpoints_def outpoint_def)

lemma block_undone:
  assumes "undo_env env env' h" "inj_on (SerializeHash env) P"
    and "ProcessBettingTxs fp env coins base h block True txs (s, ids) = Some (s', ids')"
    and "\<forall>tx\<in>set txs. undoable_tx env env' coins coins' block base h tx \<and> outpoints tx \<subseteq> P \<and> (\<forall>p\<in>outpoints tx. spare env h s p)"
    and "keyed s" "covers base s" "distinct (map tx_hash txs)" "undoes_to base u s'"
  shows "\<exists>u'. UndoBettingTxs env' coins' up (of_int h) (rev txs) u = Some (u', True) \<and> undoes_to base u' s"
  using assms(3-8)
proof (induction txs arbitrary: s ids u)
  case (Cons tx txs)
  obtain s1 ids1 where s1: "ProcessBettingTx fp env coins base tx h block True (s, ids) = Some (s1, ids1)"
    and s2: "ProcessBettingTxs fp env coins base h block True txs (s1, ids1) = Some (s', ids')"
    using Cons.prems(1) by (auto simp: bind_eq_Some_conv)
  obtain undo where u: "\<And>u. UndoBettingTx env' coins' up tx (of_int h) u = Some (undo u)" "undone base undo s s1"
    and fr: "\<And>p. p \<in> P - outpoints tx \<Longrightarrow> spare env h s p \<Longrightarrow> spare env h s1 p"
    using tx_undone [OF s1 assms(1) _ Cons.prems(3,4) _ assms(2), of coins' up] Cons.prems(2) by auto
  have "\<forall>t\<in>set txs. tx_hash t \<noteq> tx_hash tx" using Cons.prems(5) by (simp add: image_iff) (metis)
  then have "\<forall>t\<in>set txs. \<forall>p\<in>outpoints t. p \<in> P - outpoints tx"
    using Cons.prems(2) outpoints_disjoint by fastforce
  then have ok: "\<forall>t\<in>set txs. undoable_tx env env' coins coins' block base h t \<and> outpoints t \<subseteq> P \<and> (\<forall>p\<in>outpoints t. spare env h s1 p)"
    using Cons.prems(2) fr by simp
  have k: "keyed s1" "covers base s1" using u(2) by (simp_all add: undone_def)
  obtain u1 where u1: "UndoBettingTxs env' coins' up (of_int h) (rev txs) u = Some (u1, True)" "undoes_to base u1 s1"
    using Cons.IH [OF s2 ok k _ Cons.prems(6)] Cons.prems(5) by auto
  obtain u2 where "undo u1 = (u2, True)" "undoes_to base u2 s" using u(2) u1(2) by (auto simp: undone_def)
  then show ?case using u1(1) u(1) by (simp add: UndoBettingTxs_append)
qed auto

text \<open>
  C1: disconnecting restores the betting databases.  Let every transaction of a block from protocol version 3 on, after the end of the quick games, be accepted
  by \<open>CheckBettingTx\<close> against the view \<open>base\<close> before the block, as \<open>ConnectBlock\<close> does.  Then undoing the transactions in
  reverse order, from the view \<open>ProcessBettingTx\<close> leaves, succeeds and gives back exactly \<open>base\<close>: every bet, event, odds update,
  result, mapping and undo record the block made is gone, and every event it changed has its old value.  The hypotheses: one
  betting output per transaction and no empty or repeated list in a zeroing transaction (the code handles neither, see the
  findings), the spent transactions known, no undo record or bet of the block's outpoints before it, and no collision of
  \<open>SerializeHash\<close> on the outpoints of the block.
\<close>

theorem UndoBettingTxs_restores:
  assumes "undo_env env env' h" "keyed base" "distinct (map tx_hash (vtx block))"
    and "inj_on (SerializeHash env) (\<Union>tx\<in>set (vtx block). outpoints tx)"
    and "\<forall>tx\<in>set (vtx block). undoable_tx env env' coins coins' block base h tx \<and> (\<forall>p\<in>outpoints tx. spare env h base p)"
    and "ProcessBettingTxs fp env coins base h block True (vtx block) (base, []) = Some (view, vCurResultIDs)"
  shows "UndoBettingTxs env' coins' up (of_int h) (rev (vtx block)) view = Some (base, True)"
proof -
  have "covers base base" by (simp add: covers_def)
  moreover have "\<forall>tx\<in>set (vtx block). undoable_tx env env' coins coins' block base h tx \<and>
    outpoints tx \<subseteq> (\<Union>tx\<in>set (vtx block). outpoints tx) \<and> (\<forall>p\<in>outpoints tx. spare env h base p)"
    using assms(5) by auto
  ultimately obtain u' where "UndoBettingTxs env' coins' up (of_int h) (rev (vtx block)) view = Some (u', True)" "undoes_to base u' base"
    using block_undone [OF assms(1,4,6) _ assms(2) _ assms(3) undoes_to_refl] by blast
  then show ?thesis using undoes_to_base by blast
qed

text \<open>A block with a bet on an event and an update of the odds of that event.\<close>

definition sample_block :: CBlock where
  "sample_block = \<lparr>vtx = [sample_tx 101 (30 * COIN) [66, 1, 3, 5, 0, 0, 0, 1],
     sample_tx 201 1 [66, 1, 5, 5, 0, 0, 0, 48, 117, 0, 0, 48, 117, 0, 0, 48, 117, 0, 0]], nTime = 1000\<rparr>"

lemma sample_keyed: "keyed sample_view"
  by (simp add: keyed_def keyed_map_def sample_view_def)

lemma sample_outpoints [simp]: "outpoints (sample_tx hash amount payload) = {\<lparr>op_hash = hash, op_n = 0\<rparr>, \<lparr>op_hash = hash, op_n = 1\<rparr>}"
  by (auto simp: outpoints_def outpoint_def atLeast0_lessThan_Suc)

lemma sample_process:
  "\<exists>view ids. ProcessBettingTxs fp sample_env sample_coins sample_view 450 sample_block True (vtx sample_block) (sample_view, []) = Some (view, ids)"
  by (simp add: sample_block_def ProcessBettingTx_def ProcessBettingTx_output_def
      vec_at_def Let_def is_player_tx_def on_view_def ProcessBettingTx_plBet_def ProcessBettingTx_plUpdateOdds_def
      change_event_def SaveBettingUndo_def tdb_defs sample_prev_def)

lemma sample_undo_env: "undo_env sample_env sample_env 450"
  by (simp add: undo_env_def CRegTestParams_def)

lemma sample_undoable:
  "\<forall>tx\<in>set (vtx sample_block). undoable_tx sample_env sample_env sample_coins sample_coins sample_block sample_view 450 tx \<and>
    (\<forall>p\<in>outpoints tx. spare sample_env 450 sample_view p)"
  by (simp add: sample_block_def undoable_tx_def one_betting_output_def CheckBettingTx_tx_def CRegTestParams_def
      CheckBettingTx_oracle_def is_oracle_tx_def vec_at_def CheckBettingTx_def CheckBettingTx_plBet_def
      CheckBettingTx_plUpdateOdds_def tdb_defs Let_def bet_amount_ok_def COIN_def protocolV4_def GetBetPotentialOdds_def outcome_defs
      prev_known_def is_player_tx_def zeroing_ok_def spare_def fresh_def sample_prev_def)

theorem UndoBettingTxs_restores_witness:
  "\<exists>view ids. ProcessBettingTxs fixed_ops sample_env sample_coins sample_view 450 sample_block True (vtx sample_block) (sample_view, []) = Some (view, ids) \<and>
     UndoBettingTxs sample_env sample_coins sample_view 450 (rev (vtx sample_block)) view = Some (sample_view, True)"
proof -
  obtain view ids where P: "ProcessBettingTxs fixed_ops sample_env sample_coins sample_view 450 sample_block True (vtx sample_block) (sample_view, []) = Some (view, ids)"
    using sample_process [of fixed_ops] by auto
  have "UndoBettingTxs sample_env sample_coins sample_view (of_int 450) (rev (vtx sample_block)) view = Some (sample_view, True)"
    by (rule UndoBettingTxs_restores [OF sample_undo_env sample_keyed _ _ sample_undoable P])
      (simp_all add: sample_block_def)
  with P show ?thesis by auto
qed

end
