(* ===== verification/Dice.thy ===== *)
theory Dice
  imports BetTypes
begin

text \<open>
  The dice game of betting/quickgames/dice.h and dice.cpp.  The seed is an \<open>arith_uint256\<close>, a number; a loop that does not
  end, a division by zero and a bet that cannot be read are \<open>None\<close>.  The lemmas show which odds a bet gets and exactly which
  bets the handler does not return for.
\<close>

section \<open>Bets\<close>

definition qgDiceEqual :: u8 where "qgDiceEqual = 0x00"

definition qgDiceNotEqual :: u8 where "qgDiceNotEqual = 0x01"

definition qgDiceTotalOver :: u8 where "qgDiceTotalOver = 0x02"

definition qgDiceTotalUnder :: u8 where "qgDiceTotalUnder = 0x03"

definition qgDiceEven :: u8 where "qgDiceEven = 0x04"

definition qgDiceOdd :: u8 where "qgDiceOdd = 0x05"

definition qgDiceUndefined :: u8 where "qgDiceUndefined = 0xff"

lemmas dice_defs = qgDiceEqual_def qgDiceNotEqual_def qgDiceTotalOver_def qgDiceTotalUnder_def qgDiceEven_def qgDiceOdd_def
  qgDiceUndefined_def

lemma dice_distinct:
  "distinct [qgDiceEqual, qgDiceNotEqual, qgDiceTotalOver, qgDiceTotalUnder, qgDiceEven, qgDiceOdd]"
  "distinct [qgDiceOdd, qgDiceEven, qgDiceTotalUnder, qgDiceTotalOver, qgDiceNotEqual, qgDiceEqual]"
  by (simp_all add: dice_defs)

record DiceBetInfo =
  dice_betType :: u8
  dice_betNumber :: u32

definition ser_DiceBetInfo :: "DiceBetInfo \<Rightarrow> bytes" where
  "ser_DiceBetInfo info = ser_writedata8 (dice_betType info) @
     (if dice_betType info \<noteq> qgDiceEven \<and> dice_betType info \<noteq> qgDiceOdd then ser_writedata32 (dice_betNumber info) else [])"

text \<open>The number of an even or odd bet is not read, and not used; it is 0 here.\<close>

definition unser_DiceBetInfo :: "DiceBetInfo reader" where
  "unser_DiceBetInfo s = do {
     (bet_type, s) \<leftarrow> ser_readdata8 s;
     if bet_type \<noteq> qgDiceEven \<and> bet_type \<noteq> qgDiceOdd then do {
       (betNumber, s) \<leftarrow> ser_readdata32 s;
       Some (\<lparr>dice_betType = bet_type, dice_betNumber = betNumber\<rparr>, s) }
     else Some (\<lparr>dice_betType = bet_type, dice_betNumber = 0\<rparr>, s) }"

definition DiceGameTypeToStr :: "u8 \<Rightarrow> string" where
  "DiceGameTypeToStr type =
     (if type = qgDiceEqual then ''equal''
      else if type = qgDiceNotEqual then ''not equal''
      else if type = qgDiceTotalOver then ''total over''
      else if type = qgDiceTotalUnder then ''total under''
      else if type = qgDiceEven then ''even''
      else if type = qgDiceOdd then ''odd''
      else ''undefined game type'')"

definition StrToDiceGameType :: "string \<Rightarrow> u8" where
  "StrToDiceGameType strType =
     (if strType = ''equal'' then qgDiceEqual
      else if strType = ''not equal'' then qgDiceNotEqual
      else if strType = ''total over'' then qgDiceTotalOver
      else if strType = ''total under'' then qgDiceTotalUnder
      else if strType = ''even'' then qgDiceEven
      else if strType = ''odd'' then qgDiceOdd
      else qgDiceUndefined)"

section \<open>The handler\<close>

definition Get64 :: "256 word \<Rightarrow> nat \<Rightarrow> u64" where
  "Get64 seed n = ucast (drop_bit (64 * n) seed)"

definition Dice_NumberOfWinCases :: "u64 \<Rightarrow> u64" where
  "Dice_NumberOfWinCases s = (if s \<le> 7 then 1 else 0) * (s - 1) + (if s > 7 then 1 else 0) * (13 - s)"

text \<open>\<open>for (uint32_t i = 2; i <= info.betNumber; ++i)\<close>\<close>

partial_function (option) win_cases_loop :: "u32 \<Rightarrow> u32 \<Rightarrow> u64 \<Rightarrow> u64 option" where
  "win_cases_loop i betNumber numberOfWinCases =
     (if i \<le> betNumber then win_cases_loop (i + 1) betNumber (numberOfWinCases + Dice_NumberOfWinCases (ucast i))
      else Some numberOfWinCases)"

definition dice_odds :: "u64 \<Rightarrow> u32 option" where
  "dice_odds cases = (if cases = 0 then None else Some (ucast ((10000 * 36) div cases)))"

definition dice_sum :: "256 word \<Rightarrow> u64" where
  "dice_sum seed = (let firstDice = Get64 seed 0 mod 6 + 1; secondDice = Get64 seed 1 mod 6 + 1 in firstDice + secondDice)"

definition DiceHandler :: "bytes \<Rightarrow> 256 word \<Rightarrow> u32 option" where
  "DiceHandler betInfo seed = do {
     (info, _) \<leftarrow> unser_DiceBetInfo betInfo;
     let total = dice_sum seed;
     let type = dice_betType info;
     let number = (ucast (dice_betNumber info) :: u64);
     if type = qgDiceOdd \<and> total mod 2 = 1 then Some (10000 * 2)
     else if type = qgDiceEven \<and> total mod 2 = 0 then Some (10000 * 2)
     else if type = qgDiceEqual \<and> total = number then dice_odds (Dice_NumberOfWinCases number)
     else if type = qgDiceNotEqual \<and> total \<noteq> number then dice_odds (36 - Dice_NumberOfWinCases number)
     else if type = qgDiceTotalUnder \<and> total \<le> number then do {
       n \<leftarrow> win_cases_loop 2 (dice_betNumber info) 0;
       dice_odds n }
     else if type = qgDiceTotalOver \<and> total > number then do {
       n \<leftarrow> win_cases_loop 2 (dice_betNumber info) 0;
       dice_odds (36 - n) }
     else Some 0 }"

section \<open>Winning pairs\<close>

definition dice_wins :: "u8 \<Rightarrow> nat \<Rightarrow> nat \<Rightarrow> bool" where
  "dice_wins type b s =
     (if type = qgDiceOdd then odd s else if type = qgDiceEven then even s
      else if type = qgDiceEqual then s = b else if type = qgDiceNotEqual then s \<noteq> b
      else if type = qgDiceTotalUnder then s \<le> b else if type = qgDiceTotalOver then s > b else False)"

definition winning_pairs :: "u8 \<Rightarrow> nat \<Rightarrow> nat" where
  "winning_pairs type b = length (filter (\<lambda>(d, e). dice_wins type b (d + e)) (List.product [1..<7] [1..<7]))"

section \<open>The loop\<close>

definition cases_of :: "nat \<Rightarrow> int" where
  "cases_of j = (if j \<le> 7 then int j - 1 else 13 - int j)"

lemma Dice_NumberOfWinCases_eq:
  assumes "j < 2 ^ 32"
  shows "Dice_NumberOfWinCases (of_nat j) = of_int (cases_of j)"
proof -
  have "unat (of_nat j :: u64) = j" using assms by (simp add: unat_of_nat take_bit_nat_eq_self)
  then show ?thesis by (simp add: Dice_NumberOfWinCases_def cases_of_def word_le_nat_alt word_less_nat_alt)
qed

lemma win_cases_loop_sum:
  assumes "unat b < 2 ^ 32 - 1" "i \<le> unat b + 1"
  shows "win_cases_loop (of_nat i) b n = Some (n + of_int (\<Sum>j = i..unat b. cases_of j))"
  using assms
proof (induction "unat b + 1 - i" arbitrary: i n)
  case 0
  then have i: "i = unat b + 1" by simp
  have "i < 2 ^ 32" using 0 by simp
  then have "unat (of_nat i :: u32) = i" by (simp add: unat_of_nat take_bit_nat_eq_self)
  then have "\<not> of_nat i \<le> b" using i by (simp add: word_le_nat_alt)
  then have "win_cases_loop (of_nat i) b n = Some n" by (subst win_cases_loop.simps) simp
  then show ?case using i by simp
next
  case (Suc k)
  have u: "unat (of_nat i :: u32) = i" using Suc by (simp add: unat_of_nat take_bit_nat_eq_self)
  have le: "of_nat i \<le> b" using Suc.hyps(2) u by (simp add: word_le_nat_alt)
  have "i < 2 ^ 32" using Suc.prems by simp
  then have uc: "ucast (of_nat i :: u32) = (of_nat i :: u64)" by (simp add: unsigned_of_nat take_bit_nat_eq_self)
  have IH: "win_cases_loop (of_nat (Suc i)) b m = Some (m + of_int (\<Sum>j = Suc i..unat b. cases_of j))" for m
    using Suc.hyps(2) Suc.prems by (intro Suc.hyps(1)) simp_all
  have "i < 2 ^ 32" using Suc.prems by simp
  then have "win_cases_loop (of_nat i) b n = Some (n + of_int (cases_of i) + of_int (\<Sum>j = Suc i..unat b. cases_of j))"
    using le IH [of "n + of_int (cases_of i)"]
    by (subst win_cases_loop.simps) (simp add: uc Dice_NumberOfWinCases_eq add.commute)
  moreover have "(\<Sum>j = i..unat b. cases_of j) = cases_of i + (\<Sum>j = Suc i..unat b. cases_of j)"
    using Suc.hyps(2) by (intro sum.atLeast_Suc_atMost) simp
  ultimately show ?case by simp
qed

lemma win_cases_loop_diverges: "win_cases_loop i (- 1) n = None"
proof -
  have "b \<noteq> - 1" if "win_cases_loop i b n = Some r" for i b n r
  proof (rule win_cases_loop.raw_induct [where P = "\<lambda>i b n r. b \<noteq> - 1", OF _ that])
    fix loop i n r and b :: u32
    assume IH: "\<And>i b n r. loop i b n = Some r \<Longrightarrow> b \<noteq> - 1"
      and body: "(if i \<le> b then loop (i + 1) b (n + Dice_NumberOfWinCases (ucast i)) else Some n) = Some r"
    show "b \<noteq> - 1" using IH [of "i + 1" b] body by (cases "i \<le> b") auto
  qed
  then show ?thesis by (cases "win_cases_loop i (- 1) n") auto
qed

section \<open>Odds\<close>

lemma cases_sum:
  assumes "7 \<le> b"
  shows "2 * (\<Sum>j = 2..b. cases_of j) = 72 - (int b - 13) * (int b - 12)"
  using assms
proof (induction b rule: dec_induct)
  case base
  have "{2..7} = {2, 3, 4, 5, 6, 7 :: nat}" by auto
  then show ?case by (simp add: cases_of_def)
next
  case (step b)
  then have "(\<Sum>j = 2..Suc b. cases_of j) = (\<Sum>j = 2..b. cases_of j) + (12 - int b)" by (simp add: cases_of_def)
  then show ?case using step.IH by (simp add: algebra_simps)
qed

lemma dice_sum_bounds: "2 \<le> unat (dice_sum seed)" "unat (dice_sum seed) \<le> 12"
proof -
  have m: "unat (x mod 6 + 1) = unat x mod 6 + 1" for x :: u64
  proof -
    have "unat (x mod 6) < 6" by (simp add: unat_mod)
    then show ?thesis by (subst unat_add_lem [THEN iffD1]) (simp_all add: unat_mod)
  qed
  let ?a = "Get64 seed 0 mod 6 + 1" and ?b = "Get64 seed 1 mod 6 + 1"
  have ab: "unat ?a \<le> 6" "unat ?b \<le> 6" "1 \<le> unat ?a" "1 \<le> unat ?b" unfolding m by simp_all
  then have "unat (dice_sum seed) = unat ?a + unat ?b"
    unfolding dice_sum_def Let_def by (subst unat_add_lem [THEN iffD1]) simp_all
  then show "2 \<le> unat (dice_sum seed)" "unat (dice_sum seed) \<le> 12" using ab by linarith+
qed


lemma unat_of_nat_less: "n < 2 ^ LENGTH('a::len) \<Longrightarrow> unat (of_nat n :: 'a word) = n"
  by (simp add: unsigned_of_nat take_bit_nat_eq_self)

lemma dice_odds_of_nat:
  assumes "0 < k" "k < 2 ^ 32"
  shows "dice_odds (of_nat k) = Some (of_nat (360000 div k))"
proof -
  have k: "unat (of_nat k :: u64) = k" using assms by (simp add: unat_of_nat take_bit_nat_eq_self)
  have le: "360000 div k < 2 ^ 64" "360000 div k < 2 ^ 32" by (rule le_less_trans [OF div_le_dividend], simp)+
  have "unat ((360000 :: u64) div of_nat k) = 360000 div k" unfolding unat_div k by simp
  moreover have "unat (of_nat (360000 div k) :: u64) = 360000 div k" by (rule unat_of_nat_less) (use le(1) in simp)
  ultimately have "(360000 :: u64) div of_nat k = of_nat (360000 div k)" by (simp only: word_unat_eq_iff)
  moreover have "of_nat k \<noteq> (0 :: u64)" using k assms by auto
  moreover have "ucast (of_nat (360000 div k) :: u64) = (of_nat (360000 div k) :: u32)"
    by (simp add: unsigned_of_nat take_bit_nat_eq_self [OF le(1)])
  ultimately show ?thesis by (simp add: dice_odds_def)
qed

text \<open>The winning pairs of each kind of bet, counted.\<close>

definition pairs :: "(nat \<Rightarrow> bool) \<Rightarrow> nat" where
  "pairs P = length (filter (\<lambda>(d, e). P (d + e)) (List.product [1..<7] [1..<7]))"

lemma winning_pairs_of:
  "winning_pairs qgDiceOdd b = pairs odd" "winning_pairs qgDiceEven b = pairs even" "winning_pairs qgDiceEqual b = pairs (\<lambda>s. s = b)"
  "winning_pairs qgDiceNotEqual b = pairs (\<lambda>s. s \<noteq> b)" "winning_pairs qgDiceTotalUnder b = pairs (\<lambda>s. s \<le> b)"
  "winning_pairs qgDiceTotalOver b = pairs (\<lambda>s. s > b)"
  by (simp_all add: winning_pairs_def dice_wins_def pairs_def dice_defs)

lemma pairs_sums: "pairs P = length (filter P [2, 3, 4, 5, 6, 7, 3, 4, 5, 6, 7, 8, 4, 5, 6, 7, 8, 9, 5, 6, 7, 8, 9, 10, 6, 7, 8, 9, 10, 11, 7, 8, 9, 10, 11, 12])"
proof -
  have "map (\<lambda>(d, e). d + e) (List.product [1..<7] [1..<7]) = ([2, 3, 4, 5, 6, 7, 3, 4, 5, 6, 7, 8, 4, 5, 6, 7, 8, 9, 5, 6, 7, 8, 9, 10, 6, 7, 8, 9, 10, 11, 7, 8, 9, 10, 11, 12] :: nat list)" by code_simp
  moreover have "length (filter (\<lambda>(d, e). P (d + e)) xs) = length (filter P (map (\<lambda>(d, e). d + e) xs))" for xs by (induction xs) auto
  ultimately show ?thesis by (simp only: pairs_def)
qed

lemma pairs_table:
  "list_all (\<lambda>b. pairs (\<lambda>s. s = b) = nat (cases_of b)) [2..<13]"
  "list_all (\<lambda>b. pairs (\<lambda>s. s \<noteq> b) = nat (36 - cases_of b)) [2..<13]"
  "list_all (\<lambda>b. pairs (\<lambda>s. s \<le> b) = nat (sum_list (map cases_of [2..<Suc b]))) [2..<13]"
  "list_all (\<lambda>b. pairs (\<lambda>s. s > b) = nat (36 - sum_list (map cases_of [2..<Suc b]))) [2..<13]"
  "list_all (\<lambda>b. 0 < sum_list (map cases_of [2..<Suc b]) \<and> sum_list (map cases_of [2..<Suc b]) \<le> 36) [2..<13]"
  "list_all (\<lambda>b. 0 < cases_of b \<and> cases_of b \<le> 6) [2..<13]"
  "list_all (\<lambda>b. sum_list (map cases_of [2..<Suc b]) < 36) [2..<12]"
  "pairs odd = 18" "pairs even = 18"
  by (simp_all add: pairs_sums cases_of_def)

lemmas winning_pairs_parity = winning_pairs_of(1,2) [unfolded pairs_table(8,9)]

lemmas dice_table = pairs_table(1-7) [folded winning_pairs_of, unfolded list_all_iff, rule_format]

lemma win_cases_sum:
  assumes "2 \<le> b" "b \<le> 12"
  shows "win_cases_loop 2 (of_nat b) 0 = Some (of_nat (nat (sum_list (map cases_of [2..<Suc b]))))"
proof -
  have u: "unat (of_nat b :: u32) = b" using assms by (simp add: unat_of_nat take_bit_nat_eq_self)
  have "win_cases_loop (of_nat 2) (of_nat b) 0 = Some (0 + of_int (\<Sum>j = 2..unat (of_nat b :: u32). cases_of j))"
    using assms u by (intro win_cases_loop_sum) simp_all
  moreover have "(\<Sum>j = 2..b. cases_of j) = sum_list (map cases_of [2..<Suc b])"
    by (simp only: sum_set_upt_conv_sum_list_nat [symmetric] atLeastLessThanSuc_atLeastAtMost [symmetric] set_upt [symmetric])
  moreover have "b \<in> set [2..<13]" unfolding set_upt using assms by simp
  from dice_table(5) [OF this] have "0 < sum_list (map cases_of [2..<Suc b])" by simp
  ultimately show ?thesis using u by simp
qed

lemma dice_odds_cases:
  assumes "2 \<le> b" "b \<le> 12"
  shows "dice_odds (Dice_NumberOfWinCases (of_nat b)) = Some (of_nat (360000 div winning_pairs qgDiceEqual b))"
    and "dice_odds (36 - Dice_NumberOfWinCases (of_nat b)) = Some (of_nat (360000 div winning_pairs qgDiceNotEqual b))"
    and "win_cases_loop 2 (of_nat b) 0 \<bind> dice_odds = Some (of_nat (360000 div winning_pairs qgDiceTotalUnder b))"
    and "b < 12 \<Longrightarrow> win_cases_loop 2 (of_nat b) 0 \<bind> (\<lambda>n. dice_odds (36 - n)) = Some (of_nat (360000 div winning_pairs qgDiceTotalOver b))"
proof -
  have m: "b \<in> set [2..<13]" unfolding set_upt using assms by simp
  let ?n = "nat (cases_of b)" and ?s = "nat (sum_list (map cases_of [2..<Suc b]))"
  have c: "Dice_NumberOfWinCases (of_nat b) = of_nat ?n" "0 < ?n" "?n \<le> 6"
    using dice_table(6) [OF m] assms by (simp_all add: Dice_NumberOfWinCases_eq nat_le_iff)
  have sb: "0 < ?s" "?s \<le> 36" using dice_table(5) [OF m] by linarith+
  show "dice_odds (Dice_NumberOfWinCases (of_nat b)) = Some (of_nat (360000 div winning_pairs qgDiceEqual b))"
    using c dice_table(1) [OF m] dice_odds_of_nat [of ?n] by simp
  have "36 - of_nat ?n = (of_nat (36 - ?n) :: u64)" "winning_pairs qgDiceNotEqual b = 36 - ?n"
    using c dice_table(2) [OF m] by (simp_all add: of_nat_diff nat_diff_distrib)
  then show "dice_odds (36 - Dice_NumberOfWinCases (of_nat b)) = Some (of_nat (360000 div winning_pairs qgDiceNotEqual b))"
    using c dice_odds_of_nat [of "36 - ?n"] by simp
  show "win_cases_loop 2 (of_nat b) 0 \<bind> dice_odds = Some (of_nat (360000 div winning_pairs qgDiceTotalUnder b))"
    using win_cases_sum [OF assms] sb dice_table(3) [OF m] dice_odds_of_nat [of ?s] by (simp del: upt_Suc)
  show "win_cases_loop 2 (of_nat b) 0 \<bind> (\<lambda>n. dice_odds (36 - n)) = Some (of_nat (360000 div winning_pairs qgDiceTotalOver b))" if "b < 12"
  proof -
    have "b \<in> set [2..<12]" unfolding set_upt using assms that by simp
    then have "?s < 36" using dice_table(7) [of b] sb by linarith
    moreover have "36 - of_nat ?s = (of_nat (36 - ?s) :: u64)" "winning_pairs qgDiceTotalOver b = 36 - ?s"
      using sb dice_table(4) [OF m] by (simp_all add: of_nat_diff nat_diff_distrib del: upt_Suc)
    ultimately show ?thesis using win_cases_sum [OF assms] dice_odds_of_nat [of "36 - ?s"] by (simp del: upt_Suc)
  qed
qed

text \<open>
  C26: the dice game is fair before its fee.  For a bet on odd or even, which has no number, and for a bet of another kind on a number from 2 to 12, the
  handler pays, when the bet wins, 36 times the stake divided by the number of the 36 rolls that win (in units of 1/10000, rounded down), and nothing when it loses.
\<close>

theorem DiceHandler_fair:
  assumes "unser_DiceBetInfo betInfo = Some (\<lparr>dice_betType = type, dice_betNumber = of_nat b\<rparr>, rest)"
    and "type \<in> {qgDiceOdd, qgDiceEven} \<or> 2 \<le> b \<and> b \<le> 12"
  shows "DiceHandler betInfo seed =
    Some (if dice_wins type b (unat (dice_sum seed)) then of_nat (360000 div winning_pairs type b) else 0)"
proof -
  define s where "s = unat (dice_sum seed)"
  have s: "dice_sum seed = of_nat s" "2 \<le> s" "s \<le> 12" using dice_sum_bounds by (simp_all add: s_def)
  have us: "unat (of_nat s :: u64) = s" using s by (simp add: unat_of_nat_less)
  then have "unat ((of_nat s :: u64) mod 2) = s mod 2" unfolding unat_mod by simp
  then have par: "of_nat s mod (2 :: u64) = 1 \<longleftrightarrow> odd s" "of_nat s mod (2 :: u64) = 0 \<longleftrightarrow> even s"
    by (simp_all add: word_unat_eq_iff odd_iff_mod_2_eq_one even_iff_mod_2_eq_zero)
  show ?thesis
  proof (cases "type \<in> {qgDiceOdd, qgDiceEven}")
    case True
    then show ?thesis
      unfolding DiceHandler_def assms(1) s(1)
      by (auto simp: Let_def par us dice_wins_def winning_pairs_parity dice_distinct [simplified])
  next
    case False
    then have b: "2 \<le> b" "b \<le> 12" using assms(2) by auto
    have uc: "ucast (of_nat b :: u32) = (of_nat b :: u64)" using b by (simp add: unsigned_of_nat take_bit_nat_eq_self)
    have ub: "unat (of_nat b :: u64) = b" using b by (simp add: unat_of_nat_less)
    have cmp: "of_nat s = (of_nat b :: u64) \<longleftrightarrow> s = b" "of_nat s \<le> (of_nat b :: u64) \<longleftrightarrow> s \<le> b" "of_nat b < (of_nat s :: u64) \<longleftrightarrow> b < s"
      unfolding word_unat_eq_iff word_le_nat_alt word_less_nat_alt us ub by simp_all
    note d = dice_odds_cases [OF b]
    have over: "b < 12" if "b < s" using that s(3) by simp
    have h: "DiceHandler betInfo seed = (if type = qgDiceOdd \<and> odd s then Some (10000 * 2)
       else if type = qgDiceEven \<and> even s then Some (10000 * 2)
       else if type = qgDiceEqual \<and> s = b then dice_odds (Dice_NumberOfWinCases (of_nat b))
       else if type = qgDiceNotEqual \<and> s \<noteq> b then dice_odds (36 - Dice_NumberOfWinCases (of_nat b))
       else if type = qgDiceTotalUnder \<and> s \<le> b then win_cases_loop 2 (of_nat b) 0 \<bind> dice_odds
       else if type = qgDiceTotalOver \<and> b < s then win_cases_loop 2 (of_nat b) 0 \<bind> (\<lambda>n. dice_odds (36 - n))
       else Some 0)"
      unfolding DiceHandler_def assms(1) s(1) by (simp only: Option.bind.bind_lunit prod.case Let_def DiceBetInfo.simps uc cmp par)
    note eval = h s_def [symmetric] dice_wins_def winning_pairs_parity d dice_distinct [simplified]
    consider "type = qgDiceOdd" | "type = qgDiceEven" | "type = qgDiceEqual" | "type = qgDiceNotEqual" | "type = qgDiceTotalUnder" |
      "type = qgDiceTotalOver" | "type \<notin> {qgDiceOdd, qgDiceEven, qgDiceEqual, qgDiceNotEqual, qgDiceTotalUnder, qgDiceTotalOver}" by blast
    then show ?thesis by cases (simp_all add: eval over)
  qed
qed

text \<open>Exactly two bets have no odds.\<close>

lemma of_int_u64_zero: "\<bar>x\<bar> < 2 ^ 64 \<Longrightarrow> (of_int x :: u64) = 0 \<longleftrightarrow> x = 0"
proof -
  assume "\<bar>x\<bar> < 2 ^ 64"
  then have "(2 ^ 64 :: int) dvd x \<longleftrightarrow> x = 0" using zdvd_not_zless [of "\<bar>x\<bar>" "2 ^ 64"] by (auto simp: dvd_abs_iff)
  then show ?thesis by (simp add: word_uint_eq_iff uint_word_of_int dvd_eq_mod_eq_0)
qed

lemma under_odds:
  assumes "2 \<le> unat b" "b \<noteq> - 1"
  shows "win_cases_loop 2 b 0 \<bind> dice_odds = None \<longleftrightarrow> b = 21"
proof -
  let ?S = "\<Sum>j = 2..unat b. cases_of j"
  have "unat b < 2 ^ 32 - 1"
  proof -
    have "unat b < 2 ^ 32" using unsigned_less [of b] by simp
    moreover have "unat b \<noteq> 2 ^ 32 - 1"
    proof
      assume "unat b = 2 ^ 32 - 1"
      then have "of_nat (unat b) = (- 1 :: u32)" by simp
      then show False using assms(2) by simp
    qed
    ultimately show ?thesis by simp
  qed
  then have b: "unat b < 2 ^ 32 - 1" .
  have loop: "win_cases_loop 2 b 0 = Some (of_int ?S)" using win_cases_loop_sum [OF b, of 2 0] assms(1) by simp
  show ?thesis
  proof (cases "7 \<le> unat b")
    case True
    define n where "n = int (unat b)"
    have "unat b < 4294967296" using b by simp
    then have n: "7 \<le> n" "n < 4294967296" unfolding n_def using True by linarith+
    have S: "2 * ?S = 72 - (n - 13) * (n - 12)" using cases_sum [OF True] by (simp add: n_def)
    have "\<bar>n - 13\<bar> * \<bar>n - 12\<bar> \<le> 4294967296 * 4294967296" using n by (intro mult_mono) auto
    then have m: "(n - 13) * (n - 12) \<le> 4294967296 * 4294967296" unfolding abs_mult [symmetric] by linarith
    have m': "0 \<le> (n - 13) * (n - 12)"
      by (cases "n \<le> 12"; cases "13 \<le> n") (auto intro: mult_nonneg_nonneg mult_nonpos_nonpos)
    have "\<bar>?S\<bar> < 2 ^ 64" using S m m' by simp
    then have "(of_int ?S :: u64) = 0 \<longleftrightarrow> ?S = 0" by (rule of_int_u64_zero)
    also have "\<dots> \<longleftrightarrow> n = 21"
    proof
      assume "?S = 0"
      then have "(n - 21) * (n - 4) = 0" using S by (simp add: algebra_simps)
      then show "n = 21" using n by auto
    qed (use S in simp)
    also have "\<dots> \<longleftrightarrow> unat b = 21" unfolding n_def by linarith
    also have "\<dots> \<longleftrightarrow> b = 21" by (simp add: word_unat_eq_iff)
    finally show ?thesis using loop by (simp add: dice_odds_def)
  next
    case False
    then have ub: "2 \<le> unat b" "unat b \<le> 12" using assms(1) by auto
    have "b \<noteq> 21" using False by (auto simp: word_unat_eq_iff)
    then show ?thesis using dice_odds_cases(3) [OF ub] by simp
  qed
qed


text \<open>
  C32: the handler returns for every bet except two.  A bet that the total is under 21 (and a half) divides by zero, because the
  winning cases of the sums above 13 are negative and cancel the 36 rolls; for the largest 32-bit number the loop over the sums never
  ends.  No other bet that can be read fails, whatever its kind and number, and a bet's failure does not depend on the seed.
\<close>

theorem DiceHandler_undefined:
  assumes "unser_DiceBetInfo betInfo = Some (info, rest)"
  shows "DiceHandler betInfo seed = None \<longleftrightarrow>
    dice_betType info = qgDiceTotalUnder \<and> (dice_betNumber info = 21 \<or> dice_betNumber info = - 1)"
proof -
  define s where "s = unat (dice_sum seed)"
  let ?b = "dice_betNumber info"
  have s: "dice_sum seed = of_nat s" "2 \<le> s" "s \<le> 12" using dice_sum_bounds by (simp_all add: s_def)
  have l: "unat ?b < 2 ^ 32" using unsigned_less [of ?b] by simp
  have uc: "ucast ?b = (of_nat (unat ?b) :: u64)" by simp
  have us: "unat (of_nat s :: u64) = s" by (rule unat_of_nat_less) (use s in simp)
  have ub: "unat (of_nat (unat ?b) :: u64) = unat ?b" by (rule unat_of_nat_less) (use l in simp)
  have cmp: "of_nat s = (of_nat (unat ?b) :: u64) \<longleftrightarrow> s = unat ?b" "of_nat s \<le> (of_nat (unat ?b) :: u64) \<longleftrightarrow> s \<le> unat ?b"
    "of_nat (unat ?b) < (of_nat s :: u64) \<longleftrightarrow> unat ?b < s"
    unfolding word_unat_eq_iff word_le_nat_alt word_less_nat_alt us ub by simp_all
  have eq: "dice_odds (Dice_NumberOfWinCases (of_nat (unat ?b))) \<noteq> None" if "s = unat ?b"
    using dice_odds_cases(1) [of "unat ?b"] s that by simp
  have ne: "dice_odds (36 - Dice_NumberOfWinCases (of_nat (unat ?b))) \<noteq> None"
  proof -
    have "36 - cases_of k \<noteq> 0 \<and> \<bar>36 - cases_of k\<bar> < 2 ^ 64" if "k < 2 ^ 32" for k using that by (auto simp: cases_of_def)
    from this [OF l] have "36 - cases_of (unat ?b) \<noteq> 0" "\<bar>36 - cases_of (unat ?b)\<bar> < 2 ^ 64" by auto
    then have "of_int (36 - cases_of (unat ?b)) \<noteq> (0 :: u64)" using of_int_u64_zero by blast
    then show ?thesis unfolding Dice_NumberOfWinCases_eq [OF l] dice_odds_def by simp
  qed
  have over: "win_cases_loop 2 ?b 0 \<bind> (\<lambda>n. dice_odds (36 - n)) \<noteq> None" if "unat ?b < s"
  proof (cases "2 \<le> unat ?b")
    case False
    then have "\<not> 2 \<le> ?b" by (simp add: word_le_nat_alt)
    then have "win_cases_loop 2 ?b 0 = Some 0" by (subst win_cases_loop.simps) simp
    then show ?thesis by (simp add: dice_odds_def)
  qed (use dice_odds_cases(4) [of "unat ?b"] s that in simp)
  have under: "win_cases_loop 2 ?b 0 \<bind> dice_odds = None \<longleftrightarrow> ?b = 21 \<or> ?b = - 1" if "s \<le> unat ?b"
    using under_odds [of ?b] win_cases_loop_diverges [of 2 0] s that by (cases "?b = - 1") auto
  have big: "s \<le> unat ?b" if "?b = 21 \<or> ?b = - 1" 
    using that s by (auto simp: unsigned_minus_1_eq_mask mask_eq_exp_minus_1)
  have h: "DiceHandler betInfo seed = (if dice_betType info = qgDiceOdd \<and> dice_sum seed mod 2 = 1 then Some (10000 * 2)
     else if dice_betType info = qgDiceEven \<and> dice_sum seed mod 2 = 0 then Some (10000 * 2)
     else if dice_betType info = qgDiceEqual \<and> s = unat ?b then dice_odds (Dice_NumberOfWinCases (of_nat (unat ?b)))
     else if dice_betType info = qgDiceNotEqual \<and> s \<noteq> unat ?b then dice_odds (36 - Dice_NumberOfWinCases (of_nat (unat ?b)))
     else if dice_betType info = qgDiceTotalUnder \<and> s \<le> unat ?b then win_cases_loop 2 ?b 0 \<bind> dice_odds
     else if dice_betType info = qgDiceTotalOver \<and> unat ?b < s then win_cases_loop 2 ?b 0 \<bind> (\<lambda>n. dice_odds (36 - n))
     else Some 0)"
    unfolding DiceHandler_def assms(1)
    by (simp only: Option.bind.bind_lunit prod.case Let_def uc s(1) cmp)
  have d: "qgDiceTotalUnder \<notin> {qgDiceOdd, qgDiceEven, qgDiceEqual, qgDiceNotEqual, qgDiceTotalOver}" by (simp add: dice_defs)
  show ?thesis
  proof (cases "dice_betType info = qgDiceTotalUnder")
    case True
    then have "DiceHandler betInfo seed = (if s \<le> unat ?b then win_cases_loop 2 ?b 0 \<bind> dice_odds else Some 0)" using h d by simp
    then show ?thesis using True under big by auto
  next
    case False
    then show ?thesis unfolding h using eq ne over by auto
  qed
qed

theorem DiceHandler_fair_witness:
  "DiceHandler [3, 7, 0, 0, 0] 0 = Some (if dice_wins 3 7 (unat (dice_sum 0)) then of_nat (360000 div winning_pairs 3 7) else 0) \<and>
   DiceHandler [qgDiceEven] 0 = Some (if dice_wins qgDiceEven 0 (unat (dice_sum 0)) then of_nat (360000 div winning_pairs qgDiceEven 0) else 0)"
proof
  show "DiceHandler [3, 7, 0, 0, 0] 0 = Some (if dice_wins 3 7 (unat (dice_sum 0)) then of_nat (360000 div winning_pairs 3 7) else 0)"
    by (rule DiceHandler_fair [where rest = "[]"]) (simp_all add: unser_DiceBetInfo_def dice_defs ser_readdata32_def eval_simps)
  show "DiceHandler [qgDiceEven] 0 = Some (if dice_wins qgDiceEven 0 (unat (dice_sum 0)) then of_nat (360000 div winning_pairs qgDiceEven 0) else 0)"
    by (rule DiceHandler_fair [where rest = "[]"]) (simp_all add: unser_DiceBetInfo_def eval_simps)
qed

theorem DiceHandler_undefined_witness: "DiceHandler [3, 21, 0, 0, 0] 0 = None \<longleftrightarrow> (3 :: u8) = qgDiceTotalUnder"
  using DiceHandler_undefined [of "[3, 21, 0, 0, 0]" "\<lparr>dice_betType = 3, dice_betNumber = 21\<rparr>" "[]"]
  by (simp add: unser_DiceBetInfo_def dice_defs ser_readdata32_def eval_simps)

end
