(* ===== verification/Payouts.thy ===== *)
theory Payouts
  imports ChainEnv FieldOdds Dice "HOL-Library.Char_ord"
begin

text \<open>
  The payouts of bets: betting/bet_v3.cpp (team bets, quick games, chain games, from protocol version 2 on), betting/bet_v4.cpp
  (field bets) and the results they start from (betting/bet_common.cpp).  A function takes the betting databases and the two
  vectors of payouts, and returns them extended; \<open>None\<close> is an access out of range or a game handler that does not return.
  Amounts are 64-bit with wrap-around.
\<close>

section \<open>Payouts and results\<close>

record CBetOut = CTxOut +
  bo_nBetValue :: CAmount
  bo_nEventId :: u32

definition new_CBetOut :: "CAmount \<Rightarrow> CScript \<Rightarrow> CAmount \<Rightarrow> u32 \<Rightarrow> CBetOut" where
  "new_CBetOut nValueIn scriptPubKeyIn nBetValueIn nEventIdIn =
     \<lparr>nValue = nValueIn, scriptPubKey = scriptPubKeyIn, bo_nBetValue = nBetValueIn, bo_nEventId = nEventIdIn\<rparr>"

type_synonym payouts = "CBetOut list \<times> CPayoutInfoDB list"

definition add_payout :: "CBetOut \<Rightarrow> PeerlessBetKey \<Rightarrow> PayoutType \<Rightarrow> payouts \<Rightarrow> payouts" where
  "add_payout out key type = (\<lambda>(vExpectedPayouts, vPayoutsInfo).
     (vExpectedPayouts @ [out], vPayoutsInfo @ [\<lparr>betKey = key, payoutType = type\<rparr>]))"

text \<open>The index of a block: its height and the events with a result in it.\<close>

record CBlockIndex =
  bi_nHeight :: int
  bi_vResultIDs :: "u32 list"

definition COutPoint_null :: COutPoint where
  "COutPoint_null = \<lparr>op_hash = 0, op_n = 0xffffffff\<rparr>"

fun results_loop :: "(u32 \<Rightarrow> 'r option) \<Rightarrow> bool \<Rightarrow> u32 list \<Rightarrow> 'r list" where
  "results_loop rd fMultipleResultsAllowed [] = []"
| "results_loop rd fMultipleResultsAllowed (eventId # ids) =
     (case rd eventId of
        None \<Rightarrow> results_loop rd fMultipleResultsAllowed ids
      | Some res \<Rightarrow> if fMultipleResultsAllowed then res # results_loop rd fMultipleResultsAllowed ids else [res])"

definition GetPLResultsFromDB :: "betting_env \<Rightarrow> CBettingsView \<Rightarrow> CBlockIndex \<Rightarrow> CPeerlessResultDB list" where
  "GetPLResultsFromDB env view pindexPrev =
     results_loop (tdb_Read (results view)) (bi_nHeight pindexPrev \<ge> nWagerrProtocolV3StartHeight (consensus env)) (bi_vResultIDs pindexPrev)"

definition GetFieldResultsFromDB :: "betting_env \<Rightarrow> CBettingsView \<Rightarrow> CBlockIndex \<Rightarrow> CFieldResultDB list" where
  "GetFieldResultsFromDB env view pindexPrev =
     results_loop (tdb_Read (fieldResults view)) (bi_nHeight pindexPrev \<ge> nWagerrProtocolV3StartHeight (consensus env)) (bi_vResultIDs pindexPrev)"

fun cg_results_outputs :: "betting_env \<Rightarrow> CCoinsViewCache \<Rightarrow> int \<Rightarrow> CTransaction \<Rightarrow> CTxOut list \<Rightarrow> CChainGamesResultDB list option" where
  "cg_results_outputs env coins nLastBlockHeight tx [] = Some []"
| "cg_results_outputs env coins nLastBlockHeight tx (txOut # txOuts) =
     (case ParseBettingTx txOut of
        Some (ChainGamesResultTx resultTx) \<Rightarrow> do {
          ok \<leftarrow> IsValidOracleTx env coins tx nLastBlockHeight;
          rest \<leftarrow> cg_results_outputs env coins nLastBlockHeight tx txOuts;
          Some (if \<not> ok then rest else \<lparr>cgres_nEventId = cgr_nEventId resultTx\<rparr> # rest) }
      | _ \<Rightarrow> cg_results_outputs env coins nLastBlockHeight tx txOuts)"

fun GetCGLottoEventResults :: "betting_env \<Rightarrow> CCoinsViewCache \<Rightarrow> int \<Rightarrow> CTransaction list \<Rightarrow> CChainGamesResultDB list option" where
  "GetCGLottoEventResults env coins nLastBlockHeight [] = Some []"
| "GetCGLottoEventResults env coins nLastBlockHeight (tx # txs) =
     (if length (vout tx) > 2 then GetCGLottoEventResults env coins nLastBlockHeight txs
      else do {
        found \<leftarrow> cg_results_outputs env coins nLastBlockHeight tx (vout tx);
        rest \<leftarrow> GetCGLottoEventResults env coins nLastBlockHeight txs;
        Some (found @ rest) })"

section \<open>Rewards\<close>

definition GetPLRewardPayoutsV3 :: "betting_env \<Rightarrow> int \<Rightarrow> CAmount \<Rightarrow> payouts \<Rightarrow> payouts" where
  "GetPLRewardPayoutsV3 env nNewBlockHeight fee p =
     (case GetFeePayoutScripts env nNewBlockHeight of
        None \<Rightarrow> p
      | Some (payoutScriptDev, payoutScriptOMNO) \<Rightarrow>
          let zeroKey = PeerlessBetKey (of_int nNewBlockHeight) COutPoint_null;
              nOMNOReward = i64 (fee * 4000) sdiv BET_ODDSDIVISOR;
              nDevReward = i64 (fee * 1000) sdiv BET_ODDSDIVISOR;
              p = (if nDevReward > 0 then add_payout (new_CBetOut nDevReward payoutScriptDev 0 0) zeroKey bettingReward p else p)
          in if nOMNOReward > 0 then add_payout (new_CBetOut nOMNOReward payoutScriptOMNO 0 0) zeroKey bettingReward p else p)"

fun profit_loop :: "CBetOut list \<Rightarrow> CPayoutInfoDB list \<Rightarrow> CAmount \<Rightarrow> CAmount option" where
  "profit_loop [] infos profitAcc = Some profitAcc"
| "profit_loop (out # outs) [] profitAcc = None"
| "profit_loop (out # outs) (info # infos) profitAcc =
     profit_loop outs infos (if payoutType info = bettingPayout then i64 (profitAcc + (nValue out - bo_nBetValue out)) else profitAcc)"

text \<open>\<open>(CAmount)(profitAcc * permille / (1000.0 - BET_BURNXPERMILLE))\<close>: the product is unsigned, the quotient a \<open>double\<close>.\<close>

definition reward_of :: "'d double_ops \<Rightarrow> CAmount \<Rightarrow> u64 \<Rightarrow> CAmount" where
  "reward_of fp profitAcc permille =
     dtrunc64 fp (ddiv fp (dcast64 fp (of_int profitAcc * permille)) (dsub fp (dlit fp 1000 0) (dlit fp BET_BURNXPERMILLE 0)))"

definition GetPLRewardPayoutsV2 :: "'d double_ops \<Rightarrow> betting_env \<Rightarrow> int \<Rightarrow> payouts \<Rightarrow> payouts option" where
  "GetPLRewardPayoutsV2 fp env nNewBlockHeight p =
     (case GetFeePayoutScripts env nNewBlockHeight of
        None \<Rightarrow> Some p
      | Some (payoutScriptDev, payoutScriptOMNO) \<Rightarrow> do {
          profitAcc \<leftarrow> profit_loop (fst p) (snd p) 0;
          let zeroKey = PeerlessBetKey (of_int nNewBlockHeight) COutPoint_null;
          let nOMNOReward = reward_of fp profitAcc (nOMNORewardPermille (consensus env));
          let nDevReward = reward_of fp profitAcc (nDevRewardPermille (consensus env));
          let p = (if nDevReward > 0 then add_payout (new_CBetOut nDevReward payoutScriptDev profitAcc 0) zeroKey bettingReward p else p);
          Some (if nOMNOReward > 0 then add_payout (new_CBetOut nOMNOReward payoutScriptOMNO profitAcc 0) zeroKey bettingReward p else p) })"

section \<open>Settlement of a bet\<close>

definition GetBetSearchStartHeight :: "betting_env \<Rightarrow> int \<Rightarrow> u32" where
  "GetBetSearchStartHeight env nHeight = of_int
     (if nHeight \<ge> nWagerrProtocolV3StartHeight (consensus env)
      then (if nHeight \<ge> nBetBlocksIndexTimespanV3 (consensus env) then nHeight - nBetBlocksIndexTimespanV3 (consensus env)
            else nWagerrProtocolV3StartHeight (consensus env))
      else (if nHeight \<ge> nBetBlocksIndexTimespanV2 (consensus env) then nHeight - nBetBlocksIndexTimespanV2 (consensus env) else 0))"

record leg_flags =
  legHalfLose :: bool
  legHalfWin :: bool
  legRefund :: bool

abbreviation no_flags :: leg_flags where
  "no_flags \<equiv> \<lparr>legHalfLose = False, legHalfWin = False, legRefund = False\<rparr>"

definition flag_leg :: "u32 \<Rightarrow> u32 \<Rightarrow> leg_flags \<Rightarrow> leg_flags" where
  "flag_leg odds potential fl =
     (if odds = 0 then fl
      else if uint odds = BET_ODDSDIVISOR then fl\<lparr>legRefund := True\<rparr>
      else if uint odds = BET_ODDSDIVISOR div 2 then fl\<lparr>legHalfLose := True\<rparr>
      else if odds < potential then fl\<lparr>legHalfWin := True\<rparr>
      else fl)"

definition multiply_odds :: "u32 \<Rightarrow> u32 \<Rightarrow> u32" where
  "multiply_odds a b = ucast (((ucast a :: u64) * ucast b) div 10000)"

text \<open>
  The loop over the legs of a parlay bet.  \<open>settle leg lockedEvent\<close> gives the odds of a leg and its potential odds, \<open>None\<close> when the
  result of its event is not known yet; then the bet is not completed.
\<close>

fun parlay_loop ::
  "('leg \<Rightarrow> 'event \<Rightarrow> ((u32 \<times> u32) \<times> u32) option) \<Rightarrow> 'leg list \<Rightarrow> 'event list \<Rightarrow> bool \<Rightarrow> u32 \<times> u32 \<Rightarrow> leg_flags \<Rightarrow>
   (bool \<times> (u32 \<times> u32) \<times> leg_flags) option" where
  "parlay_loop settle [] lockedEvents firstOddMultiply finalOdds fl = Some (True, finalOdds, fl)"
| "parlay_loop settle (leg # legs) [] firstOddMultiply finalOdds fl = None"
| "parlay_loop settle (leg # legs) (lockedEvent # lockedEvents) firstOddMultiply finalOdds fl =
     (case settle leg lockedEvent of
        None \<Rightarrow> Some (False, finalOdds, fl)
      | Some (betOdds, potential) \<Rightarrow>
          parlay_loop settle legs lockedEvents False
            (if firstOddMultiply then betOdds
             else (multiply_odds (fst finalOdds) (fst betOdds), multiply_odds (snd finalOdds) (snd betOdds)))
            (flag_leg (fst betOdds) potential fl))"

text \<open>A bet by its number of legs: completed or not, the final odds, and the flags of its legs.\<close>

definition settle_legs ::
  "('leg \<Rightarrow> u32) \<Rightarrow> u32 \<Rightarrow> ('leg \<Rightarrow> 'event \<Rightarrow> ((u32 \<times> u32) \<times> u32) option) \<Rightarrow> ('leg \<Rightarrow> 'event \<Rightarrow> (u32 \<times> u32) \<times> u32) \<Rightarrow>
   ('leg, 'event) CBetDB \<Rightarrow> (bool \<times> (u32 \<times> u32) \<times> leg_flags) option" where
  "settle_legs legEvent resultEvent settle single bet =
     (if length (b_legs bet) > 1 then
        (if list_ex (\<lambda>leg. legEvent leg = resultEvent) (b_legs bet)
         then parlay_loop settle (b_legs bet) (b_lockedEvents bet) True (0, 0) no_flags
         else Some (False, (0, 0), no_flags))
      else case b_legs bet of
          [] \<Rightarrow> Some (False, (0, 0), no_flags)
        | singleBet # _ \<Rightarrow> (case b_lockedEvents bet of
              [] \<Rightarrow> None
            | lockedEvent # _ \<Rightarrow>
                if legEvent singleBet = resultEvent then
                  let (finalOdds, potential) = single singleBet lockedEvent
                  in Some (True, finalOdds, flag_leg (fst finalOdds) potential no_flags)
                else Some (False, (0, 0), no_flags)))"

text \<open>The bet was placed after the betting on its event had to stop.\<close>

definition placed_late :: "betting_env \<Rightarrow> u64 \<Rightarrow> int \<Rightarrow> bool" where
  "placed_late env startTime betTime \<longleftrightarrow> startTime > 0 \<and> betTime > i64 (i64 (uint startTime) - nBetPlaceTimeoutBlocks (consensus env))"

definition refund_of :: "bool \<Rightarrow> u32 \<times> u32" where
  "refund_of fWagerrProtocolV3 = (if fWagerrProtocolV3 then (10000, 10000) else (0, 0))"

definition settle_plBet :: "betting_env \<Rightarrow> CBettingsView \<Rightarrow> int \<Rightarrow> CPeerlessResultDB \<Rightarrow> CPeerlessBetDB \<Rightarrow> (bool \<times> (u32 \<times> u32) \<times> leg_flags) option" where
  "settle_plBet env view nLastBlockHeight result uniBet =
     (let v3 = nLastBlockHeight \<ge> nWagerrProtocolV3StartHeight (consensus env);
          settle = (\<lambda>leg lockedEvent. case tdb_Read (results view) (leg_nEventId leg) of
              None \<Rightarrow> None
            | Some res \<Rightarrow> Some
                (if placed_late env (nStartTime lockedEvent) (b_betTime uniBet) then refund_of v3 else GetBetOdds leg lockedEvent res v3,
                 GetBetPotentialOdds leg lockedEvent));
          single = (\<lambda>singleBet lockedEvent.
            (if placed_late env (nStartTime lockedEvent) (b_betTime uniBet) then refund_of v3
             else if \<not> v3 \<and> nLastBlockHeight - nEventCreationHeight lockedEvent > nBetBlocksIndexTimespanV2 (consensus env) then (0, 0)
             else GetBetOdds singleBet lockedEvent result v3,
             GetBetPotentialOdds singleBet lockedEvent))
      in settle_legs leg_nEventId (res_nEventId result) settle single uniBet)"

definition settle_fieldBet :: "betting_env \<Rightarrow> CBettingsView \<Rightarrow> CFieldResultDB \<Rightarrow> CFieldBetDB \<Rightarrow> (bool \<times> (u32 \<times> u32) \<times> leg_flags) option" where
  "settle_fieldBet env view result uniBet =
     (let odds = (\<lambda>leg lockedEvent res.
            (if placed_late env (fev_nStartTime lockedEvent) (b_betTime uniBet) then refund_of True else FieldGetBetOdds leg lockedEvent res,
             FieldGetBetPotentialOdds leg lockedEvent));
          settle = (\<lambda>leg lockedEvent. map_option (odds leg lockedEvent) (tdb_Read (fieldResults view) (fleg_nEventId leg)))
      in settle_legs fleg_nEventId (fres_nEventId result) settle (\<lambda>leg lockedEvent. odds leg lockedEvent result) uniBet)"

section \<open>Payout of bets\<close>

record pay_state =
  ps_payouts :: payouts
  effectivePayoutsSum :: CAmount
  grossPayoutsSum :: CAmount

definition bet_payout :: "CAmount \<Rightarrow> u32 \<Rightarrow> CAmount" where
  "bet_payout betAmount odds = i64 (betAmount * uint odds) sdiv BET_ODDSDIVISOR"

definition bet_result_type :: "nat \<Rightarrow> CAmount \<Rightarrow> CAmount \<Rightarrow> u32 \<Rightarrow> leg_flags \<Rightarrow> BetResultType" where
  "bet_result_type legs effectivePayout betAmount onchainOdds fl =
     (if effectivePayout < betAmount then betResultPartialLose
      else if uint onchainOdds = BET_ODDSDIVISOR then betResultRefund
      else if legs = 1 \<and> legHalfWin fl \<or> legs > 1 \<and> (legHalfWin fl \<or> legHalfLose fl \<or> legRefund fl) then betResultPartialWin
      else betResultWin)"

text \<open>What is done with a completed bet: the bet to write back and the extended payouts.\<close>

definition pay_bet ::
  "betting_env \<Rightarrow> bool \<Rightarrow> int \<Rightarrow> PeerlessBetKey \<Rightarrow> u32 \<times> u32 \<Rightarrow> leg_flags \<Rightarrow> ('leg, 'event) CBetDB \<Rightarrow> pay_state \<Rightarrow>
   ('leg, 'event) CBetDB \<times> pay_state" where
  "pay_bet env fWagerrProtocolV3 nNewBlockHeight uniBetKey finalOdds fl uniBet ps =
     (let betAmount = b_betAmount uniBet;
          finalOdds = (if betAmount < nMinBetPayoutRange (consensus env) * COIN \<or> betAmount > nMaxBetPayoutRange (consensus env) * COIN
            then refund_of fWagerrProtocolV3 else finalOdds);
          effectivePayout = (if \<not> fWagerrProtocolV3 then fst (snd (CalculatePayoutBurnAmounts betAmount (fst finalOdds)))
            else bet_payout betAmount (snd finalOdds));
          ps = (if \<not> fWagerrProtocolV3 then ps
            else ps\<lparr>effectivePayoutsSum := i64 (effectivePayoutsSum ps + effectivePayout),
                    grossPayoutsSum := i64 (grossPayoutsSum ps + bet_payout betAmount (fst finalOdds))\<rparr>)
      in if effectivePayout > 0 then
           (uniBet\<lparr>b_resultType := bet_result_type (length (b_legs uniBet)) effectivePayout betAmount (fst finalOdds) fl,
              b_payoutHeight := of_int nNewBlockHeight, b_payout := effectivePayout, b_completed := True\<rparr>,
            ps\<lparr>ps_payouts := add_payout (new_CBetOut effectivePayout (GetScriptForDestination env (b_playerAddress uniBet)) betAmount 0)
              uniBetKey (if uint (snd finalOdds) \<le> BET_ODDSDIVISOR then bettingRefund else bettingPayout) (ps_payouts ps)\<rparr>)
         else (uniBet\<lparr>b_resultType := betResultLose, b_payout := effectivePayout, b_completed := True\<rparr>, ps))"

text \<open>The loop over the entries of the database from the first height that is searched; the bets to write back are collected.\<close>

fun pay_entries ::
  "betting_env \<Rightarrow> bool \<Rightarrow> int \<Rightarrow> (('leg, 'event) CBetDB \<Rightarrow> (bool \<times> (u32 \<times> u32) \<times> leg_flags) option) \<Rightarrow>
   (PeerlessBetKey \<times> ('leg, 'event) CBetDB) list \<Rightarrow> pay_state \<Rightarrow> ((PeerlessBetKey \<times> ('leg, 'event) CBetDB) list \<times> pay_state) option" where
  "pay_entries env v3 nNewBlockHeight settle [] ps = Some ([], ps)"
| "pay_entries env v3 nNewBlockHeight settle ((uniBetKey, uniBet) # rest) ps =
     (if v3 \<and> b_completed uniBet then pay_entries env v3 nNewBlockHeight settle rest ps
      else do {
        (completedBet, finalOdds, fl) \<leftarrow> settle uniBet;
        if completedBet then do {
          let (uniBet, ps) = pay_bet env v3 nNewBlockHeight uniBetKey finalOdds fl uniBet ps;
          (vEntriesToUpdate, ps) \<leftarrow> pay_entries env v3 nNewBlockHeight settle rest ps;
          Some ((uniBetKey, uniBet) # vEntriesToUpdate, ps) }
        else pay_entries env v3 nNewBlockHeight settle rest ps })"

definition update_entries :: "('k::linorder \<times> 'v) list \<Rightarrow> ('k, 'v) omap \<Rightarrow> ('k, 'v) omap" where
  "update_entries vEntriesToUpdate db = fold (\<lambda>(key, v) db. fst (tdb_Update db key v)) vEntriesToUpdate db"

fun pay_results ::
  "('r \<Rightarrow> bool) \<Rightarrow> (CBettingsView \<Rightarrow> 'r \<Rightarrow> pay_state \<Rightarrow> (CBettingsView \<times> pay_state) option) \<Rightarrow> 'r list \<Rightarrow>
   CBettingsView \<times> pay_state \<Rightarrow> (CBettingsView \<times> pay_state) option" where
  "pay_results closed pay [] s = Some s"
| "pay_results closed pay (result # rs) (view, ps) =
     (if closed result then pay_results closed pay rs (view, ps)
      else do {
        s \<leftarrow> pay view result ps;
        pay_results closed pay rs s })"

definition pay_plResult ::
  "betting_env \<Rightarrow> int \<Rightarrow> CBettingsView \<Rightarrow> CPeerlessResultDB \<Rightarrow> pay_state \<Rightarrow> (CBettingsView \<times> pay_state) option" where
  "pay_plResult env nLastBlockHeight view result ps = do {
     let startKey = PeerlessBetKey (GetBetSearchStartHeight env nLastBlockHeight) COutPoint_null;
     (vEntriesToUpdate, ps) \<leftarrow> pay_entries env (nLastBlockHeight \<ge> nWagerrProtocolV3StartHeight (consensus env)) (nLastBlockHeight + 1)
       (settle_plBet env view nLastBlockHeight result) (entries_from startKey (bets view)) ps;
     Some (view\<lparr>bets := update_entries vEntriesToUpdate (bets view)\<rparr>, ps) }"

abbreviation new_pay_state :: "payouts \<Rightarrow> pay_state" where
  "new_pay_state p \<equiv> \<lparr>ps_payouts = p, effectivePayoutsSum = 0, grossPayoutsSum = 0\<rparr>"

definition GetPLBetPayoutsV3 ::
  "'d double_ops \<Rightarrow> betting_env \<Rightarrow> CBlockIndex \<Rightarrow> CBettingsView \<Rightarrow> payouts \<Rightarrow> (CBettingsView \<times> payouts) option" where
  "GetPLBetPayoutsV3 fp env pindexPrev view p = do {
     let nLastBlockHeight = bi_nHeight pindexPrev;
     (view, ps) \<leftarrow> pay_results (\<lambda>result. res_nResultType result = eventClosed) (pay_plResult env nLastBlockHeight)
       (GetPLResultsFromDB env view pindexPrev) (view, new_pay_state p);
     p \<leftarrow> (if \<not> nLastBlockHeight \<ge> nWagerrProtocolV3StartHeight (consensus env)
       then GetPLRewardPayoutsV2 fp env (nLastBlockHeight + 1) (ps_payouts ps)
       else Some (GetPLRewardPayoutsV3 env (nLastBlockHeight + 1) (i64 (grossPayoutsSum ps - effectivePayoutsSum ps)) (ps_payouts ps)));
     Some (view, p) }"

definition pay_fieldResult ::
  "betting_env \<Rightarrow> int \<Rightarrow> CBettingsView \<Rightarrow> CFieldResultDB \<Rightarrow> pay_state \<Rightarrow> (CBettingsView \<times> pay_state) option" where
  "pay_fieldResult env nLastBlockHeight view result ps = do {
     let startKey = PeerlessBetKey (GetBetSearchStartHeight env nLastBlockHeight) COutPoint_null;
     (vEntriesToUpdate, ps) \<leftarrow> pay_entries env True (nLastBlockHeight + 1)
       (settle_fieldBet env view result) (entries_from startKey (fieldBets view)) ps;
     Some (view\<lparr>fieldBets := update_entries vEntriesToUpdate (fieldBets view)\<rparr>, ps) }"

definition GetFieldBetPayoutsV4 :: "betting_env \<Rightarrow> CBlockIndex \<Rightarrow> CBettingsView \<Rightarrow> payouts \<Rightarrow> (CBettingsView \<times> payouts) option" where
  "GetFieldBetPayoutsV4 env pindexPrev view p =
     (if \<not> bi_nHeight pindexPrev \<ge> nWagerrProtocolV4StartHeight (consensus env) then Some (view, p)
      else do {
        (view, ps) \<leftarrow> pay_results (\<lambda>result. fres_nResultType result = eventClosed) (pay_fieldResult env (bi_nHeight pindexPrev))
          (GetFieldResultsFromDB env view pindexPrev) (view, new_pay_state p);
        Some (view, ps_payouts ps) })"

end
