(* ===== verification/GamePayouts.thy ===== *)
theory GamePayouts
  imports Payouts
begin

text \<open>
  The payouts of quick games and of chain games lotto: betting/bet_v3.cpp (\<open>GetQuickGamesBetPayouts\<close>,
  \<open>GetCGLottoBetPayoutsV3\<close>), betting/bet_v2.cpp (\<open>GetCGLottoBetPayoutsV2\<close>) and betting/quickgames/qgview.h.  The random
  number of a game is the proof of stake hash of the last block; the stake kernel is a parameter.
\<close>

section \<open>The random number of a block\<close>

text \<open>
  \<open>mapProofOfStake\<close> is the global map of proof hashes by block hash, zero where it has no entry.  By height:
  \<open>pos_BlockHash\<close> is the hash of the block of the active chain, \<open>None\<close> where the chain has none; \<open>pos_IsProofOfStake\<close> is
  asked of the block read from disk, and \<open>pos_CheckProofOfStake\<close> is the hash the stake kernel computes for it, \<open>None\<close> when
  its check fails.
\<close>

record pos_env =
  mapProofOfStake :: "uint256 \<Rightarrow> uint256"
  pos_BlockHash :: "int \<Rightarrow> uint256 option"
  pos_IsProofOfStake :: "int \<Rightarrow> bool"
  pos_CheckProofOfStake :: "int \<Rightarrow> uint256 option"

definition UintToArith256 :: "uint256 \<Rightarrow> 256 word" where
  "UintToArith256 a = of_nat (fold (\<lambda>(i, b) acc. acc + unat b * 256 ^ i) (enumerate 0 (ser_uint256 a)) 0)"

definition hash_of_block :: "pos_env \<Rightarrow> int \<Rightarrow> (256 word) option" where
  "hash_of_block pos nHeight = do {
     blockHash \<leftarrow> pos_BlockHash pos nHeight;
     let hashProofOfStake = UintToArith256 (mapProofOfStake pos blockHash);
     Some (if hashProofOfStake = 0 \<and> pos_IsProofOfStake pos nHeight
       then UintToArith256 (case pos_CheckProofOfStake pos nHeight of Some h \<Rightarrow> h | None \<Rightarrow> blockHash)
       else hashProofOfStake) }"

section \<open>Quick games\<close>

text \<open>A game of the framework: its handler returns the odds of a bet for a random number; \<open>None\<close> is a handler that does not return.\<close>

record CQuickGamesView =
  qg_name :: string
  qg_handler :: "bytes \<Rightarrow> 256 word \<Rightarrow> u32 option"
  qg_specialAddress :: string
  qg_nFeePermille :: u32
  qg_nOMNORewardPermille :: u32
  qg_nDevRewardPermille :: u32

definition quickGamesArr :: "string \<Rightarrow> CQuickGamesView list" where
  "quickGamesArr devAddress =
     [\<lparr>qg_name = ''Dice'', qg_handler = DiceHandler, qg_specialAddress = devAddress, qg_nFeePermille = 10,
       qg_nOMNORewardPermille = 400, qg_nDevRewardPermille = 100\<rparr>]"

text \<open>Winnings, fee and payout of a bet at the odds of its handler; \<open>odds - BET_ODDSDIVISOR\<close> is unsigned.\<close>

definition qg_amounts :: "CQuickGamesView \<Rightarrow> CAmount \<Rightarrow> u32 \<Rightarrow> CAmount \<times> CAmount" where
  "qg_amounts gameView betAmount odds =
     (let winningsPermille = i64 (betAmount * uint odds);
          feePermille = (if winningsPermille > 0
            then i64 (i64 (betAmount * uint (odds - 10000)) sdiv 1000 * uint (qg_nFeePermille gameView)) else 0)
      in (feePermille, if winningsPermille > 0 then i64 (winningsPermille - feePermille) sdiv BET_ODDSDIVISOR else 0))"

type_synonym rewards = "(string, CAmount) omap"

definition add_reward :: "string \<Rightarrow> CAmount \<Rightarrow> rewards \<Rightarrow> rewards" where
  "add_reward address reward m =
     (case om_lookup m address of None \<Rightarrow> om_update address reward m | Some r \<Rightarrow> om_update address (i64 (r + reward)) m)"

definition qg_reward :: "CAmount \<Rightarrow> u32 \<Rightarrow> CAmount" where
  "qg_reward feePermille permille = i64 (feePermille sdiv 1000 * uint permille) sdiv BET_ODDSDIVISOR"

text \<open>One bet: \<open>None\<close> when the handler does not return; no bet to write back when no oracle can be paid.\<close>

definition pay_qgBet ::
  "betting_env \<Rightarrow> int \<Rightarrow> CQuickGamesView \<Rightarrow> 256 word \<Rightarrow> PeerlessBetKey \<Rightarrow> CQuickGamesBetDB \<Rightarrow> payouts \<times> rewards \<Rightarrow>
   (CQuickGamesBetDB option \<times> payouts \<times> rewards) option" where
  "pay_qgBet env nNewBlockHeight gameView hashProofOfStake qgKey qgBet s = do {
     odds \<leftarrow> qg_handler gameView (qgb_vBetInfo qgBet) hashProofOfStake;
     let (feePermille, payout) = qg_amounts gameView (qgb_betAmount qgBet) odds;
     let done = (\<lambda>resType. qgBet\<lparr>qgb_resultType := resType, qgb_completed := True, qgb_payout := payout\<rparr>);
     Some (if payout > 0 then
         (case GetFeePayoutAddresses env nNewBlockHeight of
            None \<Rightarrow> (None, s)
          | Some (DevPayoutAddr, OMNOPayoutAddr) \<Rightarrow>
              let p = add_payout (new_CBetOut payout (GetScriptForDestination env (qgb_playerAddress qgBet)) (qgb_betAmount qgBet) 0)
                    qgKey (if uint odds = BET_ODDSDIVISOR then quickGamesRefund else quickGamesPayout) (fst s);
                  m = add_reward (qg_specialAddress gameView) (qg_reward feePermille (qg_nDevRewardPermille gameView)) (snd s);
                  m = add_reward OMNOPayoutAddr (qg_reward feePermille (qg_nOMNORewardPermille gameView)) m
              in (Some (done (if uint odds = BET_ODDSDIVISOR then betResultRefund else betResultWin)), p, m))
       else (Some (done betResultLose), s)) }"

fun qg_loop ::
  "betting_env \<Rightarrow> pos_env \<Rightarrow> CQuickGamesView list \<Rightarrow> int \<Rightarrow> (PeerlessBetKey \<times> CQuickGamesBetDB) list \<Rightarrow> payouts \<times> rewards \<Rightarrow>
   ((PeerlessBetKey \<times> CQuickGamesBetDB) list \<times> payouts \<times> rewards) option" where
  "qg_loop env pos games nNewBlockHeight [] s = Some ([], s)"
| "qg_loop env pos games nNewBlockHeight ((qgKey, qgBet) # rest) s =
     (if blockHeight qgKey \<noteq> of_int (nNewBlockHeight - 1) then Some ([], s)
      else if qgb_completed qgBet then qg_loop env pos games nNewBlockHeight rest s
      else case vec_at games (unat (qgb_gameType qgBet)) of
          None \<Rightarrow> qg_loop env pos games nNewBlockHeight rest s
        | Some gameView \<Rightarrow> do {
            hashProofOfStake \<leftarrow> hash_of_block pos (nNewBlockHeight - 1);
            (bet, s) \<leftarrow> pay_qgBet env nNewBlockHeight gameView hashProofOfStake qgKey qgBet s;
            (vEntriesToUpdate, s) \<leftarrow> qg_loop env pos games nNewBlockHeight rest s;
            Some (case bet of None \<Rightarrow> vEntriesToUpdate | Some b \<Rightarrow> (qgKey, b) # vEntriesToUpdate, s) })"

definition qg_reward_outputs :: "betting_env \<Rightarrow> int \<Rightarrow> rewards \<Rightarrow> payouts \<Rightarrow> payouts" where
  "qg_reward_outputs env nNewBlockHeight mExpectedRewards p =
     fold (\<lambda>(address, reward). add_payout (new_CBetOut reward (GetScriptForDestination env (DecodeDestination env address)) 0 0)
         (PeerlessBetKey (of_int nNewBlockHeight) COutPoint_null) quickGamesReward)
       (entries mExpectedRewards) p"

definition GetQuickGamesBetPayouts ::
  "betting_env \<Rightarrow> pos_env \<Rightarrow> CQuickGamesView list \<Rightarrow> int \<Rightarrow> CBettingsView \<Rightarrow> payouts \<Rightarrow> (CBettingsView \<times> payouts) option" where
  "GetQuickGamesBetPayouts env pos games nNewBlockHeight view p =
     (if nNewBlockHeight - 1 \<ge> nQuickGamesEndHeight (consensus env) then Some (view, p)
      else do {
        let startKey = PeerlessBetKey (of_int (nNewBlockHeight - 1)) COutPoint_null;
        (vEntriesToUpdate, p, mExpectedRewards) \<leftarrow>
          qg_loop env pos games nNewBlockHeight (entries_from startKey (quickGamesBets view)) (p, om_empty);
        Some (view\<lparr>quickGamesBets := update_entries vEntriesToUpdate (quickGamesBets view)\<rparr>,
          qg_reward_outputs env nNewBlockHeight mExpectedRewards p) })"

section \<open>Chain games lotto\<close>

definition lotto_winner :: "256 word \<Rightarrow> nat \<Rightarrow> nat" where
  "lotto_winner hashProofOfStake noOfBets =
     (let quotient = hashProofOfStake div of_nat noOfBets;
          remainder = hashProofOfStake - quotient * of_nat noOfBets
      in unat (Get64 remainder 0))"

text \<open>The payout of the winner and the fee, from the pot.\<close>

definition lotto_pot :: "256 word \<Rightarrow> nat \<Rightarrow> CAmount \<Rightarrow> CAmount \<times> CAmount" where
  "lotto_pot hashProofOfStake noOfBets entranceFee =
     (let totalPot = (if hashProofOfStake = 0 then 0 else i64 (int noOfBets * entranceFee))
      in (i64 (totalPot sdiv 10 * 8), totalPot sdiv 50))"

definition lotto_candidates ::
  "betting_env \<Rightarrow> int \<Rightarrow> u32 \<Rightarrow> CAmount \<Rightarrow> CBettingsView \<Rightarrow> (PeerlessBetKey \<times> CChainGamesBetDB) list" where
  "lotto_candidates env nLastBlockHeight eventId entranceFee view =
     map (\<lambda>(key, cgBet). (key, cgBet\<lparr>cgbet_completed := True\<rparr>))
       (filter (\<lambda>(key, cgBet). \<not> (cgbet_completed cgBet \<or> cgbet_nEventId cgBet \<noteq> eventId \<or> cgbet_betAmount cgBet \<noteq> entranceFee))
         (entries_from (PeerlessBetKey (GetBetSearchStartHeight env nLastBlockHeight) COutPoint_null) (chainGamesLottoBets view)))"

type_synonym lotto_state = "(PeerlessBetKey \<times> CChainGamesBetDB) list \<times> payouts"

definition pay_lotto ::
  "betting_env \<Rightarrow> pos_env \<Rightarrow> int \<Rightarrow> u32 \<Rightarrow> CAmount \<Rightarrow> (PeerlessBetKey \<times> CChainGamesBetDB) list \<Rightarrow> lotto_state \<Rightarrow> lotto_state option" where
  "pay_lotto env pos nNewBlockHeight eventId entranceFee candidates s =
     (let out = (\<lambda>payout address. new_CBetOut payout (GetScriptForDestination env address) entranceFee eventId) in
      if length candidates = 1 then do {
        (key, cgBet) \<leftarrow> vec_at candidates 0;
        Some (fst s, if entranceFee > 0 then add_payout (out entranceFee (cgbet_playerAddress cgBet)) key chainGamesRefund (snd s) else snd s) }
      else if length candidates \<ge> 2 then do {
        hashProofOfStake \<leftarrow> hash_of_block pos (nNewBlockHeight - 1);
        let winnerNr = lotto_winner hashProofOfStake (length candidates);
        (key, cgBet) \<leftarrow> vec_at candidates winnerNr;
        let (winnerPayout, fee) = lotto_pot hashProofOfStake (length candidates) entranceFee;
        let updates = fst s @ candidates[winnerNr := (key, cgBet\<lparr>cgbet_payout := winnerPayout\<rparr>)];
        Some (if winnerPayout > 0 then
            (case GetFeePayoutScripts env nNewBlockHeight of
               None \<Rightarrow> s
             | Some (payoutScriptDev, payoutScriptOMNO) \<Rightarrow>
                 (updates, add_payout (new_CBetOut fee payoutScriptOMNO 0 0)
                    (PeerlessBetKey (of_int nNewBlockHeight) COutPoint_null) chainGamesReward
                    (add_payout (out winnerPayout (cgbet_playerAddress cgBet)) key chainGamesPayout (snd s))))
          else (updates, snd s)) }
      else Some s)"

fun lotto_results ::
  "betting_env \<Rightarrow> pos_env \<Rightarrow> int \<Rightarrow> CBettingsView \<Rightarrow> CChainGamesResultDB list \<Rightarrow> lotto_state \<Rightarrow> lotto_state option" where
  "lotto_results env pos nNewBlockHeight view [] s = Some s"
| "lotto_results env pos nNewBlockHeight view (result # rs) s =
     (case tdb_Read (chainGamesLottoEvents view) (ucast (cgres_nEventId result)) of
        None \<Rightarrow> lotto_results env pos nNewBlockHeight view rs s
      | Some cgEvent \<Rightarrow> do {
          let eventId = ucast (cgres_nEventId result);
          let entranceFee = uint (cgev_nEntryFee cgEvent) * COIN;
          s \<leftarrow> pay_lotto env pos nNewBlockHeight eventId entranceFee
            (lotto_candidates env (nNewBlockHeight - 1) eventId entranceFee view) s;
          lotto_results env pos nNewBlockHeight view rs s })"

definition GetCGLottoBetPayoutsV3 ::
  "betting_env \<Rightarrow> pos_env \<Rightarrow> CBlock \<Rightarrow> CCoinsViewCache \<Rightarrow> int \<Rightarrow> CBettingsView \<Rightarrow> payouts \<Rightarrow> (CBettingsView \<times> payouts) option" where
  "GetCGLottoBetPayoutsV3 env pos block coins nNewBlockHeight view p = do {
     lottoResults \<leftarrow> GetCGLottoEventResults env coins (nNewBlockHeight - 1) (vtx block);
     (vEntriesToUpdate, p) \<leftarrow> lotto_results env pos nNewBlockHeight view lottoResults ([], p);
     Some (view\<lparr>chainGamesLottoBets := update_entries vEntriesToUpdate (chainGamesLottoBets view)\<rparr>, p) }"

section \<open>Chain games lotto before version 3\<close>

text \<open>
  Bets are collected from the blocks of the last 14400 heights: the entry fee of the event, whether it was found, and the bets
  with their payout addresses.  The start time of the event stays zero in the code, so no block ends the search early.
\<close>

record lotto_scan =
  eventFee :: CAmount
  currentEventFound :: bool
  scan_candidates :: "(string \<times> PeerlessBetKey) list"

definition lotto_payout_address :: "betting_env \<Rightarrow> COutPoint \<Rightarrow> CTxDestination option" where
  "lotto_payout_address env prev =
     (case GetTransaction env None (op_hash prev) True of
        None \<Rightarrow> Some CNoDestination
      | Some txPrev \<Rightarrow> do {
          out \<leftarrow> vec_at (vout txPrev) (unat (op_n prev));
          Some (case ExtractDestination env (scriptPubKey out) of None \<Rightarrow> CNoDestination | Some address \<Rightarrow> address) })"

fun scan_outputs ::
  "betting_env \<Rightarrow> CCoinsViewCache \<Rightarrow> int \<Rightarrow> u32 \<Rightarrow> CTransaction \<Rightarrow> COutPoint \<Rightarrow> nat \<Rightarrow> CTxOut list \<Rightarrow> lotto_scan \<Rightarrow> lotto_scan option" where
  "scan_outputs env coins h currentEventID tx prev i [] st = Some st"
| "scan_outputs env coins h currentEventID tx prev i (txout # txouts) st = do {
     st \<leftarrow> (case ParseBettingTx txout of
         Some (ChainGamesEventTx evt) \<Rightarrow> do {
           ok \<leftarrow> IsValidOracleTx env coins tx h;
           Some (if ok \<and> ucast (cge_nEventId evt) = currentEventID
             then st\<lparr>eventFee := uint (cge_nEntryFee evt) * COIN, currentEventFound := True\<rparr> else st) }
       | Some (ChainGamesBetTx betTx) \<Rightarrow>
           if currentEventFound st \<and> ucast (cgb_nEventId betTx) = currentEventID \<and> eventFee st = nValue txout then do {
             payoutAddress \<leftarrow> lotto_payout_address env prev;
             Some (st\<lparr>scan_candidates := scan_candidates st @
               [(EncodeDestination env payoutAddress, PeerlessBetKey (of_int h) \<lparr>op_hash = tx_hash tx, op_n = of_nat i\<rparr>)]\<rparr>) }
           else Some st
       | _ \<Rightarrow> Some st);
     scan_outputs env coins h currentEventID tx prev (i + 1) txouts st }"

fun scan_txs :: "betting_env \<Rightarrow> CCoinsViewCache \<Rightarrow> int \<Rightarrow> u32 \<Rightarrow> CTransaction list \<Rightarrow> lotto_scan \<Rightarrow> lotto_scan option" where
  "scan_txs env coins h currentEventID [] st = Some st"
| "scan_txs env coins h currentEventID (tx # txs) st = do {
     txin \<leftarrow> vec_at (vin tx) 0;
     st \<leftarrow> scan_outputs env coins h currentEventID tx (prevout txin) 0 (vout tx) st;
     scan_txs env coins h currentEventID txs st }"

fun scan_blocks :: "betting_env \<Rightarrow> CCoinsViewCache \<Rightarrow> int \<Rightarrow> u32 \<Rightarrow> CBlock option list \<Rightarrow> lotto_scan \<Rightarrow> lotto_scan option" where
  "scan_blocks env coins h currentEventID [] st = Some st"
| "scan_blocks env coins h currentEventID (block # blocks) st = do {
     st \<leftarrow> (case block of None \<Rightarrow> Some st | Some b \<Rightarrow> scan_txs env coins h currentEventID (vtx b) st);
     scan_blocks env coins (h + 1) currentEventID blocks st }"

text \<open>\<open>ChainActive()[h]\<close> and its successors; a height outside the chain is the null pointer and the loop does not start.\<close>

definition lotto_scan_chain :: "betting_env \<Rightarrow> CCoinsViewCache \<Rightarrow> int \<Rightarrow> u32 \<Rightarrow> lotto_scan option" where
  "lotto_scan_chain env coins h currentEventID =
     scan_blocks env coins h currentEventID (if h < 0 then [] else drop (nat h) (vChain env))
       \<lparr>eventFee = 0, currentEventFound = False, scan_candidates = []\<rparr>"

definition pay_lottoV2 ::
  "betting_env \<Rightarrow> pos_env \<Rightarrow> int \<Rightarrow> u32 \<Rightarrow> CAmount \<Rightarrow> (string \<times> PeerlessBetKey) list \<Rightarrow> payouts \<Rightarrow> payouts option" where
  "pay_lottoV2 env pos nNewBlockHeight eventId entranceFee candidates p =
     (let out = (\<lambda>payout address. new_CBetOut payout (GetScriptForDestination env (DecodeDestination env address)) entranceFee eventId) in
      if length candidates = 1 then do {
        (winnerAddress, key) \<leftarrow> vec_at candidates 0;
        Some (if entranceFee > 0 then add_payout (out entranceFee winnerAddress) key chainGamesRefund p else p) }
      else if length candidates \<ge> 2 then do {
        hashProofOfStake \<leftarrow> hash_of_block pos (nNewBlockHeight - 1);
        (winnerAddress, key) \<leftarrow> vec_at candidates (lotto_winner hashProofOfStake (length candidates));
        let (winnerPayout, fee) = lotto_pot hashProofOfStake (length candidates) entranceFee;
        Some (if winnerPayout > 0 then
            (case GetFeePayoutScripts env nNewBlockHeight of
               None \<Rightarrow> p
             | Some (payoutScriptDev, payoutScriptOMNO) \<Rightarrow>
                 add_payout (new_CBetOut fee payoutScriptOMNO entranceFee 0) (PeerlessBetKey 0 COutPoint_null) chainGamesPayout
                   (add_payout (out winnerPayout winnerAddress) key chainGamesPayout p))
          else p) }
      else Some p)"

fun lottoV2_results :: "betting_env \<Rightarrow> pos_env \<Rightarrow> CCoinsViewCache \<Rightarrow> int \<Rightarrow> CChainGamesResultDB list \<Rightarrow> payouts \<Rightarrow> payouts option" where
  "lottoV2_results env pos coins nNewBlockHeight [] p = Some p"
| "lottoV2_results env pos coins nNewBlockHeight (result # rs) p = do {
     let currentEventID = ucast (cgres_nEventId result);
     st \<leftarrow> lotto_scan_chain env coins (nNewBlockHeight - 1 - 14400) currentEventID;
     p \<leftarrow> pay_lottoV2 env pos nNewBlockHeight currentEventID (eventFee st) (scan_candidates st) p;
     lottoV2_results env pos coins nNewBlockHeight rs p }"

definition GetCGLottoBetPayoutsV2 ::
  "betting_env \<Rightarrow> pos_env \<Rightarrow> CBlock \<Rightarrow> CCoinsViewCache \<Rightarrow> int \<Rightarrow> payouts \<Rightarrow> payouts option" where
  "GetCGLottoBetPayoutsV2 env pos block coins nNewBlockHeight p = do {
     allChainGames \<leftarrow> GetCGLottoEventResults env coins (nNewBlockHeight - 1) (vtx block);
     lottoV2_results env pos coins nNewBlockHeight allChainGames p }"

end
