(* ===== verification/BlockPayouts.thy ===== *)
theory BlockPayouts
  imports GamePayouts "HOL-Library.Multiset"
begin

text \<open>
  The payouts of a block: betting/bet.cpp \<open>GetBettingPayouts\<close> computes what the block after \<open>pindexPrev\<close> has to pay,
  \<open>ExtractPayouts\<close> finds the payouts in its coinstake transaction, and \<open>IsBlockPayoutsValid\<close> compares the two and records
  the payouts.
\<close>

section \<open>Expected payouts\<close>

text \<open>\<open>CPayoutInfoDB::operator<\<close>; an out point compares its hash and then its index.\<close>

definition CPayoutInfoDB_less :: "CPayoutInfoDB \<Rightarrow> CPayoutInfoDB \<Rightarrow> bool" where
  "CPayoutInfoDB_less a b =
     (let rank = (\<lambda>i. (blockHeight (betKey i), op_hash (outPoint (betKey i)), op_n (outPoint (betKey i)), PayoutType_value (payoutType i)))
      in rank a < rank b)"

text \<open>\<open>std::multimap::insert\<close>: behind the entries with an equal key.\<close>

type_synonym expected = "(CPayoutInfoDB \<times> CBetOut) list"

fun multimap_insert :: "CPayoutInfoDB \<times> CBetOut \<Rightarrow> expected \<Rightarrow> expected" where
  "multimap_insert x [] = [x]"
| "multimap_insert x (y # ys) = (if CPayoutInfoDB_less (fst x) (fst y) then x # y # ys else y # multimap_insert x ys)"

definition WBP_payouts ::
  "'d double_ops \<Rightarrow> betting_env \<Rightarrow> pos_env \<Rightarrow> CQuickGamesView list \<Rightarrow> CCoinsViewCache \<Rightarrow> CBlockIndex \<Rightarrow> CBlock \<Rightarrow> CBettingsView \<Rightarrow>
   (CBettingsView \<times> payouts) option" where
  "WBP_payouts fp env pos games coins pindexPrev block view =
     (let nNewBlockHeight = bi_nHeight pindexPrev + 1; version = GetWBPVersion (consensus env) nNewBlockHeight in
      if version = 5 then Some (view, [], [])
      else if version = 4 then do {
        (view, p) \<leftarrow> GetPLBetPayoutsV3 fp env pindexPrev view ([], []);
        (view, p) \<leftarrow> GetCGLottoBetPayoutsV3 env pos block coins nNewBlockHeight view p;
        (view, p) \<leftarrow> GetQuickGamesBetPayouts env pos games nNewBlockHeight view p;
        GetFieldBetPayoutsV4 env pindexPrev view p }
      else if version = 3 then do {
        (view, p) \<leftarrow> GetPLBetPayoutsV3 fp env pindexPrev view ([], []);
        (view, p) \<leftarrow> GetCGLottoBetPayoutsV3 env pos block coins nNewBlockHeight view p;
        GetQuickGamesBetPayouts env pos games nNewBlockHeight view p }
      else if version = 2 then do {
        (view, p) \<leftarrow> GetPLBetPayoutsV3 fp env pindexPrev view ([], []);
        p \<leftarrow> GetCGLottoBetPayoutsV2 env pos block coins nNewBlockHeight p;
        Some (view, p) }
      else Some (view, [], []))"

text \<open>
  \<open>pindexPrev = None\<close> is the null pointer and \<open>block = None\<close> a block that cannot be read: nothing is minted and the map is left
  as it was.  A result \<open>None\<close> includes the failed assertion that the two vectors have one length.
\<close>

definition GetBettingPayouts ::
  "'d double_ops \<Rightarrow> betting_env \<Rightarrow> pos_env \<Rightarrow> CQuickGamesView list \<Rightarrow> CCoinsViewCache \<Rightarrow> CBlockIndex option \<Rightarrow> CBlock option \<Rightarrow>
   expected \<Rightarrow> CBettingsView \<Rightarrow> (CBettingsView \<times> CAmount \<times> expected) option" where
  "GetBettingPayouts fp env pos games coins pindexPrev block mExpectedPayouts view =
     (case pindexPrev of
        None \<Rightarrow> Some (view, 0, mExpectedPayouts)
      | Some idx \<Rightarrow> (case block of
            None \<Rightarrow> Some (view, 0, mExpectedPayouts)
          | Some b \<Rightarrow> do {
              (view, vExpectedPayouts, vPayoutsInfo) \<leftarrow> WBP_payouts fp env pos games coins idx b view;
              if length vExpectedPayouts \<noteq> length vPayoutsInfo then None
              else Some (view, fold (\<lambda>out expectedMint. i64 (expectedMint + nValue out)) vExpectedPayouts 0,
                fold multimap_insert (zip vPayoutsInfo vExpectedPayouts) []) }))"

section \<open>Payouts found in a block\<close>

record extract_state =
  fStakesFound :: bool
  totalStakeAcc :: CAmount
  nPayoutOffset :: u32
  nWinnerPayments :: u32
  vFoundPayouts :: "CTxOut list"

fun extract_loop :: "CScript \<Rightarrow> CScript \<Rightarrow> CAmount \<Rightarrow> CAmount \<Rightarrow> CTxOut list \<Rightarrow> extract_state \<Rightarrow> extract_state" where
  "extract_loop devPayoutScript OMNOPayoutScript nMNReward stakeAmount [] st = st"
| "extract_loop devPayoutScript OMNOPayoutScript nMNReward stakeAmount (txout # txouts) st =
     extract_loop devPayoutScript OMNOPayoutScript nMNReward stakeAmount txouts
       (if fStakesFound st then
          let st = (if scriptPubKey txout \<noteq> devPayoutScript \<and> scriptPubKey txout \<noteq> OMNOPayoutScript
                then st\<lparr>nWinnerPayments := nWinnerPayments st + 1\<rparr> else st)
          in if nValue txout > 0 then st\<lparr>vFoundPayouts := vFoundPayouts st @ [txout]\<rparr> else st
        else
          let acc = i64 (totalStakeAcc st + nValue txout);
              st = st\<lparr>nPayoutOffset := nPayoutOffset st + 1, totalStakeAcc := acc\<rparr>
          in if i64 (acc + nMNReward) = stakeAmount then st\<lparr>fStakesFound := True\<rparr> else st)"

text \<open>The result, with the payouts and the index of the first of them; \<open>None\<close> is an access out of range.\<close>

definition ExtractPayouts ::
  "betting_env \<Rightarrow> CBlock \<Rightarrow> int \<Rightarrow> CAmount \<Rightarrow> CAmount \<Rightarrow> (bool \<times> CTxOut list \<times> u32) option" where
  "ExtractPayouts env block nBlockHeight nExpectedMint nExpectedMNReward = do {
     tx \<leftarrow> vec_at (vtx block) 1;
     txin \<leftarrow> vec_at (vin tx) 0;
     (case GetTransaction env None (op_hash (prevout txin)) True of
        None \<Rightarrow> Some (False, [], 0)
      | Some txPrev \<Rightarrow> do {
          prevOut \<leftarrow> vec_at (vout txPrev) (unat (op_n (prevout txin)));
          let stakeAmount = i64 (nValue prevOut + nExpectedMint);
          (case GetFeePayoutScripts env nBlockHeight of
             None \<Rightarrow> Some (False, [], 0)
           | Some (devPayoutScript, OMNOPayoutScript) \<Rightarrow>
               let mn = (length (vout tx) > 2 \<and> nValue (last (vout tx)) = nExpectedMNReward);
                   nMaxVoutI = (if mn then length (vout tx) - 1 else length (vout tx));
                   nMNReward = (if mn then nExpectedMNReward else 0);
                   st = extract_loop devPayoutScript OMNOPayoutScript nMNReward stakeAmount (take nMaxVoutI (vout tx))
                     \<lparr>fStakesFound = False, totalStakeAcc = 0, nPayoutOffset = 0, nWinnerPayments = 0, vFoundPayouts = []\<rparr>
               in Some (fStakesFound st \<or> nWinnerPayments st = 0 \<and> i64 (totalStakeAcc st + nMNReward) < stakeAmount,
                    vFoundPayouts st, nPayoutOffset st)) }) }"

section \<open>Validation\<close>

abbreviation pays :: "CTxOut \<Rightarrow> CPayoutInfoDB \<times> CBetOut \<Rightarrow> bool" where
  "pays found \<equiv> (\<lambda>eP. nValue (snd eP) = nValue found \<and> scriptPubKey (snd eP) = scriptPubKey found)"

text \<open>The loop that looks up each found payout, records it under its out point and erases it from the expected ones.\<close>

fun match_payouts ::
  "uint256 \<Rightarrow> u32 \<Rightarrow> u32 \<Rightarrow> CTxOut list \<Rightarrow> expected \<Rightarrow> (PeerlessBetKey, CPayoutInfoDB) omap \<Rightarrow> (PeerlessBetKey, CPayoutInfoDB) omap \<times> bool" where
  "match_payouts txHash nBlockHeight n [] expected db = (db, True)"
| "match_payouts txHash nBlockHeight n (found # rest) expected db =
     (case List.extract (pays found) expected of
        None \<Rightarrow> (db, False)
      | Some (before, eP, after) \<Rightarrow>
          match_payouts txHash nBlockHeight (n + 1) rest (before @ after)
            (fst (tdb_Write db (PeerlessBetKey nBlockHeight \<lparr>op_hash = txHash, op_n = n\<rparr>) (fst eP))))"

definition IsBlockPayoutsValid ::
  "betting_env \<Rightarrow> expected \<Rightarrow> CBlock \<Rightarrow> int \<Rightarrow> CAmount \<Rightarrow> CAmount \<Rightarrow> CBettingsView \<Rightarrow> (CBettingsView \<times> bool) option" where
  "IsBlockPayoutsValid env mExpectedPayouts block nBlockHeight nExpectedMint nExpectedMNReward view = do {
     tx \<leftarrow> vec_at (vtx block) 1;
     (ok, found, offset) \<leftarrow> ExtractPayouts env block nBlockHeight nExpectedMint nExpectedMNReward;
     if \<not> ok then Some (view, False)
     else if mset (map (\<lambda>eP. CTxOut.truncate (snd eP)) mExpectedPayouts) \<noteq> mset found then Some (view, False)
     else Some (let (db, ok) = match_payouts (tx_hash tx) (of_int nBlockHeight) offset found mExpectedPayouts (payoutsInfo view)
       in (view\<lparr>payoutsInfo := db\<rparr>, ok)) }"

end
