(* ===== verification/Settlement.thy ===== *)
theory Settlement
  imports Payouts SampleChain
begin

text \<open>
  What the payouts of team and field bets promise: every bet is settled and paid at most once, no bet stays open when its results are
  known, and the amount that is paid.  The locale \<open>bet_payouts\<close> states what the loop over the results of a block relies on for
  a database of bets; it is interpreted for team bets and for field bets.
\<close>

section \<open>What the payout loops do to the bets\<close>

definition settled_bet :: "('leg, 'event) CBetDB \<Rightarrow> ('leg, 'event) CBetDB \<Rightarrow> bool" where
  "settled_bet b b' \<longleftrightarrow> \<not> b_completed b \<and>
     b' = b\<lparr>b_resultType := b_resultType b', b_payoutHeight := b_payoutHeight b', b_payout := b_payout b', b_completed := True\<rparr>"

definition settles ::
  "(PeerlessBetKey, ('leg, 'event) CBetDB) omap \<Rightarrow> (PeerlessBetKey, ('leg, 'event) CBetDB) omap \<Rightarrow>
   (PeerlessBetKey \<times> ('leg, 'event) CBetDB) list \<Rightarrow> bool" where
  "settles db db' L \<longleftrightarrow> distinct (map fst L) \<and>
     (\<forall>k. om_lookup db' k = (case map_of L k of Some b' \<Rightarrow> Some b' | None \<Rightarrow> om_lookup db k)) \<and>
     (\<forall>(k, b') \<in> set L. \<exists>b. om_lookup db k = Some b \<and> settled_bet b b')"

definition winners :: "(PeerlessBetKey \<times> ('leg, 'event) CBetDB) list \<Rightarrow> (PeerlessBetKey \<times> ('leg, 'event) CBetDB) list" where
  "winners L = filter (\<lambda>(k, b). b_payout b > 0) L"

definition payout_of :: "betting_env \<Rightarrow> ('leg, 'event) CBetDB \<Rightarrow> CBetOut" where
  "payout_of env b = new_CBetOut (b_payout b) (GetScriptForDestination env (b_playerAddress b)) (b_betAmount b) 0"

definition paid :: "betting_env \<Rightarrow> (PeerlessBetKey \<times> ('leg, 'event) CBetDB) list \<Rightarrow> payouts \<Rightarrow> payouts \<Rightarrow> bool" where
  "paid env L p p' \<longleftrightarrow> fst p' = fst p @ map (\<lambda>(k, b). payout_of env b) (winners L) \<and>
     (\<exists>infos. snd p' = snd p @ infos \<and> map betKey infos = map fst (winners L) \<and> (\<forall>i\<in>set infos. payoutType i \<noteq> bettingReward))"

lemma settled_betD:
  assumes "settled_bet b b'"
  shows "\<not> b_completed b" "b_completed b'" "b_betAmount b' = b_betAmount b" "b_playerAddress b' = b_playerAddress b"
    "b_legs b' = b_legs b" "b_lockedEvents b' = b_lockedEvents b" "b_betTime b' = b_betTime b"
proof -
  have eq: "b' = b\<lparr>b_resultType := b_resultType b', b_payoutHeight := b_payoutHeight b', b_payout := b_payout b', b_completed := True\<rparr>"
    using assms by (simp add: settled_bet_def)
  show "\<not> b_completed b" using assms by (simp add: settled_bet_def)
  show "b_completed b'" "b_betAmount b' = b_betAmount b" "b_playerAddress b' = b_playerAddress b"
    "b_legs b' = b_legs b" "b_lockedEvents b' = b_lockedEvents b" "b_betTime b' = b_betTime b"
    by (subst eq, simp)+
qed

lemma paid_nil [simp]: "paid env [] p p" by (simp add: paid_def winners_def)

lemma paid_append: "paid env L p p' \<Longrightarrow> paid env M p' p'' \<Longrightarrow> paid env (L @ M) p p''"
  unfolding paid_def winners_def
  by (elim conjE exE, intro conjI, simp, rule_tac x = "infos @ infosa" in exI) auto

lemma settlesD:
  assumes "settles db db' L" and "(k, b') \<in> set L"
  shows "\<exists>b. om_lookup db k = Some b \<and> settled_bet b b'" "om_lookup db' k = Some b'"
proof -
  show "\<exists>b. om_lookup db k = Some b \<and> settled_bet b b'" using assms by (auto simp: settles_def)
  have "map_of L k = Some b'" using assms by (simp add: settles_def)
  then show "om_lookup db' k = Some b'" using assms(1) by (simp add: settles_def)
qed

lemma settles_nil [simp]: "settles db db []" by (simp add: settles_def)

lemma settles_append:
  assumes "settles db db' L" and "settles db' db'' M"
  shows "settles db db'' (L @ M)"
proof -
  have disj: "k \<notin> fst ` set L" if kM: "k \<in> fst ` set M" for k
  proof
    assume "k \<in> fst ` set L"
    then obtain b where b: "(k, b) \<in> set L" by auto
    obtain c where c: "(k, c) \<in> set M" using kM by auto
    obtain b0 c0 where "settled_bet b0 b" "om_lookup db' k = Some b" "settled_bet c0 c" "om_lookup db' k = Some c0"
      using settlesD [OF assms(1) b] settlesD [OF assms(2) c] by blast
    then show False using settled_betD(1) [of c0 c] settled_betD(2) [of b0 b] by simp
  qed
  have none: "map_of L k = None" if "k \<in> fst ` set M" for k
    using disj [OF that] by (simp add: map_of_eq_None_iff)
  have old: "om_lookup db' k = om_lookup db k" if "k \<in> fst ` set M" for k
    using assms(1) none [OF that] by (simp add: settles_def)
  show ?thesis
    unfolding settles_def
  proof (intro conjI allI ballI)
    show "distinct (map fst (L @ M))" using assms disj by (auto simp: settles_def)
    fix k
    show "om_lookup db'' k = (case map_of (L @ M) k of Some b' \<Rightarrow> Some b' | None \<Rightarrow> om_lookup db k)"
    proof (cases "k \<in> fst ` set M")
      case True
      then obtain b where "map_of M k = Some b" by (metis map_of_eq_None_iff not_Some_eq)
      moreover have "map_of M k = Some b \<longrightarrow> om_lookup db'' k = Some b" for b using assms(2) by (simp add: settles_def)
      ultimately show ?thesis using none [OF True] by (simp add: map_add_def)
    next
      case False
      then have "map_of M k = None" by (simp add: map_of_eq_None_iff)
      then show ?thesis using assms by (cases "map_of L k") (simp_all add: settles_def map_add_def)
    qed
  next
    fix e assume e: "e \<in> set (L @ M)"
    obtain k b' where kb: "e = (k, b')" by force
    have "\<exists>b. om_lookup db k = Some b \<and> settled_bet b b'"
    proof (cases "(k, b') \<in> set L")
      case False
      then have M: "(k, b') \<in> set M" using e kb by auto
      then have "om_lookup db' k = om_lookup db k" by (intro old) force
      then show ?thesis using settlesD(1) [OF assms(2) M] by simp
    qed (rule settlesD(1) [OF assms(1)])
    then show "case e of (k, b') \<Rightarrow> \<exists>b. om_lookup db k = Some b \<and> settled_bet b b'" using kb by simp
  qed
qed

lemma pay_bet_paid:
  assumes "\<not> b_completed b" and "pay_bet env v3 h k odds fl b ps = (b', ps')"
  shows "settled_bet b b'" "paid env [(k, b')] (ps_payouts ps) (ps_payouts ps')"
  using assms
  by (auto simp: pay_bet_def settled_bet_def paid_def winners_def payout_of_def add_payout_def Let_def split: if_splits prod.splits)

definition completing :: "(bool \<times> (u32 \<times> u32) \<times> leg_flags) option \<Rightarrow> bool" where
  "completing r \<longleftrightarrow> (case r of None \<Rightarrow> False | Some (completedBet, _) \<Rightarrow> completedBet)"

lemma pay_entries_Cons:
  assumes "pay_entries env True h settle ((k, b) # es) ps = Some (U, ps')"
  obtains (skip) "b_completed b \<or> \<not> completing (settle b)" "pay_entries env True h settle es ps = Some (U, ps')"
  | (pay) odds fl b' ps1 U' where "\<not> b_completed b" "completing (settle b)" "pay_bet env True h k odds fl b ps = (b', ps1)"
      "pay_entries env True h settle es ps1 = Some (U', ps')" "U = (k, b') # U'"
  using assms by (auto simp: completing_def split: if_splits bind_splits prod.splits)

lemma pay_entries_keys:
  "pay_entries env True h settle es ps = Some (U, ps') \<Longrightarrow>
   map fst U = map fst (filter (\<lambda>(k, b). \<not> b_completed b \<and> completing (settle b)) es)"
proof (induction es arbitrary: ps U)
  case (Cons e es)
  obtain k b where e: "e = (k, b)" by force
  show ?case by (rule pay_entries_Cons [OF Cons.prems [unfolded e]]) (use Cons.IH e in auto)
qed simp

lemma pay_entries_settled:
  "pay_entries env True h settle es ps = Some (U, ps') \<Longrightarrow> (k, b') \<in> set U \<Longrightarrow> \<exists>b. (k, b) \<in> set es \<and> settled_bet b b'"
proof (induction es arbitrary: ps U)
  case (Cons e es)
  obtain k1 b1 where e: "e = (k1, b1)" by force
  show ?case
  proof (rule pay_entries_Cons [OF Cons.prems(1) [unfolded e]])
    fix odds fl b2 ps1 U' assume pay: "\<not> b_completed b1" "pay_bet env True h k1 odds fl b1 ps = (b2, ps1)"
      "pay_entries env True h settle es ps1 = Some (U', ps')" "U = (k1, b2) # U'"
    then consider "(k, b') = (k1, b2)" | "(k, b') \<in> set U'" using Cons.prems(2) by auto
    then show ?thesis
    proof cases
      case 1
      then show ?thesis using pay_bet_paid(1) [OF pay(1,2)] e by auto
    next
      case 2
      then show ?thesis using Cons.IH [OF pay(3)] by auto
    qed
  next
    assume "pay_entries env True h settle es ps = Some (U, ps')"
    then show ?thesis using Cons.IH [of ps U] Cons.prems(2) by auto
  qed
qed simp

lemma pay_entries_paid:
  "pay_entries env True h settle es ps = Some (U, ps') \<Longrightarrow> paid env U (ps_payouts ps) (ps_payouts ps')"
proof (induction es arbitrary: ps U)
  case (Cons e es)
  obtain k b where e: "e = (k, b)" by force
  show ?case
  proof (rule pay_entries_Cons [OF Cons.prems [unfolded e]])
    fix odds fl b' ps1 U' assume pay: "\<not> b_completed b" "pay_bet env True h k odds fl b ps = (b', ps1)"
      "pay_entries env True h settle es ps1 = Some (U', ps')" "U = (k, b') # U'"
    show ?thesis using paid_append [OF pay_bet_paid(2) [OF pay(1,2)] Cons.IH [OF pay(3)]] pay(4) by simp
  qed (rule Cons.IH)
qed simp

lemma lookup_update_entries:
  "distinct (map fst U) \<Longrightarrow> \<forall>k \<in> fst ` set U. om_lookup db k \<noteq> None \<Longrightarrow>
   om_lookup (update_entries U db) k = (case map_of U k of Some v \<Rightarrow> Some v | None \<Rightarrow> om_lookup db k)"
proof (induction U arbitrary: db)
  case (Cons e U)
  obtain a v where e: "e = (a, v)" by force
  have "om_lookup db a \<noteq> None" using Cons.prems(2) e by auto
  then have "update_entries (e # U) db = update_entries U (om_update a v db)"
    by (auto simp: update_entries_def e tdb_Update_def tdb_Exists_def)
  moreover have "om_lookup (update_entries U (om_update a v db)) k =
      (case map_of U k of Some w \<Rightarrow> Some w | None \<Rightarrow> om_lookup (om_update a v db) k)"
    using Cons.prems by (intro Cons.IH) auto
  moreover have "map_of U a = None" using Cons.prems(1) e by (simp add: map_of_eq_None_iff)
  ultimately show ?case using e by (auto split: option.splits)
qed (simp add: update_entries_def)

lemma pay_entries_settles:
  assumes "pay_entries env True h settle (entries_from s db) ps = Some (U, ps')"
  shows "settles db (update_entries U db) U"
    and "fst ` set U = {k. s \<le> k \<and> (\<exists>b. om_lookup db k = Some b \<and> \<not> b_completed b \<and> completing (settle b))}"
proof -
  have "distinct (map fst (entries_from s db))" using entries_from_sorted [of s db] by (simp only: strict_sorted_iff)
  then have d: "distinct (map fst U)" unfolding pay_entries_keys [OF assms] by (rule distinct_map_filter)
  have ex: "\<exists>b. om_lookup db k = Some b \<and> settled_bet b b'" if "(k, b') \<in> set U" for k b'
    using pay_entries_settled [OF assms that] by (auto simp: in_entries_from_iff)
  then have dom: "\<forall>k \<in> fst ` set U. om_lookup db k \<noteq> None" by (metis imageE option.distinct(1) prod.collapse)
  show "settles db (update_entries U db) U"
    unfolding settles_def using d lookup_update_entries [OF d dom] ex by blast
  have "fst ` set U = fst ` set (filter (\<lambda>(k, b). \<not> b_completed b \<and> completing (settle b)) (entries_from s db))"
    using arg_cong [OF pay_entries_keys [OF assms], of set] by simp
  also have "\<dots> = {k. \<exists>b. (k, b) \<in> set (entries_from s db) \<and> \<not> b_completed b \<and> completing (settle b)}" by force
  finally show "fst ` set U = {k. s \<le> k \<and> (\<exists>b. om_lookup db k = Some b \<and> \<not> b_completed b \<and> completing (settle b))}"
    by (simp add: in_entries_from_iff conj_assoc)
qed

lemma pay_entries_total:
  "\<forall>(k, b) \<in> set es. \<not> b_completed b \<longrightarrow> settle b \<noteq> None \<Longrightarrow> pay_entries env True h settle es ps \<noteq> None"
proof (induction es arbitrary: ps)
  case (Cons e es)
  obtain k b where e: "e = (k, b)" by force
  have IH: "\<exists>r. pay_entries env True h settle es ps' = Some r" for ps' using Cons by simp
  show ?case
  proof (cases "b_completed b")
    case False
    then obtain c odds fl where s: "settle b = Some (c, odds, fl)" using Cons.prems e by auto
    obtain b' ps1 where p: "pay_bet env True h k odds fl b ps = (b', ps1)" by force
    then show ?thesis using IH [of ps] IH [of ps1] e False s p by (auto split: bind_splits)
  qed (use IH e in simp)
qed simp

section \<open>Paying the results of a block\<close>

text \<open>
  What the loops over the results of a block rely on, for a database of bets: the operation that pays one result settles bets of
  the database with \<open>pay_entries\<close>, and what it writes does not change how bets are settled.
\<close>

locale bet_payouts =
  fixes db :: "CBettingsView \<Rightarrow> (PeerlessBetKey, ('leg, 'event) CBetDB) omap"
    and put :: "(PeerlessBetKey, ('leg, 'event) CBetDB) omap \<Rightarrow> CBettingsView \<Rightarrow> CBettingsView"
    and settle :: "CBettingsView \<Rightarrow> 'r \<Rightarrow> ('leg, 'event) CBetDB \<Rightarrow> (bool \<times> (u32 \<times> u32) \<times> leg_flags) option"
    and pay :: "CBettingsView \<Rightarrow> 'r \<Rightarrow> pay_state \<Rightarrow> (CBettingsView \<times> pay_state) option"
    and env :: betting_env
    and start :: PeerlessBetKey
    and h :: int
    and v3 :: bool
  assumes db_put: "db (put d view) = d"
    and put_put: "put d (put d' view) = put d view"
    and put_db: "put (db view) view = view"
    and settle_put: "settle (put d view) = settle view"
    and pay_eq: "pay view result ps = do {
      (U, ps) \<leftarrow> pay_entries env v3 h (settle view result) (entries_from start (db view)) ps;
      Some (put (update_entries U (db view)) view, ps) }"
begin

definition settled_by :: "'r set \<Rightarrow> CBettingsView \<Rightarrow> PeerlessBetKey \<Rightarrow> bool" where
  "settled_by R view k \<longleftrightarrow> start \<le> k \<and>
     (\<exists>b. om_lookup (db view) k = Some b \<and> \<not> b_completed b \<and> (\<exists>r \<in> R. completing (settle view r b)))"

lemma pay_settles:
  assumes v3 and "pay view r ps = Some (view', ps')"
  shows "\<exists>U. settles (db view) (db view') U \<and> paid env U (ps_payouts ps) (ps_payouts ps') \<and> view' = put (db view') view \<and>
    fst ` set U = {k. settled_by {r} view k}"
proof -
  obtain U where U: "pay_entries env True h (settle view r) (entries_from start (db view)) ps = Some (U, ps')"
    and view': "view' = put (update_entries U (db view)) view"
    using assms by (auto simp: pay_eq split: bind_splits)
  show ?thesis using pay_entries_settles [OF U] pay_entries_paid [OF U] view' by (auto simp: db_put settled_by_def)
qed

lemma results_settle:
  assumes v3 and "pay_results closed pay rs (view, ps) = Some (view', ps')"
  shows "\<exists>L. settles (db view) (db view') L \<and> paid env L (ps_payouts ps) (ps_payouts ps') \<and> view' = put (db view') view \<and>
    fst ` set L = {k. settled_by {r \<in> set rs. \<not> closed r} view k}"
  using assms(2)
proof (induction rs arbitrary: view ps)
  case Nil
  then show ?case by (auto intro!: exI [of _ "[]"] simp: put_db settled_by_def)
next
  case (Cons r rs)
  let ?R = "{r \<in> set rs. \<not> closed r}"
  show ?case
  proof (cases "closed r")
    case True
    then have "{x \<in> set (r # rs). \<not> closed x} = ?R" by auto
    then show ?thesis using Cons.IH [of view ps] Cons.prems True by simp
  next
    case False
    then obtain view1 ps1 where 1: "pay view r ps = Some (view1, ps1)" "pay_results closed pay rs (view1, ps1) = Some (view', ps')"
      using Cons.prems by (auto split: bind_splits)
    obtain U where U: "settles (db view) (db view1) U" "paid env U (ps_payouts ps) (ps_payouts ps1)" "view1 = put (db view1) view"
      "fst ` set U = {k. settled_by {r} view k}" using pay_settles [OF assms(1) 1(1)] by blast
    obtain L where L: "settles (db view1) (db view') L" "paid env L (ps_payouts ps1) (ps_payouts ps')" "view' = put (db view') view1"
      "fst ` set L = {k. settled_by ?R view1 k}" using Cons.IH [OF 1(2)] by blast
    have R: "{x \<in> set (r # rs). \<not> closed x} = insert r ?R" using False by auto
    have st: "settle view1 = settle view" by (subst U(3)) (rule settle_put)
    have "settled_by (insert r ?R) view k \<longleftrightarrow> k \<in> fst ` set U \<or> k \<in> fst ` set L" for k
    proof (cases "k \<in> fst ` set U")
      case True
      then show ?thesis using U(4) by (auto simp: settled_by_def)
    next
      case False
      then have "map_of U k = None" by (simp add: map_of_eq_None_iff)
      then have "om_lookup (db view1) k = om_lookup (db view) k" using U(1) by (simp add: settles_def)
      then show ?thesis using False U(4) L(4) by (auto simp: settled_by_def st)
    qed
    then have "fst ` set (U @ L) = {k. settled_by (insert r ?R) view k}" by auto
    moreover have "view' = put (db view') view" using L(3) U(3) by (metis put_put)
    ultimately show ?thesis
      unfolding R using settles_append [OF U(1) L(1)] paid_append [OF U(2) L(2)] by (intro exI [of _ "U @ L"] conjI)
  qed
qed

lemma results_total:
  assumes v3 and "\<And>k b r. om_lookup (db view) k = Some b \<Longrightarrow> \<not> b_completed b \<Longrightarrow> r \<in> set rs \<Longrightarrow> settle view r b \<noteq> None"
  shows "pay_results closed pay rs (view, ps) \<noteq> None"
  using assms(2)
proof (induction rs arbitrary: view ps)
  case (Cons r rs)
  show ?case
  proof (cases "closed r")
    case False
    have "pay_entries env True h (settle view r) (entries_from start (db view)) ps \<noteq> None"
      using Cons.prems by (intro pay_entries_total) (auto simp: in_entries_from_iff)
    then obtain view1 ps1 where 1: "pay view r ps = Some (view1, ps1)" using assms(1) by (auto simp: pay_eq)
    obtain U where U: "settles (db view) (db view1) U" "view1 = put (db view1) view" using pay_settles [OF assms(1) 1] by blast
    have st: "settle view1 = settle view" by (subst U(2)) (rule settle_put)
    have "pay_results closed pay rs (view1, ps1) \<noteq> None"
    proof (rule Cons.IH)
      fix k b r' assume kb: "om_lookup (db view1) k = Some b" "\<not> b_completed b" and r': "r' \<in> set rs"
      have "map_of U k \<noteq> Some b" using settlesD(1) [OF U(1), of k b] settled_betD(2) kb(2) by (blast dest: map_of_SomeD)
      then have "om_lookup (db view) k = Some b" using U(1) kb(1) by (cases "map_of U k") (auto simp: settles_def)
      then show "settle view1 r' b \<noteq> None" using Cons.prems kb(2) r' st by simp
    qed
    then show ?thesis using 1 False by simp
  qed (use Cons in simp)
qed simp

end

interpretation pl: bet_payouts bets "\<lambda>d view. view\<lparr>bets := d\<rparr>" "\<lambda>view. settle_plBet env view h" "pay_plResult env h" env
  "PeerlessBetKey (GetBetSearchStartHeight env h) COutPoint_null" "h + 1" "nWagerrProtocolV3StartHeight (consensus env) \<le> h" for env h
proof
  show "settle_plBet env (view\<lparr>bets := d\<rparr>) h = settle_plBet env view h" for view d
    unfolding settle_plBet_def by simp
  show "pay_plResult env h view result ps = do {
      (U, ps) \<leftarrow> pay_entries env (nWagerrProtocolV3StartHeight (consensus env) \<le> h) (h + 1) (settle_plBet env view h result)
        (entries_from (PeerlessBetKey (GetBetSearchStartHeight env h) COutPoint_null) (bets view)) ps;
      Some (view\<lparr>bets := update_entries U (bets view)\<rparr>, ps) }" for view result ps
    unfolding pay_plResult_def Let_def by (rule refl)
qed simp_all

interpretation field: bet_payouts fieldBets "\<lambda>d view. view\<lparr>fieldBets := d\<rparr>" "settle_fieldBet env" "pay_fieldResult env h" env
  "PeerlessBetKey (GetBetSearchStartHeight env h) COutPoint_null" "h + 1" True for env h
proof
  show "settle_fieldBet env (view\<lparr>fieldBets := d\<rparr>) = settle_fieldBet env view" for view d
    unfolding settle_fieldBet_def by simp
  show "pay_fieldResult env h view result ps = do {
      (U, ps) \<leftarrow> pay_entries env True (h + 1) (settle_fieldBet env view result)
        (entries_from (PeerlessBetKey (GetBetSearchStartHeight env h) COutPoint_null) (fieldBets view)) ps;
      Some (view\<lparr>fieldBets := update_entries U (fieldBets view)\<rparr>, ps) }" for view result ps
    unfolding pay_fieldResult_def Let_def by (rule refl)
qed simp_all

section \<open>When a bet is settled\<close>

definition settleable :: "('leg \<Rightarrow> u32) \<Rightarrow> u32 \<Rightarrow> ('leg \<Rightarrow> bool) \<Rightarrow> 'leg list \<Rightarrow> bool" where
  "settleable legEvent eventId known legs =
     (if length legs > 1 then list_ex (\<lambda>leg. legEvent leg = eventId) legs \<and> list_all known legs
      else case legs of [] \<Rightarrow> False | leg # _ \<Rightarrow> legEvent leg = eventId)"

lemma parlay_loop_completing:
  assumes known: "\<And>leg ev. settle leg ev = None \<longleftrightarrow> \<not> known leg"
  shows "(completing (parlay_loop settle legs evs first odds fl) \<longrightarrow> list_all known legs) \<and>
    (length legs \<le> length evs \<longrightarrow> parlay_loop settle legs evs first odds fl \<noteq> None \<and>
      (list_all known legs \<longrightarrow> completing (parlay_loop settle legs evs first odds fl)))"
proof (induction legs arbitrary: evs first odds fl)
  case (Cons leg legs)
  show ?case
  proof (cases evs)
    case (Cons ev evs')
    show ?thesis
    proof (cases "settle leg ev")
      case None
      then show ?thesis using Cons known [of leg ev] by (simp add: completing_def)
    next
      case (Some p)
      then have "known leg" using known [of leg ev] by simp
      then show ?thesis using Some Cons Cons.IH [of evs' False _ "flag_leg (fst (fst p)) (snd p) fl"] by (cases p) simp
    qed
  qed (simp add: completing_def)
qed (simp add: completing_def)

lemma settle_legs_completing:
  assumes "\<And>leg ev. settle leg ev = None \<longleftrightarrow> \<not> known leg"
  shows "completing (settle_legs legEvent eventId settle single bet) \<Longrightarrow> settleable legEvent eventId known (b_legs bet)"
    and "length (b_legs bet) \<le> length (b_lockedEvents bet) \<Longrightarrow> settle_legs legEvent eventId settle single bet \<noteq> None"
    and "length (b_legs bet) \<le> length (b_lockedEvents bet) \<Longrightarrow> settleable legEvent eventId known (b_legs bet) \<Longrightarrow>
      completing (settle_legs legEvent eventId settle single bet)"
proof -
  let ?r = "settle_legs legEvent eventId settle single bet"
  have "(completing ?r \<longrightarrow> settleable legEvent eventId known (b_legs bet)) \<and>
    (length (b_legs bet) \<le> length (b_lockedEvents bet) \<longrightarrow> ?r \<noteq> None \<and> (settleable legEvent eventId known (b_legs bet) \<longrightarrow> completing ?r))"
  proof (cases "length (b_legs bet) > 1")
    case True
    let ?p = "parlay_loop settle (b_legs bet) (b_lockedEvents bet) True (0, 0) no_flags"
    have "(completing ?p \<longrightarrow> list_all known (b_legs bet)) \<and> (length (b_legs bet) \<le> length (b_lockedEvents bet) \<longrightarrow> ?p \<noteq> None \<and>
        (list_all known (b_legs bet) \<longrightarrow> completing ?p))"
      by (rule parlay_loop_completing) (rule assms)
    moreover have "\<not> completing (Some (False, (0, 0), no_flags))" by (simp add: completing_def)
    ultimately show ?thesis
      using True by (cases "list_ex (\<lambda>leg. legEvent leg = eventId) (b_legs bet)") (simp_all add: settle_legs_def settleable_def)
  next
    case False
    then consider "b_legs bet = []" | leg where "b_legs bet = [leg]" by (cases "b_legs bet") auto
    then show ?thesis
      by cases (auto simp: settle_legs_def settleable_def completing_def split: list.split prod.split)
  qed
  then show "completing ?r \<Longrightarrow> settleable legEvent eventId known (b_legs bet)"
    and "length (b_legs bet) \<le> length (b_lockedEvents bet) \<Longrightarrow> ?r \<noteq> None"
    and "length (b_legs bet) \<le> length (b_lockedEvents bet) \<Longrightarrow> settleable legEvent eventId known (b_legs bet) \<Longrightarrow> completing ?r"
    by blast+
qed

lemma settle_plBet_completing:
  fixes view :: CBettingsView
  defines "known \<equiv> \<lambda>leg. tdb_Read (results view) (leg_nEventId leg) \<noteq> None"
  shows "completing (settle_plBet env view h r bet) \<Longrightarrow> settleable leg_nEventId (res_nEventId r) known (b_legs bet)"
    and "length (b_legs bet) \<le> length (b_lockedEvents bet) \<Longrightarrow> settle_plBet env view h r bet \<noteq> None"
    and "length (b_legs bet) \<le> length (b_lockedEvents bet) \<Longrightarrow> settleable leg_nEventId (res_nEventId r) known (b_legs bet) \<Longrightarrow>
      completing (settle_plBet env view h r bet)"
  unfolding settle_plBet_def Let_def
  by (rule settle_legs_completing [where known = known]; simp add: known_def split: option.splits)+

section \<open>Team bets and field bets\<close>

lemma ser_uint256_less: "ser_uint256 x < ser_uint256 y \<longleftrightarrow> x < y"
proof -
  have "unat z < 256 ^ 32" for z :: uint256 using unsigned_less [of z, where 'a = nat] by (simp del: unsigned_less)
  then show ?thesis by (simp only: ser_uint256_def be_bytes_less word_less_nat_alt)
qed

lemma null_key_le:
  assumes "op_hash (outPoint k) \<noteq> 0"
  shows "PeerlessBetKey h COutPoint_null \<le> k \<longleftrightarrow> h \<le> blockHeight k"
proof -
  have "ser_COutPoint COutPoint_null < ser_COutPoint (outPoint k)"
    using assms by (simp add: ser_COutPoint_def COutPoint_null_def list_less_append ser_uint256_less word_gt_0)
  then show ?thesis by (auto simp: PeerlessBetKey_le_iff)
qed

lemma GetPLRewardPayoutsV3_rewards:
  "\<exists>rewards. fst (GetPLRewardPayoutsV3 env h fee p) = fst p @ map fst rewards \<and>
     snd (GetPLRewardPayoutsV3 env h fee p) = snd p @ map snd rewards \<and> length rewards \<le> 2 \<and>
     (\<forall>(out, info) \<in> set rewards. nValue out > 0 \<and> info = \<lparr>betKey = PeerlessBetKey (of_int h) COutPoint_null, payoutType = bettingReward\<rparr>)"
proof -
  let ?i = "\<lparr>betKey = PeerlessBetKey (of_int h) COutPoint_null, payoutType = bettingReward\<rparr>"
  have add: "\<exists>rewards. fst p' = fst q @ map fst rewards \<and> snd p' = snd q @ map snd rewards \<and> length rewards \<le> 1 \<and>
      (\<forall>(out, info) \<in> set rewards. nValue out > 0 \<and> info = ?i)"
    if "p' = (if v > 0 then add_payout (new_CBetOut v s 0 0) (PeerlessBetKey (of_int h) COutPoint_null) bettingReward q else q)" for p' q v s
    using that by (intro exI [of _ "if v > 0 then [(new_CBetOut v s 0 0, ?i)] else []"])
      (auto simp: add_payout_def new_CBetOut_def split: prod.splits)
  show ?thesis
  proof (cases "GetFeePayoutScripts env h")
    case None
    then show ?thesis by (intro exI [of _ "[]"]) (simp add: GetPLRewardPayoutsV3_def)
  next
    case (Some ss)
    obtain dev omno where ss: "ss = (dev, omno)" by force
    define q where "q = (if i64 (fee * 1000) sdiv BET_ODDSDIVISOR > 0
      then add_payout (new_CBetOut (i64 (fee * 1000) sdiv BET_ODDSDIVISOR) dev 0 0) (PeerlessBetKey (of_int h) COutPoint_null) bettingReward p else p)"
    obtain r1 where r1: "fst q = fst p @ map fst r1" "snd q = snd p @ map snd r1" "length r1 \<le> 1"
      "\<forall>(out, info) \<in> set r1. nValue out > 0 \<and> info = ?i" using add [OF q_def] by blast
    define p' where "p' = (if i64 (fee * 4000) sdiv BET_ODDSDIVISOR > 0
      then add_payout (new_CBetOut (i64 (fee * 4000) sdiv BET_ODDSDIVISOR) omno 0 0) (PeerlessBetKey (of_int h) COutPoint_null) bettingReward q else q)"
    obtain r2 where r2: "fst p' = fst q @ map fst r2" "snd p' = snd q @ map snd r2" "length r2 \<le> 1"
      "\<forall>(out, info) \<in> set r2. nValue out > 0 \<and> info = ?i" using add [OF p'_def] by blast
    have "GetPLRewardPayoutsV3 env h fee p = p'"
      unfolding GetPLRewardPayoutsV3_def Some ss p'_def q_def by (simp only: option.case prod.case Let_def)
    then show ?thesis using r1 r2 by (intro exI [of _ "r1 @ r2"]) auto
  qed
qed

lemma GetPLBetPayoutsV3_settles:
  assumes v3: "nWagerrProtocolV3StartHeight (consensus env) \<le> bi_nHeight idx"
    and "GetPLBetPayoutsV3 fp env idx view p = Some (view', p')"
  shows "\<exists>L q fee. settles (bets view) (bets view') L \<and> paid env L p q \<and> view' = view\<lparr>bets := bets view'\<rparr> \<and>
    fst ` set L = {k. pl.settled_by env (bi_nHeight idx) {r \<in> set (GetPLResultsFromDB env view idx). res_nResultType r \<noteq> eventClosed} view k} \<and>
    p' = GetPLRewardPayoutsV3 env (bi_nHeight idx + 1) fee q"
proof -
  obtain ps where ps: "pay_results (\<lambda>result. res_nResultType result = eventClosed) (pay_plResult env (bi_nHeight idx))
      (GetPLResultsFromDB env view idx) (view, new_pay_state p) = Some (view', ps)"
    and p': "p' = GetPLRewardPayoutsV3 env (bi_nHeight idx + 1) (i64 (grossPayoutsSum ps - effectivePayoutsSum ps)) (ps_payouts ps)"
    using assms by (auto simp: GetPLBetPayoutsV3_def Let_def split: bind_splits)
  show ?thesis using pl.results_settle [OF v3 ps] p' unfolding pay_state.select_convs by blast
qed

lemma GetPLBetPayoutsV3_total:
  assumes v3: "nWagerrProtocolV3StartHeight (consensus env) \<le> bi_nHeight idx"
    and "\<And>k b. om_lookup (bets view) k = Some b \<Longrightarrow> length (b_legs b) \<le> length (b_lockedEvents b)"
  shows "\<exists>view' p'. GetPLBetPayoutsV3 fp env idx view p = Some (view', p')"
proof -
  have "pay_results (\<lambda>result. res_nResultType result = eventClosed) (pay_plResult env (bi_nHeight idx))
      (GetPLResultsFromDB env view idx) (view, new_pay_state p) \<noteq> None"
    using settle_plBet_completing(2) assms(2) by (intro pl.results_total [OF v3]) blast
  then show ?thesis using v3 by (auto simp: GetPLBetPayoutsV3_def Let_def)
qed

text \<open>
  C3: From protocol version 3 on, \<open>GetPLBetPayoutsV3\<close> pays every bet at most once.  There is one list of the bets it settles, with
  distinct keys; each of them was open before and is completed after, with the same stake, address and legs, and all other bets and
  all other databases are unchanged.  The payouts it adds are the positive payouts of these bets in order, each to the script of
  the player's address and filed under the key of the bet, and behind them at most two rewards.
\<close>

theorem GetPLBetPayoutsV3_pays_once:
  assumes "nWagerrProtocolV3StartHeight (consensus env) \<le> bi_nHeight idx"
    and "GetPLBetPayoutsV3 fp env idx view p = Some (view', p')"
  shows "\<exists>L q rewards. settles (bets view) (bets view') L \<and> view' = view\<lparr>bets := bets view'\<rparr> \<and> paid env L p q \<and>
    fst p' = fst q @ map fst rewards \<and> snd p' = snd q @ map snd rewards \<and> length rewards \<le> 2 \<and>
    list_all (\<lambda>(out, info). nValue out > 0 \<and> payoutType info = bettingReward) rewards"
proof -
  obtain L q fee where L: "settles (bets view) (bets view') L" "paid env L p q" "view' = view\<lparr>bets := bets view'\<rparr>"
    "p' = GetPLRewardPayoutsV3 env (bi_nHeight idx + 1) fee q"
    using GetPLBetPayoutsV3_settles [OF assms] by blast
  obtain rewards where "fst p' = fst q @ map fst rewards" "snd p' = snd q @ map snd rewards" "length rewards \<le> 2"
    "\<forall>(out, info) \<in> set rewards. nValue out > 0 \<and> info = \<lparr>betKey = PeerlessBetKey (of_int (bi_nHeight idx + 1)) COutPoint_null, payoutType = bettingReward\<rparr>"
    using GetPLRewardPayoutsV3_rewards [of env "bi_nHeight idx + 1" fee q] L(4) by blast
  then show ?thesis using L(1-3) by (intro exI [of _ L] exI [of _ q] exI [of _ rewards]) (auto simp: list_all_iff)
qed

text \<open>
  C8: From protocol version 3 on, a bet does not stay open when its results are known: if every stored bet locks an event for each of
  its legs, \<open>GetPLBetPayoutsV3\<close> returns, and every bet from the first block that is searched on that has a leg on an event with a
  result in the block, other than the result that the event is closed, and a known result for all its legs, is completed.
\<close>

theorem GetPLBetPayoutsV3_settles_bets:
  assumes "nWagerrProtocolV3StartHeight (consensus env) \<le> bi_nHeight idx"
    and "\<forall>k b. om_lookup (bets view) k = Some b \<longrightarrow> length (b_legs b) \<le> length (b_lockedEvents b)"
  shows "\<exists>view' p'. GetPLBetPayoutsV3 fp env idx view p = Some (view', p') \<and>
    (\<forall>k b r. om_lookup (bets view) k = Some b \<longrightarrow> PeerlessBetKey (GetBetSearchStartHeight env (bi_nHeight idx)) COutPoint_null \<le> k \<longrightarrow>
      r \<in> set (GetPLResultsFromDB env view idx) \<longrightarrow> res_nResultType r \<noteq> eventClosed \<longrightarrow>
      list_ex (\<lambda>leg. leg_nEventId leg = res_nEventId r) (b_legs b) \<longrightarrow>
      list_all (\<lambda>leg. om_lookup (results view) (leg_nEventId leg) \<noteq> None) (b_legs b) \<longrightarrow>
      (\<exists>b'. om_lookup (bets view') k = Some b' \<and> b_completed b'))"
proof -
  obtain view' p' where r: "GetPLBetPayoutsV3 fp env idx view p = Some (view', p')"
    using GetPLBetPayoutsV3_total [OF assms(1)] assms(2) by blast
  let ?R = "{r \<in> set (GetPLResultsFromDB env view idx). res_nResultType r \<noteq> eventClosed}"
  obtain L where L: "settles (bets view) (bets view') L" "fst ` set L = {k. pl.settled_by env (bi_nHeight idx) ?R view k}"
    using GetPLBetPayoutsV3_settles [OF assms(1) r] by blast
  have "\<exists>b'. om_lookup (bets view') k = Some b' \<and> b_completed b'"
    if kb: "om_lookup (bets view) k = Some b" "PeerlessBetKey (GetBetSearchStartHeight env (bi_nHeight idx)) COutPoint_null \<le> k"
      and rR: "r \<in> ?R" and legs: "list_ex (\<lambda>leg. leg_nEventId leg = res_nEventId r) (b_legs b)"
      "list_all (\<lambda>leg. om_lookup (results view) (leg_nEventId leg) \<noteq> None) (b_legs b)" for k b r
  proof (cases "k \<in> fst ` set L")
    case True
    then obtain b' where b': "(k, b') \<in> set L" by auto
    then show ?thesis using settlesD [OF L(1) b'] settled_betD(2) by blast
  next
    case False
    have "settleable leg_nEventId (res_nEventId r) (\<lambda>leg. tdb_Read (results view) (leg_nEventId leg) \<noteq> None) (b_legs b)"
      using legs by (cases "b_legs b") (auto simp: settleable_def tdb_Read_def)
    then have "completing (settle_plBet env view (bi_nHeight idx) r b)"
      using settle_plBet_completing(3) assms(2) kb(1) by blast
    then have "b_completed b" using False L(2) kb rR by (auto simp: pl.settled_by_def)
    moreover have "map_of L k = None" using False by (simp add: map_of_eq_None_iff)
    ultimately show ?thesis using L(1) kb(1) by (simp add: settles_def)
  qed
  then show ?thesis using r by blast
qed

definition sample_paid_bet :: CPeerlessBetDB where
  "sample_paid_bet = new_CBetDB (100 * COIN) (CKeyID 5) [\<lparr>leg_nEventId = 5, leg_nOutcome = moneyLineHomeWin\<rparr>]
     [CPeerlessBaseEventDB.truncate (new_CPeerlessExtendedEventDB\<lparr>nEventId := 5, nHomeOdds := 20000\<rparr>)] 0"

definition sample_result_view :: CBettingsView where
  "sample_result_view = sample_view\<lparr>results := om_update 5 \<lparr>res_nEventId = 5, res_nResultType = standardResult, res_nHomeScore = 1, res_nAwayScore = 0\<rparr> om_empty,
     bets := om_update (PeerlessBetKey 440 \<lparr>op_hash = 9, op_n = 1\<rparr>) sample_paid_bet om_empty\<rparr>"

abbreviation sample_index :: CBlockIndex where
  "sample_index \<equiv> \<lparr>bi_nHeight = 449, bi_vResultIDs = [5]\<rparr>"

lemma sample_result_view_wf:
  "\<forall>k b. om_lookup (bets sample_result_view) k = Some b \<longrightarrow> length (b_legs b) \<le> length (b_lockedEvents b)"
  by (simp add: sample_result_view_def sample_paid_bet_def new_CBetDB_def)

theorem GetPLBetPayoutsV3_pays_once_witness:
  "\<exists>view' p' L q rewards. GetPLBetPayoutsV3 fixed_ops sample_env sample_index sample_result_view ([], []) = Some (view', p') \<and>
    settles (bets sample_result_view) (bets view') L \<and> view' = sample_result_view\<lparr>bets := bets view'\<rparr> \<and> paid sample_env L ([], []) q \<and>
    fst p' = fst q @ map fst rewards \<and> snd p' = snd q @ map snd rewards \<and> length rewards \<le> 2 \<and>
    list_all (\<lambda>(out, info). nValue out > 0 \<and> payoutType info = bettingReward) rewards"
proof -
  have v3: "nWagerrProtocolV3StartHeight (consensus sample_env) \<le> bi_nHeight sample_index" by (simp add: CRegTestParams_def)
  obtain view' p' where r: "GetPLBetPayoutsV3 fixed_ops sample_env sample_index sample_result_view ([], []) = Some (view', p')"
    using GetPLBetPayoutsV3_total [OF v3, of sample_result_view fixed_ops "([], [])"] sample_result_view_wf by blast
  show ?thesis using r GetPLBetPayoutsV3_pays_once [OF v3 r] by blast
qed

theorem GetPLBetPayoutsV3_settles_bets_witness:
  "\<exists>view' p' b'. GetPLBetPayoutsV3 fixed_ops sample_env sample_index sample_result_view ([], []) = Some (view', p') \<and>
    om_lookup (bets view') (PeerlessBetKey 440 \<lparr>op_hash = 9, op_n = 1\<rparr>) = Some b' \<and> b_completed b'"
proof -
  have v3: "nWagerrProtocolV3StartHeight (consensus sample_env) \<le> bi_nHeight sample_index" by (simp add: CRegTestParams_def)
  let ?k = "PeerlessBetKey 440 \<lparr>op_hash = 9, op_n = 1\<rparr>"
  let ?r = "\<lparr>res_nEventId = 5, res_nResultType = standardResult, res_nHomeScore = 1, res_nAwayScore = 0\<rparr>"
  have "om_lookup (bets sample_result_view) ?k = Some sample_paid_bet" by (simp add: sample_result_view_def)
  moreover have "PeerlessBetKey (GetBetSearchStartHeight sample_env (bi_nHeight sample_index)) COutPoint_null \<le> ?k"
    by (simp add: GetBetSearchStartHeight_def CRegTestParams_def PeerlessBetKey_le_iff)
  moreover have "?r \<in> set (GetPLResultsFromDB sample_env sample_result_view sample_index)" "res_nResultType ?r \<noteq> eventClosed"
    by (simp_all add: GetPLResultsFromDB_def sample_result_view_def CRegTestParams_def tdb_Read_def ResultType_defs)
  moreover have "list_ex (\<lambda>leg. leg_nEventId leg = res_nEventId ?r) (b_legs sample_paid_bet)"
    "list_all (\<lambda>leg. om_lookup (results sample_result_view) (leg_nEventId leg) \<noteq> None) (b_legs sample_paid_bet)"
    by (simp_all add: sample_paid_bet_def new_CBetDB_def sample_result_view_def)
  ultimately show ?thesis
    using GetPLBetPayoutsV3_settles_bets [OF v3 sample_result_view_wf, of fixed_ops "([], [])"] by blast
qed

text \<open>
  Field bets are paid at most once as well: \<open>GetFieldBetPayoutsV4\<close> settles a list of open field bets with distinct keys, leaves
  all others and all other databases as they are, and adds their positive payouts in order and nothing else.
\<close>

lemma GetFieldBetPayoutsV4_pays_once:
  assumes "GetFieldBetPayoutsV4 env idx view p = Some (view', p')"
  shows "\<exists>L. settles (fieldBets view) (fieldBets view') L \<and> view' = view\<lparr>fieldBets := fieldBets view'\<rparr> \<and> paid env L p p'"
proof (cases "nWagerrProtocolV4StartHeight (consensus env) \<le> bi_nHeight idx")
  case True
  then obtain ps where ps: "pay_results (\<lambda>result. fres_nResultType result = eventClosed) (pay_fieldResult env (bi_nHeight idx))
      (GetFieldResultsFromDB env view idx) (view, new_pay_state p) = Some (view', ps)" and "p' = ps_payouts ps"
    using assms by (auto simp: GetFieldBetPayoutsV4_def split: bind_splits)
  then show ?thesis using field.results_settle [OF TrueI ps] unfolding pay_state.select_convs by blast
next
  case False
  then have "view' = view" "p' = p" using assms by (simp_all add: GetFieldBetPayoutsV4_def)
  then show ?thesis by (intro exI [of _ "[]"]) simp
qed

lemma settle_fieldBet_total: "length (b_legs bet) \<le> length (b_lockedEvents bet) \<Longrightarrow> settle_fieldBet env view r bet \<noteq> None"
  unfolding settle_fieldBet_def Let_def
  by (rule settle_legs_completing(2) [where known = "\<lambda>leg. tdb_Read (fieldResults view) (fleg_nEventId leg) \<noteq> None"]) simp_all

definition sample_field_view :: CBettingsView where
  "sample_field_view = sample_view\<lparr>fieldResults := om_update 5 \<lparr>fres_nEventId = 5, fres_nResultType = standardResult, contendersResults = om_update 1 place1 om_empty\<rparr> om_empty,
     fieldBets := om_update (PeerlessBetKey 440 \<lparr>op_hash = 9, op_n = 1\<rparr>)
       (new_CBetDB (100 * COIN) (CKeyID 5) [\<lparr>fleg_nEventId = 5, fleg_nOutcome = outright, fleg_nContenderId = 1\<rparr>] [new_CFieldEventDB] 0) om_empty\<rparr>"

lemma i64_upper_half: "2 ^ 63 \<le> x \<Longrightarrow> x < 2 ^ 64 \<Longrightarrow> i64 x = x - 2 ^ 64"
proof -
  assume x: "2 ^ 63 \<le> x" "x < 2 ^ 64"
  have "(x + 2 ^ 63) mod 2 ^ 64 = (x - 2 ^ 63 + 2 ^ 64) mod 2 ^ 64" by (simp add: algebra_simps)
  also have "\<dots> = x - 2 ^ 63" unfolding mod_add_self2 using x by (intro mod_pos_pos_trivial) simp_all
  finally show ?thesis by (simp add: i64_def)
qed

lemma sdiv_nonpos: "x \<le> 0 \<Longrightarrow> 0 < y \<Longrightarrow> (x :: int) sdiv y \<le> 0"
  by (auto simp: signed_divide_int_def sgn_if pos_imp_zdiv_nonneg_iff)

lemma bet_payout_exact: "0 \<le> a \<Longrightarrow> a * uint odds < 2 ^ 63 \<Longrightarrow> bet_payout a odds = a * uint odds div 10000"
proof -
  assume a: "0 \<le> a" "a * uint odds < 2 ^ 63"
  then have "0 \<le> a * uint odds" by simp
  then show ?thesis using a(2) unfolding bet_payout_def BET_ODDSDIVISOR_def by (subst i64_id) (simp_all add: sdiv_nonneg_eq)
qed

lemma bet_payout_wraps: "2 ^ 63 \<le> a * uint odds \<Longrightarrow> a * uint odds < 2 ^ 64 \<Longrightarrow> bet_payout a odds \<le> 0"
  by (simp add: bet_payout_def i64_upper_half BET_ODDSDIVISOR_def sdiv_nonpos)

lemma bet_payout_less:
  assumes "2 ^ 63 \<le> a * uint odds"
  shows "bet_payout a odds < a * uint odds div 10000"
proof (cases "a * uint odds < 2 ^ 64")
  case True
  have "(2 ^ 63 :: int) div 10000 \<le> a * uint odds div 10000" using assms by (intro zdiv_mono1) simp_all
  then show ?thesis using bet_payout_wraps [OF assms True] by simp
next
  case False
  let ?w = "i64 (a * uint odds)"
  have "?w sdiv 10000 \<le> 2 ^ 63 div 10000"
  proof (cases "0 \<le> ?w")
    case True
    then show ?thesis using i64_range [of "a * uint odds"] zdiv_mono1 [of ?w "2 ^ 63" 10000] by (simp add: sdiv_nonneg_eq)
  qed (use sdiv_nonpos [of ?w 10000] in simp)
  moreover have "(2 ^ 64 :: int) div 10000 \<le> a * uint odds div 10000" using False by (intro zdiv_mono1) simp_all
  ultimately show ?thesis by (simp add: bet_payout_def BET_ODDSDIVISOR_def)
qed

text \<open>
  C16: The payout of a settled bet whose stake is in the accepted range: it is the stake times the effective odds, rounded down, as
  long as the product fits into 64 bits with a sign.  If it does not, the bet pays less than that; and as long as it fits into 64 bits
  without a sign, the bet is even marked as lost, whatever it has won, and nothing is paid.
\<close>

theorem pay_bet_amount:
  assumes "nMinBetPayoutRange (consensus env) * COIN \<le> b_betAmount b" "b_betAmount b \<le> nMaxBetPayoutRange (consensus env) * COIN" "0 \<le> b_betAmount b"
    and "pay_bet env True h k odds fl b ps = (b', ps')"
  shows "(b_betAmount b * uint (snd odds) < 2 ^ 63 \<longrightarrow> b_payout b' = b_betAmount b * uint (snd odds) div 10000) \<and>
    (2 ^ 63 \<le> b_betAmount b * uint (snd odds) \<and> b_betAmount b * uint (snd odds) < 2 ^ 64 \<longrightarrow>
      b_resultType b' = betResultLose \<and> ps_payouts ps' = ps_payouts ps) \<and>
    (2 ^ 63 \<le> b_betAmount b * uint (snd odds) \<longrightarrow> b_payout b' < b_betAmount b * uint (snd odds) div 10000)"
proof -
  have range: "\<not> (b_betAmount b < nMinBetPayoutRange (consensus env) * COIN \<or> b_betAmount b > nMaxBetPayoutRange (consensus env) * COIN)"
    using assms by simp
  have "b_payout b' = bet_payout (b_betAmount b) (snd odds)"
    using assms(4) by (auto simp: pay_bet_def Let_def range split: if_splits)
  moreover have "b_resultType b' = betResultLose \<and> ps_payouts ps' = ps_payouts ps" if "bet_payout (b_betAmount b) (snd odds) \<le> 0"
    using assms(4) that by (auto simp: pay_bet_def Let_def range split: if_splits)
  ultimately show ?thesis
    using bet_payout_exact [OF assms(3), of "snd odds"] bet_payout_wraps [of "b_betAmount b" "snd odds"] bet_payout_less [of "b_betAmount b" "snd odds"] by simp
qed

theorem pay_bet_amount_witness:
  "parlay_loop (\<lambda>_ _. Some ((100000, 100000), 100000)) [(), (), ()] [(), (), ()] True (0, 0) no_flags =
     Some (True, (10000000, 10000000), no_flags) \<and>
   b_resultType (fst (pay_bet sample_env True 450 (PeerlessBetKey 440 COutPoint_null) (10000000, 10000000) no_flags (new_CBetDB (10000 * COIN) (CKeyID 5) [(), (), ()] [(), (), ()] 0)
     (new_pay_state ([], [])))) = betResultLose"
proof -
  let ?b = "new_CBetDB (10000 * COIN) (CKeyID 5) [(), (), ()] [(), (), ()] 0"
  obtain b' ps' where p: "pay_bet sample_env True 450 (PeerlessBetKey 440 COutPoint_null) (10000000, 10000000) no_flags ?b (new_pay_state ([], [])) = (b', ps')" by force
  have "b_betAmount ?b = 1000000000000" "nMinBetPayoutRange (consensus sample_env) * COIN = 2500000000"
    "nMaxBetPayoutRange (consensus sample_env) * COIN = 1000000000000"
    by (simp_all add: new_CBetDB_def COIN_def CRegTestParams_def)
  then have "b_resultType b' = betResultLose" using pay_bet_amount [OF _ _ _ p] by simp
  then show ?thesis using p by (simp add: multiply_odds_def flag_leg_def BET_ODDSDIVISOR_def)
qed

end
