(* ===== verification/BetCodec.thy ===== *)
theory BetCodec
  imports BetDB
begin

text \<open>
  How bets and payout information are written to their databases (the \<open>SERIALIZE_METHODS\<close> of betting/bet_db.h), and the proof
  that what the handlers store is read back unchanged.  The player address is written in its textual form, so the codecs take
  \<open>EncodeDestination\<close> and \<open>DecodeDestination\<close> of key_io.cpp as arguments; the laws hold for addresses that are decoded to themselves.
\<close>

section \<open>Writers and readers\<close>

definition ser_string :: "string \<Rightarrow> bytes" where
  "ser_string str = ser_vector ser_writedata8 (map (\<lambda>c. of_nat (of_char c)) str)"

definition unser_string :: "string reader" where
  "unser_string s = do { (bs, s) \<leftarrow> unser_vector ser_readdata8 s; Some (map (\<lambda>b. char_of (unat b)) bs, s) }"

fun BetResultType_value :: "BetResultType \<Rightarrow> u8" where
  "BetResultType_value betResultUnknown = 0"
| "BetResultType_value betResultWin = 1"
| "BetResultType_value betResultLose = 2"
| "BetResultType_value betResultRefund = 3"
| "BetResultType_value betResultPartialWin = 4"
| "BetResultType_value betResultPartialLose = 5"

text \<open>The cast of a byte to the enumeration; \<open>None\<close> is a value outside of it.\<close>

definition BetResultType_of :: "u8 \<Rightarrow> BetResultType option" where
  "BetResultType_of b = find (\<lambda>t. BetResultType_value t = b)
     [betResultUnknown, betResultWin, betResultLose, betResultRefund, betResultPartialWin, betResultPartialLose]"

definition ser_CPeerlessLegDB :: "CPeerlessLegDB \<Rightarrow> bytes" where
  "ser_CPeerlessLegDB obj = ser_writedata32 (leg_nEventId obj) @ ser_writedata8 (leg_nOutcome obj)"

definition unser_CPeerlessLegDB :: "CPeerlessLegDB reader" where
  "unser_CPeerlessLegDB s = do {
     (eventId, s) \<leftarrow> ser_readdata32 s;
     (outcome, s) \<leftarrow> ser_readdata8 s;
     Some (\<lparr>leg_nEventId = eventId, leg_nOutcome = outcome\<rparr>, s) }"

definition ser_CFieldLegDB :: "CFieldLegDB \<Rightarrow> bytes" where
  "ser_CFieldLegDB obj =
     ser_writedata32 (fleg_nEventId obj) @ ser_writedata8 (fleg_nOutcome obj) @ ser_writedata32 (fleg_nContenderId obj)"

definition unser_CFieldLegDB :: "CFieldLegDB reader" where
  "unser_CFieldLegDB s = do {
     (eventId, s) \<leftarrow> ser_readdata32 s;
     (market, s) \<leftarrow> ser_readdata8 s;
     (contenderId, s) \<leftarrow> ser_readdata32 s;
     Some (\<lparr>fleg_nEventId = eventId, fleg_nOutcome = market, fleg_nContenderId = contenderId\<rparr>, s) }"

text \<open>The members common to team and field bets, over the writers and readers of their legs and locked events.\<close>

definition ser_CBetDB ::
  "(CTxDestination \<Rightarrow> string) \<Rightarrow> ('leg \<Rightarrow> bytes) \<Rightarrow> ('event \<Rightarrow> bytes) \<Rightarrow> ('leg, 'event) CBetDB \<Rightarrow> bytes" where
  "ser_CBetDB encode wleg wevent obj =
     ser_int64 (b_betAmount obj) @ ser_string (encode (b_playerAddress obj)) @ ser_vector wleg (b_legs obj) @
     ser_vector wevent (b_lockedEvents obj) @ ser_int64 (b_betTime obj) @ ser_bool (b_completed obj) @
     ser_writedata8 (BetResultType_value (b_resultType obj)) @ ser_int64 (b_payout obj) @ ser_writedata32 (b_payoutHeight obj)"

definition unser_CBetDB ::
  "(string \<Rightarrow> CTxDestination) \<Rightarrow> 'leg reader \<Rightarrow> 'event reader \<Rightarrow> ('leg, 'event) CBetDB reader" where
  "unser_CBetDB decode rleg revent s = do {
     (betAmount, s) \<leftarrow> unser_int64 s;
     (address_str, s) \<leftarrow> unser_string s;
     (legs, s) \<leftarrow> unser_vector rleg s;
     (lockedEvents, s) \<leftarrow> unser_vector revent s;
     (betTime, s) \<leftarrow> unser_int64 s;
     (completed, s) \<leftarrow> unser_bool s;
     (res_type, s) \<leftarrow> ser_readdata8 s;
     (payout, s) \<leftarrow> unser_int64 s;
     (payoutHeight, s) \<leftarrow> ser_readdata32 s;
     resType \<leftarrow> BetResultType_of res_type;
     Some (\<lparr>b_betAmount = betAmount, b_playerAddress = decode address_str, b_legs = legs, b_lockedEvents = lockedEvents,
        b_betTime = betTime, b_completed = completed, b_resultType = resType, b_payout = payout,
        b_payoutHeight = payoutHeight\<rparr>, s) }"

definition ser_CPeerlessBetDB :: "(CTxDestination \<Rightarrow> string) \<Rightarrow> int \<Rightarrow> CPeerlessBetDB \<Rightarrow> bytes" where
  "ser_CPeerlessBetDB encode v3 = ser_CBetDB encode ser_CPeerlessLegDB (ser_CPeerlessBaseEventDB v3)"

definition unser_CPeerlessBetDB :: "(string \<Rightarrow> CTxDestination) \<Rightarrow> int \<Rightarrow> CPeerlessBetDB reader" where
  "unser_CPeerlessBetDB decode v3 = unser_CBetDB decode unser_CPeerlessLegDB (unser_CPeerlessBaseEventDB v3)"

definition ser_CFieldBetDB :: "(CTxDestination \<Rightarrow> string) \<Rightarrow> CFieldBetDB \<Rightarrow> bytes" where
  "ser_CFieldBetDB encode = ser_CBetDB encode ser_CFieldLegDB ser_CFieldEventDB"

definition unser_CFieldBetDB :: "(string \<Rightarrow> CTxDestination) \<Rightarrow> CFieldBetDB reader" where
  "unser_CFieldBetDB decode = unser_CBetDB decode unser_CFieldLegDB unser_CFieldEventDB"

definition ser_CChainGamesBetDB :: "(CTxDestination \<Rightarrow> string) \<Rightarrow> CChainGamesBetDB \<Rightarrow> bytes" where
  "ser_CChainGamesBetDB encode obj =
     ser_writedata32 (cgbet_nEventId obj) @ ser_bool (cgbet_completed obj) @ ser_int64 (cgbet_betAmount obj) @
     ser_string (encode (cgbet_playerAddress obj)) @ ser_int64 (cgbet_betTime obj) @ ser_int64 (cgbet_payout obj) @
     ser_writedata32 (cgbet_payoutHeight obj)"

definition unser_CChainGamesBetDB :: "(string \<Rightarrow> CTxDestination) \<Rightarrow> CChainGamesBetDB reader" where
  "unser_CChainGamesBetDB decode s = do {
     (eventId, s) \<leftarrow> ser_readdata32 s;
     (completed, s) \<leftarrow> unser_bool s;
     (betAmount, s) \<leftarrow> unser_int64 s;
     (address_str, s) \<leftarrow> unser_string s;
     (betTime, s) \<leftarrow> unser_int64 s;
     (payout, s) \<leftarrow> unser_int64 s;
     (payoutHeight, s) \<leftarrow> ser_readdata32 s;
     Some (\<lparr>cgbet_nEventId = eventId, cgbet_betAmount = betAmount, cgbet_playerAddress = decode address_str,
        cgbet_betTime = betTime, cgbet_payout = payout, cgbet_payoutHeight = payoutHeight, cgbet_completed = completed\<rparr>, s) }"

definition ser_CQuickGamesBetDB :: "(CTxDestination \<Rightarrow> string) \<Rightarrow> CQuickGamesBetDB \<Rightarrow> bytes" where
  "ser_CQuickGamesBetDB encode obj =
     ser_writedata8 (qgb_gameType obj) @ ser_vector ser_writedata8 (qgb_vBetInfo obj) @ ser_int64 (qgb_betAmount obj) @
     ser_string (encode (qgb_playerAddress obj)) @ ser_int64 (qgb_betTime obj) @
     ser_writedata8 (BetResultType_value (qgb_resultType obj)) @ ser_int64 (qgb_payout obj) @ ser_bool (qgb_completed obj)"

definition unser_CQuickGamesBetDB :: "(string \<Rightarrow> CTxDestination) \<Rightarrow> CQuickGamesBetDB reader" where
  "unser_CQuickGamesBetDB decode s = do {
     (game_type, s) \<leftarrow> ser_readdata8 s;
     (vBetInfo, s) \<leftarrow> unser_vector ser_readdata8 s;
     (betAmount, s) \<leftarrow> unser_int64 s;
     (address_str, s) \<leftarrow> unser_string s;
     (betTime, s) \<leftarrow> unser_int64 s;
     (res_type, s) \<leftarrow> ser_readdata8 s;
     (payout, s) \<leftarrow> unser_int64 s;
     (completed, s) \<leftarrow> unser_bool s;
     resType \<leftarrow> BetResultType_of res_type;
     Some (\<lparr>qgb_gameType = game_type, qgb_vBetInfo = vBetInfo, qgb_betAmount = betAmount,
        qgb_playerAddress = decode address_str, qgb_betTime = betTime, qgb_resultType = resType,
        qgb_payout = payout, qgb_completed = completed\<rparr>, s) }"

text \<open>What the C++ types and the handlers guarantee of the stored bets.\<close>

definition int64_ok :: "int \<Rightarrow> bool" where
  "int64_ok x \<longleftrightarrow> - (2 ^ 63) \<le> x \<and> x < 2 ^ 63"

definition address_ok :: "(CTxDestination \<Rightarrow> string) \<Rightarrow> (string \<Rightarrow> CTxDestination) \<Rightarrow> CTxDestination \<Rightarrow> bool" where
  "address_ok encode decode d \<longleftrightarrow> decode (encode d) = d \<and> length (encode d) \<le> MAX_SIZE"

definition bet_ok ::
  "(CTxDestination \<Rightarrow> string) \<Rightarrow> (string \<Rightarrow> CTxDestination) \<Rightarrow> ('leg \<Rightarrow> bool) \<Rightarrow> ('event \<Rightarrow> bool) \<Rightarrow> ('leg, 'event) CBetDB \<Rightarrow> bool" where
  "bet_ok encode decode legok eventok b \<longleftrightarrow>
     int64_ok (b_betAmount b) \<and> int64_ok (b_betTime b) \<and> int64_ok (b_payout b) \<and> address_ok encode decode (b_playerAddress b) \<and>
     (length (b_legs b) \<le> MAX_SIZE \<and> list_all legok (b_legs b)) \<and>
     (length (b_lockedEvents b) \<le> MAX_SIZE \<and> list_all eventok (b_lockedEvents b))"

definition cgbet_ok :: "(CTxDestination \<Rightarrow> string) \<Rightarrow> (string \<Rightarrow> CTxDestination) \<Rightarrow> CChainGamesBetDB \<Rightarrow> bool" where
  "cgbet_ok encode decode b \<longleftrightarrow>
     int64_ok (cgbet_betAmount b) \<and> int64_ok (cgbet_betTime b) \<and> int64_ok (cgbet_payout b) \<and>
     address_ok encode decode (cgbet_playerAddress b)"

definition qgbet_ok :: "(CTxDestination \<Rightarrow> string) \<Rightarrow> (string \<Rightarrow> CTxDestination) \<Rightarrow> CQuickGamesBetDB \<Rightarrow> bool" where
  "qgbet_ok encode decode b \<longleftrightarrow>
     int64_ok (qgb_betAmount b) \<and> int64_ok (qgb_betTime b) \<and> int64_ok (qgb_payout b) \<and>
     address_ok encode decode (qgb_playerAddress b) \<and> length (qgb_vBetInfo b) \<le> MAX_SIZE"

section \<open>Every stored bet is read back\<close>

lemma BetResultType_of_value [simp]: "BetResultType_of (BetResultType_value t) = Some t"
  by (cases t) (simp_all add: BetResultType_of_def)

lemma char_byte [simp]: "char_of (unat (of_nat (of_char c) :: u8)) = c"
proof -
  have "unat (of_nat (of_char c) :: u8) = (of_char c :: nat)"
    by (simp add: unat_of_nat)
  then show ?thesis by simp
qed

interpretation str: codec ser_string unser_string "\<lambda>s. length s \<le> MAX_SIZE"
  by standard (simp add: ser_string_def unser_string_def vec8.roundtrip list_all_iff comp_def)

interpretation leg: codec ser_CPeerlessLegDB unser_CPeerlessLegDB "\<lambda>_. True"
  by standard (simp add: ser_CPeerlessLegDB_def unser_CPeerlessLegDB_def codec_simps)

interpretation fieldLeg: codec ser_CFieldLegDB unser_CFieldLegDB "\<lambda>_. True"
  by standard (simp add: ser_CFieldLegDB_def unser_CFieldLegDB_def codec_simps)

lemma codec_bet:
  assumes "codec wleg rleg legok" and "codec wevent revent eventok"
  shows "codec (ser_CBetDB encode wleg wevent) (unser_CBetDB decode rleg revent) (bet_ok encode decode legok eventok)"
  using codec.roundtrip [OF codec_vector [OF assms(1)]] codec.roundtrip [OF codec_vector [OF assms(2)]]
  by unfold_locales
    (simp add: ser_CBetDB_def unser_CBetDB_def bet_ok_def int64_ok_def address_ok_def codec_simps str.roundtrip)

interpretation plBet: codec "ser_CPeerlessBetDB encode v3" "unser_CPeerlessBetDB decode v3"
  "bet_ok encode decode (\<lambda>_. True) (event_ok v3)" for encode decode v3
  unfolding ser_CPeerlessBetDB_def unser_CPeerlessBetDB_def by (rule codec_bet [OF leg.codec_axioms baseEvent.codec_axioms])

interpretation fieldBet: codec "ser_CFieldBetDB encode" "unser_CFieldBetDB decode"
  "bet_ok encode decode (\<lambda>_. True) fieldEvent_ok" for encode decode
  unfolding ser_CFieldBetDB_def unser_CFieldBetDB_def by (rule codec_bet [OF fieldLeg.codec_axioms fieldEvent.codec_axioms])

interpretation cgBet: codec "ser_CChainGamesBetDB encode" "unser_CChainGamesBetDB decode" "cgbet_ok encode decode" for encode decode
  by standard (simp add: ser_CChainGamesBetDB_def unser_CChainGamesBetDB_def cgbet_ok_def int64_ok_def address_ok_def
      codec_simps str.roundtrip)

interpretation qgBet: codec "ser_CQuickGamesBetDB encode" "unser_CQuickGamesBetDB decode" "qgbet_ok encode decode" for encode decode
  by standard (simp add: ser_CQuickGamesBetDB_def unser_CQuickGamesBetDB_def qgbet_ok_def int64_ok_def address_ok_def
      codec_simps str.roundtrip vec8.roundtrip list_all_iff)

section \<open>The databases of bets\<close>

interpretation betsDB: betting_db Exists Read Write Erase
  "ser_CPeerlessBetDB encode v3" "unser_CPeerlessBetDB decode v3" "bet_ok encode decode (\<lambda>_. True) (event_ok v3)"
  ser_PeerlessBetKey for encode decode v3
  by standard simp

interpretation fieldBetsDB: betting_db Exists Read Write Erase
  "ser_CFieldBetDB encode" "unser_CFieldBetDB decode" "bet_ok encode decode (\<lambda>_. True) fieldEvent_ok"
  ser_PeerlessBetKey for encode decode
  by standard simp

interpretation quickGamesBetsDB: betting_db Exists Read Write Erase
  "ser_CQuickGamesBetDB encode" "unser_CQuickGamesBetDB decode" "qgbet_ok encode decode" ser_PeerlessBetKey for encode decode
  by standard simp

interpretation chainGamesBetsDB: betting_db Exists Read Write Erase
  "ser_CChainGamesBetDB encode" "unser_CChainGamesBetDB decode" "cgbet_ok encode decode" ser_PeerlessBetKey for encode decode
  by standard simp

end
