(* ===== verification/PayoutsUndo.thy ===== *)
theory PayoutsUndo
  imports GamePayouts BetCodec BetUndo
begin

text \<open>
  The undo of payouts when a block is disconnected: \<open>UndoPLBetPayouts\<close> and \<open>UndoQGBetPayouts\<close> of betting/bet_v3.cpp,
  \<open>UndoFieldBetPayouts\<close> of betting/bet_v4.cpp, \<open>UndoPayoutsInfo\<close> and \<open>BettingUndo\<close> of betting/bet.cpp.
\<close>

section \<open>Team bets\<close>

definition reset_bet :: "('leg, 'event) CBetDB \<Rightarrow> ('leg, 'event) CBetDB" where
  "reset_bet uniBet = uniBet\<lparr>b_completed := False, b_resultType := betResultUnknown, b_payout := 0\<rparr>"

definition needUndo_plBet :: "CBettingsView \<Rightarrow> CPeerlessResultDB \<Rightarrow> CPeerlessBetDB \<Rightarrow> bool" where
  "needUndo_plBet view result uniBet =
     (if length (b_legs uniBet) > 1 then
        list_ex (\<lambda>leg. leg_nEventId leg = res_nEventId result) (b_legs uniBet) \<and>
        list_all (\<lambda>leg. tdb_Read (results view) (leg_nEventId leg) \<noteq> None) (b_legs uniBet)
      else case b_legs uniBet of [] \<Rightarrow> False | singleBet # _ \<Rightarrow> leg_nEventId singleBet = res_nEventId result)"

definition undo_plResult :: "betting_env \<Rightarrow> int \<Rightarrow> CPeerlessResultDB \<Rightarrow> CBettingsView \<Rightarrow> CBettingsView" where
  "undo_plResult env nCurrentHeight result view =
     (if res_nResultType result = eventClosed then view
      else let startKey = PeerlessBetKey (GetBetSearchStartHeight env nCurrentHeight) COutPoint_null;
               vEntriesToUpdate = [(uniBetKey, reset_bet uniBet). (uniBetKey, uniBet) \<leftarrow> entries_from startKey (bets view),
                 b_completed uniBet \<and> needUndo_plBet view result uniBet]
           in view\<lparr>bets := update_entries vEntriesToUpdate (bets view)\<rparr>)"

definition UndoPLBetPayouts :: "betting_env \<Rightarrow> CBlockIndex \<Rightarrow> CBettingsView \<Rightarrow> CBettingsView \<times> bool" where
  "UndoPLBetPayouts env pindexPrev view =
     (fold (undo_plResult env (bi_nHeight pindexPrev + 1)) (GetPLResultsFromDB env view pindexPrev) view, True)"

section \<open>Quick games\<close>

definition UndoQGBetPayouts :: "int \<Rightarrow> CBettingsView \<Rightarrow> CBettingsView \<times> bool" where
  "UndoQGBetPayouts height view =
     (let startKey = PeerlessBetKey (of_int height) COutPoint_null;
          vEntriesToUpdate = [(qgBetKey, qgBet\<lparr>qgb_completed := False, qgb_resultType := betResultUnknown, qgb_payout := 0\<rparr>).
            (qgBetKey, qgBet) \<leftarrow> entries_from startKey (quickGamesBets view), qgb_completed qgBet]
      in (view\<lparr>quickGamesBets := update_entries vEntriesToUpdate (quickGamesBets view)\<rparr>, True))"

section \<open>Field bets\<close>

text \<open>
  The code iterates over the database of team bets and reads its values as field bets, and asks the database of team results for
  field results.  \<open>None\<close> is a value that cannot be read as the other type: an exception of the stream, or the failed assertion
  that no bytes are left.
\<close>

definition bet_as_field :: "betting_env \<Rightarrow> CPeerlessBetDB \<Rightarrow> CFieldBetDB option" where
  "bet_as_field env uniBet =
     BytesToDbType (unser_CFieldBetDB (DecodeDestination env))
       (ser_CPeerlessBetDB (EncodeDestination env) (nWagerrProtocolV3StartHeight (consensus env)) uniBet)"

definition result_as_field :: "CBettingsView \<Rightarrow> u32 \<Rightarrow> bool option" where
  "result_as_field view eventId =
     (case tdb_Read (results view) eventId of
        None \<Rightarrow> Some False
      | Some res \<Rightarrow> map_option (\<lambda>_. True) (BytesToDbType unser_CFieldResultDB (ser_CPeerlessResultDB res)))"

fun legs_have_result :: "CBettingsView \<Rightarrow> CFieldLegDB list \<Rightarrow> bool option" where
  "legs_have_result view [] = Some True"
| "legs_have_result view (leg # legs) = do {
     found \<leftarrow> result_as_field view (fleg_nEventId leg);
     rest \<leftarrow> legs_have_result view legs;
     Some (found \<and> rest) }"

definition needUndo_fieldBet :: "CBettingsView \<Rightarrow> CFieldResultDB \<Rightarrow> CFieldBetDB \<Rightarrow> bool option" where
  "needUndo_fieldBet view result uniBet =
     (if length (b_legs uniBet) > 1 then
        (if list_ex (\<lambda>leg. fleg_nEventId leg = fres_nEventId result) (b_legs uniBet) then legs_have_result view (b_legs uniBet)
         else Some False)
      else Some (case b_legs uniBet of [] \<Rightarrow> False | singleBet # _ \<Rightarrow> fleg_nEventId singleBet = fres_nEventId result))"

fun undo_field_entries ::
  "betting_env \<Rightarrow> CBettingsView \<Rightarrow> CFieldResultDB \<Rightarrow> (PeerlessBetKey \<times> CPeerlessBetDB) list \<Rightarrow> (PeerlessBetKey \<times> CFieldBetDB) list option" where
  "undo_field_entries env view result [] = Some []"
| "undo_field_entries env view result ((uniBetKey, value) # rest) = do {
     uniBet \<leftarrow> bet_as_field env value;
     needUndo \<leftarrow> (if \<not> b_completed uniBet then Some False else needUndo_fieldBet view result uniBet);
     vEntriesToUpdate \<leftarrow> undo_field_entries env view result rest;
     Some (if needUndo then (uniBetKey, reset_bet uniBet) # vEntriesToUpdate else vEntriesToUpdate) }"

fun undo_fieldResults :: "betting_env \<Rightarrow> int \<Rightarrow> CFieldResultDB list \<Rightarrow> CBettingsView \<Rightarrow> CBettingsView option" where
  "undo_fieldResults env nCurrentHeight [] view = Some view"
| "undo_fieldResults env nCurrentHeight (result # rs) view =
     (if fres_nResultType result = eventClosed then undo_fieldResults env nCurrentHeight rs view
      else do {
        let startKey = PeerlessBetKey (GetBetSearchStartHeight env nCurrentHeight) COutPoint_null;
        vEntriesToUpdate \<leftarrow> undo_field_entries env view result (entries_from startKey (bets view));
        undo_fieldResults env nCurrentHeight rs (view\<lparr>fieldBets := update_entries vEntriesToUpdate (fieldBets view)\<rparr>) })"

definition UndoFieldBetPayouts :: "betting_env \<Rightarrow> CBlockIndex \<Rightarrow> CBettingsView \<Rightarrow> (CBettingsView \<times> bool) option" where
  "UndoFieldBetPayouts env pindexPrev view =
     map_option (\<lambda>view. (view, True)) (undo_fieldResults env (bi_nHeight pindexPrev + 1) (GetFieldResultsFromDB env view pindexPrev) view)"

section \<open>Payout information and the whole undo\<close>

fun erase_all :: "'k::linorder list \<Rightarrow> ('k, 'v) omap \<Rightarrow> ('k, 'v) omap \<times> bool" where
  "erase_all [] db = (db, True)"
| "erase_all (key # keys) db = (let (db, ok) = tdb_Erase db key in if \<not> ok then (db, False) else erase_all keys db)"

definition UndoPayoutsInfo :: "int \<Rightarrow> CBettingsView \<Rightarrow> CBettingsView \<times> bool" where
  "UndoPayoutsInfo height view =
     (let startKey = PeerlessBetKey (of_int height) COutPoint_null;
          entriesToDelete = takeWhile (\<lambda>key. uint (blockHeight key) = height) (map fst (entries_from startKey (payoutsInfo view)));
          (db, ok) = erase_all entriesToDelete (payoutsInfo view)
      in (view\<lparr>payoutsInfo := db\<rparr>, ok))"

definition BettingUndo ::
  "betting_env \<Rightarrow> CCoinsViewCache \<Rightarrow> CBettingsView \<Rightarrow> CBlockIndex \<Rightarrow> CTransaction list \<Rightarrow> CBettingsView \<Rightarrow> (CBettingsView \<times> bool) option" where
  "BettingUndo env coins up pprev txs view =
     (let nHeight = bi_nHeight pprev + 1 in
      if \<not> nHeight > nWagerrProtocolV2StartHeight (consensus env) then Some (view, True)
      else do {
        let (view, ok) = UndoPLBetPayouts env pprev view;
        if \<not> ok then Some (view, False)
        else do {
          let (view, ok) = UndoQGBetPayouts nHeight view;
          if \<not> ok then Some (view, False)
          else do {
            (view, ok) \<leftarrow> (if nHeight > nWagerrProtocolV4StartHeight (consensus env) then UndoFieldBetPayouts env pprev view
              else Some (view, True));
            if \<not> ok then Some (view, False)
            else do {
              let (view, ok) = UndoPayoutsInfo nHeight view;
              if \<not> ok then Some (view, False)
              else UndoBettingTxs env coins up (of_int nHeight) (rev txs) view } } } })"

end
