(* ===== verification/SettlementUndo.thy ===== *)
theory SettlementUndo
  imports Settlement PayoutsUndo
begin

text \<open>
  What the undo of payouts promises: team bets are reopened, the records of the payouts of a block are erased; and what it does not do:
  the payouts of quick games stay.
\<close>

section \<open>Undo of the payouts of team bets\<close>

lemma needUndo_settleable:
  "needUndo_plBet view r b \<longleftrightarrow>
     settleable leg_nEventId (res_nEventId r) (\<lambda>leg. tdb_Read (results view) (leg_nEventId leg) \<noteq> None) (b_legs b)"
  by (simp add: needUndo_plBet_def settleable_def)

lemma reset_bet_simps [simp]:
  "b_legs (reset_bet b) = b_legs b" "\<not> b_completed (reset_bet b)" "b_betAmount (reset_bet b) = b_betAmount b"
  by (simp_all add: reset_bet_def)

lemma reset_settled:
  assumes "settled_bet b b'" "b_resultType b = betResultUnknown" "b_payout b = 0"
  shows "(reset_bet b')\<lparr>b_payoutHeight := 0\<rparr> = b\<lparr>b_payoutHeight := 0\<rparr>"
  by (rule CBetDB.equality) (simp_all add: reset_bet_def settled_betD [OF assms(1)] assms(2,3))

lemma filtered_entries: "[(k, f v). (k, v) \<leftarrow> xs, P v] = map (\<lambda>(k, v). (k, f v)) (filter (\<lambda>(k, v). P v) xs)"
  by (induction xs) auto

lemma lookup_update_filtered:
  "om_lookup (update_entries [(k, f v). (k, v) \<leftarrow> entries_from start db, P v] db) k =
     map_option (\<lambda>v. if start \<le> k \<and> P v then f v else v) (om_lookup db k)"
proof -
  let ?U = "map (\<lambda>(k, v). (k, f v)) (filter (\<lambda>(k, v). P v) (entries_from start db))"
  have "distinct (map fst (entries_from start db))" using entries_from_sorted [of start db] by (simp only: strict_sorted_iff)
  then have d: "distinct (map fst ?U)" unfolding map_map by (simp add: comp_def case_prod_unfold distinct_map_filter)
  have in_U: "(k, w) \<in> set ?U \<longleftrightarrow> (\<exists>v. w = f v \<and> start \<le> k \<and> om_lookup db k = Some v \<and> P v)" for k w
    by (auto simp: in_entries_from_iff)
  have dom: "\<forall>k \<in> fst ` set ?U. om_lookup db k \<noteq> None"
  proof
    fix a assume "a \<in> fst ` set ?U"
    then obtain w where "(a, w) \<in> set ?U" by (rule imageE) (metis prod.collapse)
    then show "om_lookup db a \<noteq> None" using in_U by blast
  qed
  show ?thesis
    unfolding filtered_entries lookup_update_entries [OF d dom]
  proof (cases "map_of ?U k")
    case None
    then have "k \<notin> fst ` set ?U" by (simp only: map_of_eq_None_iff not_False_eq_True)
    then have "(k, w) \<notin> set ?U" for w by (metis fst_conv image_eqI)
    then have "om_lookup db k = Some v \<Longrightarrow> \<not> (start \<le> k \<and> P v)" for v using in_U [of k] by blast
    then show "(case map_of ?U k of Some v \<Rightarrow> Some v | None \<Rightarrow> om_lookup db k) = map_option (\<lambda>v. if start \<le> k \<and> P v then f v else v) (om_lookup db k)"
      unfolding None by (cases "om_lookup db k") auto
  next
    case (Some w)
    then have "(k, w) \<in> set ?U" by (rule map_of_SomeD)
    then obtain v where "w = f v" "start \<le> k" "om_lookup db k = Some v" "P v" using in_U by blast
    then show "(case map_of ?U k of Some v \<Rightarrow> Some v | None \<Rightarrow> om_lookup db k) = map_option (\<lambda>v. if start \<le> k \<and> P v then f v else v) (om_lookup db k)"
      unfolding Some by simp
  qed
qed

lemma lookup_undo_plResult:
  "om_lookup (bets (undo_plResult env h r view)) k = map_option
    (\<lambda>b. if PeerlessBetKey (GetBetSearchStartHeight env h) COutPoint_null \<le> k \<and> b_completed b \<and> res_nResultType r \<noteq> eventClosed \<and> needUndo_plBet view r b
      then reset_bet b else b) (om_lookup (bets view) k)"
  by (simp add: undo_plResult_def Let_def lookup_update_filtered option.map_ident)

lemma undo_plResult_results [simp]: "results (undo_plResult env h r view) = results view"
  by (simp add: undo_plResult_def Let_def)

lemma undo_plResult_frame: "undo_plResult env h r view = view\<lparr>bets := bets (undo_plResult env h r view)\<rparr>"
  by (simp add: undo_plResult_def Let_def)

lemma needUndo_cong: "results view = results view' \<Longrightarrow> b_legs b = b_legs b' \<Longrightarrow> needUndo_plBet view r b = needUndo_plBet view' r b'"
  by (simp add: needUndo_settleable)

lemma lookup_undo_fold:
  fixes env h
  defines "start \<equiv> PeerlessBetKey (GetBetSearchStartHeight env h) COutPoint_null"
  shows "om_lookup (bets (fold (undo_plResult env h) rs view)) k = map_option
    (\<lambda>b. if start \<le> k \<and> b_completed b \<and> (\<exists>r \<in> set rs. res_nResultType r \<noteq> eventClosed \<and> needUndo_plBet view r b) then reset_bet b else b)
    (om_lookup (bets view) k)"
proof (induction rs arbitrary: view)
  case (Cons r rs)
  have n: "needUndo_plBet (undo_plResult env h r view) r' b = needUndo_plBet view r' b" for r' b by (rule needUndo_cong) simp_all
  show ?case
    unfolding fold_Cons comp_def Cons lookup_undo_plResult n
    by (cases "om_lookup (bets view) k") (auto simp: start_def)
qed (simp add: option.map_ident)

lemma undo_fold_frame: "fold (undo_plResult env h) rs view = view\<lparr>bets := bets (fold (undo_plResult env h) rs view)\<rparr>"
proof (induction rs arbitrary: view)
  case (Cons r rs)
  obtain d where d: "undo_plResult env h r view = view\<lparr>bets := d\<rparr>" using undo_plResult_frame by blast
  let ?v = "view\<lparr>bets := d\<rparr>"
  have "fold (undo_plResult env h) rs ?v = ?v\<lparr>bets := bets (fold (undo_plResult env h) rs ?v)\<rparr>" by (rule Cons)
  also have "?v\<lparr>bets := x\<rparr> = view\<lparr>bets := x\<rparr>" for x by simp
  finally show ?case unfolding fold_Cons comp_def d .
qed simp


text \<open>
  C11: \<open>UndoPLBetPayouts\<close> takes back what \<open>GetPLBetPayoutsV3\<close> did to the bets, up to the height of the payout, which it leaves behind.
  This needs that open bets carry neither a result nor a payout, that no bet that was completed before depends on the results of the
  block, and that no open bet lies in the block that drops out of the search interval between the two calls.
\<close>

theorem UndoPLBetPayouts_reopens:
  fixes env idx
  defines "start h \<equiv> PeerlessBetKey (GetBetSearchStartHeight env h) COutPoint_null"
  assumes v3: "nWagerrProtocolV3StartHeight (consensus env) \<le> bi_nHeight idx"
    and pay: "GetPLBetPayoutsV3 fp env idx view p = Some (view', p')"
    and fresh: "\<forall>k b. om_lookup (bets view) k = Some b \<and> \<not> b_completed b \<longrightarrow>
      b_resultType b = betResultUnknown \<and> b_payout b = 0 \<and> (start (bi_nHeight idx) \<le> k \<longrightarrow> start (bi_nHeight idx + 1) \<le> k)"
    and old: "\<forall>k b. om_lookup (bets view) k = Some b \<and> b_completed b \<longrightarrow>
      (\<forall>r \<in> set (GetPLResultsFromDB env view idx). res_nResultType r = eventClosed \<or> \<not> needUndo_plBet view r b)"
  shows "\<exists>view''. UndoPLBetPayouts env idx view' = (view'', True) \<and> view'' = view\<lparr>bets := bets view''\<rparr> \<and>
    om_map (\<lambda>_ b. b\<lparr>b_payoutHeight := 0\<rparr>) (bets view'') = om_map (\<lambda>_ b. b\<lparr>b_payoutHeight := 0\<rparr>) (bets view)"
proof -
  let ?h = "bi_nHeight idx" and ?rs = "GetPLResultsFromDB env view idx"
  let ?R = "{r \<in> set ?rs. res_nResultType r \<noteq> eventClosed}"
  obtain L where L: "settles (bets view) (bets view') L" "view' = view\<lparr>bets := bets view'\<rparr>" "fst ` set L = {k. pl.settled_by env ?h ?R view k}"
    using GetPLBetPayoutsV3_settles [OF v3 pay] by blast
  have res: "results view' = results view" by (subst L(2)) simp
  define view'' where "view'' = fold (undo_plResult env (?h + 1)) ?rs view'"
  have undo: "UndoPLBetPayouts env idx view' = (view'', True)"
    unfolding UndoPLBetPayouts_def view''_def GetPLResultsFromDB_def res by simp
  have n: "needUndo_plBet view' r b = needUndo_plBet view r b'" if "b_legs b = b_legs b'" for r b b'
    using res that by (rule needUndo_cong)
  have eq: "map_option (\<lambda>b. b\<lparr>b_payoutHeight := 0\<rparr>) (om_lookup (bets view'') k) = map_option (\<lambda>b. b\<lparr>b_payoutHeight := 0\<rparr>) (om_lookup (bets view) k)" for k
  proof (cases "k \<in> fst ` set L")
    case True
    then obtain b' where kb': "(k, b') \<in> set L" by (rule imageE) (metis prod.collapse)
    obtain b where b: "om_lookup (bets view) k = Some b" "settled_bet b b'" using settlesD(1) [OF L(1) kb'] by blast
    have s: "start ?h \<le> k" and "\<exists>r \<in> ?R. completing (settle_plBet env view ?h r b)"
      using True L(3) b(1) by (auto simp: pl.settled_by_def start_def)
    then obtain r where r: "r \<in> ?R" "needUndo_plBet view r b" using settle_plBet_completing(1) by (auto simp: needUndo_settleable)
    have "needUndo_plBet view' r b'" using r(2) n [OF settled_betD(5) [OF b(2)]] by simp
    then have "om_lookup (bets view'') k = Some (reset_bet b')"
      using settlesD(2) [OF L(1) kb'] settled_betD(1,2) [OF b(2)] fresh b(1) s r(1)
      unfolding view''_def lookup_undo_fold start_def by auto
    moreover have "(reset_bet b')\<lparr>b_payoutHeight := 0\<rparr> = b\<lparr>b_payoutHeight := 0\<rparr>"
      using reset_settled [OF b(2)] fresh b(1) settled_betD(1) [OF b(2)] by blast
    ultimately show ?thesis using b(1) by simp
  next
    case False
    then have "map_of L k = None" by (simp add: map_of_eq_None_iff)
    then have same: "om_lookup (bets view') k = om_lookup (bets view) k" using L(1) by (simp add: settles_def)
    have "om_lookup (bets view'') k = om_lookup (bets view) k"
    proof (cases "om_lookup (bets view) k")
      case (Some b)
      then have "\<not> (b_completed b \<and> (\<exists>r \<in> set ?rs. res_nResultType r \<noteq> eventClosed \<and> needUndo_plBet view' r b))"
        using old n [of b b] by auto
      then show ?thesis unfolding view''_def lookup_undo_fold same Some by auto
    qed (simp add: view''_def lookup_undo_fold same)
    then show ?thesis by simp
  qed
  have "view'' = view'\<lparr>bets := bets view''\<rparr>" unfolding view''_def by (rule undo_fold_frame)
  moreover have "view'\<lparr>bets := d\<rparr> = view\<lparr>bets := d\<rparr>" for d by (subst L(2)) simp
  ultimately have "view'' = view\<lparr>bets := bets view''\<rparr>" by metis
  then show ?thesis using undo eq by (intro exI [of _ view''] conjI om_ext) simp_all
qed

theorem UndoPLBetPayouts_reopens_witness:
  "\<exists>view' p' view''. GetPLBetPayoutsV3 fixed_ops sample_env sample_index sample_result_view ([], []) = Some (view', p') \<and>
    UndoPLBetPayouts sample_env sample_index view' = (view'', True) \<and>
    om_map (\<lambda>_ b. b\<lparr>b_payoutHeight := 0\<rparr>) (bets view'') = om_map (\<lambda>_ b. b\<lparr>b_payoutHeight := 0\<rparr>) (bets sample_result_view)"
proof -
  have v3: "nWagerrProtocolV3StartHeight (consensus sample_env) \<le> bi_nHeight sample_index" by (simp add: CRegTestParams_def)
  obtain view' p' where r: "GetPLBetPayoutsV3 fixed_ops sample_env sample_index sample_result_view ([], []) = Some (view', p')"
    using GetPLBetPayoutsV3_total [OF v3, of sample_result_view fixed_ops "([], [])"] sample_result_view_wf by blast
  have start: "GetBetSearchStartHeight sample_env (bi_nHeight sample_index + 1) = GetBetSearchStartHeight sample_env (bi_nHeight sample_index)"
    by (simp add: GetBetSearchStartHeight_def CRegTestParams_def)
  have "b_resultType b = betResultUnknown \<and> b_payout b = 0 \<and> \<not> b_completed b" if "om_lookup (bets sample_result_view) k = Some b" for k b
    using that by (auto simp: sample_result_view_def sample_paid_bet_def new_CBetDB_def split: if_splits)
  then have "\<exists>view''. UndoPLBetPayouts sample_env sample_index view' = (view'', True) \<and> view'' = sample_result_view\<lparr>bets := bets view''\<rparr> \<and>
    om_map (\<lambda>_ b. b\<lparr>b_payoutHeight := 0\<rparr>) (bets view'') = om_map (\<lambda>_ b. b\<lparr>b_payoutHeight := 0\<rparr>) (bets sample_result_view)"
    by (intro UndoPLBetPayouts_reopens [OF v3 r]) (auto simp: start [simplified])
  then show ?thesis using r by blast
qed

section \<open>Undo of the payouts of quick games\<close>

lemma lookup_update_entries_other: "k \<notin> fst ` set U \<Longrightarrow> om_lookup (update_entries U db) k = om_lookup db k"
proof (induction U arbitrary: db)
  case (Cons e U)
  have "update_entries (e # U) db = update_entries U (fst (tdb_Update db (fst e) (snd e)))"
    by (simp add: update_entries_def case_prod_unfold)
  then show ?case using Cons by (simp add: tdb_Update_def)
qed (simp add: update_entries_def)

lemma uint_height: "0 \<le> h \<Longrightarrow> h < 2 ^ 31 \<Longrightarrow> uint (of_int h :: u32) = h"
  by (simp add: unsigned_of_int take_bit_int_eq_self)

lemma qg_loop_height:
  "qg_loop env pos games h es s = Some (U, s') \<Longrightarrow> (k, b) \<in> set U \<Longrightarrow> blockHeight k = of_int (h - 1)"
proof (induction env pos games h es s arbitrary: U rule: qg_loop.induct)
  case (2 env pos games h qgKey qgBet rest s)
  then show ?case by (auto split: if_splits option.splits bind_splits)
qed simp

text \<open>
  C39: \<open>UndoQGBetPayouts\<close>, called with the height of the disconnected block, takes back nothing of what \<open>GetQuickGamesBetPayouts\<close> did for
  that block: the payouts settle the bets of the block before, and the undo starts one block later, so every bet that the payouts
  changed is left as they changed it.
\<close>

theorem UndoQGBetPayouts_misses:
  assumes h: "0 < h" "h < 2 ^ 31"
    and pay: "GetQuickGamesBetPayouts env pos games h view p = Some (view', p')"
    and changed: "om_lookup (quickGamesBets view') k \<noteq> om_lookup (quickGamesBets view) k"
  shows "om_lookup (quickGamesBets (fst (UndoQGBetPayouts h view'))) k = om_lookup (quickGamesBets view') k"
proof -
  obtain U s where U: "qg_loop env pos games h (entries_from (PeerlessBetKey (of_int (h - 1)) COutPoint_null) (quickGamesBets view)) (p, om_empty) = Some (U, s)"
    and view': "quickGamesBets view' = update_entries U (quickGamesBets view)"
  proof (cases "nQuickGamesEndHeight (consensus env) \<le> h - 1")
    case True
    then show ?thesis using pay changed by (simp add: GetQuickGamesBetPayouts_def)
  next
    case False
    then show ?thesis using pay that by (auto simp: GetQuickGamesBetPayouts_def Let_def split: bind_splits)
  qed
  have "k \<in> fst ` set U" using changed lookup_update_entries_other unfolding view' by blast
  then obtain b where "(k, b) \<in> set U" by (rule imageE) (metis prod.collapse)
  then have "blockHeight k = of_int (h - 1)" by (rule qg_loop_height [OF U])
  moreover have "(of_int (h - 1) :: u32) < of_int h"
    using uint_height [of h] uint_height [of "h - 1"] h by (simp add: word_less_def)
  ultimately have "\<not> PeerlessBetKey (of_int h) COutPoint_null \<le> k" by (auto simp: PeerlessBetKey_le_iff)
  then show ?thesis
    unfolding UndoQGBetPayouts_def Let_def fst_conv by (simp add: lookup_update_filtered option.map_ident)
qed

section \<open>Undo of the payout information\<close>

lemma takeWhile_eq_filter:
  "sorted_wrt (\<lambda>a b. f a \<le> (f b :: 'a :: linorder)) xs \<Longrightarrow> \<forall>x \<in> set xs. c \<le> f x \<Longrightarrow> takeWhile (\<lambda>x. f x = c) xs = filter (\<lambda>x. f x = c) xs"
proof (induction xs)
  case (Cons x xs)
  show ?case
  proof (cases "f x = c")
    case False
    then have "f y \<noteq> c" if "y \<in> set xs" for y using Cons.prems that by fastforce
    then show ?thesis using False by (simp add: filter_empty_conv)
  qed (use Cons in simp)
qed simp

lemma erase_all_present:
  "distinct ks \<Longrightarrow> \<forall>k \<in> set ks. om_lookup db k \<noteq> None \<Longrightarrow>
   \<exists>db'. erase_all ks db = (db', True) \<and> (\<forall>k. om_lookup db' k = (if k \<in> set ks then None else om_lookup db k))"
proof (induction ks arbitrary: db)
  case (Cons a ks)
  have "\<exists>db'. erase_all ks (om_delete a db) = (db', True) \<and> (\<forall>k. om_lookup db' k = (if k \<in> set ks then None else om_lookup (om_delete a db) k))"
    using Cons.prems by (intro Cons.IH) auto
  moreover have "tdb_Erase db a = (om_delete a db, True)" using Cons.prems(2) by (simp add: tdb_Erase_def tdb_Exists_def)
  ultimately show ?case by auto
qed simp

text \<open>
  \<open>UndoPayoutsInfo\<close> succeeds, erases every record of a payout in the block of the given height from the first key that is searched on,
  and keeps the records of all other blocks.
\<close>

lemma UndoPayoutsInfo_erases:
  assumes "0 \<le> h" "h < 2 ^ 31"
  shows "\<exists>db. UndoPayoutsInfo h view = (view\<lparr>payoutsInfo := db\<rparr>, True) \<and>
    (\<forall>k. om_lookup db k = (if blockHeight k = of_int h \<and> PeerlessBetKey (of_int h) COutPoint_null \<le> k then None else om_lookup (payoutsInfo view) k))"
proof -
  let ?s = "PeerlessBetKey (of_int h) COutPoint_null"
  let ?ks = "map fst (entries_from ?s (payoutsInfo view))"
  have h: "uint (of_int h :: u32) = h" using assms by (rule uint_height)
  have in_ks: "k \<in> set ?ks \<longleftrightarrow> ?s \<le> k \<and> om_lookup (payoutsInfo view) k \<noteq> None" for k
    using in_entries_from_iff [of k _ ?s "payoutsInfo view"] by (auto simp: image_iff) (metis fst_conv)
  have "sorted_wrt (\<lambda>a b. blockHeight a \<le> blockHeight b) ?ks"
    by (rule sorted_wrt_mono_rel [OF _ entries_from_sorted]) (auto simp: PeerlessBetKey_less_iff)
  then have sorted: "sorted_wrt (\<lambda>a b. uint (blockHeight a) \<le> uint (blockHeight b)) ?ks" by (simp only: word_le_def)
  have "h \<le> uint (blockHeight k)" if "k \<in> set ?ks" for k
    using that [unfolded in_ks] h by (auto simp: PeerlessBetKey_le_iff word_less_def)
  then have tw: "takeWhile (\<lambda>k. uint (blockHeight k) = h) ?ks = filter (\<lambda>k. uint (blockHeight k) = h) ?ks"
    using sorted by (intro takeWhile_eq_filter) auto
  have iff: "uint (blockHeight k) = h \<longleftrightarrow> blockHeight k = of_int h" for k using h by (metis word_uint_eq_iff)
  have "distinct ?ks" using entries_from_sorted [of ?s "payoutsInfo view"] by (simp only: strict_sorted_iff)
  then obtain db where db: "erase_all (filter (\<lambda>k. uint (blockHeight k) = h) ?ks) (payoutsInfo view) = (db, True)"
    "\<forall>k. om_lookup db k = (if k \<in> set (filter (\<lambda>k. uint (blockHeight k) = h) ?ks) then None else om_lookup (payoutsInfo view) k)"
    using erase_all_present [of "filter (\<lambda>k. uint (blockHeight k) = h) ?ks" "payoutsInfo view"] in_ks by auto
  have "UndoPayoutsInfo h view = (view\<lparr>payoutsInfo := db\<rparr>, True)" by (simp add: UndoPayoutsInfo_def Let_def tw db(1))
  moreover have "om_lookup db k = (if blockHeight k = of_int h \<and> ?s \<le> k then None else om_lookup (payoutsInfo view) k)" for k
    using db(2) in_ks [of k] iff [of k] by simp
  ultimately show ?thesis by blast
qed

definition sample_pos :: pos_env where
  "sample_pos = \<lparr>mapProofOfStake = (\<lambda>_. 0), pos_BlockHash = (\<lambda>_. Some 1), pos_IsProofOfStake = (\<lambda>_. False), pos_CheckProofOfStake = (\<lambda>_. None)\<rparr>"

definition sample_quick_view :: CBettingsView where
  "sample_quick_view = sample_view\<lparr>quickGamesBets :=
     om_update (PeerlessBetKey 279 \<lparr>op_hash = 9, op_n = 1\<rparr>) (new_CQuickGamesBetDB qgDice [qgDiceEven] (100 * COIN) (CKeyID 5) 0) om_empty\<rparr>"

lemma sample_hash: "hash_of_block sample_pos h = Some 0"
  by (simp add: hash_of_block_def sample_pos_def UintToArith256_def ser_uint256_def eval_simps)

lemma sample_dice: "DiceHandler [qgDiceEven] 0 = Some 20000"
  by (simp add: DiceHandler_def unser_DiceBetInfo_def dice_defs dice_sum_def Get64_def eval_simps)

theorem UndoQGBetPayouts_misses_witness:
  "\<exists>view' p' b b' b''. GetQuickGamesBetPayouts sample_env sample_pos (quickGamesArr ''dev'') 280 sample_quick_view ([], []) = Some (view', p') \<and>
    om_lookup (quickGamesBets sample_quick_view) (PeerlessBetKey 279 \<lparr>op_hash = 9, op_n = 1\<rparr>) = Some b \<and> \<not> qgb_completed b \<and>
    om_lookup (quickGamesBets view') (PeerlessBetKey 279 \<lparr>op_hash = 9, op_n = 1\<rparr>) = Some b' \<and> qgb_completed b' \<and>
    om_lookup (quickGamesBets (fst (UndoQGBetPayouts 280 view'))) (PeerlessBetKey 279 \<lparr>op_hash = 9, op_n = 1\<rparr>) = Some b'' \<and> qgb_completed b''"
proof -
  let ?k = "PeerlessBetKey 279 \<lparr>op_hash = 9, op_n = 1\<rparr>"
  let ?b = "new_CQuickGamesBetDB qgDice [qgDiceEven] (100 * COIN) (CKeyID 5) 0"
  have b: "om_lookup (quickGamesBets sample_quick_view) ?k = Some ?b" by (simp add: sample_quick_view_def)
  have es: "entries_from (PeerlessBetKey (of_int (280 - 1)) COutPoint_null) (quickGamesBets sample_quick_view) = [(?k, ?b)]"
    by (simp add: entries_from_def sample_quick_view_def entries_update null_key_le)
  obtain b' s' where q: "qg_loop sample_env sample_pos (quickGamesArr ''dev'') 280 [(?k, ?b)] (([], []), om_empty) = Some ([(?k, b')], s')"
    and c: "qgb_completed b'"
    using sample_dice
    by (auto simp: sample_hash vec_at_def quickGamesArr_def qgDice_def new_CQuickGamesBetDB_def pay_qgBet_def qg_amounts_def COIN_def i64_def
      GetFeePayoutAddresses_def sample_env_def vOracles_regtest_def IsActive_def Let_def BET_ODDSDIVISOR_def CRegTestParams_def)
  let ?view' = "sample_quick_view\<lparr>quickGamesBets := update_entries [(?k, b')] (quickGamesBets sample_quick_view)\<rparr>"
  have r: "GetQuickGamesBetPayouts sample_env sample_pos (quickGamesArr ''dev'') 280 sample_quick_view ([], []) =
      Some (?view', qg_reward_outputs sample_env 280 (snd s') (fst s'))"
    unfolding GetQuickGamesBetPayouts_def Let_def es q by (simp add: CRegTestParams_def case_prod_unfold)
  have b': "om_lookup (quickGamesBets ?view') ?k = Some b'" using b by (simp add: update_entries_def tdb_Update_def tdb_Exists_def)
  have "\<not> qgb_completed ?b" by (simp add: new_CQuickGamesBetDB_def)
  moreover from this have ch: "om_lookup (quickGamesBets ?view') ?k \<noteq> om_lookup (quickGamesBets sample_quick_view) ?k"
    unfolding b b' using c by auto
  have "om_lookup (quickGamesBets (fst (UndoQGBetPayouts 280 ?view'))) ?k = Some b'"
    using UndoQGBetPayouts_misses [OF _ _ r ch] b' by simp
  ultimately show ?thesis using r b b' c by blast
qed

end
