(* ===== verification/BlockSettlement.thy ===== *)
theory BlockSettlement
  imports BlockPayouts SettlementUndo
begin

text \<open>
  What a block must pay.  \<open>GetBettingPayouts\<close> mints exactly the expected outputs, in the order in which the block has to make
  them; \<open>IsBlockPayoutsValid\<close> accepts a block if and only if its outputs are the expected ones in any order, and files the record of
  each payout under the outpoint that makes it.  Together with the settlement of bets: an accepted block pays what the results settled.
\<close>

section \<open>The two vectors of payouts\<close>

definition balanced :: "payouts \<Rightarrow> bool" where
  "balanced p \<longleftrightarrow> length (fst p) = length (snd p)"

lemma balanced_nil [simp]: "balanced ([], [])" by (simp add: balanced_def)

lemma balanced_add_payout [simp]: "balanced (add_payout out key type p) \<longleftrightarrow> balanced p"
  by (simp add: balanced_def add_payout_def case_prod_unfold)

lemma balanced_pay_bet: "balanced (ps_payouts (snd (pay_bet env v3 h k odds fl b ps))) \<longleftrightarrow> balanced (ps_payouts ps)"
  by (simp add: pay_bet_def Let_def)

lemma balanced_pay_entries:
  "pay_entries env v3 h settle es ps = Some (U, ps') \<Longrightarrow> balanced (ps_payouts ps) \<Longrightarrow> balanced (ps_payouts ps')"
proof (induction es arbitrary: ps U)
  case (Cons e es)
  obtain k b where e: "e = (k, b)" by force
  consider "pay_entries env v3 h settle es ps = Some (U, ps')"
    | odds fl b' ps1 U' where "pay_bet env v3 h k odds fl b ps = (b', ps1)" "pay_entries env v3 h settle es ps1 = Some (U', ps')"
    using Cons.prems(1) e by (auto split: if_splits bind_splits prod.splits)
  then show ?case
  proof cases
    case 1
    then show ?thesis using Cons.IH Cons.prems(2) by blast
  next
    case (2 odds fl b' ps1 U')
    then have "balanced (ps_payouts ps1)" using balanced_pay_bet [of env v3 h k odds fl b ps] Cons.prems(2) by simp
    then show ?thesis using Cons.IH [OF 2(2)] by blast
  qed
qed simp

lemma balanced_pay_results:
  assumes "\<And>view r ps view' ps'. pay view r ps = Some (view', ps') \<Longrightarrow> balanced (ps_payouts ps) \<Longrightarrow> balanced (ps_payouts ps')"
  shows "pay_results closed pay rs s = Some s' \<Longrightarrow> balanced (ps_payouts (snd s)) \<Longrightarrow> balanced (ps_payouts (snd s'))"
proof (induction rs arbitrary: s)
  case (Cons r rs)
  obtain view ps where s: "s = (view, ps)" by force
  show ?case
  proof (cases "closed r")
    case False
    then obtain view1 ps1 where 1: "pay view r ps = Some (view1, ps1)" "pay_results closed pay rs (view1, ps1) = Some s'"
      using Cons.prems(1) s by (auto split: bind_splits)
    then show ?thesis using Cons.IH [OF 1(2)] assms [OF 1(1)] Cons.prems(2) s by simp
  qed (use Cons s in simp)
qed simp

lemma balanced_pay_plResult: "pay_plResult env h view r ps = Some (view', ps') \<Longrightarrow> balanced (ps_payouts ps) \<Longrightarrow> balanced (ps_payouts ps')"
  using balanced_pay_entries by (auto simp: pay_plResult_def Let_def split: bind_splits)

lemma balanced_pay_fieldResult: "pay_fieldResult env h view r ps = Some (view', ps') \<Longrightarrow> balanced (ps_payouts ps) \<Longrightarrow> balanced (ps_payouts ps')"
  using balanced_pay_entries by (auto simp: pay_fieldResult_def Let_def split: bind_splits)

lemma balanced_rewards:
  "balanced (GetPLRewardPayoutsV3 env h fee p) \<longleftrightarrow> balanced p"
  "GetPLRewardPayoutsV2 fp env h p = Some p' \<Longrightarrow> balanced p \<Longrightarrow> balanced p'"
  by (auto simp: GetPLRewardPayoutsV3_def GetPLRewardPayoutsV2_def Let_def split: option.splits bind_splits)

lemma balanced_GetPLBetPayoutsV3:
  assumes "GetPLBetPayoutsV3 fp env idx view p = Some (view', p')" "balanced p"
  shows "balanced p'"
proof -
  obtain ps where "pay_results (\<lambda>result. res_nResultType result = eventClosed) (pay_plResult env (bi_nHeight idx))
      (GetPLResultsFromDB env view idx) (view, new_pay_state p) = Some (view', ps)"
    and p': "GetPLRewardPayoutsV2 fp env (bi_nHeight idx + 1) (ps_payouts ps) = Some p' \<or>
      p' = GetPLRewardPayoutsV3 env (bi_nHeight idx + 1) (i64 (grossPayoutsSum ps - effectivePayoutsSum ps)) (ps_payouts ps)"
    using assms by (auto simp: GetPLBetPayoutsV3_def Let_def split: bind_splits if_splits)
  then have "balanced (ps_payouts ps)"
    using balanced_pay_results [OF balanced_pay_plResult] assms(2) by fastforce
  then show ?thesis using p' balanced_rewards by blast
qed

lemma balanced_GetFieldBetPayoutsV4:
  assumes "GetFieldBetPayoutsV4 env idx view p = Some (view', p')" "balanced p"
  shows "balanced p'"
proof -
  consider "p' = p" | ps where "pay_results (\<lambda>result. fres_nResultType result = eventClosed) (pay_fieldResult env (bi_nHeight idx))
      (GetFieldResultsFromDB env view idx) (view, new_pay_state p) = Some (view', ps)" "p' = ps_payouts ps"
    using assms by (auto simp: GetFieldBetPayoutsV4_def split: if_splits bind_splits)
  then show ?thesis
  proof cases
    case 2
    then show ?thesis using balanced_pay_results [OF balanced_pay_fieldResult 2(1)] assms(2) by simp
  qed (use assms in simp)
qed

lemma balanced_pay_qgBet: "pay_qgBet env h game hash k b s = Some (r, s') \<Longrightarrow> balanced (fst s) \<Longrightarrow> balanced (fst s')"
  by (auto simp: pay_qgBet_def Let_def split: bind_splits prod.splits if_splits option.splits)

lemma balanced_qg_loop: "qg_loop env pos games h es s = Some (U, s') \<Longrightarrow> balanced (fst s) \<Longrightarrow> balanced (fst s')"
proof (induction es arbitrary: s U)
  case (Cons e es)
  obtain k b where e: "e = (k, b)" by force
  consider "s' = s" | "qg_loop env pos games h es s = Some (U, s')"
    | game hash r s1 U' where "pay_qgBet env h game hash k b s = Some (r, s1)" "qg_loop env pos games h es s1 = Some (U', s')"
    using Cons.prems(1) e by (auto split: if_splits option.splits bind_splits)
  then show ?case
  proof cases
    case 3
    then show ?thesis using Cons.IH [OF 3(2)] balanced_pay_qgBet [OF 3(1) Cons.prems(2)] by blast
  qed (use Cons in auto)
qed simp

lemma balanced_qg_reward_outputs: "balanced (qg_reward_outputs env h m p) \<longleftrightarrow> balanced p"
proof -
  have "balanced (fold (\<lambda>(address, reward). add_payout (f address reward) k t) es p) \<longleftrightarrow> balanced p" for f k t es
    by (induction es arbitrary: p) auto
  then show ?thesis by (simp add: qg_reward_outputs_def)
qed

lemma balanced_GetQuickGamesBetPayouts:
  "GetQuickGamesBetPayouts env pos games h view p = Some (view', p') \<Longrightarrow> balanced p \<Longrightarrow> balanced p'"
  using balanced_qg_loop
  by (fastforce simp: GetQuickGamesBetPayouts_def Let_def balanced_qg_reward_outputs split: if_splits bind_splits)

lemma balanced_pay_lotto: "pay_lotto env pos h ev fee cs s = Some s' \<Longrightarrow> balanced (snd s) \<Longrightarrow> balanced (snd s')"
  by (auto simp: pay_lotto_def Let_def split: if_splits bind_splits option.splits prod.splits)

lemma balanced_lotto_results: "lotto_results env pos h view rs s = Some s' \<Longrightarrow> balanced (snd s) \<Longrightarrow> balanced (snd s')"
proof (induction rs arbitrary: s)
  case (Cons r rs)
  consider "lotto_results env pos h view rs s = Some s'"
    | ev fee cs s1 where "pay_lotto env pos h ev fee cs s = Some s1" "lotto_results env pos h view rs s1 = Some s'"
    using Cons.prems(1) by (auto simp: Let_def split: option.splits bind_splits)
  then show ?case
  proof cases
    case 2
    then show ?thesis using Cons.IH [OF 2(2)] balanced_pay_lotto [OF 2(1) Cons.prems(2)] by blast
  qed (use Cons in blast)
qed simp

lemma balanced_GetCGLottoBetPayoutsV3:
  "GetCGLottoBetPayoutsV3 env pos block coins h view p = Some (view', p') \<Longrightarrow> balanced p \<Longrightarrow> balanced p'"
  by (auto simp: GetCGLottoBetPayoutsV3_def split: bind_splits dest!: balanced_lotto_results)

lemma balanced_pay_lottoV2: "pay_lottoV2 env pos h ev fee cs p = Some p' \<Longrightarrow> balanced p \<Longrightarrow> balanced p'"
  by (auto simp: pay_lottoV2_def Let_def split: if_splits bind_splits option.splits prod.splits)

lemma balanced_lottoV2_results: "lottoV2_results env pos coins h rs p = Some p' \<Longrightarrow> balanced p \<Longrightarrow> balanced p'"
proof (induction rs arbitrary: p)
  case (Cons r rs)
  obtain ev fee cs p1 where 1: "pay_lottoV2 env pos h ev fee cs p = Some p1" "lottoV2_results env pos coins h rs p1 = Some p'"
    using Cons.prems(1) by (auto simp: Let_def split: bind_splits)
  show ?case using Cons.IH [OF 1(2)] balanced_pay_lottoV2 [OF 1(1) Cons.prems(2)] by blast
qed simp

lemma balanced_WBP_payouts:
  assumes "WBP_payouts fp env pos games coins idx block view = Some (view', p)"
  shows "balanced p"
proof -
  let ?h = "bi_nHeight idx + 1"
  consider "p = ([], [])"
    | v1 p1 where "GetPLBetPayoutsV3 fp env idx view ([], []) = Some (v1, p1)" "GetCGLottoBetPayoutsV2 env pos block coins ?h p1 = Some p"
    | v1 p1 v2 p2 where "GetPLBetPayoutsV3 fp env idx view ([], []) = Some (v1, p1)" "GetCGLottoBetPayoutsV3 env pos block coins ?h v1 p1 = Some (v2, p2)"
        "GetQuickGamesBetPayouts env pos games ?h v2 p2 = Some (view', p)"
    | v1 p1 v2 p2 v3 p3 where "GetPLBetPayoutsV3 fp env idx view ([], []) = Some (v1, p1)" "GetCGLottoBetPayoutsV3 env pos block coins ?h v1 p1 = Some (v2, p2)"
        "GetQuickGamesBetPayouts env pos games ?h v2 p2 = Some (v3, p3)" "GetFieldBetPayoutsV4 env idx v3 p3 = Some (view', p)"
    using assms by (auto simp: WBP_payouts_def Let_def split: if_splits bind_splits)
  then show ?thesis
  proof cases
    case 2
    then show ?thesis using balanced_GetPLBetPayoutsV3 [OF 2(1)] by (auto simp: GetCGLottoBetPayoutsV2_def split: bind_splits dest: balanced_lottoV2_results)
  next
    case 3
    then show ?thesis
      using balanced_GetPLBetPayoutsV3 [OF 3(1)] balanced_GetCGLottoBetPayoutsV3 [OF 3(2)] balanced_GetQuickGamesBetPayouts [OF 3(3)] by simp
  next
    case 4
    then show ?thesis
      using balanced_GetPLBetPayoutsV3 [OF 4(1)] balanced_GetCGLottoBetPayoutsV3 [OF 4(2)] balanced_GetQuickGamesBetPayouts [OF 4(3)]
        balanced_GetFieldBetPayoutsV4 [OF 4(4)] by simp
  qed simp
qed

section \<open>Expected payouts and the amount to mint\<close>

lemma mset_multimap_insert [simp]: "mset (multimap_insert x ys) = add_mset x (mset ys)"
  by (induction ys) auto

lemma mset_fold_insert: "mset (fold multimap_insert xs ys) = mset xs + mset ys"
  by (induction xs arbitrary: ys) auto

definition payout_rank :: "CPayoutInfoDB \<Rightarrow> u32 \<times> uint256 \<times> u32 \<times> nat" where
  "payout_rank i = (blockHeight (betKey i), op_hash (outPoint (betKey i)), op_n (outPoint (betKey i)), PayoutType_value (payoutType i))"

lemma less_rank: "CPayoutInfoDB_less a b \<longleftrightarrow> payout_rank a < payout_rank b"
  by (simp only: CPayoutInfoDB_less_def payout_rank_def Let_def)

abbreviation ordered :: "expected \<Rightarrow> bool" where
  "ordered \<equiv> sorted_wrt (\<lambda>a b. \<not> CPayoutInfoDB_less (fst b) (fst a))"

lemma ordered_multimap_insert: "ordered ys \<Longrightarrow> ordered (multimap_insert x ys)"
proof (induction ys)
  case (Cons y ys)
  have set: "set (multimap_insert x ys) = insert x (set ys)" by (induction ys) auto
  show ?case
  proof (cases "CPayoutInfoDB_less (fst x) (fst y)")
    case True
    then have "multimap_insert x (y # ys) = x # y # ys" by simp
    moreover have "payout_rank (fst x) \<le> payout_rank (fst z)" if "z \<in> set (y # ys)" for z
      using True Cons.prems that unfolding less_rank by (auto simp: not_less intro: order.trans less_imp_le)
    ultimately show ?thesis using Cons.prems by (auto simp: less_rank not_less)
  next
    case False
    then show ?thesis using Cons set by simp
  qed
qed simp

lemma ordered_fold_insert: "ordered ys \<Longrightarrow> ordered (fold multimap_insert xs ys)"
  by (induction xs arbitrary: ys) (simp_all add: ordered_multimap_insert)

lemma i64_add [simp]: "i64 (i64 a + b) = i64 (a + b)"
proof -
  have "(i64 a + b + 2 ^ 63) mod 2 ^ 64 = (i64 a mod 2 ^ 64 + (b + 2 ^ 63)) mod 2 ^ 64" by (simp add: mod_simps add.assoc)
  also have "i64 a mod 2 ^ 64 = a mod 2 ^ 64" by (simp add: i64_def mod_simps)
  also have "(a mod 2 ^ 64 + (b + 2 ^ 63)) mod 2 ^ 64 = (a + b + 2 ^ 63) mod 2 ^ 64" by (simp add: mod_simps add.assoc)
  finally show ?thesis by (simp add: i64_def)
qed

lemma fold_mint: "fold (\<lambda>out m. i64 (m + nValue out)) outs (i64 m) = i64 (m + (\<Sum>out\<leftarrow>outs. nValue out))"
  by (induction outs arbitrary: m) (simp_all add: add.assoc)

text \<open>
  C18: Whenever the payouts of the bets and games of a block are computed, \<open>GetBettingPayouts\<close> adds no failure of its own: its assertion that the two vectors
  have one length holds for every protocol version.  The amount to mint is the 64-bit sum of the payouts, and the map of expected payouts holds each
  payout with its information exactly once, in the order of the information.
\<close>

theorem GetBettingPayouts_mints:
  assumes "WBP_payouts fp env pos games coins idx block view = Some (view', outs, infos)"
  shows "\<exists>expected. GetBettingPayouts fp env pos games coins (Some idx) (Some block) mExpectedPayouts view =
      Some (view', i64 (\<Sum>out\<leftarrow>outs. nValue out), expected) \<and>
    length infos = length outs \<and> mset expected = mset (zip infos outs) \<and> ordered expected"
proof -
  have "length outs = length infos" using balanced_WBP_payouts [OF assms] by (simp add: balanced_def)
  then show ?thesis
    using assms fold_mint [of outs 0] by (simp add: GetBettingPayouts_def mset_fold_insert ordered_fold_insert i64_def)
qed

section \<open>Validation of the payouts of a block\<close>

lemma pays_iff: "nValue (snd eP) = nValue found \<and> scriptPubKey (snd eP) = scriptPubKey found \<longleftrightarrow> CTxOut.truncate (snd eP) = found"
  by (cases found) (auto simp: CTxOut.truncate_def)

text \<open>The records written for a list of payouts, from the index of the first one on.\<close>

fun record_payouts :: "uint256 \<Rightarrow> u32 \<Rightarrow> u32 \<Rightarrow> expected \<Rightarrow> (PeerlessBetKey, CPayoutInfoDB) omap \<Rightarrow> (PeerlessBetKey, CPayoutInfoDB) omap" where
  "record_payouts txHash h n [] db = db"
| "record_payouts txHash h n (eP # rest) db =
     record_payouts txHash h (n + 1) rest (fst (tdb_Write db (PeerlessBetKey h \<lparr>op_hash = txHash, op_n = n\<rparr>) (fst eP)))"

lemma match_payouts_records:
  assumes "mset (map (\<lambda>eP. CTxOut.truncate (snd eP)) expected) = mset found"
  shows "\<exists>paid. mset paid = mset expected \<and> map (\<lambda>eP. CTxOut.truncate (snd eP)) paid = found \<and>
    match_payouts txHash h n found expected db = (record_payouts txHash h n paid db, True)"
  using assms
proof (induction found arbitrary: n expected db)
  case (Cons f found)
  let ?t = "\<lambda>eP. CTxOut.truncate (snd eP)"
  have "f \<in> set (map ?t expected)" using Cons.prems by (metis list.set_intros(1) set_mset_mset)
  then obtain before eP after where x: "List.extract (pays f) expected = Some (before, eP, after)"
    using extract_None_iff [of "pays f" expected] by (cases "List.extract (pays f) expected") (auto simp: pays_iff)
  then have e: "expected = before @ eP # after" "?t eP = f" by (auto simp: extract_Some_iff pays_iff)
  then have "mset (map ?t (before @ after)) = mset found" using Cons.prems by simp
  from Cons.IH [OF this] obtain paid where "mset paid = mset (before @ after)" "map ?t paid = found"
    "match_payouts txHash h (n + 1) found (before @ after) (fst (tdb_Write db (PeerlessBetKey h \<lparr>op_hash = txHash, op_n = n\<rparr>) (fst eP))) =
       (record_payouts txHash h (n + 1) paid (fst (tdb_Write db (PeerlessBetKey h \<lparr>op_hash = txHash, op_n = n\<rparr>) (fst eP))), True)"
    by blast
  then show ?case using x e by (intro exI [of _ "eP # paid"]) simp
qed simp

text \<open>
  C9: \<open>IsBlockPayoutsValid\<close> accepts a block exactly when \<open>ExtractPayouts\<close> accepts its coinstake and the payouts found there are, as
  a multiset of amounts and scripts, the expected ones; the later branch for a payout that is not expected is never taken.  For an
  accepted block each payout found is matched with a different expected payout of the same amount and script, and the information of
  these payouts is recorded under consecutive outputs of the coinstake from the offset that \<open>ExtractPayouts\<close> returns.  These are the outputs that make
  the payouts unless an output without value stands between them.
\<close>

theorem IsBlockPayoutsValid_iff:
  assumes "vec_at (vtx block) 1 = Some tx"
    and "ExtractPayouts env block h mint mnReward = Some (ok, found, offset)"
  shows "if ok \<and> mset (map (\<lambda>eP. CTxOut.truncate (snd eP)) expected) = mset found
    then \<exists>paid. mset paid = mset expected \<and> map (\<lambda>eP. CTxOut.truncate (snd eP)) paid = found \<and>
      IsBlockPayoutsValid env expected block h mint mnReward view =
        Some (view\<lparr>payoutsInfo := record_payouts (tx_hash tx) (of_int h) offset paid (payoutsInfo view)\<rparr>, True)
    else IsBlockPayoutsValid env expected block h mint mnReward view = Some (view, False)"
proof (cases "ok \<and> mset (map (\<lambda>eP. CTxOut.truncate (snd eP)) expected) = mset found")
  case True
  then show ?thesis
    using match_payouts_records [of expected found "tx_hash tx" "of_int h" offset "payoutsInfo view"] assms
    by (auto simp: IsBlockPayoutsValid_def)
next
  case False
  then show ?thesis using assms by (simp add: IsBlockPayoutsValid_def)
qed

lemma sample_results: "GetPLResultsFromDB sample_env sample_result_view sample_index =
  [\<lparr>res_nEventId = 5, res_nResultType = standardResult, res_nHomeScore = 1, res_nAwayScore = 0\<rparr>]"
  by (simp add: GetPLResultsFromDB_def sample_result_view_def CRegTestParams_def tdb_Read_def)

lemma sample_entries: "entries_from (PeerlessBetKey (GetBetSearchStartHeight sample_env 449) COutPoint_null) (bets sample_result_view) =
  [(PeerlessBetKey 440 \<lparr>op_hash = 9, op_n = 1\<rparr>, sample_paid_bet)]"
  by (simp add: entries_from_def sample_result_view_def entries_update null_key_le GetBetSearchStartHeight_def CRegTestParams_def)

lemma sample_settle: "settle_plBet sample_env view 449 \<lparr>res_nEventId = 5, res_nResultType = standardResult, res_nHomeScore = 1, res_nAwayScore = 0\<rparr> sample_paid_bet =
  Some (True, (20000, 19400), no_flags)"
  by (simp add: settle_plBet_def settle_legs_def sample_paid_bet_def new_CBetDB_def Let_def placed_late_def CRegTestParams_def
      CPeerlessBaseEventDB.truncate_def new_CPeerlessExtendedEventDB_def GetBetOdds_def GetBetOdds_moneyLine_def GetBetPotentialOdds_def
      OutcomeType_defs ResultType_defs flag_leg_def BET_ODDSDIVISOR_def CalculateEffectiveOdds_def win_odds_def)

definition sample_settled_view :: CBettingsView where
  "sample_settled_view = sample_result_view\<lparr>bets := om_update (PeerlessBetKey 440 \<lparr>op_hash = 9, op_n = 1\<rparr>)
     (sample_paid_bet\<lparr>b_resultType := betResultWin, b_payoutHeight := 450, b_payout := 194 * COIN, b_completed := True\<rparr>) om_empty\<rparr>"

definition sample_payouts :: payouts where
  "sample_payouts =
    ([new_CBetOut (194 * COIN) [] (100 * COIN) 0, new_CBetOut 60000000 [] 0 0, new_CBetOut 240000000 [] 0 0],
     [\<lparr>betKey = PeerlessBetKey 440 \<lparr>op_hash = 9, op_n = 1\<rparr>, payoutType = bettingPayout\<rparr>,
      \<lparr>betKey = PeerlessBetKey 450 COutPoint_null, payoutType = bettingReward\<rparr>, \<lparr>betKey = PeerlessBetKey 450 COutPoint_null, payoutType = bettingReward\<rparr>])"

lemma sample_scripts: "GetFeePayoutScripts sample_env 450 = Some ([], [])"
  by (simp add: GetFeePayoutScripts_def sample_env_def vOracles_regtest_def IsActive_def CRegTestParams_def Let_def)

lemma sample_pay_bet:
  "pay_bet sample_env True 450 k (20000, 19400) no_flags sample_paid_bet (new_pay_state ([], [])) =
   (sample_paid_bet\<lparr>b_resultType := betResultWin, b_payoutHeight := 450, b_payout := 194 * COIN, b_completed := True\<rparr>,
    \<lparr>ps_payouts = ([new_CBetOut (194 * COIN) [] (100 * COIN) 0], [\<lparr>betKey = k, payoutType = bettingPayout\<rparr>]),
     effectivePayoutsSum = 194 * COIN, grossPayoutsSum = 200 * COIN\<rparr>)"
  by (simp add: pay_bet_def sample_paid_bet_def new_CBetDB_def CRegTestParams_def COIN_def bet_payout_def i64_def BET_ODDSDIVISOR_def
      bet_result_type_def add_payout_def sample_env_def Let_def)

lemma sample_GetPLBetPayoutsV3:
  "GetPLBetPayoutsV3 fixed_ops sample_env sample_index sample_result_view ([], []) = Some (sample_settled_view, sample_payouts)"
proof -
  have nc: "\<not> b_completed sample_paid_bet" by (simp add: sample_paid_bet_def new_CBetDB_def)
  have v3: "nWagerrProtocolV3StartHeight CRegTestParams \<le> 449" by (simp add: CRegTestParams_def)
  have "pay_plResult sample_env 449 sample_result_view \<lparr>res_nEventId = 5, res_nResultType = standardResult, res_nHomeScore = 1, res_nAwayScore = 0\<rparr>
      (new_pay_state ([], [])) = Some (sample_settled_view, \<lparr>ps_payouts = ([new_CBetOut (194 * COIN) [] (100 * COIN) 0],
        [\<lparr>betKey = PeerlessBetKey 440 \<lparr>op_hash = 9, op_n = 1\<rparr>, payoutType = bettingPayout\<rparr>]), effectivePayoutsSum = 194 * COIN, grossPayoutsSum = 200 * COIN\<rparr>)"
    unfolding pay_plResult_def Let_def sample_entries
    by (simp add: sample_settle sample_pay_bet nc v3 update_entries_def tdb_Update_def tdb_Exists_def sample_result_view_def sample_settled_view_def)
  then show ?thesis
    unfolding GetPLBetPayoutsV3_def Let_def sample_results
    by (simp add: v3 ResultType_defs GetPLRewardPayoutsV3_def sample_scripts COIN_def i64_def BET_ODDSDIVISOR_def Let_def add_payout_def sample_payouts_def)
qed


section \<open>Sample block\<close>

text \<open>The coinstake of the sample block spends an output of one coin, returns it with ten more, and makes the payouts.\<close>

definition sample_coinstake :: "CTxOut list \<Rightarrow> CTransaction" where
  "sample_coinstake outs = \<lparr>vin = [\<lparr>prevout = \<lparr>op_hash = 7, op_n = 0\<rparr>, scriptSig = []\<rparr>],
     vout = \<lparr>nValue = COIN + 10, scriptPubKey = [0]\<rparr> # outs, tx_hash = 11\<rparr>"

definition sample_found :: "CTxOut list" where
  "sample_found = [\<lparr>nValue = 240000000, scriptPubKey = []\<rparr>, \<lparr>nValue = 194 * COIN, scriptPubKey = []\<rparr>, \<lparr>nValue = 60000000, scriptPubKey = []\<rparr>]"

definition sample_payout_block :: CBlock where
  "sample_payout_block = \<lparr>vtx = [sample_prev, sample_coinstake sample_found], nTime = 0\<rparr>"

lemma sample_ExtractPayouts: "ExtractPayouts sample_env sample_payout_block 450 10 1 = Some (True, sample_found, 1)"
proof -
  have tx: "vec_at (vtx sample_payout_block) 1 = Some (sample_coinstake sample_found)" by (simp add: sample_payout_block_def vec_at_def)
  have "extract_loop [] [] 0 (COIN + 10) (vout (sample_coinstake sample_found))
      \<lparr>fStakesFound = False, totalStakeAcc = 0, nPayoutOffset = 0, nWinnerPayments = 0, vFoundPayouts = []\<rparr> =
    \<lparr>fStakesFound = True, totalStakeAcc = COIN + 10, nPayoutOffset = 1, nWinnerPayments = 0, vFoundPayouts = sample_found\<rparr>"
    by (simp add: sample_coinstake_def sample_found_def COIN_def i64_def)
  moreover have "vin (sample_coinstake sample_found) = [\<lparr>prevout = \<lparr>op_hash = 7, op_n = 0\<rparr>, scriptSig = []\<rparr>]" "length (vout (sample_coinstake sample_found)) = 4"
    "nValue (last (vout (sample_coinstake sample_found))) = 60000000"
    by (simp_all add: sample_coinstake_def sample_found_def)
  moreover have "vec_at (vout sample_prev) 0 = Some \<lparr>nValue = COIN, scriptPubKey = [0]\<rparr>" "i64 (COIN + 10) = COIN + 10"
    by (simp_all add: sample_prev_def vec_at_def COIN_def i64_def)
  ultimately show ?thesis unfolding ExtractPayouts_def tx by (simp add: vec_at_def [of "[_]"] sample_scripts Let_def)
qed

theorem IsBlockPayoutsValid_iff_witness:
  "\<exists>paid. mset paid = mset (zip (snd sample_payouts) (fst sample_payouts)) \<and> map (\<lambda>eP. CTxOut.truncate (snd eP)) paid = sample_found \<and>
     IsBlockPayoutsValid sample_env (zip (snd sample_payouts) (fst sample_payouts)) sample_payout_block 450 10 1 sample_settled_view =
       Some (sample_settled_view\<lparr>payoutsInfo := record_payouts 11 450 1 paid (payoutsInfo sample_settled_view)\<rparr>, True)"
proof -
  have tx: "vec_at (vtx sample_payout_block) 1 = Some (sample_coinstake sample_found)" by (simp add: sample_payout_block_def vec_at_def)
  have "mset (map (\<lambda>eP. CTxOut.truncate (snd eP)) (zip (snd sample_payouts) (fst sample_payouts))) = mset sample_found"
    by (simp add: sample_payouts_def sample_found_def new_CBetOut_def CTxOut.truncate_def)
  then show ?thesis
    using IsBlockPayoutsValid_iff [OF tx sample_ExtractPayouts, of "zip (snd sample_payouts) (fst sample_payouts)" sample_settled_view]
    by (simp add: sample_coinstake_def)
qed

lemma sample_WBP_payouts:
  "WBP_payouts fixed_ops sample_env sample_pos [] sample_coins sample_index \<lparr>vtx = [], nTime = 0\<rparr> sample_result_view = Some (sample_settled_view, sample_payouts)"
proof -
  have "GetWBPVersion CRegTestParams 450 = 4" by (simp add: GetWBPVersion_def CRegTestParams_def)
  moreover have "GetCGLottoBetPayoutsV3 sample_env sample_pos \<lparr>vtx = [], nTime = 0\<rparr> sample_coins 450 sample_settled_view sample_payouts = Some (sample_settled_view, sample_payouts)"
    by (simp add: GetCGLottoBetPayoutsV3_def update_entries_def)
  moreover have "GetQuickGamesBetPayouts sample_env sample_pos [] 450 sample_settled_view sample_payouts = Some (sample_settled_view, sample_payouts)"
    by (simp add: GetQuickGamesBetPayouts_def CRegTestParams_def)
  moreover have "GetFieldBetPayoutsV4 sample_env sample_index sample_settled_view sample_payouts = Some (sample_settled_view, sample_payouts)"
    by (simp add: GetFieldBetPayoutsV4_def GetFieldResultsFromDB_def sample_settled_view_def sample_result_view_def sample_view_def tdb_Read_def CRegTestParams_def)
  ultimately show ?thesis unfolding WBP_payouts_def Let_def by (simp add: sample_GetPLBetPayoutsV3)
qed

theorem GetBettingPayouts_mints_witness:
  "\<exists>expected. GetBettingPayouts fixed_ops sample_env sample_pos [] sample_coins (Some sample_index) (Some \<lparr>vtx = [], nTime = 0\<rparr>) [] sample_result_view =
      Some (sample_settled_view, 197 * COIN, expected) \<and> mset expected = mset (zip (snd sample_payouts) (fst sample_payouts))"
proof -
  have w: "WBP_payouts fixed_ops sample_env sample_pos [] sample_coins sample_index \<lparr>vtx = [], nTime = 0\<rparr> sample_result_view =
      Some (sample_settled_view, fst sample_payouts, snd sample_payouts)" using sample_WBP_payouts by simp
  have "i64 (\<Sum>out\<leftarrow>fst sample_payouts. nValue out) = 197 * COIN" by (simp add: sample_payouts_def new_CBetOut_def COIN_def i64_def)
  then show ?thesis using GetBettingPayouts_mints [OF w, of "[]"] by auto
qed

end
