(* ===== verification/TokenGroups.thy ===== *)
theory TokenGroups
  imports BetTypes
begin

text \<open>
  Token groups (tokens/groups.h, tokens/groups.cpp, script/tokengroup.cpp): group ids and their flags, the authority
  flags of an output, the group a script announces (\<open>CTokenGroupInfo\<close>), the encoding of token amounts and the script of
  a grouped output.  A group id is the vector of its bytes; the empty vector is \<open>NoGroup\<close>.
\<close>

unbundle bit_operations_syntax

section \<open>Group ids\<close>

type_synonym CTokenGroupID = bytes

abbreviation (input) NoGroup :: CTokenGroupID where "NoGroup \<equiv> []"

text \<open>The flags of a group id, in the last byte of the parent id.\<close>

abbreviation (input) STICKY_MELT :: u8 where "STICKY_MELT \<equiv> 1"
abbreviation (input) MGT_TOKEN :: u8 where "MGT_TOKEN \<equiv> 2"
abbreviation (input) NFT_TOKEN :: u8 where "NFT_TOKEN \<equiv> 4"
abbreviation (input) BETTING_TOKEN :: u8 where "BETTING_TOKEN \<equiv> 8"
abbreviation (input) PARLAY_TOKEN :: u8 where "PARLAY_TOKEN \<equiv> 16"

abbreviation (input) PARENT_GROUP_ID_SIZE :: nat where "PARENT_GROUP_ID_SIZE \<equiv> 32"

definition hasTokenGroupIdFlag :: "u8 \<Rightarrow> u8 \<Rightarrow> bool" where
  "hasTokenGroupIdFlag object flag \<longleftrightarrow> object AND flag = flag"

definition hasFlag :: "CTokenGroupID \<Rightarrow> u8 \<Rightarrow> bool" where
  "hasFlag data flag = (if length data \<ge> PARENT_GROUP_ID_SIZE then hasTokenGroupIdFlag (data ! 31) flag else False)"

definition isUserGroup :: "CTokenGroupID \<Rightarrow> bool" where
  "isUserGroup data \<longleftrightarrow> data \<noteq> []"

definition isSubgroup :: "CTokenGroupID \<Rightarrow> bool" where
  "isSubgroup data \<longleftrightarrow> length data > PARENT_GROUP_ID_SIZE"

definition parentGroup :: "CTokenGroupID \<Rightarrow> CTokenGroupID" where
  "parentGroup data = (if length data \<le> PARENT_GROUP_ID_SIZE then data else take PARENT_GROUP_ID_SIZE data)"

definition GetSubGroupData :: "CTokenGroupID \<Rightarrow> bytes" where
  "GetSubGroupData data = (if length data > PARENT_GROUP_ID_SIZE then drop PARENT_GROUP_ID_SIZE data else [])"

text \<open>The constructor of a subgroup id from its parent.\<close>

definition CTokenGroupID_sub :: "CTokenGroupID \<Rightarrow> bytes \<Rightarrow> CTokenGroupID" where
  "CTokenGroupID_sub tgID subgroupData = tgID @ subgroupData"

definition encodeFlags :: "CTokenGroupID \<Rightarrow> string" where
  "encodeFlags data =
     (let sep = (\<lambda>s. if s \<noteq> '''' then s @ '' '' else s);
          flag = (\<lambda>f name s. if hasTokenGroupIdFlag (data ! 31) f then sep s @ name else s)
      in if length data < PARENT_GROUP_ID_SIZE then ''''
         else flag PARLAY_TOKEN ''parlay'' (flag BETTING_TOKEN ''betting'' (flag NFT_TOKEN ''nft''
           (if hasTokenGroupIdFlag (data ! 31) MGT_TOKEN then ''management'' else flag STICKY_MELT ''sticky_melt'' ''''))))"

section \<open>Authorities\<close>

text \<open>The permissions of an authority output; an amount with the sign bit set is read as these flags.\<close>

abbreviation (input) CTRL :: u64 where "CTRL \<equiv> 0x8000000000000000"
abbreviation (input) MINT :: u64 where "MINT \<equiv> 0x4000000000000000"
abbreviation (input) MELT :: u64 where "MELT \<equiv> 0x2000000000000000"
abbreviation (input) CCHILD :: u64 where "CCHILD \<equiv> 0x1000000000000000"
abbreviation (input) RESCRIPT :: u64 where "RESCRIPT \<equiv> 0x0800000000000000"
abbreviation (input) SUBGROUP :: u64 where "SUBGROUP \<equiv> 0x0400000000000000"
abbreviation (input) WAGERR :: u64 where "WAGERR \<equiv> 0x0200000000000000"

definition ALL_FLAGS :: u64 where "ALL_FLAGS = CTRL OR MINT OR MELT OR CCHILD OR RESCRIPT OR SUBGROUP"
definition ALL_NFT :: u64 where "ALL_NFT = CTRL OR MINT"
definition ALL_BETTING :: u64 where "ALL_BETTING = CTRL OR SUBGROUP OR WAGERR"
definition ALL_BITS :: u64 where "ALL_BITS = push_bit 48 0xffff"

definition hasCapability :: "u64 \<Rightarrow> u64 \<Rightarrow> bool" where
  "hasCapability object capability \<longleftrightarrow> object AND capability \<noteq> 0"

definition EncodeGroupAuthority :: "u64 \<Rightarrow> string" where
  "EncodeGroupAuthority flags =
     (let sep = (\<lambda>s. if s \<noteq> '''' then s @ '' '' else s);
          cap = (\<lambda>f name s. if hasCapability flags f then sep s @ name else s)
      in if hasCapability flags CTRL
         then cap WAGERR ''wagerr'' (cap SUBGROUP ''subgroup'' (cap RESCRIPT ''rescript''
           ((\<lambda>s. sep s @ (if hasCapability flags CCHILD then ''child'' else ''nochild''))
             (cap MELT ''melt'' (if hasCapability flags MINT then ''mint'' else '''')))))
         else ''none'')"

section \<open>Amounts of tokens\<close>

text \<open>The size of the encoding is not part of it: an amount takes two, four or eight bytes, a negative one eight.\<close>

definition SerializeAmount :: "CAmount \<Rightarrow> bytes" where
  "SerializeAmount num =
     (if num < 0 then ser_writedata64 (of_int num)
      else if num \<le> 0xffff then ser_writedata16 (of_int num)
      else if num \<le> 0xffffffff then ser_writedata32 (of_int num)
      else ser_writedata64 (of_int num))"

text \<open>\<open>None\<close> is the exception for any other size.\<close>

definition DeserializeAmount :: "bytes \<Rightarrow> CAmount option" where
  "DeserializeAmount vec =
     (if length vec = 2 then map_option (\<lambda>(v, s). uint v) (ser_readdata16 vec)
      else if length vec = 4 then map_option (\<lambda>(v, s). uint v) (ser_readdata32 vec)
      else if length vec = 8 then map_option (\<lambda>(v, s). i64 (uint v)) (ser_readdata64 vec)
      else None)"

section \<open>The group of a script\<close>

record CTokenGroupInfo =
  associatedGroup :: CTokenGroupID
  tg_quantity :: CAmount
  tg_invalid :: bool

definition OP_GROUP :: u8 where "OP_GROUP = 0xb6"
definition OP_DROP :: u8 where "OP_DROP = 0x75"
definition OP_DUP :: u8 where "OP_DUP = 0x76"
definition OP_EQUAL :: u8 where "OP_EQUAL = 0x87"
definition OP_EQUALVERIFY :: u8 where "OP_EQUALVERIFY = 0x88"
definition OP_HASH160 :: u8 where "OP_HASH160 = 0xa9"
definition OP_CHECKSIG :: u8 where "OP_CHECKSIG = 0xac"

text \<open>The first three instructions of a script: the opcodes, and the data of the first two.\<close>

definition group_ops :: "CScript \<Rightarrow> (u8 \<times> bytes \<times> u8 \<times> bytes \<times> u8) option" where
  "group_ops script = do {
     (opcodeGrp, groupId, pc) \<leftarrow> GetScriptOp script;
     (opcodeQty, tokenQty, pc) \<leftarrow> GetScriptOp pc;
     (opcode, data, pc) \<leftarrow> GetScriptOp pc;
     Some (opcodeGrp, groupId, opcodeQty, tokenQty, opcode) }"

definition CTokenGroupInfo_of :: "CScript \<Rightarrow> CTokenGroupInfo" where
  "CTokenGroupInfo_of script =
     (let info = \<lparr>associatedGroup = NoGroup, tg_quantity = 0, tg_invalid = False\<rparr> in
      case group_ops script of
        None \<Rightarrow> info
      | Some (opcodeGrp, groupId, opcodeQty, tokenQty, opcode) \<Rightarrow>
          if opcode \<noteq> OP_GROUP then info
          else if opcodeGrp < 0x20 then info\<lparr>tg_invalid := True\<rparr>
          else if opcodeQty \<noteq> 2 \<and> opcodeQty \<noteq> 4 \<and> opcodeQty \<noteq> 8 then info\<lparr>tg_invalid := True\<rparr>
          else (case DeserializeAmount tokenQty of
              None \<Rightarrow> info\<lparr>associatedGroup := groupId, tg_invalid := True\<rparr>
            | Some q \<Rightarrow> info\<lparr>associatedGroup := groupId, tg_quantity := q\<rparr>))"

definition controllingGroupFlags :: "CTokenGroupInfo \<Rightarrow> u64" where
  "controllingGroupFlags info = (if tg_quantity info < 0 then of_int (tg_quantity info) else 0)"

definition getAmount :: "CTokenGroupInfo \<Rightarrow> CAmount" where
  "getAmount info = (if tg_quantity info < 0 then 0 else tg_quantity info)"

definition isAuthority :: "CTokenGroupInfo \<Rightarrow> bool" where
  "isAuthority info \<longleftrightarrow> controllingGroupFlags info AND CTRL = CTRL"

definition isGroupCreation :: "u8 \<Rightarrow> CTokenGroupInfo \<Rightarrow> bool" where
  "isGroupCreation tokenGroupIdFlags info \<longleftrightarrow>
     (let hasNonce = ((of_int (tg_quantity info) :: u64) AND NOT ALL_BITS \<noteq> 0)
      in controllingGroupFlags info AND CTRL = CTRL \<and> hasNonce \<and> hasFlag (associatedGroup info) tokenGroupIdFlags)"

section \<open>Outputs\<close>

definition IsOutputGrouped :: "CTxOut \<Rightarrow> bool" where
  "IsOutputGrouped txout \<longleftrightarrow>
     (let grp = CTokenGroupInfo_of (scriptPubKey txout) in tg_invalid grp \<or> associatedGroup grp \<noteq> NoGroup)"

definition IsOutputGroupedAuthority :: "CTxOut \<Rightarrow> bool" where
  "IsOutputGroupedAuthority txout \<longleftrightarrow>
     (let grp = CTokenGroupInfo_of (scriptPubKey txout) in associatedGroup grp \<noteq> NoGroup \<and> isAuthority grp)"

definition IsOutputGroupedBet :: "CTxOut \<Rightarrow> bool" where
  "IsOutputGroupedBet txout \<longleftrightarrow>
     (let grp = CTokenGroupInfo_of (scriptPubKey txout)
      in associatedGroup grp \<noteq> NoGroup \<and> hasFlag (associatedGroup grp) BETTING_TOKEN)"

definition IsAnyOutputGrouped :: "CTxOut list \<Rightarrow> bool" where
  "IsAnyOutputGrouped txouts = list_ex IsOutputGrouped txouts"

definition IsAnyOutputGroupedAuthority :: "CTxOut list \<Rightarrow> bool" where
  "IsAnyOutputGroupedAuthority txouts = list_ex IsOutputGroupedAuthority txouts"

definition IsAnyOutputGroupedBet :: "CTxOut list \<Rightarrow> bool" where
  "IsAnyOutputGroupedBet txouts = list_ex IsOutputGroupedBet txouts"

text \<open>The first output that creates a group; an invalid one before it ends the search.\<close>

fun GetGroupedCreationOutput :: "u8 \<Rightarrow> CTxOut list \<Rightarrow> CTxOut option" where
  "GetGroupedCreationOutput flags [] = None"
| "GetGroupedCreationOutput flags (txout # txouts) =
     (let grp = CTokenGroupInfo_of (scriptPubKey txout) in
      if tg_invalid grp then None
      else if isGroupCreation flags grp then Some txout
      else GetGroupedCreationOutput flags txouts)"

definition IsAnyOutputGroupedCreation :: "u8 \<Rightarrow> CTxOut list \<Rightarrow> bool" where
  "IsAnyOutputGroupedCreation flags txouts \<longleftrightarrow> GetGroupedCreationOutput flags txouts \<noteq> None"

definition ser_uint160 :: "160 word \<Rightarrow> bytes" where
  "ser_uint160 h = rev (le_bytes 20 (unat h))"

text \<open>The script of a grouped output; \<open>GetScriptForDestination\<close> of a group, an amount and a destination.\<close>

fun GetGroupScriptForDestination :: "CTxDestination \<Rightarrow> CTokenGroupID \<Rightarrow> CAmount \<Rightarrow> CScript" where
  "GetGroupScriptForDestination CNoDestination grp amount = []"
| "GetGroupScriptForDestination (CKeyID keyID) grp amount =
     push_data ((if isUserGroup grp then push_data (push_data [] grp) (SerializeAmount amount) @ [OP_GROUP, OP_DROP, OP_DROP] else [])
       @ [OP_DUP, OP_HASH160]) (ser_uint160 keyID) @ [OP_EQUALVERIFY, OP_CHECKSIG]"
| "GetGroupScriptForDestination (CScriptID scriptID) grp amount =
     push_data ((if isUserGroup grp then push_data (push_data [] grp) (SerializeAmount amount) @ [OP_GROUP, OP_DROP, OP_DROP] else [])
       @ [OP_HASH160]) (ser_uint160 scriptID) @ [OP_EQUAL]"

section \<open>Amounts, flags and scripts\<close>

lemma length_SerializeAmount: "length (SerializeAmount n) = (if n < 0 \<or> 0xffffffff < n then 8 else if n \<le> 0xffff then 2 else 4)"
  by (simp add: SerializeAmount_def ser_writedata16_def ser_writedata32_def ser_writedata64_def)

lemma i64_uint: "- (2 ^ 63) \<le> n \<Longrightarrow> n < 2 ^ 63 \<Longrightarrow> i64 (uint (of_int n :: u64)) = n"
  by (simp add: uint_word_of_int_eq i64_def take_bit_eq_mod mod_simps)

lemma DeserializeAmount_SerializeAmount:
  assumes "- (2 ^ 63) \<le> n" "n < 2 ^ 63"
  shows "DeserializeAmount (SerializeAmount n) = Some n"
proof (cases "n < 0 \<or> 0xffffffff < n")
  case True
  then have "SerializeAmount n = ser_writedata64 (of_int n)" by (auto simp: SerializeAmount_def)
  moreover from this True have "length (ser_writedata64 (of_int n)) = 8" using length_SerializeAmount [of n] by simp
  ultimately show ?thesis using i64_uint [OF assms] by (simp add: DeserializeAmount_def ser64.roundtrip_nil)
next
  case False
  have u: "uint (of_int n :: u16) = n" if "n \<le> 0xffff" using that False by (simp add: uint_word_of_int_eq take_bit_int_eq_self)
  have v: "uint (of_int n :: u32) = n" using False by (simp add: uint_word_of_int_eq take_bit_int_eq_self)
  show ?thesis
  proof (cases "n \<le> 0xffff")
    case True
    then have "SerializeAmount n = ser_writedata16 (of_int n)" using False by (simp add: SerializeAmount_def)
    moreover from this True have "length (ser_writedata16 (of_int n)) = 2" using False length_SerializeAmount [of n] by simp
    ultimately show ?thesis using u True by (simp add: DeserializeAmount_def ser16.roundtrip_nil)
  next
    case big: False
    then have "SerializeAmount n = ser_writedata32 (of_int n)" using False by (simp add: SerializeAmount_def)
    moreover from this big have "length (ser_writedata32 (of_int n)) = 4" using False length_SerializeAmount [of n] by simp
    ultimately show ?thesis using v by (simp add: DeserializeAmount_def ser32.roundtrip_nil)
  qed
qed

lemma GetScriptOp_push:
  assumes "length b < 2 ^ 32"
  obtains opcode where "GetScriptOp (push_data [] b @ r) = Some (opcode, b, r)"
    "if length b < 76 then opcode = of_nat (length b) else 0x4c \<le> opcode"
proof -
  obtain opcode where o: "GetScriptOp (push_data [] b @ r) = Some (opcode, b, r)" using GetScriptOp_push_data [OF assms] by blast
  have "opcode = hd (push_data [] b)"
    using o by (auto simp: GetScriptOp_def push_data_def split: bind_splits if_splits)
  then have "if length b < 76 then opcode = of_nat (length b) else 0x4c \<le> opcode"
    by (simp add: push_data_def opcode_defs)
  with o show ?thesis by (rule that)
qed

lemma bit_flag: "bit (push_bit k (1 :: u64)) n \<longleftrightarrow> k < 64 \<and> n = k"
  by (auto simp: bit_simps)

lemma and_flag_eq_0: "k < 64 \<Longrightarrow> x AND push_bit k 1 = 0 \<longleftrightarrow> \<not> bit x k" for x :: u64
  by (simp add: bit_iff_and_push_bit_not_eq_0)

lemma and_flag_eq: "k < 64 \<Longrightarrow> x AND push_bit k 1 = push_bit k 1 \<longleftrightarrow> bit x k" for x :: u64
proof
  assume "k < 64" "x AND push_bit k 1 = push_bit k 1"
  moreover have "bit (push_bit k (1 :: u64)) k" using \<open>k < 64\<close> by (simp only: bit_flag simp_thms)
  ultimately show "bit x k" by (metis bit_and_iff)
next
  assume "k < 64" "bit x k"
  then show "x AND push_bit k 1 = push_bit k 1" by (intro bit_word_eqI) (simp only: bit_and_iff bit_flag, blast)
qed

lemma hasCapability_bit:
  "hasCapability x CTRL \<longleftrightarrow> bit x 63" "hasCapability x MINT \<longleftrightarrow> bit x 62" "hasCapability x MELT \<longleftrightarrow> bit x 61"
  "hasCapability x CCHILD \<longleftrightarrow> bit x 60" "hasCapability x RESCRIPT \<longleftrightarrow> bit x 59" "hasCapability x SUBGROUP \<longleftrightarrow> bit x 58"
  using and_flag_eq_0 [of 63 x] and_flag_eq_0 [of 62 x] and_flag_eq_0 [of 61 x] and_flag_eq_0 [of 60 x] and_flag_eq_0 [of 59 x] and_flag_eq_0 [of 58 x]
  by (simp_all add: hasCapability_def)

lemma isAuthority_iff:
  assumes "- (2 ^ 63) \<le> tg_quantity info" "tg_quantity info < 2 ^ 63"
  shows "isAuthority info \<longleftrightarrow> tg_quantity info < 0"
proof -
  have m: "x AND CTRL = CTRL \<longleftrightarrow> bit x 63" for x :: u64 using and_flag_eq [of 63 x] by simp
  have "bit (of_int q :: u64) 63" if "q < 0" "- (2 ^ 63) \<le> q" for q
    using that bit_last_iff [of "of_int q :: u64"] by (simp add: signed_of_int signed_take_bit_int_eq_self)
  then show ?thesis using assms by (auto simp: isAuthority_def controllingGroupFlags_def m)
qed

lemma DeserializeAmount_range: "DeserializeAmount vec = Some q \<Longrightarrow> - (2 ^ 63) \<le> q \<and> q < 2 ^ 63"
proof -
  have "uint (v :: u16) < 2 ^ 63" "uint (w :: u32) < 2 ^ 63" for v w
    using uint_bounded [of v] uint_bounded [of w] by simp_all
  then show "DeserializeAmount vec = Some q \<Longrightarrow> - (2 ^ 63) \<le> q \<and> q < 2 ^ 63"
    using i64_range by (auto simp: DeserializeAmount_def split: if_splits) (meson order_trans neg_le_0_iff_le zero_le_numeral uint_nonnegative)+
qed

lemma quantity_range: "- (2 ^ 63) \<le> tg_quantity (CTokenGroupInfo_of script)" "tg_quantity (CTokenGroupInfo_of script) < 2 ^ 63"
  using DeserializeAmount_range by (auto simp: CTokenGroupInfo_of_def Let_def split: option.splits)

lemma isAuthority_of: "isAuthority (CTokenGroupInfo_of script) \<longleftrightarrow> tg_quantity (CTokenGroupInfo_of script) < 0"
  by (rule isAuthority_iff) (rule quantity_range)+

lemma group_ops_script:
  assumes "length grp < 2 ^ 32" "- (2 ^ 63) \<le> amount" "amount < 2 ^ 63"
  obtains opcode where "group_ops (push_data (push_data [] grp) (SerializeAmount amount) @ OP_GROUP # r) =
      Some (opcode, grp, of_nat (length (SerializeAmount amount)), SerializeAmount amount, OP_GROUP)"
    "if length grp < 76 then opcode = of_nat (length grp) else 0x4c \<le> opcode"
proof -
  let ?q = "SerializeAmount amount"
  obtain opcode where g: "GetScriptOp (push_data [] grp @ push_data [] ?q @ OP_GROUP # r) = Some (opcode, grp, push_data [] ?q @ OP_GROUP # r)"
    "if length grp < 76 then opcode = of_nat (length grp) else 0x4c \<le> opcode"
    by (rule GetScriptOp_push [OF assms(1)])
  have small: "length ?q < 76" "length ?q < 2 ^ 32" using length_SerializeAmount [of amount] by simp_all
  obtain opcode' where q: "GetScriptOp (push_data [] ?q @ OP_GROUP # r) = Some (opcode', ?q, OP_GROUP # r)"
    "if length ?q < 76 then opcode' = of_nat (length ?q) else 0x4c \<le> opcode'"
    by (rule GetScriptOp_push [OF small(2)])
  then have "GetScriptOp (push_data [] ?q @ OP_GROUP # r) = Some (of_nat (length ?q), ?q, OP_GROUP # r)"
    using small(1) by simp
  moreover have "GetScriptOp (OP_GROUP # r) = Some (OP_GROUP, [], r)"
    by (simp add: GetScriptOp_def OP_GROUP_def opcode_defs)
  moreover have "push_data (push_data [] grp) ?q = push_data [] grp @ push_data [] ?q" by (simp add: push_data_def)
  ultimately have "group_ops (push_data (push_data [] grp) ?q @ OP_GROUP # r) = Some (opcode, grp, of_nat (length ?q), ?q, OP_GROUP)"
    using g(1) by (simp add: group_ops_def)
  then show ?thesis using g(2) by (rule that)
qed

text \<open>
  The script of a grouped output announces the group and the amount it was built from, for every destination, every id of at
  least 32 bytes and every 64-bit amount, authorities included; for a shorter id the script announces an invalid group.
\<close>

lemma CTokenGroupInfo_of_script:
  assumes "dest \<noteq> CNoDestination" "grp \<noteq> NoGroup" "length grp < 2 ^ 32" "- (2 ^ 63) \<le> amount" "amount < 2 ^ 63"
  shows "CTokenGroupInfo_of (GetGroupScriptForDestination dest grp amount) =
    (if 32 \<le> length grp then \<lparr>associatedGroup = grp, tg_quantity = amount, tg_invalid = False\<rparr>
     else \<lparr>associatedGroup = NoGroup, tg_quantity = 0, tg_invalid = True\<rparr>)"
proof -
  obtain r where s: "GetGroupScriptForDestination dest grp amount = push_data (push_data [] grp) (SerializeAmount amount) @ OP_GROUP # r"
    using assms(1,2) by (cases dest) (simp_all add: isUserGroup_def push_data_def)
  obtain opcode where g: "group_ops (GetGroupScriptForDestination dest grp amount) =
      Some (opcode, grp, of_nat (length (SerializeAmount amount)), SerializeAmount amount, OP_GROUP)"
    "if length grp < 76 then opcode = of_nat (length grp) else 0x4c \<le> opcode"
    unfolding s by (rule group_ops_script [OF assms(3-5)])
  have "opcode < 0x20 \<longleftrightarrow> length grp < 32"
    using g(2) by (auto simp: word_less_nat_alt word_le_nat_alt unat_of_nat split: if_splits)
  then show ?thesis
    using g(1) DeserializeAmount_SerializeAmount [OF assms(4,5)] length_SerializeAmount [of amount]
    by (auto simp: CTokenGroupInfo_of_def Let_def)
qed

end
