(* ===== verification/TokenDescription.thy ===== *)
theory TokenDescription
  imports BetCodec TokenGroups
begin

text \<open>
  The descriptions of token groups (tokens/tokengroupdescription.h) and the payloads of the transactions that create them
  (evo/specialtx.h): the four classes, their writers and readers, and the accessors that dispatch on the class.
  A BLS key or signature is its bytes, all zero when it is not valid; which other bytes the BLS library accepts and writes
  back unchanged is the parameter \<open>canonical\<close> of the readers.
\<close>

section \<open>Special transactions\<close>

text \<open>A transaction with its version, type and payload.\<close>

record CSpecialTx = CTransaction +
  tx_nVersion :: int
  tx_nType :: u16
  vExtraPayload :: bytes

abbreviation (input) TRANSACTION_NORMAL :: u16 where "TRANSACTION_NORMAL \<equiv> 0"
abbreviation (input) TRANSACTION_GROUP_CREATION_REGULAR :: u16 where "TRANSACTION_GROUP_CREATION_REGULAR \<equiv> 8"
abbreviation (input) TRANSACTION_GROUP_CREATION_MGT :: u16 where "TRANSACTION_GROUP_CREATION_MGT \<equiv> 9"
abbreviation (input) TRANSACTION_GROUP_CREATION_NFT :: u16 where "TRANSACTION_GROUP_CREATION_NFT \<equiv> 10"
abbreviation (input) TRANSACTION_GROUP_CREATION_BETTING :: u16 where "TRANSACTION_GROUP_CREATION_BETTING \<equiv> 11"

text \<open>The payload, when the type of the transaction is the type of the object and the reader consumes it whole.\<close>

definition GetTxPayload :: "u16 \<Rightarrow> 'a reader \<Rightarrow> CSpecialTx \<Rightarrow> 'a option" where
  "GetTxPayload SPECIALTX_TYPE unser tx =
     (if tx_nType tx = SPECIALTX_TYPE then (case unser (vExtraPayload tx) of Some (obj, []) \<Rightarrow> Some obj | _ \<Rightarrow> None) else None)"

section \<open>Descriptions\<close>

record CTokenGroupDescriptionRegular =
  rd_nVersion :: u16
  rd_strTicker :: string
  rd_strName :: string
  rd_strDocumentUrl :: string
  rd_documentHash :: uint256
  rd_nDecimalPos :: u8

record CTokenGroupDescriptionMGT = CTokenGroupDescriptionRegular +
  md_blsPubKey :: bytes

record CTokenGroupDescriptionNFT =
  nd_nVersion :: u16
  nd_strName :: string
  nd_nMintAmount :: u64
  nd_strDocumentUrl :: string
  nd_documentHash :: uint256
  nd_vchData :: bytes
  nd_strDataFilename :: string

text \<open>The signer of a betting description is a byte: 1 for a management token, 2 for an oracle token, 3 for a quorum.\<close>

record CTokenGroupDescriptionBetting =
  bd_nVersion :: u16
  bd_nEventId :: u32
  bd_signerType :: u8
  bd_signerHash :: uint256
  bd_blsPubKey :: bytes
  bd_blsSig :: bytes

datatype CTokenGroupDescriptionVariant =
    RegularDescription CTokenGroupDescriptionRegular
  | MGTDescription CTokenGroupDescriptionMGT
  | NFTDescription CTokenGroupDescriptionNFT
  | BettingDescription CTokenGroupDescriptionBetting

section \<open>Writers and readers\<close>

definition unser_bls :: "nat \<Rightarrow> (bytes \<Rightarrow> bool) \<Rightarrow> bytes reader" where
  "unser_bls SerSize canonical s =
     (if length s < SerSize then None
      else let vecBytes = take SerSize s
           in if list_all (\<lambda>c. c = 0) vecBytes \<or> canonical vecBytes then Some (vecBytes, drop SerSize s) else None)"

definition ser_RegularDescription :: "'a CTokenGroupDescriptionRegular_scheme \<Rightarrow> bytes" where
  "ser_RegularDescription d =
     ser_writedata16 (rd_nVersion d) @ ser_string (rd_strTicker d) @ ser_string (rd_strName d) @
     ser_string (rd_strDocumentUrl d) @ ser_uint256 (rd_documentHash d) @ ser_writedata8 (rd_nDecimalPos d)"

definition unser_RegularDescription :: "CTokenGroupDescriptionRegular reader" where
  "unser_RegularDescription s = do {
     (v, s) \<leftarrow> ser_readdata16 s; (ticker, s) \<leftarrow> unser_string s; (name, s) \<leftarrow> unser_string s;
     (url, s) \<leftarrow> unser_string s; (hash, s) \<leftarrow> unser_uint256 s; (pos, s) \<leftarrow> ser_readdata8 s;
     Some (\<lparr>rd_nVersion = v, rd_strTicker = ticker, rd_strName = name, rd_strDocumentUrl = url, rd_documentHash = hash, rd_nDecimalPos = pos\<rparr>, s) }"

definition ser_MGTDescription :: "CTokenGroupDescriptionMGT \<Rightarrow> bytes" where
  "ser_MGTDescription d = ser_RegularDescription d @ md_blsPubKey d"

definition unser_MGTDescription :: "(bytes \<Rightarrow> bool) \<Rightarrow> CTokenGroupDescriptionMGT reader" where
  "unser_MGTDescription canonical s = do {
     (d, s) \<leftarrow> unser_RegularDescription s; (key, s) \<leftarrow> unser_bls 48 canonical s;
     Some (CTokenGroupDescriptionRegular.extend d (CTokenGroupDescriptionMGT.fields key), s) }"

definition ser_NFTDescription :: "CTokenGroupDescriptionNFT \<Rightarrow> bytes" where
  "ser_NFTDescription d =
     ser_writedata16 (nd_nVersion d) @ ser_string (nd_strName d) @ ser_writedata64 (nd_nMintAmount d) @ ser_string (nd_strDocumentUrl d) @
     ser_uint256 (nd_documentHash d) @ ser_vector ser_writedata8 (nd_vchData d) @ ser_string (nd_strDataFilename d)"

definition unser_NFTDescription :: "CTokenGroupDescriptionNFT reader" where
  "unser_NFTDescription s = do {
     (v, s) \<leftarrow> ser_readdata16 s; (name, s) \<leftarrow> unser_string s; (amount, s) \<leftarrow> ser_readdata64 s; (url, s) \<leftarrow> unser_string s;
     (hash, s) \<leftarrow> unser_uint256 s; (data, s) \<leftarrow> unser_vector ser_readdata8 s; (file, s) \<leftarrow> unser_string s;
     Some (\<lparr>nd_nVersion = v, nd_strName = name, nd_nMintAmount = amount, nd_strDocumentUrl = url, nd_documentHash = hash,
       nd_vchData = data, nd_strDataFilename = file\<rparr>, s) }"

text \<open>With \<open>SER_GETHASH\<close> the key and the signature of a betting description are left out.\<close>

definition ser_BettingDescription_hash :: "CTokenGroupDescriptionBetting \<Rightarrow> bytes" where
  "ser_BettingDescription_hash d =
     ser_writedata16 (bd_nVersion d) @ ser_writedata32 (bd_nEventId d) @ ser_writedata8 (bd_signerType d) @ ser_uint256 (bd_signerHash d)"

definition ser_BettingDescription :: "CTokenGroupDescriptionBetting \<Rightarrow> bytes" where
  "ser_BettingDescription d = ser_BettingDescription_hash d @ bd_blsPubKey d @ bd_blsSig d"

definition unser_BettingDescription :: "(bytes \<Rightarrow> bool) \<Rightarrow> CTokenGroupDescriptionBetting reader" where
  "unser_BettingDescription canonical s = do {
     (v, s) \<leftarrow> ser_readdata16 s; (event, s) \<leftarrow> ser_readdata32 s; (signer, s) \<leftarrow> ser_readdata8 s; (hash, s) \<leftarrow> unser_uint256 s;
     (key, s) \<leftarrow> unser_bls 48 canonical s; (sig, s) \<leftarrow> unser_bls 96 canonical s;
     Some (\<lparr>bd_nVersion = v, bd_nEventId = event, bd_signerType = signer, bd_signerHash = hash, bd_blsPubKey = key, bd_blsSig = sig\<rparr>, s) }"

section \<open>Accessors\<close>

text \<open>\<open>strprintf("%d", n)\<close> of an unsigned number.\<close>

fun decimal :: "nat \<Rightarrow> string" where
  "decimal n = (if n < 10 then [char_of (48 + n)] else decimal (n div 10) @ [char_of (48 + n mod 10)])"

fun tgDescGetTicker :: "CTokenGroupDescriptionVariant \<Rightarrow> string" where
  "tgDescGetTicker (RegularDescription d) = rd_strTicker d"
| "tgDescGetTicker (MGTDescription d) = rd_strTicker d"
| "tgDescGetTicker _ = ''''"

fun tgDescGetName :: "CTokenGroupDescriptionVariant \<Rightarrow> string" where
  "tgDescGetName (RegularDescription d) = rd_strName d"
| "tgDescGetName (MGTDescription d) = rd_strName d"
| "tgDescGetName (NFTDescription d) = nd_strName d"
| "tgDescGetName (BettingDescription d) = decimal (unat (bd_nEventId d))"

fun tgDescGetDecimalPos :: "CTokenGroupDescriptionVariant \<Rightarrow> u8" where
  "tgDescGetDecimalPos (RegularDescription d) = rd_nDecimalPos d"
| "tgDescGetDecimalPos (MGTDescription d) = rd_nDecimalPos d"
| "tgDescGetDecimalPos (NFTDescription d) = 0"
| "tgDescGetDecimalPos (BettingDescription d) = 8"

definition COINFromDecimalPos :: "u8 \<Rightarrow> CAmount" where
  "COINFromDecimalPos nDecimalPos = 10 ^ (if nDecimalPos \<le> 16 then unat nDecimalPos else 0)"

definition tgDescGetCoinAmount :: "CTokenGroupDescriptionVariant \<Rightarrow> CAmount" where
  "tgDescGetCoinAmount d = COINFromDecimalPos (tgDescGetDecimalPos d)"

section \<open>Round trips\<close>

definition regular_ok :: "'a CTokenGroupDescriptionRegular_scheme \<Rightarrow> bool" where
  "regular_ok d \<longleftrightarrow> length (rd_strTicker d) \<le> MAX_SIZE \<and> length (rd_strName d) \<le> MAX_SIZE \<and> length (rd_strDocumentUrl d) \<le> MAX_SIZE"

lemma regular_fields: "unser_RegularDescription (ser_RegularDescription d @ r) = Some (CTokenGroupDescriptionRegular.truncate d, r)" if "regular_ok d"
  using that by (simp add: regular_ok_def ser_RegularDescription_def unser_RegularDescription_def codec_simps str.roundtrip uint256c.roundtrip CTokenGroupDescriptionRegular.defs)

lemma unser_bls_append [simp]: "length b = n \<Longrightarrow> canonical b \<Longrightarrow> unser_bls n canonical (b @ r) = Some (b, r)"
  by (auto simp: unser_bls_def)

interpretation regularDesc: codec ser_RegularDescription unser_RegularDescription regular_ok
  by standard (simp add: regular_fields CTokenGroupDescriptionRegular.defs)

interpretation mgtDesc: codec ser_MGTDescription "unser_MGTDescription canonical"
    "\<lambda>d. regular_ok d \<and> length (md_blsPubKey d) = 48 \<and> canonical (md_blsPubKey d)" for canonical
  by standard (simp add: ser_MGTDescription_def unser_MGTDescription_def regular_fields CTokenGroupDescriptionRegular.defs CTokenGroupDescriptionMGT.defs)

interpretation nftDesc: codec ser_NFTDescription unser_NFTDescription
    "\<lambda>d. length (nd_strName d) \<le> MAX_SIZE \<and> length (nd_strDocumentUrl d) \<le> MAX_SIZE \<and> length (nd_vchData d) \<le> MAX_SIZE \<and> length (nd_strDataFilename d) \<le> MAX_SIZE"
  by standard (simp add: ser_NFTDescription_def unser_NFTDescription_def codec_simps str.roundtrip uint256c.roundtrip vec8.roundtrip list_all_iff)

interpretation bettingDesc: codec ser_BettingDescription "unser_BettingDescription canonical"
    "\<lambda>d. length (bd_blsPubKey d) = 48 \<and> canonical (bd_blsPubKey d) \<and> length (bd_blsSig d) = 96 \<and> canonical (bd_blsSig d)" for canonical
  by standard (simp add: ser_BettingDescription_def ser_BettingDescription_hash_def unser_BettingDescription_def codec_simps uint256c.roundtrip)

end
