(* ===== verification/TokenManager.thy ===== *)
theory TokenManager
  imports TokenDescription ChainEnv
begin

text \<open>
  The manager of token groups (tokens/tokengroupmanager.h and .cpp, tokens/tokengroupconfiguration.h and .cpp, tokens/tokendb.cpp): the
  creation of a group, the filters of its description, the maps of groups and of betting tokens, the two management
  groups, and what connecting and disconnecting a block does to them and to the token database.
\<close>

section \<open>The environment of tokens\<close>

text \<open>
  \<open>Hash\<close> is the double SHA-256 of \<open>CHashWriter\<close>; \<open>bls_canonical\<close> and \<open>VerifyInsecure\<close> (public key, hash, signature) are the BLS library.
\<close>

record token_env = betting_env +
  ATPStartHeight :: int
  strTokenManagementKey :: string
  Hash :: "bytes \<Rightarrow> uint256"
  bls_canonical :: "bytes \<Rightarrow> bool"
  VerifyInsecure :: "bytes \<Rightarrow> uint256 \<Rightarrow> bytes \<Rightarrow> bool"

section \<open>Creation of groups\<close>

record CTokenGroupCreation =
  creationTransaction :: CSpecialTx
  creationBlockHash :: uint256
  tokenGroupInfo :: CTokenGroupInfo
  tokenGroupDescription :: CTokenGroupDescriptionVariant
  tg_status :: string

text \<open>The first output that creates a group; no output at all when one of them is invalid.\<close>

definition new_token_group :: "CTxOut list \<Rightarrow> CTokenGroupInfo option" where
  "new_token_group outs =
     (let infos = map (\<lambda>txout. CTokenGroupInfo_of (scriptPubKey txout)) outs in
      if list_ex tg_invalid infos then None
      else find (\<lambda>tokenGrp. associatedGroup tokenGrp \<noteq> NoGroup \<and> isGroupCreation 0 tokenGrp) infos)"

definition GetTokenConfigurationParameters :: "u16 \<Rightarrow> 'a reader \<Rightarrow> CSpecialTx \<Rightarrow> (CTokenGroupInfo \<times> 'a) option" where
  "GetTokenConfigurationParameters ty unser tx = do {
     tokenGroupInfo \<leftarrow> new_token_group (vout tx);
     tgDesc \<leftarrow> GetTxPayload ty unser tx;
     Some (tokenGroupInfo, tgDesc) }"

text \<open>The new group of a transaction of one of the four types, with its description.\<close>

definition token_group_as ::
  "u16 \<Rightarrow> 'a reader \<Rightarrow> ('a \<Rightarrow> CTokenGroupDescriptionVariant) \<Rightarrow> CSpecialTx \<Rightarrow> (CTokenGroupInfo \<times> CTokenGroupDescriptionVariant) option" where
  "token_group_as ty unser mk tx = map_option (map_prod (\<lambda>info. info) mk) (GetTokenConfigurationParameters ty unser tx)"

definition token_group_of :: "token_env \<Rightarrow> CSpecialTx \<Rightarrow> (CTokenGroupInfo \<times> CTokenGroupDescriptionVariant) option" where
  "token_group_of env tx =
     (let nType = tx_nType tx in
      if nType = TRANSACTION_GROUP_CREATION_REGULAR then token_group_as nType unser_RegularDescription RegularDescription tx
      else if nType = TRANSACTION_GROUP_CREATION_MGT then token_group_as nType (unser_MGTDescription (bls_canonical env)) MGTDescription tx
      else if nType = TRANSACTION_GROUP_CREATION_NFT then token_group_as nType unser_NFTDescription NFTDescription tx
      else if nType = TRANSACTION_GROUP_CREATION_BETTING then token_group_as nType (unser_BettingDescription (bls_canonical env)) BettingDescription tx
      else None)"

definition is_creation_type :: "u16 \<Rightarrow> bool" where
  "is_creation_type ty \<longleftrightarrow> ty \<in> set [TRANSACTION_GROUP_CREATION_REGULAR, TRANSACTION_GROUP_CREATION_MGT,
     TRANSACTION_GROUP_CREATION_NFT, TRANSACTION_GROUP_CREATION_BETTING]"

text \<open>For a transaction of one of the four types.\<close>

definition CreateTokenGroup :: "token_env \<Rightarrow> CSpecialTx \<Rightarrow> uint256 \<Rightarrow> CTokenGroupCreation option" where
  "CreateTokenGroup env tx blockHash = do {
     (info, desc) \<leftarrow> token_group_of env tx;
     Some \<lparr>creationTransaction = tx, creationBlockHash = blockHash, tokenGroupInfo = info, tokenGroupDescription = desc, tg_status = ''''\<rparr> }"

section \<open>Filters of descriptions\<close>

definition isalnum :: "char \<Rightarrow> bool" where
  "isalnum c \<longleftrightarrow> (let n = of_char c :: nat in (48 \<le> n \<and> n \<le> 57) \<or> (65 \<le> n \<and> n \<le> 90) \<or> (97 \<le> n \<and> n \<le> 122))"

definition isspace :: "char \<Rightarrow> bool" where
  "isspace c \<longleftrightarrow> (let n = of_char c :: nat in n = 32 \<or> (9 \<le> n \<and> n \<le> 13))"

definition tolower :: "string \<Rightarrow> string" where
  "tolower = map (\<lambda>c. let n = of_char c :: nat in if 65 \<le> n \<and> n \<le> 90 then char_of (n + 32) else c)"

definition toupper :: "string \<Rightarrow> string" where
  "toupper = map (\<lambda>c. let n = of_char c :: nat in if 97 \<le> n \<and> n \<le> 122 then char_of (n - 32) else c)"

definition TGFilterTickerCharacters :: "string \<Rightarrow> string" where
  "TGFilterTickerCharacters strTicker =
     (if strTicker \<noteq> '''' \<and> \<not> list_all isalnum strTicker then ''<FILTERED>'' else strTicker)"

text \<open>\<open>^[a-zA-Z0-9][a-zA-Z0-9- ]*[a-zA-Z0-9]$\<close>\<close>

definition regexName :: "string \<Rightarrow> bool" where
  "regexName s \<longleftrightarrow> length s \<ge> 2 \<and> isalnum (hd s) \<and> isalnum (last s) \<and> list_all (\<lambda>c. isalnum c \<or> c = CHR ''-'' \<or> c = CHR '' '') s"

definition TGFilterNameCharacters :: "string \<Rightarrow> string" where
  "TGFilterNameCharacters strName = (if strName \<noteq> '''' \<and> \<not> regexName strName then ''<FILTERED>'' else strName)"

text \<open>\<open>(https?|ftp|wagerr)://(-\.)?([^\s/?\.#-]+\.?)+(/[^\s]*)?$\<close>: the host has no empty label, except that it may end with a dot.\<close>

fun host_labels :: "bool \<Rightarrow> string \<Rightarrow> bool" where
  "host_labels start [] \<longleftrightarrow> \<not> start"
| "host_labels start (c # cs) \<longleftrightarrow> (if c = CHR ''.'' then \<not> start \<and> (cs = [] \<or> host_labels True cs) else host_labels False cs)"

definition drop_prefix :: "string \<Rightarrow> string \<Rightarrow> string option" where
  "drop_prefix p s = (if take (length p) s = p then Some (drop (length p) s) else None)"

definition regexUrl :: "string \<Rightarrow> bool" where
  "regexUrl s \<longleftrightarrow> list_ex (\<lambda>scheme. case drop_prefix scheme s of None \<Rightarrow> False | Some r \<Rightarrow>
     let r = (case drop_prefix ''-.'' r of None \<Rightarrow> r | Some r' \<Rightarrow> r');
         host = takeWhile (\<lambda>c. \<not> isspace c \<and> c \<notin> set ''/?#-'') r;
         path = drop (length host) r
     in host_labels True host \<and> (path = [] \<or> hd path = CHR ''/'' \<and> \<not> list_ex isspace path))
     [''https://'', ''http://'', ''ftp://'', ''wagerr://'']"

definition TGFilterURLCharacters :: "string \<Rightarrow> string" where
  "TGFilterURLCharacters strDocumentUrl =
     (if strDocumentUrl \<noteq> '''' \<and> \<not> regexUrl strDocumentUrl then strDocumentUrl @ '' (non-standard URL)'' else strDocumentUrl)"

text \<open>An entry is replaced by the empty string when another valid group of the map has it, letter case aside.\<close>

definition filter_unique ::
  "(CTokenGroupDescriptionVariant \<Rightarrow> string) \<Rightarrow> (CTokenGroupID, CTokenGroupCreation) omap \<Rightarrow> CTokenGroupID \<Rightarrow> string \<Rightarrow> string" where
  "filter_unique get mapTGs tgID str =
     (if tolower str \<noteq> '''' \<and> list_ex (\<lambda>(_, tokenGroup). \<not> tg_invalid (tokenGroupInfo tokenGroup) \<and>
          associatedGroup (tokenGroupInfo tokenGroup) \<noteq> tgID \<and> tolower str = tolower (get (tokenGroupDescription tokenGroup))) (entries mapTGs)
      then '''' else str)"

definition TGFilterTickerUniqueness :: "(CTokenGroupID, CTokenGroupCreation) omap \<Rightarrow> CTokenGroupID \<Rightarrow> string \<Rightarrow> string" where
  "TGFilterTickerUniqueness = filter_unique tgDescGetTicker"

definition TGFilterNameUniqueness :: "(CTokenGroupID, CTokenGroupCreation) omap \<Rightarrow> CTokenGroupID \<Rightarrow> string \<Rightarrow> string" where
  "TGFilterNameUniqueness = filter_unique tgDescGetName"

definition TGFilterUpperCaseTicker :: "string \<Rightarrow> string" where
  "TGFilterUpperCaseTicker = toupper"

text \<open>The visitor of \<open>ValidateDescription\<close>, with the filters in the order it applies them.\<close>

definition filter_regular ::
  "(CTokenGroupID, CTokenGroupCreation) omap \<Rightarrow> CTokenGroupID \<Rightarrow> 'a CTokenGroupDescriptionRegular_scheme \<Rightarrow> 'a CTokenGroupDescriptionRegular_scheme" where
  "filter_regular mapTGs tgID d =
     d\<lparr>rd_strTicker := TGFilterUpperCaseTicker (TGFilterTickerUniqueness mapTGs tgID (TGFilterTickerCharacters (rd_strTicker d))),
       rd_strName := TGFilterNameUniqueness mapTGs tgID (TGFilterNameCharacters (rd_strName d)),
       rd_strDocumentUrl := TGFilterURLCharacters (rd_strDocumentUrl d)\<rparr>"

fun filter_description ::
  "(CTokenGroupID, CTokenGroupCreation) omap \<Rightarrow> CTokenGroupID \<Rightarrow> CTokenGroupDescriptionVariant \<Rightarrow> CTokenGroupDescriptionVariant" where
  "filter_description mapTGs tgID (RegularDescription d) = RegularDescription (filter_regular mapTGs tgID d)"
| "filter_description mapTGs tgID (MGTDescription d) = MGTDescription (filter_regular mapTGs tgID d)"
| "filter_description mapTGs tgID (NFTDescription d) =
     NFTDescription (d\<lparr>nd_strName := TGFilterNameUniqueness mapTGs tgID (TGFilterNameCharacters (nd_strName d)),
       nd_strDocumentUrl := TGFilterURLCharacters (nd_strDocumentUrl d)\<rparr>)"
| "filter_description mapTGs tgID (BettingDescription d) = BettingDescription d"

section \<open>The manager\<close>

record CTokenGroupManager =
  mapTokenGroups :: "(CTokenGroupID, CTokenGroupCreation) omap"
  mapBetTokens :: "(u32, CTokenGroupID) omap"
  tgMGTCreation :: "CTokenGroupCreation option"
  tgORATCreation :: "CTokenGroupCreation option"
  newTokenGroups :: "CTokenGroupCreation list"

abbreviation group_of :: "CTokenGroupCreation \<Rightarrow> CTokenGroupID" where
  "group_of c \<equiv> associatedGroup (tokenGroupInfo c)"

definition ValidateDescription :: "CTokenGroupManager \<Rightarrow> CTokenGroupCreation \<Rightarrow> CTokenGroupCreation" where
  "ValidateDescription m c = c\<lparr>tokenGroupDescription := filter_description (mapTokenGroups m) (group_of c) (tokenGroupDescription c)\<rparr>"

definition StoreManagementTokenGroups :: "CTokenGroupCreation \<Rightarrow> CTokenGroupManager \<Rightarrow> CTokenGroupManager" where
  "StoreManagementTokenGroups c m =
     (case tokenGroupDescription c of
        MGTDescription d \<Rightarrow>
          if tgMGTCreation m = None \<and> rd_strTicker d = ''MGT'' then m\<lparr>tgMGTCreation := Some c\<rparr>
          else if tgORATCreation m = None \<and> rd_strTicker d = ''ORAT'' then m\<lparr>tgORATCreation := Some c\<rparr>
          else m
      | _ \<Rightarrow> m)"

definition ClearManagementTokenGroups :: "CTokenGroupManager \<Rightarrow> CTokenGroupManager" where
  "ClearManagementTokenGroups m = m\<lparr>tgMGTCreation := None, tgORATCreation := None\<rparr>"

definition MatchesMGT :: "CTokenGroupManager \<Rightarrow> CTokenGroupID \<Rightarrow> bool" where
  "MatchesMGT m tgID = (case tgMGTCreation m of None \<Rightarrow> False | Some c \<Rightarrow> tgID = group_of c)"

definition MatchesORAT :: "CTokenGroupManager \<Rightarrow> CTokenGroupID \<Rightarrow> bool" where
  "MatchesORAT m tgID = (case tgORATCreation m of None \<Rightarrow> False | Some c \<Rightarrow> tgID = group_of c)"

text \<open>One group of \<open>AddTokenGroups\<close>.  \<open>None\<close> is the exception of a betting transaction whose description is of another class.\<close>

definition AddTokenGroup :: "CTokenGroupCreation \<Rightarrow> CTokenGroupManager \<Rightarrow> (CTokenGroupManager \<times> bool) option" where
  "AddTokenGroup c m =
     (let c = ValidateDescription m c; m = StoreManagementTokenGroups c m in
      if om_lookup (mapTokenGroups m) (group_of c) \<noteq> None then Some (m, False)
      else let m = m\<lparr>mapTokenGroups := om_update (group_of c) c (mapTokenGroups m)\<rparr> in
        if tx_nType (creationTransaction c) = TRANSACTION_GROUP_CREATION_BETTING
        then (case tokenGroupDescription c of
            BettingDescription d \<Rightarrow>
              if om_lookup (mapBetTokens m) (bd_nEventId d) \<noteq> None then Some (m, False)
              else Some (m\<lparr>mapBetTokens := om_update (bd_nEventId d) (group_of c) (mapBetTokens m)\<rparr>, True)
          | _ \<Rightarrow> None)
        else Some (m, True))"

fun AddTokenGroups :: "CTokenGroupCreation list \<Rightarrow> CTokenGroupManager \<Rightarrow> (CTokenGroupManager \<times> bool) option" where
  "AddTokenGroups [] m = Some (m, True)"
| "AddTokenGroups (c # cs) m = do {
     (m, ok) \<leftarrow> AddTokenGroup c m;
     if ok then AddTokenGroups cs m else Some (m, False) }"

definition wagerr_group :: CTokenGroupCreation where
  "wagerr_group =
     \<lparr>creationTransaction = \<lparr>vin = [], vout = [], tx_hash = 0, tx_nVersion = 1, tx_nType = TRANSACTION_NORMAL, vExtraPayload = []\<rparr>,
      creationBlockHash = 0,
      tokenGroupInfo = \<lparr>associatedGroup = NoGroup, tg_quantity = i64 (uint ALL_FLAGS), tg_invalid = False\<rparr>,
      tokenGroupDescription = RegularDescription \<lparr>rd_nVersion = 1, rd_strTicker = ''WAGERR'', rd_strName = ''Wagerr'',
        rd_strDocumentUrl = ''https://wagerr.com'', rd_documentHash = 0, rd_nDecimalPos = 8\<rparr>,
      tg_status = ''''\<rparr>"

definition ResetTokenGroups :: "CTokenGroupManager \<Rightarrow> CTokenGroupManager" where
  "ResetTokenGroups m =
     (ClearManagementTokenGroups m)\<lparr>mapTokenGroups := om_update NoGroup wagerr_group om_empty, mapBetTokens := om_empty\<rparr>"

definition RemoveTokenGroup :: "token_env \<Rightarrow> CSpecialTx \<Rightarrow> CTokenGroupManager \<Rightarrow> CTokenGroupManager \<times> CTokenGroupID option" where
  "RemoveTokenGroup env tx m =
     (case token_group_of env tx of
        None \<Rightarrow> (m, None)
      | Some (info, desc) \<Rightarrow>
          let m = (case desc of BettingDescription d \<Rightarrow> m\<lparr>mapBetTokens := om_delete (bd_nEventId d) (mapBetTokens m)\<rparr> | _ \<Rightarrow> m);
              m = (if MatchesMGT m (associatedGroup info) then m\<lparr>tgMGTCreation := None\<rparr>
                   else if MatchesORAT m (associatedGroup info) then m\<lparr>tgORATCreation := None\<rparr> else m)
          in if om_lookup (mapTokenGroups m) (associatedGroup info) \<noteq> None
             then (m\<lparr>mapTokenGroups := om_delete (associatedGroup info) (mapTokenGroups m)\<rparr>, Some (associatedGroup info))
             else (m, None))"

section \<open>Queries\<close>

definition GetTokenGroupCreation :: "CTokenGroupManager \<Rightarrow> CTokenGroupID \<Rightarrow> CTokenGroupCreation option" where
  "GetTokenGroupCreation m tgID = om_lookup (mapTokenGroups m) (if isSubgroup tgID then parentGroup tgID else tgID)"

definition GetTokenGroupIdByEventID :: "CTokenGroupManager \<Rightarrow> u32 \<Rightarrow> CTokenGroupID option" where
  "GetTokenGroupIdByEventID m nEventID = om_lookup (mapBetTokens m) nEventID"

definition GetTokenGroupNameByID :: "CTokenGroupManager \<Rightarrow> CTokenGroupID \<Rightarrow> string" where
  "GetTokenGroupNameByID m tgID =
     (case GetTokenGroupCreation m tgID of None \<Rightarrow> '''' | Some c \<Rightarrow> tgDescGetName (tokenGroupDescription c))"

definition GetTokenGroupTickerByID :: "CTokenGroupManager \<Rightarrow> CTokenGroupID \<Rightarrow> string" where
  "GetTokenGroupTickerByID m tgID =
     (case GetTokenGroupCreation m tgID of None \<Rightarrow> '''' | Some c \<Rightarrow> tgDescGetName (tokenGroupDescription c))"

definition GetTokenGroupIdByTicker :: "CTokenGroupManager \<Rightarrow> string \<Rightarrow> CTokenGroupID option" where
  "GetTokenGroupIdByTicker m strTicker =
     map_option fst (find (\<lambda>(_, c). tolower (tgDescGetTicker (tokenGroupDescription c)) = tolower strTicker) (entries (mapTokenGroups m)))"

definition GetTokenGroupIdByName :: "CTokenGroupManager \<Rightarrow> string \<Rightarrow> CTokenGroupID option" where
  "GetTokenGroupIdByName m strName =
     map_option fst (find (\<lambda>(_, c). tolower (tgDescGetName (tokenGroupDescription c)) = tolower strName) (entries (mapTokenGroups m)))"

definition MGTTokensCreated :: "CTokenGroupManager \<Rightarrow> bool" where
  "MGTTokensCreated m \<longleftrightarrow> tgMGTCreation m \<noteq> None"

definition ManagementTokensCreated :: "CTokenGroupManager \<Rightarrow> bool" where
  "ManagementTokensCreated m \<longleftrightarrow> MGTTokensCreated m \<and> tgORATCreation m \<noteq> None"

definition TokenMoneyRange :: "CAmount \<Rightarrow> bool" where
  "TokenMoneyRange nValueOut \<longleftrightarrow> nValueOut \<ge> 0 \<and> nValueOut \<le> 922337203685477580"

text \<open>
  The text of an amount.  \<open>None\<close>: the decimal position of the default description, read for an unknown group, is not initialized,
  and the smallest amount has no negation.
\<close>

definition TokenValueFromAmount :: "CTokenGroupManager \<Rightarrow> CAmount \<Rightarrow> CTokenGroupID \<Rightarrow> string option" where
  "TokenValueFromAmount m amount tgID = do {
     c \<leftarrow> GetTokenGroupCreation m tgID;
     let tokenCOIN = tgDescGetCoinAmount (tokenGroupDescription c);
     n_abs \<leftarrow> (if amount = - (2 ^ 63) then None else Some (\<bar>amount\<bar>));
     let nDecimalPos = unat (tgDescGetDecimalPos (tokenGroupDescription c));
     let sign = (if amount < 0 then ''-'' else '''');
     let quotient = decimal (nat (n_abs div tokenCOIN));
     let remainder = decimal (nat (n_abs mod tokenCOIN));
     Some (if nDecimalPos = 0 then sign @ quotient
       else sign @ quotient @ ''.'' @ replicate (nDecimalPos - length remainder) (CHR ''0'') @ remainder) }"

section \<open>Blocks\<close>

text \<open>The token database, keyed by the serialized pair of the character c and the id of the group.\<close>

type_synonym token_db = "(bytes, CTokenGroupCreation) omap"

definition token_key :: "CTokenGroupID \<Rightarrow> bytes" where
  "token_key tgID = 99 # ser_vector ser_writedata8 tgID"

definition WriteTokenGroupsBatch :: "CTokenGroupCreation list \<Rightarrow> token_db \<Rightarrow> token_db" where
  "WriteTokenGroupsBatch cs db = fold (\<lambda>c. om_update (token_key (group_of c)) (c\<lparr>tg_status := ''''\<rparr>)) cs db"

definition EraseTokenGroupBatch :: "CTokenGroupID list \<Rightarrow> token_db \<Rightarrow> token_db" where
  "EraseTokenGroupBatch ids db = fold (\<lambda>tgID. om_delete (token_key tgID)) ids db"

definition FindTokenGroups :: "token_db \<Rightarrow> CTokenGroupCreation list" where
  "FindTokenGroups db = map snd (entries db)"

definition LoadTokensFromDB :: "token_db \<Rightarrow> CTokenGroupManager \<Rightarrow> (CTokenGroupManager \<times> bool) option" where
  "LoadTokensFromDB db m = AddTokenGroups (FindTokenGroups db) (ResetTokenGroups m)"

text \<open>The groups that the transactions of a block create; \<open>None\<close> when one of them is malformed.\<close>

fun collect_groups :: "token_env \<Rightarrow> uint256 \<Rightarrow> CSpecialTx list \<Rightarrow> CTokenGroupCreation list option" where
  "collect_groups env blockHash [] = Some []"
| "collect_groups env blockHash (tx # txs) =
     (if tx_nVersion tx \<noteq> 3 \<or> \<not> is_creation_type (tx_nType tx) then collect_groups env blockHash txs
      else do {
        c \<leftarrow> CreateTokenGroup env tx blockHash;
        cs \<leftarrow> collect_groups env blockHash txs;
        Some (c # cs) })"

text \<open>\<open>None\<close> is the rejection of the block; the next call clears what was collected before it.\<close>

definition CollectTokensFromBlock ::
  "token_env \<Rightarrow> int \<Rightarrow> uint256 \<Rightarrow> CSpecialTx list \<Rightarrow> CTokenGroupManager \<Rightarrow> CTokenGroupManager option" where
  "CollectTokensFromBlock env nHeight blockHash txs m =
     (if nHeight < ATPStartHeight env then Some m
      else map_option (\<lambda>cs. m\<lparr>newTokenGroups := cs\<rparr>) (collect_groups env blockHash txs))"

definition ApplyTokensFromBlock :: "CTokenGroupManager \<times> token_db \<Rightarrow> ((CTokenGroupManager \<times> token_db) \<times> bool) option" where
  "ApplyTokensFromBlock s =
     (let (m, db) = s; db = WriteTokenGroupsBatch (newTokenGroups m) db in do {
       (m, ok) \<leftarrow> AddTokenGroups (newTokenGroups m) m;
       Some (if ok then ((m\<lparr>newTokenGroups := []\<rparr>, db), True) else ((m, db), False)) })"

fun remove_groups :: "token_env \<Rightarrow> CSpecialTx list \<Rightarrow> CTokenGroupManager \<Rightarrow> CTokenGroupManager \<times> CTokenGroupID list" where
  "remove_groups env [] m = (m, [])"
| "remove_groups env (tx # txs) m =
     (if tx_nVersion tx \<noteq> 3 then remove_groups env txs m
      else let (m, removed) = RemoveTokenGroup env tx m; (m, ids) = remove_groups env txs m
           in (m, (case removed of None \<Rightarrow> ids | Some tgID \<Rightarrow> tgID # ids)))"

definition UndoBlock :: "token_env \<Rightarrow> int \<Rightarrow> CSpecialTx list \<Rightarrow> CTokenGroupManager \<times> token_db \<Rightarrow> CTokenGroupManager \<times> token_db" where
  "UndoBlock env nHeight txs s =
     (if nHeight < ATPStartHeight env then s
      else let (m, ids) = remove_groups env txs (fst s) in (m, EraseTokenGroupBatch ids (snd s)))"

end
