(* ===== verification/TokenBalance.thy ===== *)
theory TokenBalance
  imports TokenManager
begin

text \<open>
  The consensus rules of token transactions (consensus/tokengroups.h and .cpp): the balance of every group over the outputs
  and inputs of a transaction, the authorities that inputs provide, the creation of groups, and the checks of minting,
  melting and of the permissions of outputs.
\<close>

section \<open>Balances\<close>

record CTokenGroupBalance =
  ctrlPerms :: u64
  allowedCtrlOutputPerms :: u64
  allowedSubgroupCtrlOutputPerms :: u64
  ctrlOutputPerms :: u64
  tb_input :: CAmount
  tb_output :: CAmount
  numInputs :: u64
  numOutputs :: u64

definition new_CTokenGroupBalance :: CTokenGroupBalance where
  "new_CTokenGroupBalance = \<lparr>ctrlPerms = 0, allowedCtrlOutputPerms = 0, allowedSubgroupCtrlOutputPerms = 0, ctrlOutputPerms = 0,
     tb_input = 0, tb_output = 0, numInputs = 0, numOutputs = 0\<rparr>"

type_synonym balances = "(CTokenGroupID, CTokenGroupBalance) omap"

text \<open>\<open>gBalance[tgID]\<close>, which creates a missing entry.\<close>

definition balance_of :: "balances \<Rightarrow> CTokenGroupID \<Rightarrow> CTokenGroupBalance" where
  "balance_of gBalance tgID = (case om_lookup gBalance tgID of None \<Rightarrow> new_CTokenGroupBalance | Some bal \<Rightarrow> bal)"

definition upd_balance :: "CTokenGroupID \<Rightarrow> (CTokenGroupBalance \<Rightarrow> CTokenGroupBalance) \<Rightarrow> balances \<Rightarrow> balances" where
  "upd_balance tgID f gBalance = om_update tgID (f (balance_of gBalance tgID)) gBalance"

text \<open>A rejected transaction has the reason of \<open>state.Invalid\<close>; \<open>Undefined\<close> is undefined behaviour (an access past the end, a null pointer).\<close>

datatype token_error = Invalid string | Undefined

section \<open>Inputs of management tokens\<close>

definition IsTokenManagementKey :: "token_env \<Rightarrow> CTokenGroupManager \<Rightarrow> CScript \<Rightarrow> bool" where
  "IsTokenManagementKey env m script =
     (if \<not> MGTTokensCreated m
      then EncodeDestination env (case ExtractDestination env script of None \<Rightarrow> CNoDestination | Some payeeDest \<Rightarrow> payeeDest) = strTokenManagementKey env
      else False)"

definition IsMGTInput :: "CTokenGroupManager \<Rightarrow> CScript \<Rightarrow> bool" where
  "IsMGTInput m script =
     (case tgMGTCreation m of None \<Rightarrow> False | Some c \<Rightarrow> associatedGroup (CTokenGroupInfo_of script) = group_of c)"

fun grouped_inputs :: "token_env \<Rightarrow> CCoinsViewCache \<Rightarrow> CTokenGroupID \<Rightarrow> CTxIn list \<Rightarrow> bool \<Rightarrow> bool" where
  "grouped_inputs env view tgID [] anyInputsGrouped = anyInputsGrouped"
| "grouped_inputs env view tgID (inp # rest) anyInputsGrouped =
     (let coin = view (prevout inp); tokenGrp = CTokenGroupInfo_of (scriptPubKey (coin_out coin)) in
      if IsSpent coin then False
      else grouped_inputs env view tgID rest (anyInputsGrouped \<or>
        \<not> coin_nHeight coin < ATPStartHeight env \<and> \<not> tg_invalid tokenGrp \<and> associatedGroup tokenGrp = tgID))"

definition AnyInputsGrouped :: "token_env \<Rightarrow> CTransaction \<Rightarrow> int \<Rightarrow> CCoinsViewCache \<Rightarrow> CTokenGroupID \<Rightarrow> bool" where
  "AnyInputsGrouped env tx nHeight view tgID =
     (if \<not> (IsCoinBase tx \<or> IsCoinStake tx) \<and> \<not> HasZerocoinSpendInputs tx
      then (if list_ex (\<lambda>inp. IsSpent (view (prevout inp))) (vin tx) then False
            else if nHeight \<ge> ATPStartHeight env then grouped_inputs env view tgID (vin tx) False else False)
      else False)"

section \<open>Sums over outputs and inputs\<close>

fun group_outputs :: "CTxOut list \<Rightarrow> CAmount \<times> balances \<Rightarrow> token_error + CAmount \<times> balances" where
  "group_outputs [] s = Inr s"
| "group_outputs (outp # rest) (nWagerrOut, gBalance) =
     (let nWagerrOut = i64 (nWagerrOut + nValue outp);
          tokenGrp = CTokenGroupInfo_of (scriptPubKey outp);
          g = associatedGroup tokenGrp; q = tg_quantity tokenGrp
      in if tg_invalid tokenGrp then Inl (Invalid ''bad OP_GROUP'')
      else if g = NoGroup then group_outputs rest (nWagerrOut, gBalance)
      else let gBalance = upd_balance g (\<lambda>bal. bal\<lparr>numOutputs := numOutputs bal + 1\<rparr>) gBalance in
        if q > 0 then
          (if 2 ^ 63 - 1 - tb_output (balance_of gBalance g) < q then Inl (Invalid ''token overflow'')
           else group_outputs rest (nWagerrOut, upd_balance g (\<lambda>bal. bal\<lparr>tb_output := tb_output bal + q\<rparr>) gBalance))
        else if q = 0 then Inl (Invalid ''OP_GROUP quantity is zero'')
        else group_outputs rest (nWagerrOut, upd_balance g (\<lambda>bal. bal\<lparr>ctrlOutputPerms := ctrlOutputPerms bal OR of_int q\<rparr>) gBalance))"

text \<open>The authority of an input.\<close>

definition add_authority :: "CTokenGroupInfo \<Rightarrow> balances \<Rightarrow> balances" where
  "add_authority tokenGrp gBalance =
     (let temp = controllingGroupFlags tokenGrp in
      if temp = 0 then gBalance
      else upd_balance (associatedGroup tokenGrp) (\<lambda>bal.
        let bal = (if hasCapability temp CCHILD then bal\<lparr>allowedCtrlOutputPerms := allowedCtrlOutputPerms bal OR temp\<rparr> else bal);
            bal = (if hasCapability temp CCHILD \<and> hasCapability temp SUBGROUP
              then bal\<lparr>allowedSubgroupCtrlOutputPerms := allowedSubgroupCtrlOutputPerms bal OR temp\<rparr> else bal)
        in bal\<lparr>ctrlPerms := ctrlPerms bal OR temp\<rparr>) gBalance)"

fun group_inputs ::
  "token_env \<Rightarrow> CTokenGroupManager \<Rightarrow> CCoinsViewCache \<Rightarrow> CTxIn list \<Rightarrow> CAmount \<times> bool \<times> balances \<Rightarrow> token_error + CAmount \<times> bool \<times> balances" where
  "group_inputs env m view [] s = Inr s"
| "group_inputs env m view (inp # rest) (nWagerrIn, anyInputsGroupManagement, gBalance) =
     (let coin = view (prevout inp); script = scriptPubKey (coin_out coin) in
      if IsSpent coin then Inl (Invalid ''already-spent'')
      else let nWagerrIn = i64 (nWagerrIn + nValue (coin_out coin));
               mgt = anyInputsGroupManagement \<or> IsTokenManagementKey env m script
      in if coin_nHeight coin < ATPStartHeight env then group_inputs env m view rest (nWagerrIn, mgt, gBalance)
      else let mgt = mgt \<or> IsMGTInput m script; tokenGrp = CTokenGroupInfo_of script; g = associatedGroup tokenGrp
      in if tg_invalid tokenGrp then group_inputs env m view rest (nWagerrIn, mgt, gBalance)
      else let gBalance = add_authority tokenGrp gBalance
      in if g = NoGroup then group_inputs env m view rest (nWagerrIn, mgt, gBalance)
      else let gBalance = upd_balance g (\<lambda>bal. bal\<lparr>numInputs := numInputs bal + 1,
                 ctrlPerms := (if hasFlag g STICKY_MELT then ctrlPerms bal OR MELT else ctrlPerms bal)\<rparr>) gBalance
      in if isAuthority tokenGrp then group_inputs env m view rest (nWagerrIn, mgt, gBalance)
      else if 2 ^ 63 - 1 - tb_input (balance_of gBalance g) < tg_quantity tokenGrp then Inl (Invalid ''token overflow'')
      else group_inputs env m view rest
        (nWagerrIn, mgt, upd_balance g (\<lambda>bal. bal\<lparr>tb_input := tb_input bal + tg_quantity tokenGrp\<rparr>) gBalance))"

section \<open>Permissions\<close>

text \<open>A subgroup takes the permissions of its parent.  A parent is not a subgroup itself, so it keeps its own entry.\<close>

definition inherit :: "balances \<Rightarrow> CTokenGroupID \<Rightarrow> CTokenGroupBalance \<Rightarrow> CTokenGroupBalance" where
  "inherit gBalance g bal =
     (if isSubgroup g then
        (case om_lookup gBalance (parentGroup g) of
           None \<Rightarrow> bal
         | Some parentData \<Rightarrow>
             let bal = (if hasCapability (ctrlPerms parentData) SUBGROUP
                   then bal\<lparr>ctrlPerms := ctrlPerms bal OR (ctrlPerms parentData AND NOT SUBGROUP)\<rparr> else bal)
             in bal\<lparr>allowedCtrlOutputPerms := allowedCtrlOutputPerms bal OR (allowedSubgroupCtrlOutputPerms parentData AND NOT SUBGROUP)\<rparr>)
      else bal)"

text \<open>The bytes of the description that enter the hash of a new group.\<close>

definition description_bytes :: "token_env \<Rightarrow> CSpecialTx \<Rightarrow> token_error + bytes" where
  "description_bytes env tx =
     (let payload = (\<lambda>d. case d of None \<Rightarrow> Inl (Invalid ''grp-invalid-protx-payload'') | Some bs \<Rightarrow> Inr bs); nType = tx_nType tx in
      if nType = TRANSACTION_GROUP_CREATION_REGULAR then payload (map_option ser_RegularDescription (GetTxPayload nType unser_RegularDescription tx))
      else if nType = TRANSACTION_GROUP_CREATION_MGT
        then payload (map_option ser_MGTDescription (GetTxPayload nType (unser_MGTDescription (bls_canonical env)) tx))
      else if nType = TRANSACTION_GROUP_CREATION_NFT then payload (map_option ser_NFTDescription (GetTxPayload nType unser_NFTDescription tx))
      else if nType = TRANSACTION_GROUP_CREATION_BETTING
        then payload (map_option ser_BettingDescription_hash (GetTxPayload nType (unser_BettingDescription (bls_canonical env)) tx))
      else Inr [])"

definition new_group_id :: "token_env \<Rightarrow> CSpecialTx \<Rightarrow> u64 \<Rightarrow> token_error + CTokenGroupID" where
  "new_group_id env tx perms =
     (case vin tx of
        [] \<Rightarrow> Inl Undefined
      | inp # _ \<Rightarrow> (case description_bytes env tx of
            Inl e \<Rightarrow> Inl e
          | Inr bs \<Rightarrow> Inr (ser_uint256 (Hash env (ser_COutPoint (prevout inp) @ bs @ ser_writedata64 (perms AND NOT ALL_BITS))))))"

text \<open>The rules for a group that is created: the flags of its id against the type of the transaction, and its permissions.\<close>

definition check_creation :: "u16 \<Rightarrow> bool \<Rightarrow> CTokenGroupID \<Rightarrow> CTokenGroupBalance \<Rightarrow> token_error + CTokenGroupBalance" where
  "check_creation nType anyInputsGroupManagement g bal =
     (let flag = hasFlag g; all = (\<lambda>perms bal. bal\<lparr>allowedCtrlOutputPerms := perms, ctrlPerms := perms\<rparr>);
          regular = (\<not> flag MGT_TOKEN \<and> \<not> flag NFT_TOKEN \<and> \<not> flag BETTING_TOKEN);
          mgt = (flag MGT_TOKEN \<and> \<not> flag NFT_TOKEN);
          betting = (flag BETTING_TOKEN \<or> flag PARLAY_TOKEN);
          nft = (\<not> flag MGT_TOKEN \<and> flag NFT_TOKEN)
      in if numOutputs bal \<noteq> 1 then Inl (Invalid ''grp-invalid-create'')
      else if regular \<and> nType \<noteq> TRANSACTION_GROUP_CREATION_REGULAR then Inl (Invalid ''grp-invalid-token-flag'')
      else if mgt \<and> nType \<noteq> TRANSACTION_GROUP_CREATION_MGT then Inl (Invalid ''grp-invalid-token-flag'')
      else if mgt \<and> \<not> anyInputsGroupManagement then Inl (Invalid ''grp-invalid-tx'')
      else if betting \<and> nType \<noteq> TRANSACTION_GROUP_CREATION_BETTING then Inl (Invalid ''grp-invalid-token-flag'')
      else if nft \<and> nType \<noteq> TRANSACTION_GROUP_CREATION_NFT then Inl (Invalid ''grp-invalid-token-flag'')
      else if flag MGT_TOKEN \<and> flag NFT_TOKEN then Inl (Invalid ''grp-invalid-token-flag'')
      else if flag BETTING_TOKEN \<and> (flag MGT_TOKEN \<or> flag NFT_TOKEN) then Inl (Invalid ''grp-invalid-token-flag'')
      else if flag STICKY_MELT \<and> \<not> anyInputsGroupManagement then Inl (Invalid ''grp-invalid-tx'')
      else Inr (let bal = (if regular then all ALL_FLAGS bal else bal); bal = (if mgt then all ALL_FLAGS bal else bal);
                    bal = (if betting then all ALL_BETTING bal else bal)
                in if nft then all ALL_NFT bal else bal))"

definition check_balance :: "nat \<Rightarrow> CTokenGroupID \<Rightarrow> CTokenGroupBalance \<Rightarrow> token_error + CTokenGroupBalance" where
  "check_balance ngroups g bal =
     (let bet = (hasFlag g BETTING_TOKEN \<or> hasFlag g PARLAY_TOKEN) in
      if tb_input bal > tb_output bal \<and> \<not> hasCapability (ctrlPerms bal) MELT then Inl (Invalid ''grp-invalid-melt'')
      else if tb_input bal < tb_output bal \<and> \<not> hasCapability (ctrlPerms bal) MINT \<and> \<not> bet then Inl (Invalid ''grp-invalid-mint'')
      else if tb_input bal < tb_output bal \<and> bet \<and> (numInputs bal > 0 \<or> numOutputs bal > 1) then Inl (Invalid ''grp-invalid-bet-mint'')
      else if tb_input bal < tb_output bal \<and> bet \<and> \<not> hasFlag g PARLAY_TOKEN \<and> ngroups > 1 then Inl (Invalid ''grp-invalid-bet-mint'')
      else if tb_input bal < tb_output bal \<and> hasFlag g NFT_TOKEN \<and> hasCapability (allowedCtrlOutputPerms bal) MINT then Inl (Invalid ''grp-invalid-mint'')
      else if (ctrlOutputPerms bal AND ALL_FLAGS) AND NOT (allowedCtrlOutputPerms bal AND ALL_FLAGS) \<noteq> 0 then Inl (Invalid ''grp-invalid-perm'')
      else Inr bal)"

definition check_group ::
  "token_env \<Rightarrow> CSpecialTx \<Rightarrow> bool \<Rightarrow> nat \<Rightarrow> CTokenGroupID \<Rightarrow> CTokenGroupBalance \<Rightarrow> token_error + CTokenGroupBalance" where
  "check_group env tx anyInputsGroupManagement ngroups g bal =
     (if hasCapability (ctrlOutputPerms bal) CTRL \<and> ctrlPerms bal = 0
      then (case new_group_id env tx (ctrlOutputPerms bal) of
          Inl e \<Rightarrow> Inl e
        | Inr newGrpId \<Rightarrow>
            if newGrpId = g
            then (case check_creation (tx_nType tx) anyInputsGroupManagement g bal of Inl e \<Rightarrow> Inl e | Inr bal \<Rightarrow> check_balance ngroups g bal)
            else if ctrlOutputPerms bal AND NOT ALL_BITS \<noteq> 0 then Inl (Invalid ''grp-invalid-tx'')
            else check_balance ngroups g bal)
      else check_balance ngroups g bal)"

text \<open>The loop over the map; which of several errors is reported depends on the order of the unordered map, here the order of ids.\<close>

fun check_groups ::
  "token_env \<Rightarrow> CSpecialTx \<Rightarrow> bool \<Rightarrow> nat \<Rightarrow> (CTokenGroupID \<times> CTokenGroupBalance) list \<Rightarrow> balances \<Rightarrow> token_error + balances" where
  "check_groups env tx anyInputsGroupManagement ngroups [] gBalance = Inr gBalance"
| "check_groups env tx anyInputsGroupManagement ngroups ((g, bal) # rest) gBalance =
     (case check_group env tx anyInputsGroupManagement ngroups g bal of
        Inl e \<Rightarrow> Inl e
      | Inr bal \<Rightarrow> check_groups env tx anyInputsGroupManagement ngroups rest (om_update g bal gBalance))"

definition CheckTokenGroups ::
  "token_env \<Rightarrow> CTokenGroupManager \<Rightarrow> CCoinsViewCache \<Rightarrow> CSpecialTx \<Rightarrow> token_error + CAmount \<times> CAmount \<times> balances" where
  "CheckTokenGroups env m view tx =
     (case group_outputs (vout tx) (0, om_empty) of
        Inl e \<Rightarrow> Inl e
      | Inr (nWagerrOut, gBalance) \<Rightarrow>
          (case group_inputs env m view (vin tx) (0, False, gBalance) of
             Inl e \<Rightarrow> Inl e
           | Inr (nWagerrIn, anyInputsGroupManagement, gBalance) \<Rightarrow>
               let gBalance = om_map (inherit gBalance) gBalance in
               (case check_groups env tx anyInputsGroupManagement (om_size gBalance) (entries gBalance) gBalance of
                  Inl e \<Rightarrow> Inl e
                | Inr gBalance \<Rightarrow> Inr (nWagerrIn, nWagerrOut, gBalance))))"

section \<open>Tokens of a transaction\<close>

definition is_credit :: "CTokenGroupManager \<Rightarrow> CTokenGroupInfo \<Rightarrow> bool" where
  "is_credit m tokenGrp \<longleftrightarrow> \<not> isAuthority tokenGrp \<and> isSubgroup (associatedGroup tokenGrp) \<and>
     MatchesORAT m (parentGroup (associatedGroup tokenGrp)) \<and>
     GetSubGroupData (associatedGroup tokenGrp) = map (\<lambda>c. of_nat (of_char c)) ''credit''"

fun token_credit :: "token_env \<Rightarrow> CTokenGroupManager \<Rightarrow> CCoinsViewCache \<Rightarrow> CTxIn list \<Rightarrow> CAmount \<Rightarrow> token_error + CAmount" where
  "token_credit env m view [] nCredit = Inr nCredit"
| "token_credit env m view (inp # rest) nCredit =
     (let coin = view (prevout inp); tokenGrp = CTokenGroupInfo_of (scriptPubKey (coin_out coin)) in
      if IsSpent coin then Inl (Invalid ''bad-protx-inputs-spent'')
      else if coin_nHeight coin < ATPStartHeight env \<or> tg_invalid tokenGrp \<or> \<not> is_credit m tokenGrp then token_credit env m view rest nCredit
      else token_credit env m view rest (i64 (nCredit + tg_quantity tokenGrp)))"

fun token_debit :: "CTokenGroupManager \<Rightarrow> CTxOut list \<Rightarrow> CAmount \<Rightarrow> token_error + CAmount" where
  "token_debit m [] nDebit = Inr nDebit"
| "token_debit m (outp # rest) nDebit =
     (let tokenGrp = CTokenGroupInfo_of (scriptPubKey outp) in
      if tg_invalid tokenGrp then Inl (Invalid ''bad-protx-grouped-outputs'')
      else if \<not> is_credit m tokenGrp then token_debit m rest nDebit
      else token_debit m rest (i64 (nDebit + tg_quantity tokenGrp)))"

definition GetTokenBalance :: "token_env \<Rightarrow> CTokenGroupManager \<Rightarrow> CCoinsViewCache \<Rightarrow> CTransaction \<Rightarrow> token_error + CAmount \<times> CAmount" where
  "GetTokenBalance env m view tx =
     (case token_credit env m view (vin tx) 0 of
        Inl e \<Rightarrow> Inl e
      | Inr nCredit \<Rightarrow> (case token_debit m (vout tx) 0 of Inl e \<Rightarrow> Inl e | Inr nDebit \<Rightarrow> Inr (nCredit, nDebit)))"

text \<open>\<open>CheckFees\<close> counts creations, mints, melts and outputs, and uses none of the counters.\<close>

definition CheckFees :: "CTokenGroupManager \<Rightarrow> CTxOut list \<Rightarrow> bool" where
  "CheckFees m outs = (if tgMGTCreation m = None then True else \<not> list_ex (\<lambda>txout. tg_invalid (CTokenGroupInfo_of (scriptPubKey txout))) outs)"

definition check_nft :: "CTokenGroupManager \<Rightarrow> CTokenGroupID \<times> CTokenGroupBalance \<Rightarrow> token_error option" where
  "check_nft m mintMeltItem =
     (let (g, bal) = mintMeltItem in
      if hasFlag g NFT_TOKEN \<and> tb_output bal > 0
      then (case GetTokenGroupCreation m g of
          None \<Rightarrow> Some (Invalid ''op_group-bad-mint'')
        | Some tgCreation \<Rightarrow> (case tokenGroupDescription tgCreation of
              NFTDescription tgDesc \<Rightarrow>
                if nd_nMintAmount tgDesc \<noteq> of_int (tb_output bal - tb_input bal) then Some (Invalid ''op_group-bad-mint'') else None
            | _ \<Rightarrow> Some Undefined))
      else None)"

definition CheckTokens ::
  "token_env \<Rightarrow> CTokenGroupManager \<Rightarrow> CCoinsViewCache \<Rightarrow> int \<Rightarrow> CSpecialTx \<Rightarrow> token_error + CAmount \<times> CAmount \<times> balances" where
  "CheckTokens env m view nHeight tx =
     (if nHeight mod 2 ^ 32 < ATPStartHeight env mod 2 ^ 32 then Inr (0, 0, om_empty)
      else (case CheckTokenGroups env m view tx of
          Inl e \<Rightarrow> Inl e
        | Inr (nWagerrIn, nWagerrOut, tgMintMeltBalance) \<Rightarrow>
            if IsAnyOutputGrouped (vout tx) \<and> \<not> CheckFees m (vout tx) then Inl (Invalid ''token-group-imbalance'')
            else if IsAnyOutputGrouped (vout tx) \<and> \<not> ManagementTokensCreated m \<and>
              list_ex (\<lambda>txout. IsOutputGrouped txout \<and> \<not> hasFlag (associatedGroup (CTokenGroupInfo_of (scriptPubKey txout))) MGT_TOKEN) (vout tx)
              then Inl (Invalid ''op_group-before-mgt-tokens'')
            else (case List.map_filter (check_nft m) (entries tgMintMeltBalance) of
                e # _ \<Rightarrow> Inl e
              | [] \<Rightarrow> Inr (nWagerrIn, nWagerrOut, tgMintMeltBalance))))"

section \<open>Signatures\<close>

text \<open>The signature of a betting description (evo/verifiable.cpp); \<open>None\<close> when it is valid, else the reason of the rejection.\<close>

definition VerifyBLSSignature :: "token_env \<Rightarrow> CTokenGroupManager \<Rightarrow> CTokenGroupDescriptionBetting \<Rightarrow> string option" where
  "VerifyBLSSignature env m d =
     (if bd_signerType d = 1 then
        (case tgMGTCreation m of
           None \<Rightarrow> Some ''grp-bad-token-signer''
         | Some c \<Rightarrow> (case map_option tokenGroupDescription (GetTokenGroupCreation m (group_of c)) of
               Some (MGTDescription mgtDesc) \<Rightarrow>
                 if bd_signerHash d \<noteq> Hash env (ser_vector ser_writedata8 (group_of c)) then Some ''grp-bad-token-signer''
                 else if list_all (\<lambda>b. b = 0) (bd_blsPubKey d) then Some ''grp-bad-token-pubkey''
                 else if bd_blsPubKey d \<noteq> md_blsPubKey mgtDesc then Some ''grp-bad-token-pubkey''
                 else if \<not> VerifyInsecure env (bd_blsPubKey d) (Hash env (ser_BettingDescription_hash d)) (bd_blsSig d)
                   then Some ''grp-bad-token-signature''
                 else None
             | _ \<Rightarrow> Some ''grp-bad-token-signer''))
      else Some ''grp-bad-token-signertype'')"

end
