(* ===== verification/BetMint.thy ===== *)
theory BetMint
  imports TokenBalance
begin

text \<open>
  Bets as tokens: the events of betting tokens (betting/events.cpp), the configuration transactions that create token groups
  (tokens/tokengroupconfiguration.cpp) and the requests to mint betting tokens (betting/mint.h and .cpp).
\<close>

section \<open>Events\<close>

datatype BetEventType = UNKNOWN | PEERLESS | FIELD

record CBetEvent =
  be_type :: BetEventType
  be_nEventId :: u32

definition CreateBetEventFromDB :: "CBettingsView \<Rightarrow> u32 \<Rightarrow> CBetEvent option" where
  "CreateBetEventFromDB view eventId =
     (if tdb_Read (events view) eventId \<noteq> None then Some \<lparr>be_type = PEERLESS, be_nEventId = eventId\<rparr>
      else if tdb_Read (fieldEvents view) eventId \<noteq> None then Some \<lparr>be_type = FIELD, be_nEventId = eventId\<rparr>
      else None)"

definition IsOpen :: "CBetEvent \<Rightarrow> CBettingsView \<Rightarrow> u32 \<Rightarrow> bool" where
  "IsOpen event view time =
     (case be_type event of
        PEERLESS \<Rightarrow>
          if tdb_Exists (results view) (be_nEventId event) then False
          else (case tdb_Read (events view) (be_nEventId event) of None \<Rightarrow> False | Some e \<Rightarrow> \<not> uint time \<ge> uint (nStartTime e))
      | FIELD \<Rightarrow>
          if tdb_Exists (fieldResults view) (be_nEventId event) then False
          else (case tdb_Read (fieldEvents view) (be_nEventId event) of None \<Rightarrow> False | Some e \<Rightarrow> \<not> uint time \<ge> uint (fev_nStartTime e))
      | UNKNOWN \<Rightarrow> False)"

section \<open>Configuration transactions\<close>

text \<open>\<open>nPrevHeight\<close> and \<open>nPrevTime\<close> are those of the previous block; \<open>None\<close> accepts, otherwise the reason of the rejection.\<close>

definition CheckGroupConfigurationTxBase :: "token_env \<Rightarrow> int \<Rightarrow> CSpecialTx \<Rightarrow> string option" where
  "CheckGroupConfigurationTxBase env nPrevHeight tx =
     (if nPrevHeight + 1 < ATPStartHeight env then Some ''premature-op_group-tx''
      else if \<not> IsAnyOutputGroupedCreation 0 (vout tx) then Some ''grp-bad-tx''
      else None)"

definition CheckGroupConfigurationTxRegular :: "token_env \<Rightarrow> int \<Rightarrow> CSpecialTx \<Rightarrow> string option" where
  "CheckGroupConfigurationTxRegular env nPrevHeight tx =
     (case CheckGroupConfigurationTxBase env nPrevHeight tx of
        Some e \<Rightarrow> Some e
      | None \<Rightarrow>
          if tx_nType tx \<noteq> TRANSACTION_GROUP_CREATION_REGULAR then Some ''grp-bad-protx-type''
          else (case GetTxPayload TRANSACTION_GROUP_CREATION_REGULAR unser_RegularDescription tx of
              None \<Rightarrow> Some ''grp-bad-protx-payload''
            | Some tgDesc \<Rightarrow>
                if rd_nDecimalPos tgDesc > 16 then Some ''grp-bad-param''
                else if rd_nVersion tgDesc = 0 \<or> rd_nVersion tgDesc > 1 then Some ''grp-bad-version''
                else None))"

definition CheckGroupConfigurationTxMGT :: "token_env \<Rightarrow> int \<Rightarrow> CSpecialTx \<Rightarrow> string option" where
  "CheckGroupConfigurationTxMGT env nPrevHeight tx =
     (case CheckGroupConfigurationTxBase env nPrevHeight tx of
        Some e \<Rightarrow> Some e
      | None \<Rightarrow>
          if tx_nType tx \<noteq> TRANSACTION_GROUP_CREATION_MGT then Some ''grp-bad-protx-type''
          else (case GetTxPayload TRANSACTION_GROUP_CREATION_MGT (unser_MGTDescription (bls_canonical env)) tx of
              None \<Rightarrow> Some ''grp-bad-protx-payload''
            | Some tgDesc \<Rightarrow>
                if rd_nDecimalPos tgDesc > 16 then Some ''grp-bad-param''
                else if list_all (\<lambda>b. b = 0) (md_blsPubKey tgDesc) then Some ''grp-bad-key''
                else if rd_nVersion tgDesc = 0 \<or> rd_nVersion tgDesc > 1 then Some ''grp-bad-version''
                else None))"

text \<open>The negation in the test of the size binds to the size alone, which makes a number of at most one.\<close>

definition MAX_TX_NFT_DATA :: nat where "MAX_TX_NFT_DATA = 98300"

definition CheckGroupConfigurationTxNFT :: "token_env \<Rightarrow> int \<Rightarrow> CSpecialTx \<Rightarrow> string option" where
  "CheckGroupConfigurationTxNFT env nPrevHeight tx =
     (case CheckGroupConfigurationTxBase env nPrevHeight tx of
        Some e \<Rightarrow> Some e
      | None \<Rightarrow>
          if tx_nType tx \<noteq> TRANSACTION_GROUP_CREATION_NFT then Some ''grp-bad-protx-type''
          else (case GetTxPayload TRANSACTION_GROUP_CREATION_NFT unser_NFTDescription tx of
              None \<Rightarrow> Some ''grp-bad-protx-payload''
            | Some tgDesc \<Rightarrow>
                if of_bool (\<not> length (nd_vchData tgDesc) \<noteq> 0) > MAX_TX_NFT_DATA then Some ''grp-bad-data''
                else if nd_nVersion tgDesc = 0 \<or> nd_nVersion tgDesc > 1 then Some ''grp-bad-version''
                else None))"

definition CheckGroupConfigurationTxBetting ::
  "token_env \<Rightarrow> CTokenGroupManager \<Rightarrow> CBettingsView \<Rightarrow> int \<Rightarrow> u32 \<Rightarrow> CSpecialTx \<Rightarrow> string option" where
  "CheckGroupConfigurationTxBetting env m view nPrevHeight nPrevTime tx =
     (case CheckGroupConfigurationTxBase env nPrevHeight tx of
        Some e \<Rightarrow> Some e
      | None \<Rightarrow>
          if tx_nType tx \<noteq> TRANSACTION_GROUP_CREATION_BETTING then Some ''grp-bad-protx-type''
          else (case GetTxPayload TRANSACTION_GROUP_CREATION_BETTING (unser_BettingDescription (bls_canonical env)) tx of
              None \<Rightarrow> Some ''grp-bad-protx-payload''
            | Some tgDesc \<Rightarrow> (case CreateBetEventFromDB view (bd_nEventId tgDesc) of
                  None \<Rightarrow> Some ''grp-bad-event''
                | Some event \<Rightarrow>
                    if \<not> IsOpen event view nPrevTime then Some ''grp-bad-event''
                    else if bd_nVersion tgDesc = 0 \<or> bd_nVersion tgDesc > 1 then Some ''grp-bad-version''
                    else VerifyBLSSignature env m tgDesc)))"

section \<open>Requests to mint\<close>

text \<open>
  The constructor of a request initializes its member \<open>betEvent\<close> with itself: the value is indeterminate, and a parameter
  of the functions that build a request.
\<close>

record RegularBetMintRequest =
  req_betEvent :: CBetEvent
  req_betData :: bytes
  req_nBetCosts :: CAmount
  req_tgID :: CTokenGroupID
  req_tgCreation :: CTokenGroupCreation
  req_tgMintMeltBalanceItem :: CTokenGroupBalance

definition new_RegularBetMintRequest ::
  "CBetEvent \<Rightarrow> CAmount \<Rightarrow> CTokenGroupID \<Rightarrow> CTokenGroupCreation \<Rightarrow> CTokenGroupBalance \<Rightarrow> RegularBetMintRequest" where
  "new_RegularBetMintRequest indeterminate nWGRSpent tgID tgCreation item =
     \<lparr>req_betEvent = indeterminate, req_betData = GetSubGroupData tgID, req_nBetCosts = nWGRSpent, req_tgID = tgID,
      req_tgCreation = tgCreation, req_tgMintMeltBalanceItem = item\<rparr>"

text \<open>The item is the last one of the map; the null pointer of \<open>boost::get\<close> for a group that is not a betting group is undefined behaviour.\<close>

definition CreateRegularBetMintRequest ::
  "CBetEvent \<Rightarrow> CTokenGroupManager \<Rightarrow> CBettingsView \<Rightarrow> CAmount \<Rightarrow> balances \<Rightarrow> token_error + RegularBetMintRequest" where
  "CreateRegularBetMintRequest indeterminate m view nWGRSpent tgMintMeltBalance =
     (let (tgID, item) = (case rev (entries tgMintMeltBalance) of [] \<Rightarrow> (NoGroup, new_CTokenGroupBalance) | e # _ \<Rightarrow> e) in
      case GetTokenGroupCreation m tgID of
        None \<Rightarrow> Inl (Invalid ''op_group-bad-mint'')
      | Some tgCreation \<Rightarrow> (case tokenGroupDescription tgCreation of
            BettingDescription tgDesc \<Rightarrow>
              (case CreateBetEventFromDB view (bd_nEventId tgDesc) of
                 None \<Rightarrow> Inl (Invalid ''grp-bad-event'')
               | Some betEvent \<Rightarrow> Inr (new_RegularBetMintRequest indeterminate nWGRSpent tgID tgCreation item))
          | _ \<Rightarrow> Inl Undefined))"

definition BetTokensMinted :: "balances \<Rightarrow> bool" where
  "BetTokensMinted tgMintMeltBalance = list_ex (\<lambda>(g, bal). hasFlag g BETTING_TOKEN \<and> tb_output bal > tb_input bal) (entries tgMintMeltBalance)"

definition IsRegularBetMintRequest :: "CAmount \<Rightarrow> balances \<Rightarrow> bool" where
  "IsRegularBetMintRequest nWGRSpent tgMintMeltBalance =
     (if nWGRSpent \<le> 0 then False
      else if om_size tgMintMeltBalance \<noteq> 1 then False
      else list_all (\<lambda>(g, bal). hasFlag g BETTING_TOKEN \<and> \<not> numOutputs bal \<le> 0 \<and> numInputs bal = 0) (entries tgMintMeltBalance))"

definition IsParlayBetMintRequest :: "CAmount \<Rightarrow> balances \<Rightarrow> bool" where
  "IsParlayBetMintRequest nWGRSpent tgMintMeltBalance =
     (if nWGRSpent \<le> 0 then False
      else if om_size tgMintMeltBalance \<le> 1 then False
      else list_all (\<lambda>(g, bal). hasFlag g PARLAY_TOKEN \<and> \<not> numOutputs bal \<le> 1 \<and> numInputs bal = 0) (entries tgMintMeltBalance))"

definition GetBetMintRequest ::
  "CBetEvent \<Rightarrow> CTokenGroupManager \<Rightarrow> CBettingsView \<Rightarrow> CAmount \<Rightarrow> balances \<Rightarrow> token_error + RegularBetMintRequest option" where
  "GetBetMintRequest indeterminate m view nWGRSpent tgMintMeltBalance =
     (if \<not> BetTokensMinted tgMintMeltBalance then Inr None
      else if IsRegularBetMintRequest nWGRSpent tgMintMeltBalance
        then (case CreateRegularBetMintRequest indeterminate m view nWGRSpent tgMintMeltBalance of Inl e \<Rightarrow> Inl e | Inr req \<Rightarrow> Inr (Some req))
      else if IsParlayBetMintRequest nWGRSpent tgMintMeltBalance then Inl (Invalid ''op_group-bad-mint'')
      else Inl (Invalid ''op_group-bad-mint''))"

section \<open>Validation of a request\<close>

definition PROTOCOL_VERSION :: int where "PROTOCOL_VERSION = 70930"

text \<open>
  The stream of \<open>GetBettingTx\<close>: its constructor is called with the event id, \<open>SER_NETWORK\<close> and \<open>PROTOCOL_VERSION\<close>, which selects the
  overload that takes the first two as type and version and serializes the third; the vector of bet data follows with its size.
\<close>

definition betting_tx_stream :: "bytes \<Rightarrow> bytes" where
  "betting_tx_stream betData = ser_writedata32 (of_int PROTOCOL_VERSION) @ ser_vector ser_writedata8 betData"

text \<open>The odds of a request: \<open>Inl Undefined\<close> when \<open>GetBettingTx\<close> returns the null pointer, \<open>Inr None\<close> for \<open>return false\<close>.\<close>

definition GetOdds :: "RegularBetMintRequest \<Rightarrow> CBettingsView \<Rightarrow> token_error + u32 option" where
  "GetOdds req view =
     (let event = req_betEvent req in
      case be_type event of
        PEERLESS \<Rightarrow> (case tdb_Read (events view) (be_nEventId event) of
            None \<Rightarrow> Inr None
          | Some plEvent \<Rightarrow> (case DeserializeBettingTx unser_CPeerlessBetTx (betting_tx_stream (req_betData req)) of
                None \<Rightarrow> Inl Undefined
              | Some betTx \<Rightarrow> Inr (Some (GetBetPotentialOdds \<lparr>leg_nEventId = be_nEventId event, leg_nOutcome = pb_nOutcome betTx\<rparr> plEvent))))
      | FIELD \<Rightarrow> (case tdb_Read (fieldEvents view) (be_nEventId event) of
            None \<Rightarrow> Inr None
          | Some fEvent \<Rightarrow> (case DeserializeBettingTx unser_CFieldBetTx (betting_tx_stream (req_betData req)) of
                None \<Rightarrow> Inl Undefined
              | Some betTx \<Rightarrow> Inr (Some (FieldGetBetPotentialOdds
                  \<lparr>fleg_nEventId = be_nEventId event, fleg_nOutcome = fb_nOutcome betTx, fleg_nContenderId = fb_nContenderId betTx\<rparr> fEvent))))
      | UNKNOWN \<Rightarrow> Inr None)"

text \<open>\<open>nTime\<close> is the adjusted network time; \<open>Inr ()\<close> accepts the request.\<close>

definition Validate :: "betting_env \<Rightarrow> RegularBetMintRequest \<Rightarrow> CBettingsView \<Rightarrow> u32 \<Rightarrow> token_error + unit" where
  "Validate env req view time =
     (let nBetCosts = req_nBetCosts req; item = req_tgMintMeltBalanceItem req in
      if nBetCosts < nMinBetPayoutRange (consensus env) * COIN \<or> nBetCosts > nMaxBetPayoutRange (consensus env) * COIN
        then Inl (Invalid ''grp-bad-bet-amount'')
      else if \<not> IsOpen (req_betEvent req) view time then Inl (Invalid ''grp-bad-event'')
      else (case GetOdds req view of
          Inl e \<Rightarrow> Inl e
        | Inr None \<Rightarrow> Inl (Invalid ''grp-bad-event'')
        | Inr (Some nOdds) \<Rightarrow>
            let (ok, nPayout, nBurn) = CalculatePayoutBurnAmounts nBetCosts nOdds in
            if \<not> ok then Inl (Invalid ''grp-bet-bad-odds'')
            else if nPayout \<noteq> tb_output item - tb_input item then Inl (Invalid ''grp-bet-bad-costs'')
            else Inr ()))"

end
