(* ===== verification/TokenSafety.thy ===== *)
theory TokenSafety
  imports TokenBalance
begin

text \<open>
  What the token checks of a transaction guarantee: the balances of a group in terms of the outputs that the transaction creates and spends,
  and from them the conservation of tokens and of authorities.
\<close>

section \<open>What a transaction does to a group\<close>

definition output_infos :: "CTxOut list \<Rightarrow> CTokenGroupInfo list" where
  "output_infos outs = map (\<lambda>outp. CTokenGroupInfo_of (scriptPubKey outp)) outs"

definition input_infos :: "token_env \<Rightarrow> CCoinsViewCache \<Rightarrow> CTxIn list \<Rightarrow> CTokenGroupInfo list" where
  "input_infos env view inps = filter (\<lambda>info. \<not> tg_invalid info)
     (map (\<lambda>inp. CTokenGroupInfo_of (scriptPubKey (coin_out (view (prevout inp)))))
       (filter (\<lambda>inp. \<not> coin_nHeight (view (prevout inp)) < ATPStartHeight env) inps))"

text \<open>The tokens of a group in a list of outputs, authorities aside.\<close>

definition tokens :: "CTokenGroupID \<Rightarrow> CTokenGroupInfo list \<Rightarrow> int" where
  "tokens g infos = (\<Sum>info\<leftarrow>infos. if associatedGroup info = g then getAmount info else 0)"

definition members :: "CTokenGroupID \<Rightarrow> CTokenGroupInfo list \<Rightarrow> nat" where
  "members g infos = length (filter (\<lambda>info. associatedGroup info = g) infos)"

text \<open>The permission bit \<open>k\<close> in some authority of a group, among those that have all bits of a list.\<close>

definition holds :: "CTokenGroupID \<Rightarrow> nat list \<Rightarrow> CTokenGroupInfo list \<Rightarrow> bool" where
  "holds g ks infos \<longleftrightarrow> list_ex (\<lambda>info. associatedGroup info = g \<and> list_all (bit (controllingGroupFlags info)) ks) infos"

lemma tokens_simps [simp]:
  "tokens g [] = 0" "tokens g (i # is) = (if associatedGroup i = g then getAmount i else 0) + tokens g is"
  by (simp_all add: tokens_def)

lemma members_simps [simp]:
  "members g [] = 0" "members g (i # is) = (if associatedGroup i = g then 1 else 0) + members g is"
  by (simp_all add: members_def)

lemma holds_simps [simp]:
  "\<not> holds g ks []"
  "holds g ks (i # is) \<longleftrightarrow> associatedGroup i = g \<and> list_all (bit (controllingGroupFlags i)) ks \<or> holds g ks is"
  by (simp_all add: holds_def)

lemma tokens_nonneg: "0 \<le> tokens g infos"
  by (induction infos) (simp_all add: getAmount_def)

lemma balance_of_upd: "balance_of (upd_balance g f gBalance) g' = (if g' = g then f (balance_of gBalance g) else balance_of gBalance g')"
  by (simp add: balance_of_def upd_balance_def)

lemma balance_of_empty [simp]: "balance_of om_empty g = new_CTokenGroupBalance"
  by (simp add: balance_of_def)

section \<open>Outputs\<close>

lemma group_outputs_balance:
  assumes "group_outputs outs (n, gBalance) = Inr (n', gBalance')" "g \<noteq> NoGroup"
  shows "tb_output (balance_of gBalance' g) = tb_output (balance_of gBalance g) + tokens g (output_infos outs) \<and>
    numOutputs (balance_of gBalance' g) = numOutputs (balance_of gBalance g) + of_nat (members g (output_infos outs)) \<and>
    (\<forall>k. bit (ctrlOutputPerms (balance_of gBalance' g)) k \<longleftrightarrow> bit (ctrlOutputPerms (balance_of gBalance g)) k \<or> holds g [k] (output_infos outs)) \<and>
    ctrlPerms (balance_of gBalance' g) = ctrlPerms (balance_of gBalance g) \<and>
    allowedCtrlOutputPerms (balance_of gBalance' g) = allowedCtrlOutputPerms (balance_of gBalance g) \<and>
    allowedSubgroupCtrlOutputPerms (balance_of gBalance' g) = allowedSubgroupCtrlOutputPerms (balance_of gBalance g) \<and>
    tb_input (balance_of gBalance' g) = tb_input (balance_of gBalance g) \<and> numInputs (balance_of gBalance' g) = numInputs (balance_of gBalance g)"
  using assms(1)
proof (induction outs arbitrary: n gBalance)
  case (Cons outp rest)
  let ?i = "CTokenGroupInfo_of (scriptPubKey outp)"
  have oi: "output_infos (outp # rest) = ?i # output_infos rest" by (simp add: output_infos_def)
  note range = quantity_range [of "scriptPubKey outp"]
  consider (none) n1 where "associatedGroup ?i = NoGroup" "group_outputs rest (n1, gBalance) = Inr (n', gBalance')"
    | (amount) n1 where "associatedGroup ?i \<noteq> NoGroup" "tg_quantity ?i > 0"
        "group_outputs rest (n1, upd_balance (associatedGroup ?i) (\<lambda>bal. bal\<lparr>tb_output := tb_output bal + tg_quantity ?i\<rparr>)
           (upd_balance (associatedGroup ?i) (\<lambda>bal. bal\<lparr>numOutputs := numOutputs bal + 1\<rparr>) gBalance)) = Inr (n', gBalance')"
    | (authority) n1 where "associatedGroup ?i \<noteq> NoGroup" "tg_quantity ?i < 0"
        "group_outputs rest (n1, upd_balance (associatedGroup ?i) (\<lambda>bal. bal\<lparr>ctrlOutputPerms := ctrlOutputPerms bal OR of_int (tg_quantity ?i)\<rparr>)
           (upd_balance (associatedGroup ?i) (\<lambda>bal. bal\<lparr>numOutputs := numOutputs bal + 1\<rparr>) gBalance)) = Inr (n', gBalance')"
    using Cons.prems by (auto simp: Let_def split: if_splits)
  then show ?case
  proof cases
    case none
    from Cons.IH [OF none(2)] assms(2) show ?thesis unfolding oi by (simp add: none(1))
  next
    case amount
    from Cons.IH [OF amount(3)] amount(2) show ?thesis unfolding oi
      by (simp add: balance_of_upd getAmount_def controllingGroupFlags_def split: if_splits)
  next
    case authority
    from Cons.IH [OF authority(3)] authority(2) show ?thesis unfolding oi
      by (simp add: balance_of_upd getAmount_def controllingGroupFlags_def bit_or_iff split: if_splits)
  qed
qed (simp add: output_infos_def)

section \<open>Inputs\<close>

lemma isAuthority_flags: "isAuthority (CTokenGroupInfo_of script) \<longleftrightarrow> controllingGroupFlags (CTokenGroupInfo_of script) \<noteq> 0"
  using isAuthority_of [of script] by (auto simp: controllingGroupFlags_def isAuthority_def)

lemma add_authority_balance:
  "balance_of (add_authority info gBalance) g = (if g = associatedGroup info then
     (balance_of gBalance g)\<lparr>
       allowedCtrlOutputPerms := allowedCtrlOutputPerms (balance_of gBalance g) OR (if bit (controllingGroupFlags info) 60 then controllingGroupFlags info else 0),
       allowedSubgroupCtrlOutputPerms := allowedSubgroupCtrlOutputPerms (balance_of gBalance g) OR
         (if bit (controllingGroupFlags info) 60 \<and> bit (controllingGroupFlags info) 58 then controllingGroupFlags info else 0),
       ctrlPerms := ctrlPerms (balance_of gBalance g) OR controllingGroupFlags info\<rparr> else balance_of gBalance g)"
  by (simp add: add_authority_def Let_def balance_of_upd hasCapability_bit)

text \<open>The entry of a group after the inputs, in terms of the entry before.\<close>

definition after_inputs :: "CTokenGroupID \<Rightarrow> CTokenGroupInfo list \<Rightarrow> CTokenGroupBalance \<Rightarrow> CTokenGroupBalance \<Rightarrow> bool" where
  "after_inputs g infos bal bal' \<longleftrightarrow>
     tb_input bal' = tb_input bal + tokens g infos \<and> numInputs bal' = numInputs bal + of_nat (members g infos) \<and>
     (\<forall>k. bit (ctrlPerms bal') k \<longleftrightarrow> bit (ctrlPerms bal) k \<or> holds g [k] infos \<or> k = 61 \<and> hasFlag g STICKY_MELT \<and> members g infos > 0) \<and>
     (\<forall>k. bit (allowedCtrlOutputPerms bal') k \<longleftrightarrow> bit (allowedCtrlOutputPerms bal) k \<or> holds g [60, k] infos) \<and>
     (\<forall>k. bit (allowedSubgroupCtrlOutputPerms bal') k \<longleftrightarrow> bit (allowedSubgroupCtrlOutputPerms bal) k \<or> holds g [60, 58, k] infos) \<and>
     tb_output bal' = tb_output bal \<and> numOutputs bal' = numOutputs bal \<and> ctrlOutputPerms bal' = ctrlOutputPerms bal"

lemma after_inputs_refl: "after_inputs g [] bal bal"
  by (simp add: after_inputs_def)

lemma bit_MELT: "bit (2305843009213693952 :: int) k \<longleftrightarrow> k = 61"
  using bit_exp_iff [of 61 k, where 'a = int] by simp

lemma after_inputs_step:
  assumes "after_inputs g infos bal1 bal'"
    and "bal1 = (if associatedGroup i = g then
      bal\<lparr>allowedCtrlOutputPerms := allowedCtrlOutputPerms bal OR (if bit (controllingGroupFlags i) 60 then controllingGroupFlags i else 0),
       allowedSubgroupCtrlOutputPerms := allowedSubgroupCtrlOutputPerms bal OR
         (if bit (controllingGroupFlags i) 60 \<and> bit (controllingGroupFlags i) 58 then controllingGroupFlags i else 0),
       ctrlPerms := (if hasFlag g STICKY_MELT then (ctrlPerms bal OR controllingGroupFlags i) OR MELT else ctrlPerms bal OR controllingGroupFlags i),
       numInputs := numInputs bal + 1, tb_input := tb_input bal + getAmount i\<rparr> else bal)"
  shows "after_inputs g (i # infos) bal bal'"
  using assms(1) unfolding assms(2) after_inputs_def
  by (auto simp: bit_or_iff bit_MELT split: if_splits)

lemma group_inputs_balance:
  assumes "group_inputs env m view inps (n, mgt, gBalance) = Inr (n', mgt', gBalance')" "g \<noteq> NoGroup"
  shows "after_inputs g (input_infos env view inps) (balance_of gBalance g) (balance_of gBalance' g)"
  using assms(1)
proof (induction inps arbitrary: n mgt gBalance)
  case Nil
  then show ?case by (simp add: after_inputs_refl input_infos_def)
next
  case (Cons inp rest)
  let ?c = "view (prevout inp)" and ?i = "CTokenGroupInfo_of (scriptPubKey (coin_out (view (prevout inp))))"
  let ?b1 = "add_authority ?i gBalance"
  let ?b2 = "upd_balance (associatedGroup ?i) (\<lambda>bal. bal\<lparr>numInputs := numInputs bal + 1,
    ctrlPerms := (if hasFlag (associatedGroup ?i) STICKY_MELT then ctrlPerms bal OR MELT else ctrlPerms bal)\<rparr>) ?b1"
  have oi: "input_infos env view (inp # rest) =
      (if coin_nHeight ?c < ATPStartHeight env \<or> tg_invalid ?i then input_infos env view rest else ?i # input_infos env view rest)"
    by (simp add: input_infos_def)
  consider (skip) n1 mgt1 where "coin_nHeight ?c < ATPStartHeight env \<or> tg_invalid ?i" "group_inputs env m view rest (n1, mgt1, gBalance) = Inr (n', mgt', gBalance')"
    | (none) n1 mgt1 where "\<not> (coin_nHeight ?c < ATPStartHeight env \<or> tg_invalid ?i)" "associatedGroup ?i = NoGroup"
        "group_inputs env m view rest (n1, mgt1, ?b1) = Inr (n', mgt', gBalance')"
    | (authority) n1 mgt1 where "\<not> (coin_nHeight ?c < ATPStartHeight env \<or> tg_invalid ?i)" "isAuthority ?i"
        "group_inputs env m view rest (n1, mgt1, ?b2) = Inr (n', mgt', gBalance')"
    | (amount) n1 mgt1 where "\<not> (coin_nHeight ?c < ATPStartHeight env \<or> tg_invalid ?i)" "\<not> isAuthority ?i"
        "group_inputs env m view rest (n1, mgt1, upd_balance (associatedGroup ?i) (\<lambda>bal. bal\<lparr>tb_input := tb_input bal + tg_quantity ?i\<rparr>) ?b2) = Inr (n', mgt', gBalance')"
    using Cons.prems by (auto simp: Let_def split: if_splits)
  then show ?case
  proof cases
    case skip
    with Cons.IH [OF skip(2)] show ?thesis by (simp add: oi)
  next
    case none
    from Cons.IH [OF none(3)] have "after_inputs g (?i # input_infos env view rest) (balance_of gBalance g) (balance_of gBalance' g)"
      by (rule after_inputs_step) (use none(2) assms(2) in \<open>simp add: add_authority_balance\<close>)
    with none(1) show ?thesis by (simp add: oi)
  next
    case authority
    have "getAmount ?i = 0" using authority(2) isAuthority_of [of "scriptPubKey (coin_out ?c)"] by (simp add: getAmount_def)
    with Cons.IH [OF authority(3)] have "after_inputs g (?i # input_infos env view rest) (balance_of gBalance g) (balance_of gBalance' g)"
      by (elim after_inputs_step) (simp add: balance_of_upd add_authority_balance)
    with authority(1) show ?thesis by (simp add: oi)
  next
    case amount
    have "getAmount ?i = tg_quantity ?i" "controllingGroupFlags ?i = 0"
      using amount(2) isAuthority_of [of "scriptPubKey (coin_out ?c)"] isAuthority_flags by (simp_all add: getAmount_def)
    with Cons.IH [OF amount(3)] have "after_inputs g (?i # input_infos env view rest) (balance_of gBalance g) (balance_of gBalance' g)"
      by (elim after_inputs_step) (simp add: balance_of_upd add_authority_balance)
    with amount(1) show ?thesis by (simp add: oi)
  qed
qed

section \<open>Accepted transactions\<close>

text \<open>The permission bit \<open>k\<close> that the inputs give to a group itself, and with what it inherits from its parent.\<close>

definition own_perm :: "CTokenGroupInfo list \<Rightarrow> CTokenGroupID \<Rightarrow> nat \<Rightarrow> bool" where
  "own_perm ins g k \<longleftrightarrow> holds g [k] ins \<or> k = 61 \<and> hasFlag g STICKY_MELT \<and> members g ins > 0"

definition input_perm :: "CTokenGroupInfo list \<Rightarrow> CTokenGroupID \<Rightarrow> nat \<Rightarrow> bool" where
  "input_perm ins g k \<longleftrightarrow> own_perm ins g k \<or>
     isSubgroup g \<and> k \<noteq> 58 \<and> own_perm ins (parentGroup g) 58 \<and> own_perm ins (parentGroup g) k"

definition child_perm :: "CTokenGroupInfo list \<Rightarrow> CTokenGroupID \<Rightarrow> nat \<Rightarrow> bool" where
  "child_perm ins g k \<longleftrightarrow> holds g [60, k] ins \<or> isSubgroup g \<and> k \<noteq> 58 \<and> holds (parentGroup g) [60, 58, k] ins"

definition summary :: "CTokenGroupInfo list \<Rightarrow> CTokenGroupInfo list \<Rightarrow> CTokenGroupID \<Rightarrow> CTokenGroupBalance \<Rightarrow> bool" where
  "summary ins outs g bal \<longleftrightarrow>
     tb_input bal = tokens g ins \<and> tb_output bal = tokens g outs \<and> numInputs bal = of_nat (members g ins) \<and> numOutputs bal = of_nat (members g outs) \<and>
     (\<forall>k. bit (ctrlOutputPerms bal) k \<longleftrightarrow> holds g [k] outs) \<and> (\<forall>k. bit (ctrlPerms bal) k \<longleftrightarrow> input_perm ins g k) \<and>
     (\<forall>k. bit (allowedCtrlOutputPerms bal) k \<longleftrightarrow> child_perm ins g k)"

lemma holds_less: "holds g (k # ks) infos \<Longrightarrow> k < 64"
  by (induction infos) (auto dest: bit_imp_le_length)

lemma inherit_balance:
  fixes g gBalance
  defines "P \<equiv> balance_of gBalance (parentGroup g)"
  shows "tb_input (inherit gBalance g bal) = tb_input bal" "tb_output (inherit gBalance g bal) = tb_output bal"
    "numInputs (inherit gBalance g bal) = numInputs bal" "numOutputs (inherit gBalance g bal) = numOutputs bal"
    "ctrlOutputPerms (inherit gBalance g bal) = ctrlOutputPerms bal"
    "bit (ctrlPerms (inherit gBalance g bal)) k \<longleftrightarrow> bit (ctrlPerms bal) k \<or> isSubgroup g \<and> k \<noteq> 58 \<and> bit (ctrlPerms P) 58 \<and> bit (ctrlPerms P) k"
    "bit (allowedCtrlOutputPerms (inherit gBalance g bal)) k \<longleftrightarrow>
      bit (allowedCtrlOutputPerms bal) k \<or> isSubgroup g \<and> k \<noteq> 58 \<and> bit (allowedSubgroupCtrlOutputPerms P) k"
proof -
  have s: "bit (x AND NOT SUBGROUP) k \<longleftrightarrow> k \<noteq> 58 \<and> bit x k" for x :: u64
  proof -
    have "bit (x AND NOT (push_bit 58 1)) k \<longleftrightarrow> k \<noteq> 58 \<and> bit x k"
      using bit_imp_le_length [of x k] unfolding bit_and_iff bit_not_iff bit_flag by auto
    then show ?thesis by simp
  qed
  show "bit (ctrlPerms (inherit gBalance g bal)) k \<longleftrightarrow> bit (ctrlPerms bal) k \<or> isSubgroup g \<and> k \<noteq> 58 \<and> bit (ctrlPerms P) 58 \<and> bit (ctrlPerms P) k"
    "bit (allowedCtrlOutputPerms (inherit gBalance g bal)) k \<longleftrightarrow>
      bit (allowedCtrlOutputPerms bal) k \<or> isSubgroup g \<and> k \<noteq> 58 \<and> bit (allowedSubgroupCtrlOutputPerms P) k"
    by (auto simp: inherit_def P_def balance_of_def new_CTokenGroupBalance_def Let_def hasCapability_bit bit_or_iff s [simplified] split: option.splits)
qed (simp_all add: inherit_def Let_def split: option.splits)

lemma summary_inherit:
  assumes out: "group_outputs outs (0, om_empty) = Inr (nOut, B)" and inp: "group_inputs env m view inps (0, False, B) = Inr (nIn, mgt, B')"
    and g: "g \<noteq> NoGroup"
  shows "summary (input_infos env view inps) (output_infos outs) g (inherit B' g (balance_of B' g))"
proof -
  have parent: "parentGroup g \<noteq> NoGroup" using g by (auto simp: parentGroup_def)
  note o = group_outputs_balance [OF out] and i = group_inputs_balance [OF inp]
  from o [OF g] i [OF g] o [OF parent] i [OF parent] show ?thesis
    unfolding summary_def after_inputs_def input_perm_def own_perm_def child_perm_def
    by (simp add: inherit_balance new_CTokenGroupBalance_def)
qed

lemma check_groups_each:
  assumes "check_groups env tx mgt n es B = Inr B'" "distinct (map fst es)"
  shows "(\<forall>(g, b) \<in> set es. \<exists>b'. check_group env tx mgt n g b = Inr b' \<and> om_lookup B' g = Some b') \<and>
    (\<forall>g. g \<notin> fst ` set es \<longrightarrow> om_lookup B' g = om_lookup B g)"
  using assms
proof (induction es arbitrary: B)
  case (Cons e es)
  obtain g b where e: "e = (g, b)" by force
  obtain b' where c: "check_group env tx mgt n g b = Inr b'" "check_groups env tx mgt n es (om_update g b' B) = Inr B'"
    using Cons.prems(1) e by (auto split: sum.splits)
  from Cons.IH [OF c(2)] Cons.prems(2) c(1) show ?case by (auto simp: e)
qed simp

text \<open>Every group of an output has an entry.\<close>

definition present :: "balances \<Rightarrow> CTokenGroupID \<Rightarrow> bool" where
  "present B g \<longleftrightarrow> om_lookup B g \<noteq> None"

lemma present_upd [simp]: "present (upd_balance g' f B) g \<longleftrightarrow> g = g' \<or> present B g"
  by (simp add: present_def upd_balance_def)

lemma present_authority: "present B g \<Longrightarrow> present (add_authority i B) g"
  unfolding add_authority_def Let_def by simp

lemma group_outputs_present:
  "group_outputs outs (n, B) = Inr (n', B') \<Longrightarrow> g \<noteq> NoGroup \<Longrightarrow> members g (output_infos outs) > 0 \<or> present B g \<Longrightarrow> present B' g"
proof (induction outs arbitrary: n B g)
  case (Cons outp rest)
  have oi: "output_infos (outp # rest) = CTokenGroupInfo_of (scriptPubKey outp) # output_infos rest" by (simp add: output_infos_def)
  show ?case
    using Cons.prems unfolding oi group_outputs.simps Let_def
    by (auto split: if_splits elim!: Cons.IH)
qed (simp add: output_infos_def)

lemma group_inputs_present:
  "group_inputs env m view inps (n, mgt, B) = Inr (n', mgt', B') \<Longrightarrow> g \<noteq> NoGroup \<Longrightarrow>
   members g (input_infos env view inps) > 0 \<or> present B g \<Longrightarrow> present B' g"
proof (induction inps arbitrary: n mgt B g)
  case (Cons inp rest)
  let ?c = "view (prevout inp)" and ?i = "CTokenGroupInfo_of (scriptPubKey (coin_out (view (prevout inp))))"
  have oi: "input_infos env view (inp # rest) =
      (if coin_nHeight ?c < ATPStartHeight env \<or> tg_invalid ?i then input_infos env view rest else ?i # input_infos env view rest)"
    by (simp add: input_infos_def)
  show ?case
    using Cons.prems present_authority [of B _ ?i] unfolding oi group_inputs.simps Let_def
    by (auto split: if_splits elim!: Cons.IH)
qed (simp add: input_infos_def)

lemma accepted_group:
  assumes "CheckTokenGroups env m view tx = Inr (nIn, nOut, R)" "g \<noteq> NoGroup"
    and "members g (output_infos (vout tx)) > 0 \<or> members g (input_infos env view (vin tx)) > 0"
  obtains bal bal' mgt n where "summary (input_infos env view (vin tx)) (output_infos (vout tx)) g bal"
    "check_group env tx mgt n g bal = Inr bal'" "om_lookup R g = Some bal'"
proof -
  obtain B mgt B' where out: "group_outputs (vout tx) (0, om_empty) = Inr (nOut, B)"
    and inp: "group_inputs env m view (vin tx) (0, False, B) = Inr (nIn, mgt, B')"
    and chk: "check_groups env tx mgt (om_size (om_map (inherit B') B')) (entries (om_map (inherit B') B')) (om_map (inherit B') B') = Inr R"
    using assms(1) by (auto simp: CheckTokenGroups_def Let_def split: sum.splits)
  have "present B' g"
    using assms(3) group_outputs_present [OF out assms(2)] group_inputs_present [OF inp assms(2)] by blast
  then obtain b where b: "om_lookup B' g = Some b" by (auto simp: present_def)
  then have "(g, inherit B' g (balance_of B' g)) \<in> set (entries (om_map (inherit B') B'))"
    by (simp add: in_entries_iff balance_of_def)
  moreover have "distinct (map fst (entries (om_map (inherit B') B')))" using entries [of "om_map (inherit B') B'"] by (simp add: strict_sorted_iff)
  ultimately obtain bal' where c: "check_group env tx mgt (om_size (om_map (inherit B') B')) g (inherit B' g (balance_of B' g)) = Inr bal'" "om_lookup R g = Some bal'"
    using check_groups_each [OF chk] by blast
  show ?thesis using that [OF summary_inherit [OF out inp assms(2)] c] .
qed

text \<open>The transaction creates the group: its id is the hash of the first input, the description and a nonce.\<close>

definition creates :: "token_env \<Rightarrow> CSpecialTx \<Rightarrow> CTokenGroupID \<Rightarrow> bool" where
  "creates env tx g \<longleftrightarrow> (\<exists>perms. new_group_id env tx perms = Inr g)"

text \<open>An input authority of the group has the permission, or one of its parent has it and one of its parent has the subgroup permission.\<close>

definition authorized :: "CTokenGroupInfo list \<Rightarrow> CTokenGroupID \<Rightarrow> u64 \<Rightarrow> bool" where
  "authorized ins g perm \<longleftrightarrow>
     (\<exists>info \<in> set ins. associatedGroup info = g \<and> hasCapability (controllingGroupFlags info) perm) \<or>
     isSubgroup g \<and> (\<exists>info \<in> set ins. associatedGroup info = parentGroup g \<and> hasCapability (controllingGroupFlags info) perm) \<and>
       (\<exists>info \<in> set ins. associatedGroup info = parentGroup g \<and> hasCapability (controllingGroupFlags info) SUBGROUP)"

lemma check_balance_Inr:
  assumes "check_balance n g bal = Inr bal'"
  shows "bal' = bal"
    and "tb_output bal < tb_input bal \<Longrightarrow> bit (ctrlPerms bal) 61"
    and "tb_input bal < tb_output bal \<Longrightarrow> bit (ctrlPerms bal) 62 \<or> hasFlag g BETTING_TOKEN \<or> hasFlag g PARLAY_TOKEN"
    and "tb_input bal < tb_output bal \<Longrightarrow> hasFlag g BETTING_TOKEN \<or> hasFlag g PARLAY_TOKEN \<Longrightarrow> numInputs bal = 0 \<and> numOutputs bal \<le> 1"
    and "(ctrlOutputPerms bal AND ALL_FLAGS) AND NOT (allowedCtrlOutputPerms bal AND ALL_FLAGS) = 0"
  using assms by (auto simp: check_balance_def Let_def hasCapability_bit not_less split: if_splits)

lemma check_creation_Inr:
  assumes "check_creation ty mgt g bal = Inr bal'"
  shows "numOutputs bal = 1" "tb_input bal' = tb_input bal" "tb_output bal' = tb_output bal"
    "numInputs bal' = numInputs bal" "numOutputs bal' = numOutputs bal" "ctrlOutputPerms bal' = ctrlOutputPerms bal"
  using assms by (auto simp: check_creation_def Let_def split: if_splits)

lemma check_group_cases:
  assumes "check_group env tx mgt n g bal = Inr bal'"
  obtains (plain) "check_balance n g bal = Inr bal'"
    | (creation) "creates env tx g" "bit (ctrlOutputPerms bal) 63" "numOutputs bal = 1" "tb_input bal' = tb_input bal" "tb_output bal' = tb_output bal"
        "check_balance n g bal' = Inr bal'"
proof (cases "bit (ctrlOutputPerms bal) 63 \<and> ctrlPerms bal = 0 \<and> new_group_id env tx (ctrlOutputPerms bal) = Inr g")
  case True
  then obtain c where c: "check_creation (tx_nType tx) mgt g bal = Inr c" "check_balance n g c = Inr bal'"
    using assms by (auto simp: check_group_def hasCapability_bit split: sum.splits)
  have "bal' = c" by (rule check_balance_Inr(1) [OF c(2)])
  then show ?thesis using creation check_creation_Inr [OF c(1)] c(2) True by (auto simp: creates_def)
next
  case False
  then have "check_balance n g bal = Inr bal'"
    using assms by (auto simp: check_group_def hasCapability_bit split: if_splits sum.splits)
  then show ?thesis by (rule plain)
qed

lemma authorized_bit:
  assumes "input_perm ins g k" "k \<noteq> 58" "k \<noteq> 61 \<or> \<not> hasFlag g STICKY_MELT" "\<And>x. hasCapability x perm \<longleftrightarrow> bit x k"
  shows "authorized ins g perm"
proof -
  have "hasFlag (parentGroup g) STICKY_MELT = hasFlag g STICKY_MELT" by (simp add: hasFlag_def parentGroup_def)
  then show ?thesis
    using assms by (auto simp: input_perm_def own_perm_def authorized_def holds_def list_ex_iff hasCapability_bit)
qed

lemma members_tokens: "tokens g infos \<noteq> 0 \<Longrightarrow> members g infos > 0"
  by (induction infos) auto

lemma holds_members: "holds g ks infos \<Longrightarrow> members g infos > 0"
  by (induction infos) auto

lemma single_authority: "members g infos = 1 \<Longrightarrow> holds g [63] infos \<Longrightarrow> tokens g infos = 0"
proof (induction infos)
  case (Cons i rest)
  show ?case
  proof (cases "associatedGroup i = g")
    case True
    then have "members g rest = 0" using Cons.prems(1) by simp
    then have "\<not> holds g [63] rest" "tokens g rest = 0" using holds_members [of g "[63]" rest] members_tokens [of g rest] by auto
    then show ?thesis using Cons.prems(2) True by (auto simp: getAmount_def controllingGroupFlags_def split: if_splits)
  next
    case False
    then show ?thesis using Cons by simp
  qed
qed simp

lemma word_one_members: "(of_nat n :: u64) = 1 \<Longrightarrow> n < 2 ^ 64 \<Longrightarrow> n = 1"
proof -
  assume "(of_nat n :: u64) = 1" "n < 2 ^ 64"
  moreover from this(2) have "unat (of_nat n :: u64) = n" by (simp add: unat_of_nat)
  ultimately show "n = 1" by simp
qed

text \<open>
  C4: Tokens are conserved.  In an accepted transaction a group that is not a betting group has more tokens in the outputs than in the inputs
  only if an input authority permits minting, of the group or, for a subgroup, of its parent with permission for subgroups; and
  any group has fewer only if an authority permits melting, the group is flagged as one that can always be melted, or it is created here.
\<close>

theorem CheckTokenGroups_conserves:
  assumes "CheckTokenGroups env m view tx = Inr r" "length (vout tx) < 2 ^ 64" "g \<noteq> NoGroup"
  defines "ins \<equiv> input_infos env view (vin tx)" and "outs \<equiv> output_infos (vout tx)"
  shows "(tokens g ins < tokens g outs \<and> \<not> hasFlag g BETTING_TOKEN \<and> \<not> hasFlag g PARLAY_TOKEN \<longrightarrow> authorized ins g MINT) \<and>
    (tokens g outs < tokens g ins \<longrightarrow> authorized ins g MELT \<or> hasFlag g STICKY_MELT \<or> creates env tx g)"
proof -
  obtain nIn nOut R where r: "r = (nIn, nOut, R)" by (cases r)
  show ?thesis
  proof (cases "tokens g ins = tokens g outs")
    case False
    then have "members g outs > 0 \<or> members g ins > 0" by (cases "tokens g outs = 0") (simp_all add: members_tokens)
    then obtain bal bal' mgt n where s: "summary ins outs g bal" and c: "check_group env tx mgt n g bal = Inr bal'"
      unfolding ins_def outs_def by (rule accepted_group [OF assms(1) [unfolded r] assms(3)])
    from c show ?thesis
    proof (cases rule: check_group_cases)
      case plain
      then show ?thesis
        using check_balance_Inr(2,3) [OF plain] s authorized_bit [of ins g 62 MINT] authorized_bit [of ins g 61 MELT]
        by (auto simp: summary_def hasCapability_bit)
    next
      case creation
      have "members g outs \<le> length (vout tx)" using length_filter_le [of _ outs] by (simp add: members_def outs_def output_infos_def)
      then have "members g outs = 1" using creation(3) s assms(2) by (intro word_one_members) (auto simp: summary_def)
      then have "tokens g outs = 0" using creation(2) s by (intro single_authority) (auto simp: summary_def)
      then show ?thesis using creation(1) tokens_nonneg [of g ins] by auto
    qed
  qed simp
qed

lemma perm_bits:
  assumes "(x AND ALL_FLAGS) AND NOT (y AND ALL_FLAGS) = 0" "bit x k" "58 \<le> k" "k < 64"
  shows "bit y k"
proof -
  have "k = 58 \<or> k = 59 \<or> k = 60 \<or> k = 61 \<or> k = 62 \<or> k = 63" using assms(3,4) by auto
  then have all: "bit ALL_FLAGS k" unfolding ALL_FLAGS_def by (elim disjE) simp_all
  have "\<not> bit ((x AND ALL_FLAGS) AND NOT (y AND ALL_FLAGS)) k" by (simp only: assms(1) bit_0_eq bot_apply bot_bool_def not_False_eq_True)
  then show ?thesis using assms(2,4) all by (simp add: bit_and_iff bit_or_iff bit_not_iff)
qed

text \<open>
  C5: Authorities come from authorities.  In an accepted transaction every permission bit (control, mint, melt, child, rescript, subgroup) of an
  authority output of a group is a bit of an input authority of the group that has the child permission, or, except for the subgroup
  bit, of an input authority of its parent that has the child and the subgroup permission, unless the transaction creates the group.
\<close>

theorem CheckTokenGroups_authority:
  assumes "CheckTokenGroups env m view tx = Inr r" "info \<in> set (output_infos (vout tx))" "associatedGroup info \<noteq> NoGroup"
    and "bit (controllingGroupFlags info) k" "58 \<le> k"
  shows "creates env tx (associatedGroup info) \<or>
    (\<exists>i \<in> set (input_infos env view (vin tx)).
      associatedGroup i = associatedGroup info \<and> hasCapability (controllingGroupFlags i) CCHILD \<and> bit (controllingGroupFlags i) k \<or>
      isSubgroup (associatedGroup info) \<and> associatedGroup i = parentGroup (associatedGroup info) \<and> k \<noteq> 58 \<and>
        hasCapability (controllingGroupFlags i) CCHILD \<and> hasCapability (controllingGroupFlags i) SUBGROUP \<and> bit (controllingGroupFlags i) k)"
proof -
  let ?g = "associatedGroup info" and ?ins = "input_infos env view (vin tx)" and ?outs = "output_infos (vout tx)"
  obtain nIn nOut R where r: "r = (nIn, nOut, R)" by (cases r)
  have h: "holds ?g [k] ?outs" using assms(2,4) by (auto simp: holds_def list_ex_iff)
  then have "members ?g ?outs > 0 \<or> members ?g ?ins > 0" using holds_members by blast
  then obtain bal bal' mgt n where s: "summary ?ins ?outs ?g bal" and c: "check_group env tx mgt n ?g bal = Inr bal'"
    by (rule accepted_group [OF assms(1) [unfolded r] assms(3)])
  from c show ?thesis
  proof (cases rule: check_group_cases)
    case plain
    have "k < 64" using assms(4) bit_imp_le_length by fastforce
    then have "bit (allowedCtrlOutputPerms bal) k"
      using perm_bits [OF check_balance_Inr(5) [OF plain]] s h assms(5) by (simp add: summary_def)
    then show ?thesis using s by (auto simp: summary_def child_perm_def holds_def list_ex_iff hasCapability_bit)
  qed simp
qed

end
