(* ===== verification/TokenChain.thy ===== *)
theory TokenChain
  imports TokenManager
begin

text \<open>
  The token state along a chain of blocks: what adding and removing groups does to the manager, the invariant of its maps, the states that
  connecting and disconnecting blocks can reach, with the token database beside them, and the restart of a node.
\<close>

section \<open>Adding and removing groups\<close>

text \<open>The ids of new groups, the events of those that are betting groups, and a management group unless it is one of a set of ids.\<close>

abbreviation (input) group_ids :: "CTokenGroupCreation list \<Rightarrow> CTokenGroupID set" where
  "group_ids cs \<equiv> set (map group_of cs)"

fun bet_event :: "CTokenGroupDescriptionVariant \<Rightarrow> u32 option" where
  "bet_event (BettingDescription d) = Some (bd_nEventId d)"
| "bet_event _ = None"

definition bet_events :: "CTokenGroupCreation list \<Rightarrow> u32 set" where
  "bet_events cs = {e. \<exists>c \<in> set cs. bet_event (tokenGroupDescription c) = Some e}"

fun mgt_ticker :: "CTokenGroupDescriptionVariant \<Rightarrow> string option" where
  "mgt_ticker (MGTDescription d) = Some (rd_strTicker d)"
| "mgt_ticker _ = None"

definition unless_in :: "CTokenGroupID set \<Rightarrow> CTokenGroupCreation option \<Rightarrow> CTokenGroupCreation option" where
  "unless_in G x = (case x of None \<Rightarrow> None | Some c \<Rightarrow> if group_of c \<in> G then None else Some c)"

lemma unless_in_simps [simp]: "unless_in {} x = x" "unless_in G (unless_in H x) = unless_in (G \<union> H) x" "unless_in G None = None"
  by (auto simp: unless_in_def split: option.splits)

lemma bet_events_simps [simp]: "bet_events [] = {}" "bet_events (c # cs) = set_option (bet_event (tokenGroupDescription c)) \<union> bet_events cs"
  by (auto simp: bet_events_def elem_set)

lemma ValidateDescription_simps [simp]:
  "group_of (ValidateDescription m c) = group_of c" "tokenGroupInfo (ValidateDescription m c) = tokenGroupInfo c"
  "creationTransaction (ValidateDescription m c) = creationTransaction c"
  "tokenGroupDescription (ValidateDescription m c) = filter_description (mapTokenGroups m) (group_of c) (tokenGroupDescription c)"
  by (simp_all add: ValidateDescription_def)

lemma bet_event_filter [simp]: "bet_event (filter_description tgs g d) = bet_event d"
  by (cases d) simp_all

lemma filter_betting [simp]: "filter_description tgs g d = BettingDescription b \<longleftrightarrow> d = BettingDescription b"
  by (cases d) simp_all

lemma StoreManagementTokenGroups_simps [simp]:
  "mapTokenGroups (StoreManagementTokenGroups c m) = mapTokenGroups m" "mapBetTokens (StoreManagementTokenGroups c m) = mapBetTokens m"
  "newTokenGroups (StoreManagementTokenGroups c m) = newTokenGroups m"
  "tgMGTCreation (StoreManagementTokenGroups c m) =
    (if tgMGTCreation m = None \<and> mgt_ticker (tokenGroupDescription c) = Some ''MGT'' then Some c else tgMGTCreation m)"
  "tgORATCreation (StoreManagementTokenGroups c m) =
    (if tgORATCreation m = None \<and> mgt_ticker (tokenGroupDescription c) = Some ''ORAT'' then Some c else tgORATCreation m)"
  by (simp_all add: StoreManagementTokenGroups_def split: CTokenGroupDescriptionVariant.split)

text \<open>The description of a group is of the class that the type of its transaction asks for.\<close>

definition typed :: "CTokenGroupCreation \<Rightarrow> bool" where
  "typed c \<longleftrightarrow> (case tokenGroupDescription c of
       RegularDescription _ \<Rightarrow> tx_nType (creationTransaction c) = TRANSACTION_GROUP_CREATION_REGULAR
     | MGTDescription _ \<Rightarrow> tx_nType (creationTransaction c) = TRANSACTION_GROUP_CREATION_MGT
     | NFTDescription _ \<Rightarrow> tx_nType (creationTransaction c) = TRANSACTION_GROUP_CREATION_NFT
     | BettingDescription _ \<Rightarrow> tx_nType (creationTransaction c) = TRANSACTION_GROUP_CREATION_BETTING)"

lemma AddTokenGroup_True:
  assumes "AddTokenGroup c m = Some (m', True)" "typed c"
  defines "v \<equiv> ValidateDescription m c"
  shows "om_lookup (mapTokenGroups m) (group_of c) = None" "mapTokenGroups m' = om_update (group_of c) v (mapTokenGroups m)"
    "bet_event (tokenGroupDescription c) = Some e \<Longrightarrow> om_lookup (mapBetTokens m) e = None"
    "mapBetTokens m' = (case bet_event (tokenGroupDescription c) of None \<Rightarrow> mapBetTokens m | Some e \<Rightarrow> om_update e (group_of c) (mapBetTokens m))"
    "tgMGTCreation m' = (if tgMGTCreation m = None \<and> mgt_ticker (tokenGroupDescription v) = Some ''MGT'' then Some v else tgMGTCreation m)"
    "tgORATCreation m' = (if tgORATCreation m = None \<and> mgt_ticker (tokenGroupDescription v) = Some ''ORAT'' then Some v else tgORATCreation m)"
    "newTokenGroups m' = newTokenGroups m"
proof -
  have t: "tx_nType (creationTransaction c) = TRANSACTION_GROUP_CREATION_BETTING \<longleftrightarrow> bet_event (tokenGroupDescription c) \<noteq> None"
    using assms(2) by (cases "tokenGroupDescription c") (simp_all add: typed_def)
  show "om_lookup (mapTokenGroups m) (group_of c) = None" "mapTokenGroups m' = om_update (group_of c) v (mapTokenGroups m)"
    "bet_event (tokenGroupDescription c) = Some e \<Longrightarrow> om_lookup (mapBetTokens m) e = None"
    "mapBetTokens m' = (case bet_event (tokenGroupDescription c) of None \<Rightarrow> mapBetTokens m | Some e \<Rightarrow> om_update e (group_of c) (mapBetTokens m))"
    "tgMGTCreation m' = (if tgMGTCreation m = None \<and> mgt_ticker (tokenGroupDescription v) = Some ''MGT'' then Some v else tgMGTCreation m)"
    "tgORATCreation m' = (if tgORATCreation m = None \<and> mgt_ticker (tokenGroupDescription v) = Some ''ORAT'' then Some v else tgORATCreation m)"
    "newTokenGroups m' = newTokenGroups m"
    using assms(1) t unfolding AddTokenGroup_def Let_def v_def
    by (auto split: if_splits CTokenGroupDescriptionVariant.splits simp: ValidateDescription_def)
qed

text \<open>A map with the new keys \<open>K\<close>.\<close>

definition grown :: "'k set \<Rightarrow> ('k::linorder, 'v) omap \<Rightarrow> ('k, 'v) omap \<Rightarrow> bool" where
  "grown K m m' \<longleftrightarrow> (\<forall>k. if k \<in> K then om_lookup m k = None \<and> om_lookup m' k \<noteq> None else om_lookup m' k = om_lookup m k)"

lemma grownD: "grown K m m' \<Longrightarrow> if k \<in> K then om_lookup m k = None \<and> om_lookup m' k \<noteq> None else om_lookup m' k = om_lookup m k"
  unfolding grown_def by (rule spec)

lemma grown_trans:
  assumes "grown K m n" "grown L n m'"
  shows "K \<inter> L = {}" "grown (K \<union> L) m m'"
proof -
  have "\<not> (k \<in> K \<and> k \<in> L)" for k using grownD [OF assms(1), of k] grownD [OF assms(2), of k] by auto
  then show "K \<inter> L = {}" by blast
  have "if k \<in> K \<union> L then om_lookup m k = None \<and> om_lookup m' k \<noteq> None else om_lookup m' k = om_lookup m k" for k
    using grownD [OF assms(1), of k] grownD [OF assms(2), of k] by (auto split: if_splits)
  then show "grown (K \<union> L) m m'" unfolding grown_def by (rule allI)
qed

lemma grown_insert: "om_lookup m k = None \<Longrightarrow> grown {k} m (om_update k v m)"
  by (simp add: grown_def)

lemma grown_refl [simp]: "grown {} m m"
  by (simp add: grown_def)

text \<open>What adding the groups \<open>cs\<close> does: the ids and the events are new, everything else stays.\<close>

definition added :: "CTokenGroupCreation list \<Rightarrow> CTokenGroupManager \<Rightarrow> CTokenGroupManager \<Rightarrow> bool" where
  "added cs m m' \<longleftrightarrow> distinct (map group_of cs) \<and>
     grown (group_ids cs) (mapTokenGroups m) (mapTokenGroups m') \<and> grown (bet_events cs) (mapBetTokens m) (mapBetTokens m') \<and>
     (tgMGTCreation m' = tgMGTCreation m \<or> tgMGTCreation m = None \<and> unless_in (group_ids cs) (tgMGTCreation m') = None) \<and>
     (tgORATCreation m' = tgORATCreation m \<or> tgORATCreation m = None \<and> unless_in (group_ids cs) (tgORATCreation m') = None) \<and>
     newTokenGroups m' = newTokenGroups m"

lemma added_single:
  assumes "AddTokenGroup c m = Some (m', True)" "typed c"
  shows "added [c] m m'"
proof -
  note a = AddTokenGroup_True [OF assms]
  have "grown (bet_events [c]) (mapBetTokens m) (mapBetTokens m')"
    using a(3) unfolding a(4) by (cases "bet_event (tokenGroupDescription c)") (simp_all add: grown_insert)
  then show ?thesis using a by (simp add: added_def grown_insert unless_in_def)
qed

lemma unless_in_None: "unless_in G x = None \<longleftrightarrow> (\<forall>c. x = Some c \<longrightarrow> group_of c \<in> G)"
  by (auto simp: unless_in_def split: option.splits)

lemma added_Cons:
  assumes "added [c] m n" "added cs n m'"
  shows "added (c # cs) m m'"
proof -
  have g: "grown (group_ids [c]) (mapTokenGroups m) (mapTokenGroups n)" "grown (group_ids cs) (mapTokenGroups n) (mapTokenGroups m')"
    and b: "grown (bet_events [c]) (mapBetTokens m) (mapBetTokens n)" "grown (bet_events cs) (mapBetTokens n) (mapBetTokens m')"
    using assms by (simp_all add: added_def)
  have "tgMGTCreation m' = tgMGTCreation m \<or> tgMGTCreation m = None \<and> unless_in (group_ids (c # cs)) (tgMGTCreation m') = None"
    "tgORATCreation m' = tgORATCreation m \<or> tgORATCreation m = None \<and> unless_in (group_ids (c # cs)) (tgORATCreation m') = None"
    using assms by (auto simp: added_def unless_in_def split: option.splits if_splits)
  moreover have "distinct (map group_of (c # cs))" using grown_trans(1) [OF g] assms(2) by (simp add: added_def)
  moreover have "newTokenGroups m' = newTokenGroups m" using assms by (simp add: added_def)
  ultimately show ?thesis using grown_trans(2) [OF g] grown_trans(2) [OF b] by (simp add: added_def)
qed

lemma AddTokenGroups_True: "AddTokenGroups cs m = Some (m', True) \<Longrightarrow> list_all typed cs \<Longrightarrow> added cs m m'"
proof (induction cs arbitrary: m)
  case (Cons c cs)
  obtain n where n: "AddTokenGroup c m = Some (n, True)" "AddTokenGroups cs n = Some (m', True)" "typed c" "list_all typed cs"
    using Cons.prems by (auto split: bind_splits if_splits)
  show ?case by (rule added_Cons [OF added_single [OF n(1,3)] Cons.IH [OF n(2,4)]])
qed (simp add: added_def)

text \<open>The new groups of a block.\<close>

lemma CreateTokenGroup_Some:
  assumes "CreateTokenGroup env tx bh = Some c"
  shows "token_group_of env tx = Some (tokenGroupInfo c, tokenGroupDescription c)" "typed c" "\<not> tg_invalid (tokenGroupInfo c)" "group_of c \<noteq> NoGroup" "isGroupCreation 0 (tokenGroupInfo c)"
proof -
  show t: "token_group_of env tx = Some (tokenGroupInfo c, tokenGroupDescription c)"
    using assms by (auto simp: CreateTokenGroup_def split: bind_splits)
  have "creationTransaction c = tx" using assms by (auto simp: CreateTokenGroup_def split: bind_splits)
  with t show "typed c" by (cases "tokenGroupDescription c") (auto simp: token_group_of_def token_group_as_def typed_def Let_def split: if_splits)
  have "new_token_group (vout tx) = Some (tokenGroupInfo c)"
    using t by (auto simp: token_group_of_def token_group_as_def GetTokenConfigurationParameters_def Let_def split: if_splits bind_splits)
  then show "\<not> tg_invalid (tokenGroupInfo c)" "group_of c \<noteq> NoGroup" "isGroupCreation 0 (tokenGroupInfo c)"
    by (auto simp: new_token_group_def Let_def find_Some_iff list_ex_iff split: if_splits)
qed

lemma not_creation_type: "\<not> is_creation_type (tx_nType tx) \<Longrightarrow> token_group_of env tx = None"
  by (auto simp: is_creation_type_def token_group_of_def Let_def)

text \<open>The two management groups are different groups.\<close>

definition mgt_differ :: "CTokenGroupManager \<Rightarrow> bool" where
  "mgt_differ m \<longleftrightarrow> (\<forall>c c'. tgMGTCreation m = Some c \<longrightarrow> tgORATCreation m = Some c' \<longrightarrow> group_of c \<noteq> group_of c')"

lemma RemoveTokenGroup_known:
  assumes "token_group_of env tx = Some (info, desc)" "om_lookup (mapTokenGroups m) (associatedGroup info) \<noteq> None" "mgt_differ m"
  shows "RemoveTokenGroup env tx m =
    (m\<lparr>mapTokenGroups := om_delete (associatedGroup info) (mapTokenGroups m),
       mapBetTokens := (case bet_event desc of None \<Rightarrow> mapBetTokens m | Some e \<Rightarrow> om_delete e (mapBetTokens m)),
       tgMGTCreation := unless_in {associatedGroup info} (tgMGTCreation m), tgORATCreation := unless_in {associatedGroup info} (tgORATCreation m)\<rparr>,
     Some (associatedGroup info))"
  using assms by (cases desc) (auto simp: RemoveTokenGroup_def Let_def MatchesMGT_def MatchesORAT_def unless_in_def mgt_differ_def split: option.splits)

lemma remove_groups_added:
  assumes "collect_groups env bh txs = Some cs" "distinct (map group_of cs)" "\<forall>g \<in> group_ids cs. om_lookup (mapTokenGroups m) g \<noteq> None" "mgt_differ m"
  shows "snd (remove_groups env txs m) = map group_of cs \<and> newTokenGroups (fst (remove_groups env txs m)) = newTokenGroups m \<and>
    (\<forall>g. om_lookup (mapTokenGroups (fst (remove_groups env txs m))) g = (if g \<in> group_ids cs then None else om_lookup (mapTokenGroups m) g)) \<and>
    (\<forall>e. om_lookup (mapBetTokens (fst (remove_groups env txs m))) e = (if e \<in> bet_events cs then None else om_lookup (mapBetTokens m) e)) \<and>
    tgMGTCreation (fst (remove_groups env txs m)) = unless_in (group_ids cs) (tgMGTCreation m) \<and>
    tgORATCreation (fst (remove_groups env txs m)) = unless_in (group_ids cs) (tgORATCreation m)"
  using assms
proof (induction txs arbitrary: cs m)
  case (Cons tx txs)
  show ?case
  proof (cases "tx_nVersion tx \<noteq> 3 \<or> \<not> is_creation_type (tx_nType tx)")
    case True
    then have "remove_groups env (tx # txs) m = remove_groups env txs m"
      using not_creation_type [of tx env] by (auto simp: RemoveTokenGroup_def split: prod.splits)
    then show ?thesis using Cons.IH [of cs m] Cons.prems True by simp
  next
    case False
    then obtain c cs' where c: "CreateTokenGroup env tx bh = Some c" "collect_groups env bh txs = Some cs'" "cs = c # cs'"
      using Cons.prems(1) by (auto split: bind_splits if_splits)
    define n where "n = m\<lparr>mapTokenGroups := om_delete (group_of c) (mapTokenGroups m),
       mapBetTokens := (case bet_event (tokenGroupDescription c) of None \<Rightarrow> mapBetTokens m | Some e \<Rightarrow> om_delete e (mapBetTokens m)),
       tgMGTCreation := unless_in {group_of c} (tgMGTCreation m), tgORATCreation := unless_in {group_of c} (tgORATCreation m)\<rparr>"
    have r: "RemoveTokenGroup env tx m = (n, Some (group_of c))"
      unfolding n_def using CreateTokenGroup_Some(1) [OF c(1)] Cons.prems(3,4) by (intro RemoveTokenGroup_known) (simp_all add: c(3))
    have "mgt_differ n" using Cons.prems(4) by (auto simp: n_def mgt_differ_def unless_in_def split: option.splits if_splits)
    moreover have "\<forall>g \<in> group_ids cs'. om_lookup (mapTokenGroups n) g \<noteq> None"
    proof
      fix g assume g: "g \<in> group_ids cs'"
      then have "g \<noteq> group_of c" using Cons.prems(2) by (auto simp only: c(3) list.map distinct.simps)
      then show "om_lookup (mapTokenGroups n) g \<noteq> None" using g Cons.prems(3) by (auto simp: c(3) n_def)
    qed
    ultimately have IH: "snd (remove_groups env txs n) = map group_of cs' \<and> newTokenGroups (fst (remove_groups env txs n)) = newTokenGroups n \<and>
      (\<forall>g. om_lookup (mapTokenGroups (fst (remove_groups env txs n))) g = (if g \<in> group_ids cs' then None else om_lookup (mapTokenGroups n) g)) \<and>
      (\<forall>e. om_lookup (mapBetTokens (fst (remove_groups env txs n))) e = (if e \<in> bet_events cs' then None else om_lookup (mapBetTokens n) e)) \<and>
      tgMGTCreation (fst (remove_groups env txs n)) = unless_in (group_ids cs') (tgMGTCreation n) \<and>
      tgORATCreation (fst (remove_groups env txs n)) = unless_in (group_ids cs') (tgORATCreation n)"
      using Cons.prems(2) by (intro Cons.IH [OF c(2)]) (simp_all add: c(3))
    have u: "remove_groups env (tx # txs) m = (fst (remove_groups env txs n), group_of c # snd (remove_groups env txs n))"
      using False r by (simp add: case_prod_beta)
    show ?thesis
      unfolding u fst_conv snd_conv using IH
      by (cases "bet_event (tokenGroupDescription c)") (simp_all add: c(3) n_def)
  qed
qed simp

section \<open>The invariant\<close>

text \<open>An entry of the map of groups: under its id, valid, and, the native coin aside, created by an output with the control flag and a nonce.\<close>

definition entry_ok :: "CTokenGroupID \<Rightarrow> CTokenGroupCreation \<Rightarrow> bool" where
  "entry_ok g c \<longleftrightarrow> group_of c = g \<and> \<not> tg_invalid (tokenGroupInfo c) \<and> (g \<noteq> NoGroup \<longrightarrow> typed c \<and> isGroupCreation 0 (tokenGroupInfo c))"

definition manager_inv :: "CTokenGroupManager \<Rightarrow> bool" where
  "manager_inv m \<longleftrightarrow> om_lookup (mapTokenGroups m) NoGroup = Some wagerr_group \<and>
     (\<forall>g c. om_lookup (mapTokenGroups m) g = Some c \<longrightarrow> entry_ok g c) \<and>
     (\<forall>g g' c c'. om_lookup (mapTokenGroups m) g = Some c \<longrightarrow> om_lookup (mapTokenGroups m) g' = Some c' \<longrightarrow> tgDescGetTicker (tokenGroupDescription c) \<noteq> [] \<longrightarrow>
       tolower (tgDescGetTicker (tokenGroupDescription c)) = tolower (tgDescGetTicker (tokenGroupDescription c')) \<longrightarrow> g = g') \<and>
     (\<forall>c. tgMGTCreation m = Some c \<longleftrightarrow> om_lookup (mapTokenGroups m) (group_of c) = Some c \<and> mgt_ticker (tokenGroupDescription c) = Some ''MGT'') \<and>
     (\<forall>c. tgORATCreation m = Some c \<longleftrightarrow> om_lookup (mapTokenGroups m) (group_of c) = Some c \<and> mgt_ticker (tokenGroupDescription c) = Some ''ORAT'') \<and>
     (\<forall>e g. om_lookup (mapBetTokens m) e = Some g \<longleftrightarrow> (\<exists>c. om_lookup (mapTokenGroups m) g = Some c \<and> bet_event (tokenGroupDescription c) = Some e))"

lemma manager_invD:
  assumes "manager_inv m"
  shows "om_lookup (mapTokenGroups m) g = Some c \<Longrightarrow> entry_ok g c"
    "om_lookup (mapTokenGroups m) g = Some c \<Longrightarrow> om_lookup (mapTokenGroups m) g' = Some c' \<Longrightarrow> tgDescGetTicker (tokenGroupDescription c) \<noteq> [] \<Longrightarrow>
      tolower (tgDescGetTicker (tokenGroupDescription c)) = tolower (tgDescGetTicker (tokenGroupDescription c')) \<Longrightarrow> g = g'"
    "tgMGTCreation m = Some c \<longleftrightarrow> om_lookup (mapTokenGroups m) (group_of c) = Some c \<and> mgt_ticker (tokenGroupDescription c) = Some ''MGT''"
    "tgORATCreation m = Some c \<longleftrightarrow> om_lookup (mapTokenGroups m) (group_of c) = Some c \<and> mgt_ticker (tokenGroupDescription c) = Some ''ORAT''"
    "om_lookup (mapBetTokens m) e = Some g \<longleftrightarrow> (\<exists>c. om_lookup (mapTokenGroups m) g = Some c \<and> bet_event (tokenGroupDescription c) = Some e)"
  using assms unfolding manager_inv_def by blast+

lemma tolower_Nil [simp]: "tolower s = [] \<longleftrightarrow> s = []" "tolower [] = []" by (simp_all add: tolower_def)

lemma tolower_toupper [simp]: "tolower (toupper s) = tolower s"
  by (auto simp: tolower_def toupper_def Let_def)

lemma toupper_Nil [simp]: "toupper s = [] \<longleftrightarrow> s = []" by (simp add: toupper_def)

lemma mgt_ticker_ticker: "mgt_ticker d = Some t \<Longrightarrow> tgDescGetTicker d = t"
  by (cases d) simp_all

text \<open>The ticker of a filtered description is empty or differs from those of all groups.\<close>

lemma filtered_ticker:
  assumes "manager_inv m" "om_lookup (mapTokenGroups m) g' = Some c'" "g' \<noteq> g"
    and "tolower (tgDescGetTicker (filter_description (mapTokenGroups m) g d)) = tolower (tgDescGetTicker (tokenGroupDescription c'))"
  shows "tgDescGetTicker (filter_description (mapTokenGroups m) g d) = []"
proof -
  have "entry_ok g' c'" by (rule manager_invD(1) [OF assms(1,2)])
  then have "\<not> tg_invalid (tokenGroupInfo c')" "group_of c' \<noteq> g" using assms(3) by (simp_all add: entry_ok_def)
  moreover have "(g', c') \<in> set (entries (mapTokenGroups m))" using assms(2) by (simp add: in_entries_iff)
  ultimately have "filter_unique tgDescGetTicker (mapTokenGroups m) g s = []"
    if "tolower (filter_unique tgDescGetTicker (mapTokenGroups m) g s) = tolower (tgDescGetTicker (tokenGroupDescription c'))" for s
    using that by (fastforce simp: filter_unique_def list_ex_iff split: if_splits)
  then show ?thesis
    using assms(4) by (cases d) (simp_all add: filter_regular_def TGFilterUpperCaseTicker_def TGFilterTickerUniqueness_def)
qed

lemma typed_filter [simp]: "typed (ValidateDescription m c) = typed c"
  by (cases "tokenGroupDescription c") (simp_all add: typed_def)

lemma management_add:
  assumes "om_lookup tgs g = None" "group_of v = g" "\<And>c. x = Some c \<longleftrightarrow> om_lookup tgs (group_of c) = Some c \<and> P c" "\<And>c. x = Some c \<Longrightarrow> \<not> P v"
  shows "(if x = None \<and> P v then Some v else x) = Some c \<longleftrightarrow> om_lookup (om_update g v tgs) (group_of c) = Some c \<and> P c"
  using assms(1,2) assms(3) [of c] assms(4) by (cases x) auto

lemma AddTokenGroup_inv:
  assumes "AddTokenGroup c m = Some (m', True)" "manager_inv m" "entry_ok (group_of c) c" "group_of c \<noteq> NoGroup"
  shows "manager_inv m'"
proof -
  have t: "typed c" using assms(3,4) by (simp add: entry_ok_def)
  note a = AddTokenGroup_True [OF assms(1) t] and i = manager_invD [OF assms(2)]
  define v where "v = ValidateDescription m c"
  have v: "entry_ok (group_of c) v" "group_of v = group_of c" "tokenGroupDescription v = filter_description (mapTokenGroups m) (group_of c) (tokenGroupDescription c)"
    using assms(3) by (simp_all add: entry_ok_def v_def)
  have fresh: "tgDescGetTicker (tokenGroupDescription v) = []"
    if "om_lookup (mapTokenGroups m) g' = Some c'" "tolower (tgDescGetTicker (tokenGroupDescription v)) = tolower (tgDescGetTicker (tokenGroupDescription c'))" for g' c'
    unfolding v(3) by (rule filtered_ticker [OF assms(2) that(1)]) (use that a(1) in \<open>auto simp: v(3)\<close>)
  have tick: "mgt_ticker (tokenGroupDescription v) \<noteq> Some t" if "x = Some c'" "om_lookup (mapTokenGroups m) (group_of c') = Some c'" "mgt_ticker (tokenGroupDescription c') = Some t" "t \<noteq> []" for x c' t
    using fresh [OF that(2)] mgt_ticker_ticker [of "tokenGroupDescription v" t] mgt_ticker_ticker [OF that(3)] that(4) by auto
  show ?thesis
    unfolding manager_inv_def a(2,5,6) v_def [symmetric]
  proof (intro conjI allI)
    show "om_lookup (om_update (group_of c) v (mapTokenGroups m)) NoGroup = Some wagerr_group" using assms(2,4) by (simp add: manager_inv_def)
    show "om_lookup (om_update (group_of c) v (mapTokenGroups m)) g = Some c' \<longrightarrow> entry_ok g c'" for g c' using i(1) v(1) by auto
    show "om_lookup (om_update (group_of c) v (mapTokenGroups m)) g = Some c1 \<longrightarrow> om_lookup (om_update (group_of c) v (mapTokenGroups m)) g' = Some c2 \<longrightarrow>
        tgDescGetTicker (tokenGroupDescription c1) \<noteq> [] \<longrightarrow>
        tolower (tgDescGetTicker (tokenGroupDescription c1)) = tolower (tgDescGetTicker (tokenGroupDescription c2)) \<longrightarrow> g = g'" for g g' c1 c2
      using i(2) [of g c1 g' c2] fresh [of g c1] fresh [of g' c2] by (auto split: if_splits)
    show "(if tgMGTCreation m = None \<and> mgt_ticker (tokenGroupDescription v) = Some ''MGT'' then Some v else tgMGTCreation m) = Some c' \<longleftrightarrow>
        om_lookup (om_update (group_of c) v (mapTokenGroups m)) (group_of c') = Some c' \<and> mgt_ticker (tokenGroupDescription c') = Some ''MGT''" for c'
      by (rule management_add [OF a(1) v(2) i(3)]) (use i(3) tick in auto)
    show "(if tgORATCreation m = None \<and> mgt_ticker (tokenGroupDescription v) = Some ''ORAT'' then Some v else tgORATCreation m) = Some c' \<longleftrightarrow>
        om_lookup (om_update (group_of c) v (mapTokenGroups m)) (group_of c') = Some c' \<and> mgt_ticker (tokenGroupDescription c') = Some ''ORAT''" for c'
      by (rule management_add [OF a(1) v(2) i(4)]) (use i(4) tick in auto)
    fix e g
    have "bet_event (tokenGroupDescription v) = bet_event (tokenGroupDescription c)" by (simp add: v(3))
    with a(1) a(3) [of e] i(5) [of e g] show "om_lookup (mapBetTokens m') e = Some g \<longleftrightarrow>
        (\<exists>c'. om_lookup (om_update (group_of c) v (mapTokenGroups m)) g = Some c' \<and> bet_event (tokenGroupDescription c') = Some e)"
      unfolding a(4) by (cases "g = group_of c"; cases "bet_event (tokenGroupDescription c)"; cases "bet_event (tokenGroupDescription c) = Some e") auto
  qed
qed

lemma AddTokenGroups_inv:
  "AddTokenGroups cs m = Some (m', True) \<Longrightarrow> manager_inv m \<Longrightarrow> list_all (\<lambda>c. entry_ok (group_of c) c \<and> group_of c \<noteq> NoGroup) cs \<Longrightarrow> manager_inv m'"
proof (induction cs arbitrary: m)
  case (Cons c cs)
  then obtain n where n: "AddTokenGroup c m = Some (n, True)" "AddTokenGroups cs n = Some (m', True)" by (auto split: bind_splits if_splits)
  show ?case using Cons.IH [OF n(2) AddTokenGroup_inv [OF n(1) Cons.prems(2)]] Cons.prems(3) by simp
qed simp

lemma collect_groups_ok:
  "collect_groups env bh txs = Some cs \<Longrightarrow> list_all (\<lambda>c. entry_ok (group_of c) c \<and> group_of c \<noteq> NoGroup) cs \<and> list_all typed cs"
  by (induction txs arbitrary: cs) (auto split: if_splits bind_splits simp: entry_ok_def dest: CreateTokenGroup_Some)

lemma manager_inv_reset: "manager_inv (ResetTokenGroups m)"
  by (auto simp: manager_inv_def ResetTokenGroups_def ClearManagementTokenGroups_def wagerr_group_def entry_ok_def split: if_splits)

section \<open>Chains of blocks\<close>

text \<open>The keys of the database are distinct: the size of the id can be read off the first byte.\<close>

lemma WriteCompactSize_head:
  "WriteCompactSize n \<noteq> []"
  "length (WriteCompactSize n) = (let b = hd (WriteCompactSize n) in if b = 253 then 3 else if b = 254 then 5 else if b = 255 then 9 else 1)"
proof -
  have "(of_nat n :: u8) \<noteq> 253 \<and> (of_nat n :: u8) \<noteq> 254 \<and> (of_nat n :: u8) \<noteq> 255" if "n < 253"
  proof -
    have "unat (of_nat n :: u8) = n" using that by (simp add: unat_of_nat)
    then show ?thesis using that by auto
  qed
  then show "WriteCompactSize n \<noteq> []"
    "length (WriteCompactSize n) = (let b = hd (WriteCompactSize n) in if b = 253 then 3 else if b = 254 then 5 else if b = 255 then 9 else 1)"
    by (auto simp: WriteCompactSize_def ser_writedata8_def ser_writedata16_def ser_writedata32_def ser_writedata64_def)
qed

lemma concat_bytes: "concat (map ser_writedata8 xs) = xs"
  by (induction xs) (simp_all add: ser_writedata8_def)

lemma token_key_inject [simp]: "token_key g = token_key h \<longleftrightarrow> g = h"
proof
  assume k: "token_key g = token_key h"
  have s: "WriteCompactSize (length g) @ g = WriteCompactSize (length h) @ h"
    using k by (simp add: token_key_def ser_vector_def concat_bytes)
  have "hd (WriteCompactSize (length g) @ g) = hd (WriteCompactSize (length h) @ h)" by (simp only: s)
  then have "hd (WriteCompactSize (length g)) = hd (WriteCompactSize (length h))" by (simp add: hd_append WriteCompactSize_head(1))
  then have "length (WriteCompactSize (length g)) = length (WriteCompactSize (length h))" by (simp only: WriteCompactSize_head(2))
  then show "g = h" using s by simp
qed simp

text \<open>A stored group is the one of the map before its description was filtered.\<close>

definition same_group :: "CTokenGroupCreation \<Rightarrow> CTokenGroupCreation \<Rightarrow> bool" where
  "same_group c c' \<longleftrightarrow> creationTransaction c' = creationTransaction c \<and> tokenGroupInfo c' = tokenGroupInfo c \<and>
     (\<exists>tgs. tokenGroupDescription c' = filter_description tgs (group_of c) (tokenGroupDescription c))"

definition stored :: "token_db \<Rightarrow> CTokenGroupManager \<Rightarrow> bool" where
  "stored db m \<longleftrightarrow> (\<forall>g. case om_lookup db (token_key g) of
       None \<Rightarrow> g = NoGroup \<or> om_lookup (mapTokenGroups m) g = None
     | Some c \<Rightarrow> g \<noteq> NoGroup \<and> (\<exists>c'. om_lookup (mapTokenGroups m) g = Some c' \<and> same_group c c'))"

type_synonym token_block = "int \<times> uint256 \<times> CSpecialTx list"
type_synonym token_state = "CTokenGroupManager \<times> token_db"

text \<open>The tokens of a block that is connected; \<open>None\<close> when the block is rejected or the node stops.\<close>

definition connect_tokens :: "token_env \<Rightarrow> token_block \<Rightarrow> token_state \<Rightarrow> token_state option" where
  "connect_tokens env blk s =
     (let (h, bh, txs) = blk; (m, db) = s in
      case CollectTokensFromBlock env h bh txs m of
        None \<Rightarrow> None
      | Some m \<Rightarrow> (case ApplyTokensFromBlock (m, db) of Some (s, True) \<Rightarrow> Some s | _ \<Rightarrow> None))"

definition genesis_tokens :: token_state where
  "genesis_tokens = (ResetTokenGroups \<lparr>mapTokenGroups = om_empty, mapBetTokens = om_empty, tgMGTCreation = None, tgORATCreation = None, newTokenGroups = []\<rparr>, om_empty)"

text \<open>The states of a node: blocks are connected to the chain and disconnected from its tip.\<close>

inductive token_chain :: "token_env \<Rightarrow> token_block list \<Rightarrow> token_state \<Rightarrow> bool" for env where
  genesis: "token_chain env [] genesis_tokens"
| connect: "token_chain env bs s \<Longrightarrow> connect_tokens env b s = Some s' \<Longrightarrow> token_chain env (b # bs) s'"
| disconnect: "token_chain env ((h, bh, txs) # bs) s \<Longrightarrow> token_chain env bs (UndoBlock env h txs s)"

fun replay :: "token_env \<Rightarrow> token_block list \<Rightarrow> token_state option" where
  "replay env [] = Some genesis_tokens"
| "replay env (b # bs) = Option.bind (replay env bs) (connect_tokens env b)"

definition state_inv :: "token_state \<Rightarrow> bool" where
  "state_inv s \<longleftrightarrow> manager_inv (fst s) \<and> newTokenGroups (fst s) = [] \<and> stored (snd s) (fst s) \<and>
     (\<forall>k c. om_lookup (snd s) k = Some c \<longrightarrow> k = token_key (group_of c))"

lemma connect_tokens_cases:
  assumes "connect_tokens env (h, bh, txs) (m, db) = Some s'" "newTokenGroups m = []"
  obtains (before) "h < ATPStartHeight env" "s' = (m, db)"
    | (active) cs m' where "\<not> h < ATPStartHeight env" "collect_groups env bh txs = Some cs" "AddTokenGroups cs (m\<lparr>newTokenGroups := cs\<rparr>) = Some (m', True)"
        "s' = (m'\<lparr>newTokenGroups := []\<rparr>, WriteTokenGroupsBatch cs db)"
proof (cases "h < ATPStartHeight env")
  case True
  then have "s' = (m, db)"
    using assms by (auto simp: connect_tokens_def CollectTokensFromBlock_def ApplyTokensFromBlock_def WriteTokenGroupsBatch_def)
  then show ?thesis using True by (intro before)
next
  case False
  then show ?thesis
    using assms by (auto simp: connect_tokens_def CollectTokensFromBlock_def ApplyTokensFromBlock_def Let_def split: option.splits bind_splits if_splits bool.splits intro: active)
qed

lemma manager_inv_newTokenGroups [simp]: "manager_inv (m\<lparr>newTokenGroups := cs\<rparr>) = manager_inv m"
  by (simp add: manager_inv_def)

lemma lookup_WriteTokenGroupsBatch:
  "om_lookup (WriteTokenGroupsBatch cs db) k = (case find (\<lambda>c. token_key (group_of c) = k) (rev cs) of None \<Rightarrow> om_lookup db k | Some c \<Rightarrow> Some (c\<lparr>tg_status := []\<rparr>))"
  unfolding WriteTokenGroupsBatch_def by (induction cs rule: rev_induct) auto

lemma lookup_EraseTokenGroupBatch: "om_lookup (EraseTokenGroupBatch ids db) k = (if k \<in> token_key ` set ids then None else om_lookup db k)"
  unfolding EraseTokenGroupBatch_def by (induction ids rule: rev_induct) auto

lemma find_SomeD: "find P xs = Some x \<Longrightarrow> x \<in> set xs \<and> P x"
  by (induction xs) (auto split: if_splits)

text \<open>The groups of the block are stored with the transaction and the output that created them.\<close>

lemma AddTokenGroups_kept:
  "AddTokenGroups cs m = Some (m', True) \<Longrightarrow> list_all typed cs \<Longrightarrow> c \<in> set cs \<Longrightarrow>
   \<exists>c'. om_lookup (mapTokenGroups m') (group_of c) = Some c' \<and> same_group c c'"
proof (induction cs arbitrary: m)
  case (Cons b cs)
  then obtain n where n: "AddTokenGroup b m = Some (n, True)" "AddTokenGroups cs n = Some (m', True)" "typed b" "list_all typed cs"
    by (auto split: bind_splits if_splits)
  show ?case
  proof (cases "c \<in> set cs")
    case True
    then show ?thesis by (rule Cons.IH [OF n(2,4)])
  next
    case False
    have "added cs n m'" by (rule AddTokenGroups_True [OF n(2,4)])
    then have "grown (group_ids cs) (mapTokenGroups n) (mapTokenGroups m')" by (simp add: added_def)
    from grownD [OF this, of "group_of b"] show ?thesis
      using Cons.prems(3) False AddTokenGroup_True(2) [OF n(1,3)] by (auto simp: same_group_def split: if_splits)
  qed
qed simp

lemma connect_inv:
  assumes "connect_tokens env b s = Some s'" "state_inv s"
  shows "state_inv s'"
proof -
  obtain h bh txs m db where b: "b = (h, bh, txs)" "s = (m, db)" by (metis prod.exhaust)
  have m: "manager_inv m" "newTokenGroups m = []" "stored db m" "\<forall>k c. om_lookup db k = Some c \<longrightarrow> k = token_key (group_of c)"
    using assms(2) by (simp_all add: b(2) state_inv_def)
  show ?thesis
    using assms(1) m(2) unfolding b
  proof (cases rule: connect_tokens_cases)
    case before
    then show ?thesis using assms(2) b by simp
  next
    case (active cs m')
    note ok = collect_groups_ok [OF active(2)]
    have inv: "manager_inv m'" using AddTokenGroups_inv [OF active(3)] ok m(1) by simp
    have "added cs (m\<lparr>newTokenGroups := cs\<rparr>) m'" using AddTokenGroups_True [OF active(3)] ok by simp
    then have g: "grown (group_ids cs) (mapTokenGroups m) (mapTokenGroups m')" by (simp add: added_def)
    have "stored (WriteTokenGroupsBatch cs db) m'"
      unfolding stored_def
    proof
      fix g
      show "case om_lookup (WriteTokenGroupsBatch cs db) (token_key g) of None \<Rightarrow> g = NoGroup \<or> om_lookup (mapTokenGroups m') g = None
       | Some c \<Rightarrow> g \<noteq> NoGroup \<and> (\<exists>c'. om_lookup (mapTokenGroups m') g = Some c' \<and> same_group c c')"
      proof (cases "find (\<lambda>c. token_key (group_of c) = token_key g) (rev cs)")
        case None
        then have "g \<notin> group_ids cs" by (auto simp: find_None_iff)
        then show ?thesis using None m(3) [unfolded stored_def, THEN spec, of g] grownD [OF g, of g] by (simp add: lookup_WriteTokenGroupsBatch split: option.splits)
      next
        case (Some c)
        from find_SomeD [OF this] have c: "c \<in> set cs" "group_of c = g" by simp_all
        then obtain c' where "om_lookup (mapTokenGroups m') g = Some c'" "same_group c c'" using AddTokenGroups_kept [OF active(3), of c] ok by blast
        moreover have "g \<noteq> NoGroup" using ok c by (auto simp: list_all_iff)
        ultimately show ?thesis using Some by (simp add: lookup_WriteTokenGroupsBatch same_group_def)
      qed
    qed
    moreover have "stored x (m'\<lparr>newTokenGroups := []\<rparr>) = stored x m'" for x by (simp add: stored_def cong: option.case_cong)
    moreover have "k = token_key (group_of c)" if "om_lookup (WriteTokenGroupsBatch cs db) k = Some c" for k c
      using that m(4) find_SomeD [of _ "rev cs"] by (fastforce simp: lookup_WriteTokenGroupsBatch split: option.splits)
    ultimately show ?thesis using inv by (simp add: state_inv_def active(4))
  qed
qed

lemma unless_in_restores: "x' = x \<or> x = None \<and> unless_in G x' = None \<Longrightarrow> (\<And>c. x = Some c \<Longrightarrow> group_of c \<notin> G) \<Longrightarrow> unless_in G x' = x"
  by (auto simp: unless_in_def split: option.splits)

lemma manager_inv_differ:
  assumes "manager_inv m"
  shows "mgt_differ m"
  unfolding mgt_differ_def
proof (intro allI impI notI)
  fix c c' assume "tgMGTCreation m = Some c" "tgORATCreation m = Some c'" "group_of c = group_of c'"
  then show False using manager_invD(3) [OF assms, of c] manager_invD(4) [OF assms, of c'] by simp
qed

lemma remove_groups_restores:
  assumes "collect_groups env bh txs = Some cs" "added cs (m\<lparr>newTokenGroups := cs\<rparr>) m'" "manager_inv m" "manager_inv m'" "newTokenGroups m = []"
  shows "remove_groups env txs (m'\<lparr>newTokenGroups := []\<rparr>) = (m, map group_of cs)"
proof -
  let ?r = "remove_groups env txs (m'\<lparr>newTokenGroups := []\<rparr>)"
  have g: "grown (group_ids cs) (mapTokenGroups m) (mapTokenGroups m')" "grown (bet_events cs) (mapBetTokens m) (mapBetTokens m')"
    and d: "distinct (map group_of cs)" using assms(2) by (simp_all add: added_def)
  have "om_lookup (mapTokenGroups m') g' \<noteq> None" if "g' \<in> group_ids cs" for g' using grownD [OF g(1), of g'] that by simp
  then have "\<forall>g \<in> group_ids cs. om_lookup (mapTokenGroups (m'\<lparr>newTokenGroups := []\<rparr>)) g \<noteq> None" by simp
  moreover have "mgt_differ (m'\<lparr>newTokenGroups := []\<rparr>)" by (rule manager_inv_differ) (simp add: assms(4))
  ultimately have r: "snd ?r = map group_of cs" "newTokenGroups (fst ?r) = []"
    "\<And>g. om_lookup (mapTokenGroups (fst ?r)) g = (if g \<in> group_ids cs then None else om_lookup (mapTokenGroups m') g)"
    "\<And>e. om_lookup (mapBetTokens (fst ?r)) e = (if e \<in> bet_events cs then None else om_lookup (mapBetTokens m') e)"
    "tgMGTCreation (fst ?r) = unless_in (group_ids cs) (tgMGTCreation m')" "tgORATCreation (fst ?r) = unless_in (group_ids cs) (tgORATCreation m')"
    using remove_groups_added [OF assms(1) d] by simp_all
  have "group_of c \<notin> group_ids cs" if "om_lookup (mapTokenGroups m) (group_of c) = Some c" for c
    using grownD [OF g(1), of "group_of c"] that by (auto split: if_splits)
  then have out: "group_of c \<notin> group_ids cs" if "tgMGTCreation m = Some c \<or> tgORATCreation m = Some c" for c
    using manager_invD(3,4) [OF assms(3), of c] that by blast
  have k: "om_lookup (mapTokenGroups (fst ?r)) k = om_lookup (mapTokenGroups m) k" "om_lookup (mapBetTokens (fst ?r)) e = om_lookup (mapBetTokens m) e" for k e
    using grownD [OF g(1), of k] grownD [OF g(2), of e] by (simp_all add: r(3,4) split: if_splits)
  have "tgMGTCreation (fst ?r) = tgMGTCreation m" unfolding r(5) by (rule unless_in_restores) (use assms(2) out in \<open>simp_all add: added_def\<close>)
  moreover have "tgORATCreation (fst ?r) = tgORATCreation m" unfolding r(6) by (rule unless_in_restores) (use assms(2) out in \<open>simp_all add: added_def\<close>)
  ultimately have "fst ?r = m" using om_ext [OF k(1)] om_ext [OF k(2)] r(2) assms(5) by (intro CTokenGroupManager.equality) simp_all
  then show ?thesis using r(1) by (simp add: prod_eq_iff)
qed

lemma Erase_Write:
  assumes "stored db m" "\<And>g. g \<in> group_ids cs \<Longrightarrow> om_lookup (mapTokenGroups m) g = None"
  shows "EraseTokenGroupBatch (map group_of cs) (WriteTokenGroupsBatch cs db) = db"
proof (rule om_ext)
  fix k
  show "om_lookup (EraseTokenGroupBatch (map group_of cs) (WriteTokenGroupsBatch cs db)) k = om_lookup db k"
  proof (cases "k \<in> token_key ` group_ids cs")
    case True
    then obtain g where g: "k = token_key g" "g \<in> group_ids cs" by auto
    then show ?thesis
      using assms(1) [unfolded stored_def, THEN spec, of g] assms(2) [OF g(2)] by (simp add: lookup_EraseTokenGroupBatch split: option.splits)
  next
    case False
    then have "find (\<lambda>c. token_key (group_of c) = k) (rev cs) = None" by (auto simp: find_None_iff)
    then show ?thesis using False by (simp add: lookup_EraseTokenGroupBatch lookup_WriteTokenGroupsBatch)
  qed
qed

lemma undo_connect:
  assumes "connect_tokens env (h, bh, txs) s = Some s'" "state_inv s"
  shows "UndoBlock env h txs s' = s"
proof -
  obtain m db where s: "s = (m, db)" by force
  have m: "manager_inv m" "newTokenGroups m = []" "stored db m" using assms(2) by (simp_all add: s state_inv_def)
  from assms(1) [unfolded s] m(2) show ?thesis
  proof (cases rule: connect_tokens_cases)
    case before
    then show ?thesis by (simp add: UndoBlock_def s)
  next
    case (active cs m')
    note ok = collect_groups_ok [OF active(2)]
    have a: "added cs (m\<lparr>newTokenGroups := cs\<rparr>) m'" using AddTokenGroups_True [OF active(3)] ok by simp
    have inv: "manager_inv m'" using AddTokenGroups_inv [OF active(3)] ok m(1) by simp
    have "grown (group_ids cs) (mapTokenGroups m) (mapTokenGroups m')" using a by (simp add: added_def)
    then have "om_lookup (mapTokenGroups m) g = None" if "g \<in> group_ids cs" for g using grownD [of _ "mapTokenGroups m" _ g] that by fastforce
    then have "EraseTokenGroupBatch (map group_of cs) (WriteTokenGroupsBatch cs db) = db" by (rule Erase_Write [OF m(3)])
    then show ?thesis
      using remove_groups_restores [OF active(2) a m(1) inv m(2)] by (simp add: UndoBlock_def s active(1,4))
  qed
qed

lemma genesis_inv: "state_inv genesis_tokens"
proof -
  have "stored om_empty (ResetTokenGroups m)" for m by (simp add: stored_def ResetTokenGroups_def)
  then show ?thesis by (simp add: genesis_tokens_def state_inv_def manager_inv_reset) (simp add: ResetTokenGroups_def ClearManagementTokenGroups_def)
qed

lemma replay_inv: "replay env bs = Some s \<Longrightarrow> state_inv s"
  by (induction bs arbitrary: s) (auto simp: genesis_inv split: bind_splits intro: connect_inv)

lemma chain_replay: "token_chain env bs s \<Longrightarrow> replay env bs = Some s"
proof (induction rule: token_chain.induct)
  case (disconnect h bh txs bs s)
  then obtain s0 where s0: "replay env bs = Some s0" "connect_tokens env (h, bh, txs) s0 = Some s" by (auto split: bind_splits)
  then show ?case using undo_connect [OF s0(2)] replay_inv [OF s0(1)] by simp
qed simp_all

lemma chain_inv: "token_chain env bs s \<Longrightarrow> state_inv s"
  using chain_replay replay_inv by blast

text \<open>
  C6: Whatever blocks a node has connected and disconnected, its token groups, betting tokens, management groups and token database are those
  of the blocks of its chain connected in order: disconnecting a block undoes exactly what connecting it did.
\<close>

theorem token_chain_replay: "token_chain env bs s \<Longrightarrow> replay env bs = Some s"
  by (rule chain_replay)

text \<open>
  C14: In every state of a node a group is kept under its own id and was created by a valid output with the control flag and a nonce, its description is of the class
  that the type of the creating transaction asks for, and the database has the group with the same transaction and output.
\<close>

theorem token_chain_typed:
  assumes "token_chain env bs (m, db)" "om_lookup (mapTokenGroups m) g = Some c"
  shows "entry_ok g c \<and> (g \<noteq> NoGroup \<longrightarrow> (\<exists>c0. om_lookup db (token_key g) = Some c0 \<and> same_group c0 c))"
proof -
  have inv: "manager_inv m" "stored db m" using chain_inv [OF assms(1)] by (simp_all add: state_inv_def)
  show ?thesis
    using manager_invD(1) [OF inv(1) assms(2)] inv(2) [unfolded stored_def, THEN spec, of g] assms(2) by (simp split: option.splits)
qed

lemma ticker_found:
  assumes "manager_inv m" "om_lookup (mapTokenGroups m) g = Some c" "tgDescGetTicker (tokenGroupDescription c) \<noteq> []"
  shows "GetTokenGroupIdByTicker m (tgDescGetTicker (tokenGroupDescription c)) = Some g"
proof -
  let ?P = "\<lambda>(_ :: CTokenGroupID, c'). tolower (tgDescGetTicker (tokenGroupDescription c')) = tolower (tgDescGetTicker (tokenGroupDescription c))"
  have "(g, c) \<in> set (entries (mapTokenGroups m))" using assms(2) by (simp add: in_entries_iff)
  then have "find ?P (entries (mapTokenGroups m)) \<noteq> None" by (auto simp: find_None_iff)
  then obtain g' c' where f: "find ?P (entries (mapTokenGroups m)) = Some (g', c')" by auto
  from find_SomeD [OF f] have "om_lookup (mapTokenGroups m) g' = Some c'" "?P (g', c')" by (simp_all add: in_entries_iff)
  then have "g = g'" using manager_invD(2) [OF assms(1,2) _ assms(3)] by simp
  then show ?thesis using f by (simp add: GetTokenGroupIdByTicker_def)
qed

text \<open>
  C7: In every state of a node the ticker of a group, when it has one, leads back to the group; the management group is the group whose creation is a
  management creation with the ticker MGT, the oracle group the one with the ticker ORAT, and the betting tokens of an event are those
  of the group whose description names the event.
\<close>

theorem token_chain_inv:
  assumes "token_chain env bs (m, db)"
  shows "(\<forall>g c. om_lookup (mapTokenGroups m) g = Some c \<and> tgDescGetTicker (tokenGroupDescription c) \<noteq> [] \<longrightarrow>
      GetTokenGroupIdByTicker m (tgDescGetTicker (tokenGroupDescription c)) = Some g) \<and>
    (\<forall>c. tgMGTCreation m = Some c \<longleftrightarrow> om_lookup (mapTokenGroups m) (group_of c) = Some c \<and> mgt_ticker (tokenGroupDescription c) = Some ''MGT'') \<and>
    (\<forall>c. tgORATCreation m = Some c \<longleftrightarrow> om_lookup (mapTokenGroups m) (group_of c) = Some c \<and> mgt_ticker (tokenGroupDescription c) = Some ''ORAT'') \<and>
    (\<forall>e g. GetTokenGroupIdByEventID m e = Some g \<longleftrightarrow> (\<exists>c. om_lookup (mapTokenGroups m) g = Some c \<and> bet_event (tokenGroupDescription c) = Some e))"
proof -
  have inv: "manager_inv m" using chain_inv [OF assms] by (simp add: state_inv_def)
  show ?thesis unfolding GetTokenGroupIdByEventID_def using ticker_found [OF inv] manager_invD(3-5) [OF inv] by blast
qed

section \<open>Restart\<close>

lemma same_groupD:
  assumes "same_group c c'"
  shows "group_of c' = group_of c" "bet_event (tokenGroupDescription c') = bet_event (tokenGroupDescription c)" "typed c' = typed c"
    "entry_ok g c' = entry_ok g c"
proof -
  obtain tgs where d: "tokenGroupDescription c' = filter_description tgs (group_of c) (tokenGroupDescription c)" "creationTransaction c' = creationTransaction c"
      "tokenGroupInfo c' = tokenGroupInfo c" using assms by (auto simp: same_group_def)
  show "group_of c' = group_of c" "bet_event (tokenGroupDescription c') = bet_event (tokenGroupDescription c)" using d by simp_all
  show t: "typed c' = typed c" using d by (cases "tokenGroupDescription c") (simp_all add: typed_def)
  show "entry_ok g c' = entry_ok g c" using d t by (simp add: entry_ok_def)
qed

lemma AddTokenGroup_succeeds:
  assumes "typed c" "om_lookup (mapTokenGroups m) (group_of c) = None" "\<And>e. bet_event (tokenGroupDescription c) = Some e \<Longrightarrow> om_lookup (mapBetTokens m) e = None"
  shows "\<exists>m'. AddTokenGroup c m = Some (m', True)"
  using assms by (cases "tokenGroupDescription c") (simp_all add: AddTokenGroup_def Let_def typed_def)

lemma AddTokenGroups_succeeds:
  assumes "list_all typed cs" "distinct (map group_of cs)" "\<And>g. g \<in> group_ids cs \<Longrightarrow> om_lookup (mapTokenGroups m) g = None"
    "\<And>e. e \<in> bet_events cs \<Longrightarrow> om_lookup (mapBetTokens m) e = None"
    "\<And>c c' e. c \<in> set cs \<Longrightarrow> c' \<in> set cs \<Longrightarrow> bet_event (tokenGroupDescription c) = Some e \<Longrightarrow> bet_event (tokenGroupDescription c') = Some e \<Longrightarrow> group_of c = group_of c'"
  shows "\<exists>m'. AddTokenGroups cs m = Some (m', True)"
  using assms
proof (induction cs arbitrary: m)
  case (Cons c cs)
  obtain n where n: "AddTokenGroup c m = Some (n, True)"
    using AddTokenGroup_succeeds [of c m] Cons.prems(1,3,4) by auto
  have t: "typed c" using Cons.prems(1) by simp
  note a = AddTokenGroup_True [OF n t]
  have "om_lookup (mapTokenGroups n) g = None" if "g \<in> group_ids cs" for g
  proof -
    have "g \<noteq> group_of c" using Cons.prems(2) that by (auto simp only: list.map distinct.simps)
    then show ?thesis using Cons.prems(3) [of g] that unfolding a(2) by simp
  qed
  moreover have "om_lookup (mapBetTokens n) e = None" if e: "e \<in> bet_events cs" for e
  proof -
    have "bet_event (tokenGroupDescription c) \<noteq> Some e"
    proof
      assume "bet_event (tokenGroupDescription c) = Some e"
      moreover obtain c' where "c' \<in> set cs" "bet_event (tokenGroupDescription c') = Some e" using e by (auto simp: bet_events_def)
      ultimately have "group_of c \<in> group_ids cs" using Cons.prems(5) [of c c' e] by auto
      then show False using Cons.prems(2) by simp
    qed
    then show ?thesis using Cons.prems(4) [of e] e unfolding a(4) by (auto split: option.splits)
  qed
  ultimately have "\<exists>m'. AddTokenGroups cs n = Some (m', True)"
    using Cons.prems(1,2,5) by (intro Cons.IH) (auto; fail)+
  then show ?case using n by auto
qed simp

lemma FindTokenGroups_stored:
  assumes "state_inv (m, db)"
  shows "c \<in> set (FindTokenGroups db) \<longleftrightarrow> om_lookup db (token_key (group_of c)) = Some c" "distinct (map group_of (FindTokenGroups db))"
    "om_lookup db (token_key (group_of c)) = Some c \<Longrightarrow> group_of c \<noteq> NoGroup \<and> (\<exists>c'. om_lookup (mapTokenGroups m) (group_of c) = Some c' \<and> same_group c c')"
    "om_lookup (mapTokenGroups m) g = Some c' \<Longrightarrow> g \<noteq> NoGroup \<Longrightarrow> \<exists>c. om_lookup db (token_key g) = Some c \<and> same_group c c'"
proof -
  have i: "stored db m" "\<And>k c. om_lookup db k = Some c \<Longrightarrow> k = token_key (group_of c)" using assms by (simp_all add: state_inv_def)
  show "c \<in> set (FindTokenGroups db) \<longleftrightarrow> om_lookup db (token_key (group_of c)) = Some c"
  proof
    assume "c \<in> set (FindTokenGroups db)"
    then obtain k where "om_lookup db k = Some c" by (auto simp: FindTokenGroups_def in_entries_iff)
    then show "om_lookup db (token_key (group_of c)) = Some c" using i(2) [of k c] by simp
  next
    assume "om_lookup db (token_key (group_of c)) = Some c"
    then have "(token_key (group_of c), c) \<in> set (entries db)" by (simp add: in_entries_iff)
    then show "c \<in> set (FindTokenGroups db)" unfolding FindTokenGroups_def by force
  qed
  have "map (\<lambda>c. token_key (group_of c)) (FindTokenGroups db) = map fst (entries db)"
    unfolding FindTokenGroups_def using i(2) by (auto simp: in_entries_iff)
  moreover have "distinct (map fst (entries db))" using entries [of db] by (simp add: strict_sorted_iff)
  ultimately have "distinct (map token_key (map group_of (FindTokenGroups db)))" by (simp add: comp_def)
  then show "distinct (map group_of (FindTokenGroups db))" by (simp only: distinct_map)
  show "om_lookup db (token_key (group_of c)) = Some c \<Longrightarrow> group_of c \<noteq> NoGroup \<and> (\<exists>c'. om_lookup (mapTokenGroups m) (group_of c) = Some c' \<and> same_group c c')"
    using i(1) [unfolded stored_def, THEN spec, of "group_of c"] by simp
  show "om_lookup (mapTokenGroups m) g = Some c' \<Longrightarrow> g \<noteq> NoGroup \<Longrightarrow> \<exists>c. om_lookup db (token_key g) = Some c \<and> same_group c c'"
    using i(1) [unfolded stored_def, THEN spec, of g] by (simp split: option.splits)
qed

lemma stored_each:
  assumes "state_inv (m, db)" "c \<in> set (FindTokenGroups db)"
  shows "entry_ok (group_of c) c \<and> group_of c \<noteq> NoGroup"
    "bet_event (tokenGroupDescription c) = Some e \<Longrightarrow> om_lookup (mapBetTokens m) e = Some (group_of c)"
proof -
  have inv: "manager_inv m" using assms(1) by (simp add: state_inv_def)
  obtain c' where c': "group_of c \<noteq> NoGroup" "om_lookup (mapTokenGroups m) (group_of c) = Some c'" "same_group c c'"
    using FindTokenGroups_stored(1,3) [OF assms(1), of c] assms(2) by blast
  show "entry_ok (group_of c) c \<and> group_of c \<noteq> NoGroup"
    using c'(1) manager_invD(1) [OF inv c'(2)] same_groupD(4) [OF c'(3)] by simp
  show "bet_event (tokenGroupDescription c) = Some e \<Longrightarrow> om_lookup (mapBetTokens m) e = Some (group_of c)"
    using manager_invD(5) [OF inv, of e "group_of c"] c'(2) same_groupD(2) [OF c'(3)] by simp
qed

lemma load_succeeds:
  assumes "state_inv (m, db)"
  obtains m' where "AddTokenGroups (FindTokenGroups db) (ResetTokenGroups m0) = Some (m', True)"
proof -
  note each = stored_each [OF assms]
  have same: "group_of c = group_of c'" if "c \<in> set (FindTokenGroups db)" "c' \<in> set (FindTokenGroups db)"
    "bet_event (tokenGroupDescription c) = Some e" "bet_event (tokenGroupDescription c') = Some e" for c c' e
    using each(2) [OF that(1,3)] each(2) [OF that(2,4)] by simp
  have t: "list_all typed (FindTokenGroups db)" using each(1) by (auto simp: list_all_iff entry_ok_def)
  have "\<exists>m'. AddTokenGroups (FindTokenGroups db) (ResetTokenGroups m0) = Some (m', True)"
    by (rule AddTokenGroups_succeeds [OF t FindTokenGroups_stored(2) [OF assms] _ _ same]) (use each(1) in \<open>auto simp: ResetTokenGroups_def\<close>)
  then show ?thesis using that by blast
qed

lemma load_inv:
  assumes "state_inv (m, db)" "AddTokenGroups (FindTokenGroups db) (ResetTokenGroups m0) = Some (m', True)"
  shows "manager_inv m'"
  by (rule AddTokenGroups_inv [OF assms(2) manager_inv_reset]) (use stored_each(1) [OF assms(1)] in \<open>simp add: list_all_iff\<close>)

lemma load_groups:
  assumes "state_inv (m, db)" "AddTokenGroups (FindTokenGroups db) (ResetTokenGroups m0) = Some (m', True)"
  shows "map_option (\<lambda>c. (creationTransaction c, tokenGroupInfo c, bet_event (tokenGroupDescription c))) (om_lookup (mapTokenGroups m') g) =
    map_option (\<lambda>c. (creationTransaction c, tokenGroupInfo c, bet_event (tokenGroupDescription c))) (om_lookup (mapTokenGroups m) g)"
proof -
  let ?cs = "FindTokenGroups db"
  have t: "list_all typed ?cs" using stored_each(1) [OF assms(1)] by (auto simp: list_all_iff entry_ok_def)
  have "added ?cs (ResetTokenGroups m0) m'" by (rule AddTokenGroups_True [OF assms(2) t])
  then have "grown (group_ids ?cs) (mapTokenGroups (ResetTokenGroups m0)) (mapTokenGroups m')" by (simp add: added_def)
  note grow = grownD [OF this, of g]
  show ?thesis
  proof (cases "g \<in> group_ids ?cs")
    case True
    then obtain c where c: "c \<in> set ?cs" "group_of c = g" by auto
    obtain c' where c': "om_lookup (mapTokenGroups m) g = Some c'" "same_group c c'"
      using FindTokenGroups_stored(1,3) [OF assms(1), of c] c by blast
    obtain c'' where c'': "om_lookup (mapTokenGroups m') g = Some c''" "same_group c c''"
      using AddTokenGroups_kept [OF assms(2) t c(1)] c(2) by blast
    show ?thesis using c' c'' same_groupD(2) [OF c'(2)] same_groupD(2) [OF c''(2)] by (simp add: same_group_def)
  next
    case False
    have "om_lookup (mapTokenGroups m) g = None" if ne: "g \<noteq> NoGroup"
    proof (cases "om_lookup (mapTokenGroups m) g")
      case (Some c')
      then obtain c where c: "om_lookup db (token_key g) = Some c" using FindTokenGroups_stored(4) [OF assms(1) _ ne] by blast
      moreover have "token_key g = token_key (group_of c)" using assms(1) c by (simp add: state_inv_def)
      ultimately have "c \<in> set ?cs" "g = group_of c" using FindTokenGroups_stored(1) [OF assms(1), of c] by simp_all
      then show ?thesis using False by auto
    qed
    moreover have "om_lookup (mapTokenGroups m) NoGroup = Some wagerr_group" using assms(1) by (simp add: state_inv_def manager_inv_def)
    ultimately show ?thesis using grow False by (cases "g = NoGroup") (simp_all add: ResetTokenGroups_def)
  qed
qed

text \<open>
  C15: A restart succeeds and finds the same tokens: loading the database of any state of a node raises no exception and fails at no group, and it
  yields the same groups, with the same transactions and outputs, and the same betting tokens of events.
\<close>

theorem LoadTokensFromDB_reload:
  assumes "token_chain env bs (m, db)"
  shows "\<exists>m'. LoadTokensFromDB db m0 = Some (m', True) \<and> mapBetTokens m' = mapBetTokens m \<and>
    (\<forall>g. map_option (\<lambda>c. (creationTransaction c, tokenGroupInfo c)) (om_lookup (mapTokenGroups m') g) =
      map_option (\<lambda>c. (creationTransaction c, tokenGroupInfo c)) (om_lookup (mapTokenGroups m) g))"
proof -
  have s: "state_inv (m, db)" by (rule chain_inv [OF assms])
  then have inv: "manager_inv m" by (simp add: state_inv_def)
  obtain m' where load: "AddTokenGroups (FindTokenGroups db) (ResetTokenGroups m0) = Some (m', True)" by (rule load_succeeds [OF s])
  have inv': "manager_inv m'" by (rule load_inv [OF s load])
  note g = load_groups [OF s load]
  have "(\<exists>c. om_lookup (mapTokenGroups m') g = Some c \<and> bet_event (tokenGroupDescription c) = Some e) \<longleftrightarrow>
      (\<exists>c. om_lookup (mapTokenGroups m) g = Some c \<and> bet_event (tokenGroupDescription c) = Some e)" for g e
    using g [of g] by (cases "om_lookup (mapTokenGroups m') g"; cases "om_lookup (mapTokenGroups m) g") simp_all
  then have "om_lookup (mapBetTokens m') e = Some g \<longleftrightarrow> om_lookup (mapBetTokens m) e = Some g" for e g
    using manager_invD(5) [OF inv, of e g] manager_invD(5) [OF inv', of e g] by simp
  then have "mapBetTokens m' = mapBetTokens m" by (intro om_ext) (metis not_None_eq)
  moreover have "map_option (\<lambda>c. (creationTransaction c, tokenGroupInfo c)) (om_lookup (mapTokenGroups m') g) =
      map_option (\<lambda>c. (creationTransaction c, tokenGroupInfo c)) (om_lookup (mapTokenGroups m) g)" for g
    using g [of g] by (cases "om_lookup (mapTokenGroups m') g"; cases "om_lookup (mapTokenGroups m) g") simp_all
  ultimately show ?thesis using load by (simp add: LoadTokensFromDB_def)
qed

end
