(* ===== verification/GameSettlement.thy ===== *)
theory GameSettlement
  imports GamePayouts SampleChain
begin

text \<open>
  What the games pay: the draw of a chain games lotto (\<open>pay_lotto\<close>), the bound on the amounts of a winning quick game
  bet (\<open>qg_amounts\<close>, \<open>qg_reward\<close>), and the dice bet whose number the checks let through.
\<close>

section \<open>Lotto\<close>

lemma lotto_winner_less:
  assumes "0 < n" "n < 2 ^ 64"
  shows "lotto_winner hash n < n"
proof -
  let ?n = "of_nat n :: 256 word"
  have n: "unat ?n = n" using assms(2) by (intro unat_of_nat_less) simp
  have "hash - hash div ?n * ?n = hash mod ?n" by (simp add: minus_div_mult_eq_mod)
  moreover have "unat (hash mod ?n) < n" using assms(1) n by (simp add: unat_mod)
  moreover have "unat (Get64 x 0) = unat x" if "unat x < 2 ^ 64" for x
    using that by (simp add: Get64_def unsigned_ucast_eq take_bit_nat_eq_self)
  ultimately show ?thesis using assms(2) by (simp add: lotto_winner_def Let_def)
qed

text \<open>
  C27: A lotto with at least two entrants has a winner: the index drawn from the proof of stake hash is in range for every hash.  When the
  hash is not zero and an oracle is active, the entrant at that index is paid 80 percent of the pot and the oracle 2 percent, the
  winner's bet records the payout, all entrants are to be marked as completed, and the two amounts stay within the pot.
\<close>

theorem pay_lotto_pays:
  assumes "2 \<le> length cs" "length cs < 2 ^ 64" "hash_of_block pos (h - 1) = Some hash" "hash \<noteq> 0"
    and "GetFeePayoutScripts env h = Some (dev, omno)"
    and "10 \<le> entranceFee" and pot: "int (length cs) * entranceFee < 2 ^ 63"
  shows "\<exists>i key cgBet. i < length cs \<and> cs ! i = (key, cgBet) \<and>
    (let pot = int (length cs) * entranceFee in
     pay_lotto env pos h eventId entranceFee cs (updates, p) =
       Some (updates @ cs[i := (key, cgBet\<lparr>cgbet_payout := pot div 10 * 8\<rparr>)],
         add_payout (new_CBetOut (pot div 50) omno 0 0) (PeerlessBetKey (of_int h) COutPoint_null) chainGamesReward
           (add_payout (new_CBetOut (pot div 10 * 8) (GetScriptForDestination env (cgbet_playerAddress cgBet)) entranceFee eventId) key chainGamesPayout p)) \<and>
     0 < pot div 10 * 8 \<and> pot div 10 * 8 + pot div 50 \<le> pot)"
proof -
  let ?i = "lotto_winner hash (length cs)" and ?pot = "int (length cs) * entranceFee"
  have i: "?i < length cs" using assms(1,2) by (intro lotto_winner_less) auto
  obtain key cgBet where c: "cs ! ?i = (key, cgBet)" by force
  have "2 * 10 \<le> int (length cs) * entranceFee" using assms(1,6) by (intro mult_mono) simp_all
  then have p: "20 \<le> ?pot" by simp
  then have "lotto_pot hash (length cs) entranceFee = (?pot div 10 * 8, ?pot div 50)"
    using assms(4) pot by (simp add: lotto_pot_def Let_def i64_id sdiv_nonneg_eq)
  moreover have "0 < ?pot div 10 * 8" using p by (simp add: pos_imp_zdiv_pos_iff)
  moreover have "?pot div 10 * 8 + ?pot div 50 \<le> ?pot" using p by linarith
  ultimately show ?thesis
    using assms(1,3,5) i c by (intro exI [of _ ?i] exI [of _ key] exI [of _ cgBet]) (simp add: pay_lotto_def Let_def vec_at_def)
qed

text \<open>Two entrants at 100 coins; the hash of the block selects one of them.\<close>

definition sample_stakes :: pos_env where
  "sample_stakes = \<lparr>mapProofOfStake = (\<lambda>_. 1), pos_BlockHash = (\<lambda>_. Some 3), pos_IsProofOfStake = (\<lambda>_. True), pos_CheckProofOfStake = (\<lambda>_. None)\<rparr>"

definition sample_entrants :: "(PeerlessBetKey \<times> CChainGamesBetDB) list" where
  "sample_entrants = map (\<lambda>n. (PeerlessBetKey 440 \<lparr>op_hash = n, op_n = 1\<rparr>,
     \<lparr>cgbet_nEventId = 5, cgbet_betAmount = 100 * COIN, cgbet_playerAddress = CKeyID 5, cgbet_betTime = 0, cgbet_payout = 0,
      cgbet_payoutHeight = 0, cgbet_completed = True\<rparr>)) [8, 9]"


lemma le_bytes_zero: "le_bytes n 0 = replicate n 0"
  by (induction n) simp_all

lemma fold_zero_bytes: "fold (\<lambda>(i, b) acc. acc + unat b * 256 ^ i) (enumerate k (replicate n (0 :: 8 word))) acc = acc"
  by (induction n arbitrary: k) simp_all

lemma UintToArith256_one: "UintToArith256 1 \<noteq> 0"
proof -
  have "le_bytes (Suc 31) 1 = 1 # replicate 31 0" unfolding le_bytes.simps by (simp add: le_bytes_zero)
  then have "ser_uint256 1 = replicate 31 0 @ [1]" by (simp add: ser_uint256_def)
  then have "UintToArith256 1 = of_nat (256 ^ 31)" by (simp add: UintToArith256_def enumerate_append_eq fold_zero_bytes)
  then show ?thesis by simp
qed

theorem pay_lotto_pays_witness:
  "\<exists>i key cgBet. i < 2 \<and> sample_entrants ! i = (key, cgBet) \<and>
   pay_lotto sample_env sample_stakes 450 5 (100 * COIN) sample_entrants ([], [], []) =
     Some (sample_entrants[i := (key, cgBet\<lparr>cgbet_payout := 160 * COIN\<rparr>)],
       add_payout (new_CBetOut (4 * COIN) [] 0 0) (PeerlessBetKey 450 COutPoint_null) chainGamesReward
         (add_payout (new_CBetOut (160 * COIN) [] (100 * COIN) 5) key chainGamesPayout ([], [])))"
proof -
  have n: "length sample_entrants = 2" by (simp add: sample_entrants_def)
  have hash: "hash_of_block sample_stakes (450 - 1) = Some (UintToArith256 1)"
    by (simp add: hash_of_block_def sample_stakes_def UintToArith256_one)
  have "GetFeePayoutScripts sample_env 450 = Some ([], [])"
    by (simp add: GetFeePayoutScripts_def sample_env_def vOracles_regtest_def IsActive_def Let_def)
  then show ?thesis
    using pay_lotto_pays [OF _ _ hash UintToArith256_one, where cs = sample_entrants and env = sample_env and entranceFee = "100 * COIN"
        and eventId = 5 and updates = "[]" and p = "([], [])"] n
    by (simp add: COIN_def sample_env_def Let_def)
qed

section \<open>Quick games\<close>

lemma div_add_div_le: "0 < n \<Longrightarrow> x div n + y div n \<le> (x + y) div (n :: int)"
  by (metis div_add1_eq le_add_same_cancel1 pos_imp_zdiv_nonneg_iff pos_mod_sign add_nonneg_nonneg)

lemma uint_odds_minus: "10000 \<le> uint odds \<Longrightarrow> uint (odds - 10000 :: u32) = uint odds - 10000"
  by (simp add: uint_minus_simple_alt [THEN iffD1] word_le_def)

lemma permille_le: "0 \<le> fee \<Longrightarrow> 0 \<le> p \<Longrightarrow> p \<le> 1000 \<Longrightarrow> 0 \<le> fee div 1000 * p \<and> fee div 1000 * p \<le> (fee :: int)"
proof -
  assume a: "0 \<le> fee" "0 \<le> p" "p \<le> 1000"
  then have "fee div 1000 * p \<le> fee div 1000 * 1000" by (intro mult_left_mono) (simp_all add: pos_imp_zdiv_nonneg_iff)
  moreover have "fee div 1000 * 1000 \<le> fee" by linarith
  ultimately show ?thesis using a by (simp add: pos_imp_zdiv_nonneg_iff)
qed

lemma i64_between: "0 \<le> x \<and> x \<le> y \<Longrightarrow> y < 2 ^ 63 \<Longrightarrow> i64 x = x"
  by (rule i64_id) auto

lemma qg_rewards_le:
  assumes "0 \<le> fee" "fee < 2 ^ 63" "uint d + uint m \<le> 1000"
  shows "qg_reward fee d + qg_reward fee m \<le> fee div 10000"
proof -
  have eq: "qg_reward fee p = fee div 1000 * uint p div 10000" if "uint p \<le> 1000" for p
  proof -
    note b = permille_le [OF assms(1) uint_nonnegative [of p] that]
    have "i64 (fee div 1000 * uint p) = fee div 1000 * uint p" using b assms(2) by (rule i64_between)
    then show ?thesis unfolding qg_reward_def BET_ODDSDIVISOR_def using b assms(1) by (simp only: sdiv_nonneg_eq zero_le_numeral)
  qed
  have le: "uint d \<le> 1000" "uint m \<le> 1000" using assms(3) uint_nonnegative [of d] uint_nonnegative [of m] by linarith+
  have "fee div 1000 * uint d div 10000 + fee div 1000 * uint m div 10000 \<le> fee div 1000 * (uint d + uint m) div 10000"
    using div_add_div_le [of 10000 "fee div 1000 * uint d" "fee div 1000 * uint m"] by (simp add: distrib_left)
  also have "\<dots> \<le> fee div 10000" using permille_le [of fee "uint d + uint m"] assms(1,3) by (intro zdiv_mono1) simp_all
  finally show ?thesis using eq le by simp
qed

text \<open>
  What a winning quick game bet costs: when the odds are at least even and the products fit into 64 bits, the payout of the player and
  the rewards of the developers and of the oracle together stay within the gross winnings, which are the stake times the odds.
\<close>

lemma qg_amounts_bounded:
  assumes "0 \<le> betAmount" "10000 \<le> uint odds" "betAmount * uint odds < 2 ^ 63"
    and "uint (qg_nFeePermille game) \<le> 1000" "uint (qg_nDevRewardPermille game) + uint (qg_nOMNORewardPermille game) \<le> 1000"
    and "qg_amounts game betAmount odds = (fee, payout)"
  shows "0 \<le> payout \<and> payout + qg_reward fee (qg_nDevRewardPermille game) + qg_reward fee (qg_nOMNORewardPermille game) \<le> betAmount * uint odds div 10000"
proof -
  let ?W = "betAmount * uint odds" and ?X = "betAmount * (uint odds - 10000)"
  have X: "0 \<le> ?X" "?X \<le> ?W" using assms(1,2) by (simp_all add: mult_left_mono)
  have W: "i64 ?W = ?W" "i64 ?X = ?X" using X assms(3) by (simp_all add: i64_id)
  have F: "0 \<le> ?X div 1000 * uint (qg_nFeePermille game)" "?X div 1000 * uint (qg_nFeePermille game) \<le> ?X"
    using permille_le [OF X(1) _ assms(4)] by simp_all
  have i: "i64 (?X div 1000 * uint (qg_nFeePermille game)) = ?X div 1000 * uint (qg_nFeePermille game)"
    "i64 (?W - ?X div 1000 * uint (qg_nFeePermille game)) = ?W - ?X div 1000 * uint (qg_nFeePermille game)"
    using F X assms(3) by (intro i64_between [of _ ?W]; linarith)+
  have fee: "fee = (if ?W > 0 then ?X div 1000 * uint (qg_nFeePermille game) else 0)" "payout = (if ?W > 0 then (?W - fee) div 10000 else 0)"
    using assms(6) F X sdiv_nonneg_eq [OF X(1), of 1000] sdiv_nonneg_eq [of "?W - ?X div 1000 * uint (qg_nFeePermille game)" 10000]
    by (auto simp: qg_amounts_def Let_def W uint_odds_minus [OF assms(2)] BET_ODDSDIVISOR_def i split: if_splits)
  have f: "0 \<le> fee" "fee \<le> ?W" using fee(1) F X by (auto split: if_splits)
  then have r: "qg_reward fee (qg_nDevRewardPermille game) + qg_reward fee (qg_nOMNORewardPermille game) \<le> fee div 10000"
    using assms(3,5) by (intro qg_rewards_le) simp_all
  have "payout \<le> (?W - fee) div 10000" "0 \<le> payout" using fee(2) f by (auto simp: pos_imp_zdiv_nonneg_iff)
  moreover have "(?W - fee) div 10000 + fee div 10000 \<le> ?W div 10000" using div_add_div_le [of 10000 "?W - fee" fee] by simp
  ultimately show ?thesis using r by linarith
qed

text \<open>
  C38: The check of a dice bet does not look at its number, and the bet that the sum is not 14 breaks the game.  It wins for every seed at the odds 9729,
  which are below even; the fee is computed from the unsigned difference of these odds to even odds and overflows, and a stake of 25
  coins, the smallest the check of the transaction allows, pays more than 77000 coins.
\<close>

theorem not_equal_14_payout:
  "let info = ser_DiceBetInfo \<lparr>dice_betType = qgDiceNotEqual, dice_betNumber = 14\<rparr> in
   CheckBettingTx_qgBet sample_env \<lparr>qg_gameType = qgDice, qg_vBetInfo = info\<rparr> (25 * COIN) 299 \<and>
   DiceHandler info seed = Some 9729 \<and>
   77000 * COIN < snd (qg_amounts (hd (quickGamesArr dev)) (25 * COIN) 9729)"
proof -
  have "dice_sum seed \<noteq> 14" using dice_sum_bounds(2) [of seed] by auto
  moreover have "dice_odds (36 - Dice_NumberOfWinCases 14) = Some 9729" by (simp add: dice_odds_def Dice_NumberOfWinCases_def)
  ultimately have "DiceHandler (ser_DiceBetInfo \<lparr>dice_betType = qgDiceNotEqual, dice_betNumber = 14\<rparr>) seed = Some 9729"
    by (simp add: DiceHandler_def ser_DiceBetInfo_def unser_DiceBetInfo_def dice_defs Let_def ser8.roundtrip ser32.roundtrip_nil)
  moreover have "uint (9729 - 10000 :: u32) = 4294967025" by simp
  then have "snd (qg_amounts (hd (quickGamesArr dev)) (25 * COIN) 9729) > 77000 * COIN"
    by (simp add: qg_amounts_def quickGamesArr_def COIN_def i64_def BET_ODDSDIVISOR_def Let_def signed_divide_int_def)
  moreover have "CheckBettingTx_qgBet sample_env \<lparr>qg_gameType = qgDice, qg_vBetInfo = info\<rparr> (25 * COIN) 299" for info
    by (simp add: CheckBettingTx_qgBet_def bet_amount_ok_def CRegTestParams_def COIN_def)
  ultimately show ?thesis by simp
qed

end
