(* ===== verification/TokenSamples.thy ===== *)
theory TokenSamples
  imports TokenSafety TokenChain GameSettlement
begin

text \<open>
  Concrete inputs for the properties of tokens: a transaction that mints with an authority, and a chain of two blocks with a group each,
  whose second group competes with the first for its ticker.
\<close>

section \<open>A mint\<close>

text \<open>A chain with tokens from height 400 on, and coins that are authorities to mint a group and to create child authorities.\<close>

definition sample_token_env :: token_env where
  "sample_token_env = betting_env.extend sample_env (token_env.fields 400 ''TDn9ZfHrYvRXyXC6KxRgN6ZRXgJH2JKZWe'' (\<lambda>_. 1) (\<lambda>_. True) (\<lambda>_ _ _. True))"

definition group_coin :: "CTokenGroupID \<Rightarrow> CAmount \<Rightarrow> Coin" where
  "group_coin g q = \<lparr>coin_out = \<lparr>nValue = 1, scriptPubKey = GetGroupScriptForDestination (CKeyID 5) g q\<rparr>, coin_nHeight = 410\<rparr>"

definition group_out :: "CTokenGroupID \<Rightarrow> CAmount \<Rightarrow> CTxOut" where
  "group_out g q = \<lparr>nValue = 1, scriptPubKey = GetGroupScriptForDestination (CKeyID 5) g q\<rparr>"

definition sample_inputs :: "CTxIn list" where
  "sample_inputs = [\<lparr>prevout = \<lparr>op_hash = 7, op_n = 0\<rparr>, scriptSig = []\<rparr>]"

definition sample_token_tx :: "CTxOut list \<Rightarrow> CSpecialTx" where
  "sample_token_tx outs = \<lparr>vin = sample_inputs, vout = outs, tx_hash = 21,
     tx_nVersion = 1, tx_nType = TRANSACTION_NORMAL, vExtraPayload = []\<rparr>"

definition sample_manager :: CTokenGroupManager where
  "sample_manager = ResetTokenGroups \<lparr>mapTokenGroups = om_empty, mapBetTokens = om_empty, tgMGTCreation = None, tgORATCreation = None, newTokenGroups = []\<rparr>"

text \<open>The amount whose bits are control, mint and child.\<close>

abbreviation (input) minter :: CAmount where "minter \<equiv> - 0x3000000000000000"

lemma group_out_simps [simp]:
  assumes "32 \<le> length g" "length g < 2 ^ 32" "- (2 ^ 63) \<le> q" "q < 2 ^ 63"
  shows "CTokenGroupInfo_of (scriptPubKey (group_out g q)) = \<lparr>associatedGroup = g, tg_quantity = q, tg_invalid = False\<rparr>"
    "CTokenGroupInfo_of (scriptPubKey (coin_out (group_coin g q))) = \<lparr>associatedGroup = g, tg_quantity = q, tg_invalid = False\<rparr>"
proof -
  have "g \<noteq> NoGroup" using assms(1) by auto
  then show "CTokenGroupInfo_of (scriptPubKey (group_out g q)) = \<lparr>associatedGroup = g, tg_quantity = q, tg_invalid = False\<rparr>"
    "CTokenGroupInfo_of (scriptPubKey (coin_out (group_coin g q))) = \<lparr>associatedGroup = g, tg_quantity = q, tg_invalid = False\<rparr>"
    using CTokenGroupInfo_of_script [of "CKeyID 5" g q, OF _ _ assms(2-4)] assms(1) unfolding group_out_def group_coin_def
    by (simp_all del: GetGroupScriptForDestination.simps)
qed

lemma sample_token_tx_simps [simp]: "vin (sample_token_tx outs) = sample_inputs" "vout (sample_token_tx outs) = outs"
  "tx_nType (sample_token_tx outs) = TRANSACTION_NORMAL"
  by (simp_all add: sample_token_tx_def)

lemma sample_token_env_simps [simp]: "ATPStartHeight sample_token_env = 400" "Hash sample_token_env = (\<lambda>_. 1)" "consensus sample_token_env = CRegTestParams"
  by (simp_all add: sample_token_env_def token_env.defs betting_env.defs sample_env_def)

lemma group_out_values [simp]: "nValue (group_out g q) = 1" "nValue (coin_out (group_coin g q)) = 1" "coin_nHeight (group_coin g q) = 410" "\<not> IsSpent (group_coin g q)"
  by (simp_all add: group_out_def group_coin_def IsSpent_def)

lemma sample_mint:
  defines "g \<equiv> replicate 32 0"
  shows "\<exists>R. CheckTokenGroups sample_token_env sample_manager (\<lambda>_. group_coin g minter) (sample_token_tx [group_out g 1000, group_out g minter]) = Inr R"
proof -
  let ?b = "new_CTokenGroupBalance\<lparr>tb_output := 1000, numOutputs := 2, ctrlOutputPerms := - 0x3000000000000000\<rparr>"
  have o: "group_outputs [group_out g 1000, group_out g minter] (0, om_empty) = Inr (2, om_update g ?b om_empty)"
    unfolding g_def by (simp add: balance_of_def Let_def upd_balance_def new_CTokenGroupBalance_def i64_def)
  let ?c = "?b\<lparr>ctrlPerms := - 0x3000000000000000, allowedCtrlOutputPerms := - 0x3000000000000000, numInputs := 1\<rparr>"
  have flags: "\<not> hasFlag g f" if "f \<noteq> 0" for f using that by (simp add: hasFlag_def hasTokenGroupIdFlag_def g_def)
  have l: "length g = 32" "g \<noteq> NoGroup" "\<not> isSubgroup g" by (auto simp: g_def isSubgroup_def)
  have i: "group_inputs sample_token_env sample_manager (\<lambda>_. group_coin g minter) sample_inputs (0, False, om_update g ?b om_empty) =
      Inr (1, IsTokenManagementKey sample_token_env sample_manager (scriptPubKey (coin_out (group_coin g minter))), om_update g ?c om_empty)"
    using l flags
    by (simp add: sample_inputs_def sample_manager_def Let_def add_authority_def controllingGroupFlags_def
        hasCapability_def balance_of_def upd_balance_def new_CTokenGroupBalance_def i64_def IsMGTInput_def ResetTokenGroups_def ClearManagementTokenGroups_def isAuthority_def)
  have c: "check_group env tx mgt n g ?c = Inr ?c" for env tx mgt n
    using flags by (simp add: check_group_def check_balance_def Let_def hasCapability_def new_CTokenGroupBalance_def ALL_FLAGS_def)
  show ?thesis
    using l(3) unfolding CheckTokenGroups_def sample_token_tx_simps o i sum.case prod.case Let_def
    by (simp add: entries_om_map entries_update inherit_def c)
qed

lemma sample_not_created: "\<not> creates sample_token_env (sample_token_tx outs) (replicate 32 0)"
proof -
  have "ser_uint256 0 = replicate 32 0" using le_bytes_zero [of 32] by (simp add: ser_uint256_def)
  then have "ser_uint256 1 \<noteq> replicate 32 0" by (metis ser_uint256_inj zero_neq_one)
  then show ?thesis by (auto simp: creates_def new_group_id_def description_bytes_def Let_def sample_inputs_def)
qed

theorem CheckTokenGroups_conserves_witness:
  "tokens (replicate 32 0) (input_infos sample_token_env (\<lambda>_. group_coin (replicate 32 0) minter) sample_inputs) = 0 \<and>
   tokens (replicate 32 0) (output_infos [group_out (replicate 32 0) 1000, group_out (replicate 32 0) minter]) = 1000 \<and>
   authorized (input_infos sample_token_env (\<lambda>_. group_coin (replicate 32 0) minter) sample_inputs) (replicate 32 0) MINT"
proof -
  let ?g = "replicate 32 0 :: CTokenGroupID"
  let ?outs = "[group_out ?g 1000, group_out ?g minter]" and ?view = "\<lambda>_ :: COutPoint. group_coin ?g minter"
  obtain R where r: "CheckTokenGroups sample_token_env sample_manager ?view (sample_token_tx ?outs) = Inr R" using sample_mint by blast
  have t: "tokens ?g (input_infos sample_token_env ?view sample_inputs) = 0" "tokens ?g (output_infos ?outs) = 1000"
    by (simp_all add: input_infos_def output_infos_def getAmount_def sample_inputs_def)
  have "\<not> hasFlag ?g BETTING_TOKEN" "\<not> hasFlag ?g PARLAY_TOKEN" by (simp_all add: hasFlag_def hasTokenGroupIdFlag_def)
  then show ?thesis using CheckTokenGroups_conserves [OF r, of ?g] t by simp
qed

theorem CheckTokenGroups_authority_witness:
  "\<exists>i \<in> set (input_infos sample_token_env (\<lambda>_. group_coin (replicate 32 0) minter) sample_inputs).
     associatedGroup i = replicate 32 0 \<and> hasCapability (controllingGroupFlags i) CCHILD \<and> bit (controllingGroupFlags i) 62"
proof -
  let ?g = "replicate 32 0 :: CTokenGroupID"
  let ?outs = "[group_out ?g 1000, group_out ?g minter]" and ?view = "\<lambda>_ :: COutPoint. group_coin ?g minter"
  let ?info = "\<lparr>associatedGroup = ?g, tg_quantity = minter, tg_invalid = False\<rparr>"
  obtain R where r: "CheckTokenGroups sample_token_env sample_manager ?view (sample_token_tx ?outs) = Inr R" using sample_mint by blast
  have "?info \<in> set (output_infos (vout (sample_token_tx ?outs)))" by (simp add: output_infos_def)
  moreover have "bit (controllingGroupFlags ?info) 62" by (simp add: controllingGroupFlags_def)
  moreover have "\<not> isSubgroup ?g" "\<not> creates sample_token_env (sample_token_tx ?outs) ?g" by (simp add: isSubgroup_def) (rule sample_not_created)
  ultimately show ?thesis using CheckTokenGroups_authority [OF r, of ?info 62] by simp
qed

definition flag_group :: "u8 \<Rightarrow> CTokenGroupID" where
  "flag_group f = replicate 31 0 @ [f]"

lemma flag_group_simps [simp]: "length (flag_group f) = 32" "flag_group f \<noteq> NoGroup" "NoGroup \<noteq> flag_group f" "\<not> isSubgroup (flag_group f)" "hasFlag (flag_group f) b = (f AND b = b)"
  "flag_group f = flag_group f' \<longleftrightarrow> f = f'"
  by (simp_all add: flag_group_def isSubgroup_def hasFlag_def hasTokenGroupIdFlag_def nth_append)

section \<open>A chain with two groups\<close>

text \<open>Two transactions that create a group, and a chain with a block for each.\<close>

definition sample_desc :: "string \<Rightarrow> string \<Rightarrow> CTokenGroupDescriptionRegular" where
  "sample_desc ticker name = \<lparr>rd_nVersion = 1, rd_strTicker = ticker, rd_strName = name, rd_strDocumentUrl = [], rd_documentHash = 0, rd_nDecimalPos = 8\<rparr>"

definition creation_tx :: "CTokenGroupID \<Rightarrow> CTokenGroupDescriptionRegular \<Rightarrow> CSpecialTx" where
  "creation_tx g d = \<lparr>vin = sample_inputs, vout = [group_out g (- 0x7fffffffffffffff)], tx_hash = 21,
     tx_nVersion = 3, tx_nType = TRANSACTION_GROUP_CREATION_REGULAR, vExtraPayload = ser_RegularDescription d\<rparr>"

definition creation_of :: "CTokenGroupID \<Rightarrow> uint256 \<Rightarrow> CTokenGroupDescriptionRegular \<Rightarrow> CTokenGroupDescriptionRegular \<Rightarrow> CTokenGroupCreation" where
  "creation_of g bh d d' = \<lparr>creationTransaction = creation_tx g d, creationBlockHash = bh,
     tokenGroupInfo = \<lparr>associatedGroup = g, tg_quantity = - 0x7fffffffffffffff, tg_invalid = False\<rparr>, tokenGroupDescription = RegularDescription d', tg_status = []\<rparr>"

lemma creation_of_simps [simp]: "group_of (creation_of g bh d d') = g" "tokenGroupDescription (creation_of g bh d d') = RegularDescription d'"
  "\<not> tg_invalid (tokenGroupInfo (creation_of g bh d d'))" "tx_nType (creationTransaction (creation_of g bh d d')) = TRANSACTION_GROUP_CREATION_REGULAR"
  "creation_of g bh d d'\<lparr>tokenGroupDescription := RegularDescription d''\<rparr> = creation_of g bh d d''" "creation_of g bh d d'\<lparr>tg_status := []\<rparr> = creation_of g bh d d'"
  by (simp_all add: creation_of_def creation_tx_def)

lemma CreateTokenGroup_sample:
  assumes "length g = 32" "regular_ok d"
  shows "CreateTokenGroup env (creation_tx g d) bh = Some (creation_of g bh d d)"
proof -
  have "g \<noteq> NoGroup" using assms(1) by auto
  then have "new_token_group (vout (creation_tx g d)) = Some \<lparr>associatedGroup = g, tg_quantity = - 0x7fffffffffffffff, tg_invalid = False\<rparr>"
    using assms(1) by (simp add: new_token_group_def creation_tx_def isGroupCreation_def controllingGroupFlags_def hasFlag_def hasTokenGroupIdFlag_def ALL_BITS_def)
  then show ?thesis
    using assms(2) by (simp add: CreateTokenGroup_def token_group_of_def token_group_as_def GetTokenConfigurationParameters_def GetTxPayload_def
        creation_of_def creation_tx_def regularDesc.roundtrip_nil)
qed

lemma sample_desc_simps [simp]: "rd_strTicker (sample_desc t n) = t" "rd_strName (sample_desc t n) = n"
  by (simp_all add: sample_desc_def)

definition big_group :: CTokenGroupID where "big_group = 1 # replicate 31 0"

abbreviation (input) small_group :: CTokenGroupID where "small_group \<equiv> flag_group 0"

definition block_a :: token_block where "block_a = (410, 1, [creation_tx big_group (sample_desc ''ABC'' ''Alpha'')])"

definition block_b :: token_block where "block_b = (411, 2, [creation_tx small_group (sample_desc ''abc'' ''Beta'')])"

abbreviation (input) stored_a :: CTokenGroupCreation where "stored_a \<equiv> creation_of big_group 1 (sample_desc ''ABC'' ''Alpha'') (sample_desc ''ABC'' ''Alpha'')"
abbreviation (input) stored_b :: CTokenGroupCreation where "stored_b \<equiv> creation_of small_group 2 (sample_desc ''abc'' ''Beta'') (sample_desc ''abc'' ''Beta'')"

text \<open>The groups in the map, by the ticker they have there.\<close>

abbreviation (input) group_a :: "string \<Rightarrow> CTokenGroupCreation" where
  "group_a t \<equiv> creation_of big_group 1 (sample_desc ''ABC'' ''Alpha'') (sample_desc t ''Alpha'')"
abbreviation (input) group_b :: "string \<Rightarrow> CTokenGroupCreation" where
  "group_b t \<equiv> creation_of small_group 2 (sample_desc ''abc'' ''Beta'') (sample_desc t ''Beta'')"

lemma big_group_simps [simp]: "length big_group = 32" "big_group \<noteq> NoGroup" "NoGroup \<noteq> big_group" "big_group \<noteq> flag_group f" "flag_group f \<noteq> big_group"
proof -
  have "hd big_group \<noteq> hd (flag_group f)" by (simp add: big_group_def flag_group_def hd_append)
  then show "big_group \<noteq> flag_group f" "flag_group f \<noteq> big_group" by auto
qed (simp_all add: big_group_def)

lemma AddTokenGroup_sample:
  "om_lookup (mapTokenGroups m) g = None \<Longrightarrow> AddTokenGroup (creation_of g bh d d) m =
   Some (m\<lparr>mapTokenGroups := om_update g (creation_of g bh d (filter_regular (mapTokenGroups m) g d)) (mapTokenGroups m)\<rparr>, True)"
  by (simp add: AddTokenGroup_def Let_def ValidateDescription_def StoreManagementTokenGroups_def)

lemma connect_sample:
  assumes "400 \<le> h" "length g = 32" "regular_ok d" "om_lookup (mapTokenGroups m) g = None" "newTokenGroups m = []"
  shows "connect_tokens sample_token_env (h, bh, [creation_tx g d]) (m, db) =
   Some (m\<lparr>mapTokenGroups := om_update g (creation_of g bh d (filter_regular (mapTokenGroups m) g d)) (mapTokenGroups m)\<rparr>,
     om_update (token_key g) (creation_of g bh d d) db)"
proof -
  have "collect_groups sample_token_env bh [creation_tx g d] = Some [creation_of g bh d d]"
    using CreateTokenGroup_sample [OF assms(2,3)] by (simp add: creation_tx_def is_creation_type_def)
  moreover have "m\<lparr>mapTokenGroups := x, newTokenGroups := []\<rparr> = m\<lparr>mapTokenGroups := x\<rparr>" for x using assms(5) by (cases m) simp
  ultimately show ?thesis
    using assms(1,4) by (simp add: connect_tokens_def CollectTokensFromBlock_def ApplyTokensFromBlock_def AddTokenGroup_sample WriteTokenGroupsBatch_def)
qed

lemma sample_filters:
  defines "w \<equiv> om_update NoGroup wagerr_group om_empty"
  shows "filter_regular w big_group (sample_desc ''ABC'' ''Alpha'') = sample_desc ''ABC'' ''Alpha''"
    "filter_regular w small_group (sample_desc ''abc'' ''Beta'') = sample_desc ''ABC'' ''Beta''"
    "filter_regular (om_update big_group (group_a ''ABC'') w) small_group (sample_desc ''abc'' ''Beta'') = sample_desc [] ''Beta''"
    "filter_regular (om_update small_group (group_b ''ABC'') w) big_group (sample_desc ''ABC'' ''Alpha'') = sample_desc [] ''Alpha''"
proof -
  have "x \<noteq> NoGroup \<Longrightarrow> NoGroup < x \<and> \<not> x < NoGroup" for x :: CTokenGroupID by (cases x) simp_all
  then have less: "\<not> big_group < NoGroup" "\<not> small_group < NoGroup" "NoGroup < big_group" "NoGroup < small_group" by simp_all
  have e: "entries w = [(NoGroup, wagerr_group)]" "entries (om_update big_group (group_a ''ABC'') w) = [(NoGroup, wagerr_group), (big_group, group_a ''ABC'')]"
    "entries (om_update small_group (group_b ''ABC'') w) = [(NoGroup, wagerr_group), (small_group, group_b ''ABC'')]"
    using less by (simp_all add: w_def entries_update)
  have f: "filter_regular tgs g (sample_desc t n) = sample_desc (toupper (filter_unique tgDescGetTicker tgs g t)) n"
    if "list_all isalnum t" "regexName n" "filter_unique tgDescGetName tgs g n = n" for tgs g t n
    using that by (simp add: filter_regular_def sample_desc_def TGFilterTickerCharacters_def TGFilterNameCharacters_def TGFilterURLCharacters_def
        TGFilterTickerUniqueness_def TGFilterNameUniqueness_def TGFilterUpperCaseTicker_def)
  note d = filter_unique_def e wagerr_group_def isalnum_def regexName_def
  have up: "toupper ''abc'' = ''ABC''" "toupper ''ABC'' = ''ABC''" "toupper [] = []" "tolower ''ABC'' = ''abc''" "tolower ''abc'' = ''abc''" "tolower ''Alpha'' = ''alpha''"
    "tolower ''Beta'' = ''beta''" "tolower ''WAGERR'' = ''wagerr''" "tolower ''Wagerr'' = ''wagerr''" by code_simp+
  show "filter_regular w big_group (sample_desc ''ABC'' ''Alpha'') = sample_desc ''ABC'' ''Alpha''"
    by (subst f) (simp_all add: d up)
  show "filter_regular w small_group (sample_desc ''abc'' ''Beta'') = sample_desc ''ABC'' ''Beta''"
    by (subst f) (simp_all add: d up)
  show "filter_regular (om_update big_group (group_a ''ABC'') w) small_group (sample_desc ''abc'' ''Beta'') = sample_desc [] ''Beta''"
    by (subst f) (simp_all add: d up)
  show "filter_regular (om_update small_group (group_b ''ABC'') w) big_group (sample_desc ''ABC'' ''Alpha'') = sample_desc [] ''Alpha''"
    by (subst f) (simp_all add: d up)
qed

abbreviation (input) native :: "(CTokenGroupID, CTokenGroupCreation) omap" where "native \<equiv> om_update NoGroup wagerr_group om_empty"

definition state_a :: token_state where
  "state_a = ((fst genesis_tokens)\<lparr>mapTokenGroups := om_update big_group (group_a ''ABC'') native\<rparr>, om_update (token_key big_group) stored_a om_empty)"

definition state_b :: token_state where
  "state_b = ((fst genesis_tokens)\<lparr>mapTokenGroups := om_update small_group (group_b []) (om_update big_group (group_a ''ABC'') native)\<rparr>,
     om_update (token_key small_group) stored_b (om_update (token_key big_group) stored_a om_empty))"

lemma sample_chain:
  shows "connect_tokens sample_token_env block_a genesis_tokens = Some state_a" "connect_tokens sample_token_env block_b state_a = Some state_b"
    "token_chain sample_token_env [block_b, block_a] state_b"
proof -
  have g: "mapTokenGroups (fst genesis_tokens) = native" "newTokenGroups (fst genesis_tokens) = []" "snd genesis_tokens = om_empty"
    by (simp_all add: genesis_tokens_def ResetTokenGroups_def ClearManagementTokenGroups_def)
  have p: "genesis_tokens = (fst genesis_tokens, om_empty)" using g(3) by (simp add: prod_eq_iff)
  have ok: "regular_ok (sample_desc ''ABC'' ''Alpha'')" "regular_ok (sample_desc ''abc'' ''Beta'')" by (simp_all add: regular_ok_def sample_desc_def MAX_SIZE_def)
  show a: "connect_tokens sample_token_env block_a genesis_tokens = Some state_a"
    unfolding block_a_def state_a_def by (subst p) (subst connect_sample [OF _ _ ok(1)]; simp add: g sample_filters(1))
  show b: "connect_tokens sample_token_env block_b state_a = Some state_b"
    unfolding block_b_def state_a_def state_b_def by (subst connect_sample [OF _ _ ok(2)]) (simp_all add: g sample_filters(3))
  show "token_chain sample_token_env [block_b, block_a] state_b"
    by (rule token_chain.connect [OF token_chain.connect [OF token_chain.genesis a] b])
qed

lemma sample_state_inv: "manager_inv (fst state_b)"
  using chain_inv [OF sample_chain(3)] by (simp add: state_inv_def)

lemma sample_load:
  "LoadTokensFromDB (snd state_b) m = Some ((ResetTokenGroups m)\<lparr>mapTokenGroups := om_update big_group (group_a []) (om_update small_group (group_b ''ABC'') native)\<rparr>, True)"
proof -
  have "small_group = 0 # replicate 30 0 @ [0]" by (simp add: flag_group_def numeral_eq_Suc)
  moreover have "token_key x = 99 # WriteCompactSize (length x) @ x" for x by (simp add: token_key_def ser_vector_def concat_bytes)
  ultimately have "token_key small_group < token_key big_group" by (simp add: WriteCompactSize_def ser_writedata8_def big_group_def)
  then have f: "FindTokenGroups (snd state_b) = [stored_b, stored_a]" by (simp add: FindTokenGroups_def state_b_def entries_update)
  show ?thesis
    unfolding LoadTokensFromDB_def f by (simp add: AddTokenGroup_sample ResetTokenGroups_def sample_filters)
qed

text \<open>
  C37: A restart can move a ticker.  The chain has a group with the ticker ABC and a later one with a smaller id whose ticker abc was emptied; after a
  restart, which adds the groups in the order of their ids, the ticker leads to the later group.
\<close>

theorem reload_moves_ticker:
  "token_chain sample_token_env [block_b, block_a] state_b \<and> GetTokenGroupIdByTicker (fst state_b) ''ABC'' = Some big_group \<and>
   (\<exists>m'. LoadTokensFromDB (snd state_b) (fst state_b) = Some (m', True) \<and> GetTokenGroupIdByTicker m' ''ABC'' = Some small_group)"
proof (intro conjI exI)
  let ?m = "(ResetTokenGroups (fst state_b))\<lparr>mapTokenGroups := om_update big_group (group_a []) (om_update small_group (group_b ''ABC'') native)\<rparr>"
  show "token_chain sample_token_env [block_b, block_a] state_b" by (rule sample_chain)
  show "GetTokenGroupIdByTicker (fst state_b) ''ABC'' = Some big_group"
    using ticker_found [OF sample_state_inv, of big_group "group_a ''ABC''"] by (simp add: state_b_def)
  show l: "LoadTokensFromDB (snd state_b) (fst state_b) = Some (?m, True)" by (rule sample_load)
  have "manager_inv ?m"
    using load_inv [of "fst state_b" "snd state_b" "fst state_b" ?m] chain_inv [OF sample_chain(3)] l by (simp add: LoadTokensFromDB_def)
  then show "GetTokenGroupIdByTicker ?m ''ABC'' = Some small_group"
    using ticker_found [of ?m small_group "group_b ''ABC''"] by simp
qed

theorem token_chain_replay_witness:
  "replay sample_token_env [block_a] = Some (UndoBlock sample_token_env 411 [creation_tx small_group (sample_desc ''abc'' ''Beta'')] state_b)"
  by (rule token_chain_replay, rule token_chain.disconnect [where bh = 2]) (use sample_chain(3) in \<open>simp add: block_b_def\<close>)

theorem token_chain_typed_witness:
  "entry_ok big_group (group_a ''ABC'') \<and> (\<exists>c0. om_lookup (snd state_b) (token_key big_group) = Some c0 \<and> same_group c0 (group_a ''ABC''))"
  using token_chain_typed [of sample_token_env "[block_b, block_a]" "fst state_b" "snd state_b" big_group "group_a ''ABC''"] sample_chain(3)
  by (simp add: state_b_def)

theorem token_chain_inv_witness: "GetTokenGroupIdByTicker (fst state_b) ''ABC'' = Some big_group"
proof -
  have "om_lookup (mapTokenGroups (fst state_b)) big_group = Some (group_a ''ABC'')" by (simp add: state_b_def)
  then show ?thesis
    using token_chain_inv [of sample_token_env "[block_b, block_a]" "fst state_b" "snd state_b"] sample_chain(3) by fastforce
qed

theorem LoadTokensFromDB_reload_witness:
  "\<exists>m'. LoadTokensFromDB (snd state_b) (fst state_b) = Some (m', True) \<and> mapBetTokens m' = mapBetTokens (fst state_b)"
  using LoadTokensFromDB_reload [of sample_token_env "[block_b, block_a]" "fst state_b" "snd state_b" "fst state_b"] sample_chain(3) by auto

end
