(* ===== verification/BetMintSafety.thy ===== *)
theory BetMintSafety
  imports BetMint TokenSamples
begin

text \<open>
  What the checks of betting, parlay and non-fungible tokens guarantee together, and where they do not hold what they promise: the odds of a mint
  request are read from a stream that is not the bet.
\<close>

section \<open>The odds of a request\<close>

lemma length_betting_tx_stream:
  "length (betting_tx_stream bs) = length bs + (if length bs < 253 then 5 else if length bs \<le> 0xffff then 7 else if length bs \<le> 0xffffffff then 9 else 13)"
  unfolding betting_tx_stream_def ser_vector_def concat_bytes
  by (simp add: WriteCompactSize_def ser_writedata8_def ser_writedata16_def ser_writedata32_def ser_writedata64_def)

lemma Deserialize_length:
  "DeserializeBettingTx unser_CPeerlessBetTx bs = Some betTx \<Longrightarrow> length bs = 5"
  "DeserializeBettingTx unser_CFieldBetTx bs = Some fieldTx \<Longrightarrow> length bs = 9"
  using pb.canonical [of bs betTx "[]"] fb.canonical [of bs fieldTx "[]"]
  by (auto simp: DeserializeBettingTx_def ser_CPeerlessBetTx_def ser_CFieldBetTx_def ser_writedata32_def ser_writedata8_def split: bind_splits if_splits)

text \<open>
  C35: A request for a team event cannot be priced.  The stream from which \<open>GetOdds\<close> reads the bet starts with the protocol version, followed by the
  size and the bytes of the bet data; unless there are no bet data at all it is longer than a team bet, the parser
  returns the null pointer, and \<open>GetOdds\<close> dereferences it for every event that exists.  A field bet is read only from four bytes
  of bet data.
\<close>

theorem GetOdds_undefined:
  assumes "req_betData req \<noteq> []"
  shows "(be_type (req_betEvent req) = PEERLESS \<and> tdb_Read (events view) (be_nEventId (req_betEvent req)) \<noteq> None \<longrightarrow> GetOdds req view = Inl Undefined) \<and>
    (be_type (req_betEvent req) = FIELD \<and> tdb_Read (fieldEvents view) (be_nEventId (req_betEvent req)) \<noteq> None \<and> length (req_betData req) \<noteq> 4 \<longrightarrow>
      GetOdds req view = Inl Undefined)"
proof -
  let ?s = "betting_tx_stream (req_betData req)"
  have "length ?s \<noteq> 5" "length (req_betData req) \<noteq> 4 \<longrightarrow> length ?s \<noteq> 9"
    using assms unfolding length_betting_tx_stream by auto
  then have "DeserializeBettingTx unser_CPeerlessBetTx ?s = None" "length (req_betData req) \<noteq> 4 \<longrightarrow> DeserializeBettingTx unser_CFieldBetTx ?s = None"
    using Deserialize_length [of ?s] by fastforce+
  then show ?thesis by (auto simp: GetOdds_def Let_def)
qed

theorem GetOdds_undefined_witness:
  "GetOdds (new_RegularBetMintRequest \<lparr>be_type = PEERLESS, be_nEventId = 5\<rparr> (25 * COIN) (replicate 33 0) wagerr_group new_CTokenGroupBalance) sample_view = Inl Undefined"
  using GetOdds_undefined [of "new_RegularBetMintRequest \<lparr>be_type = PEERLESS, be_nEventId = 5\<rparr> (25 * COIN) (replicate 33 0) wagerr_group new_CTokenGroupBalance" sample_view]
  by (simp add: new_RegularBetMintRequest_def GetSubGroupData_def tdb_Read_def)

section \<open>Minted betting tokens\<close>

text \<open>What the parser reads when the lengths agree is the size of the bet data in the place of the outcome, which names no market.\<close>

lemma stream_outcome:
  "DeserializeBettingTx unser_CPeerlessBetTx (betting_tx_stream bs) = Some betTx \<Longrightarrow> pb_nOutcome betTx = 0"
  "DeserializeBettingTx unser_CFieldBetTx (betting_tx_stream bs) = Some fieldTx \<Longrightarrow> fb_nOutcome fieldTx = 4"
proof -
  note len = length_betting_tx_stream [of bs]
  assume d: "DeserializeBettingTx unser_CPeerlessBetTx (betting_tx_stream bs) = Some betTx"
  then have "betting_tx_stream bs = ser_CPeerlessBetTx betTx"
    using pb.canonical [of "betting_tx_stream bs" betTx "[]"] by (auto simp: DeserializeBettingTx_def split: bind_splits if_splits)
  moreover have "bs = []" using Deserialize_length(1) [OF d] len by (auto split: if_splits)
  ultimately have "betting_tx_stream [] ! 4 = ser_CPeerlessBetTx betTx ! 4" by simp
  then show "pb_nOutcome betTx = 0"
    by (simp add: betting_tx_stream_def ser_CPeerlessBetTx_def ser_writedata32_def ser_writedata8_def ser_vector_def WriteCompactSize_def nth_append)
next
  note len = length_betting_tx_stream [of bs]
  assume d: "DeserializeBettingTx unser_CFieldBetTx (betting_tx_stream bs) = Some fieldTx"
  then have "betting_tx_stream bs = ser_CFieldBetTx fieldTx"
    using fb.canonical [of "betting_tx_stream bs" fieldTx "[]"] by (auto simp: DeserializeBettingTx_def split: bind_splits if_splits)
  moreover have "length bs = 4" using Deserialize_length(2) [OF d] len by (auto split: if_splits)
  ultimately have "betting_tx_stream bs ! 4 = ser_CFieldBetTx fieldTx ! 4" "length bs = 4" by simp_all
  then show "fb_nOutcome fieldTx = 4"
    by (simp add: betting_tx_stream_def ser_CFieldBetTx_def ser_writedata32_def ser_writedata8_def ser_vector_def WriteCompactSize_def nth_append)
qed

lemma GetOdds_zero: "GetOdds req view = Inr (Some odds) \<Longrightarrow> odds = 0"
  using stream_outcome [of "req_betData req"]
  by (auto simp: GetOdds_def Let_def GetBetPotentialOdds_def FieldGetBetPotentialOdds_def OutcomeType_defs FieldBetOutcomeType_defs
    split: BetEventType.splits option.splits)

lemma Validate_rejects: "Validate env req view time \<noteq> Inr ()"
  using GetOdds_zero [of req view]
  by (auto simp: Validate_def Let_def CalculatePayoutBurnAmounts_def split: sum.splits option.splits if_splits)

text \<open>The balance that \<open>CheckTokens\<close> returns for a group with tokens in an output or an input.\<close>

lemma CheckTokens_balance:
  assumes "CheckTokens env m view h tx = Inr (nIn, nOut, R)" "\<not> h mod 2 ^ 32 < ATPStartHeight env mod 2 ^ 32" "g \<noteq> NoGroup"
    and "tokens g (output_infos (vout tx)) \<noteq> 0 \<or> tokens g (input_infos env view (vin tx)) \<noteq> 0"
  obtains bal where "(g, bal) \<in> set (entries R)" "tb_input bal = tokens g (input_infos env view (vin tx))" "tb_output bal = tokens g (output_infos (vout tx))"
proof -
  let ?ins = "input_infos env view (vin tx)" and ?outs = "output_infos (vout tx)"
  have accepted: "CheckTokenGroups env m view tx = Inr (nIn, nOut, R)"
    using assms(1,2) by (auto simp: CheckTokens_def split: if_splits sum.splits list.splits)
  have "members g ?outs > 0 \<or> members g ?ins > 0" using assms(4) members_tokens [of g ?outs] members_tokens [of g ?ins] by auto
  then obtain bal bal' mgt n where s: "summary ?ins ?outs g bal" and c: "check_group env tx mgt n g bal = Inr bal'" and l: "om_lookup R g = Some bal'"
    by (rule accepted_group [OF accepted assms(3)])
  have "tb_input bal' = tb_input bal \<and> tb_output bal' = tb_output bal"
    using c by (cases rule: check_group_cases) (auto dest: check_balance_Inr(1))
  then show ?thesis using that [of bal'] s l by (simp add: in_entries_iff summary_def)
qed

text \<open>
  C34: Betting tokens cannot be minted.  When the token checks of a transaction, of its mint request and of the validation of the request all accept,
  no more tokens of a betting group leave the transaction than enter it: the odds that the validation of a request computes are
  never those of a market.
\<close>

theorem bet_tokens_never_minted:
  assumes "CheckTokens env m view h tx = Inr (nIn, nOut, R)" "\<not> h mod 2 ^ 32 < ATPStartHeight env mod 2 ^ 32"
    and "GetBetMintRequest indeterminate m bview (i64 (nIn - nOut)) R = Inr req"
    and "\<forall>r. req = Some r \<longrightarrow> Validate (betting_env.truncate env) r bview time = Inr ()"
    and "g \<noteq> NoGroup" "hasFlag g BETTING_TOKEN"
  shows "tokens g (output_infos (vout tx)) \<le> tokens g (input_infos env view (vin tx))"
proof (rule ccontr)
  assume more: "\<not> tokens g (output_infos (vout tx)) \<le> tokens g (input_infos env view (vin tx))"
  then have "tokens g (output_infos (vout tx)) \<noteq> 0 \<or> tokens g (input_infos env view (vin tx)) \<noteq> 0" by auto
  then obtain bal where bal: "(g, bal) \<in> set (entries R)" "tb_input bal = tokens g (input_infos env view (vin tx))"
      "tb_output bal = tokens g (output_infos (vout tx))"
    by (rule CheckTokens_balance [OF assms(1,2,5)])
  have "BetTokensMinted R" unfolding BetTokensMinted_def list_ex_iff using more bal(2,3) assms(6) by (intro bexI [OF _ bal(1)]) simp
  then show False
    using assms(3,4) Validate_rejects by (auto simp: GetBetMintRequest_def split: if_splits sum.splits)
qed

text \<open>
  C20: A transaction with tokens of a non-fungible group in its outputs is accepted only if the group was created as one and the transaction mints the
  amount of its description, modulo \<open>2\<^sup>6\<^sup>4\<close>; hence such tokens are never transferred unless that amount is zero.
\<close>

theorem CheckTokens_nft:
  assumes "CheckTokens env m view h tx = Inr r" "\<not> h mod 2 ^ 32 < ATPStartHeight env mod 2 ^ 32"
    and "g \<noteq> NoGroup" "hasFlag g NFT_TOKEN" "0 < tokens g (output_infos (vout tx))"
  shows "\<exists>c d. GetTokenGroupCreation m g = Some c \<and> tokenGroupDescription c = NFTDescription d \<and>
    nd_nMintAmount d = of_int (tokens g (output_infos (vout tx)) - tokens g (input_infos env view (vin tx)))"
proof -
  obtain nIn nOut R where r: "r = (nIn, nOut, R)" by (cases r)
  have "tokens g (output_infos (vout tx)) \<noteq> 0 \<or> tokens g (input_infos env view (vin tx)) \<noteq> 0" using assms(5) by simp
  then obtain bal where bal: "(g, bal) \<in> set (entries R)" "tb_input bal = tokens g (input_infos env view (vin tx))"
      "tb_output bal = tokens g (output_infos (vout tx))"
    by (rule CheckTokens_balance [OF assms(1) [unfolded r] assms(2,3)])
  have "List.map_filter (check_nft m) (entries R) = []"
    using assms(1,2) by (auto simp: r CheckTokens_def split: if_splits sum.splits list.splits)
  then have "check_nft m (g, bal) = None" using bal(1) by (auto simp: List.map_filter_def filter_empty_conv)
  then show ?thesis
    using bal(2,3) assms(4,5) by (auto simp: check_nft_def split: if_splits option.splits CTokenGroupDescriptionVariant.splits)
qed

section \<open>Samples\<close>

text \<open>A manager after the creation of the management tokens, with the description of a non-fungible group.\<close>

definition sample_nft :: CTokenGroupCreation where
  "sample_nft = wagerr_group\<lparr>tokenGroupDescription := NFTDescription \<lparr>nd_nVersion = 1, nd_strName = ''Ticket'', nd_nMintAmount = 5,
     nd_strDocumentUrl = [], nd_documentHash = 0, nd_vchData = [], nd_strDataFilename = []\<rparr>\<rparr>"

definition sample_mgt :: CTokenGroupCreation where
  "sample_mgt = wagerr_group\<lparr>tokenGroupInfo := \<lparr>associatedGroup = flag_group MGT_TOKEN, tg_quantity = minter, tg_invalid = False\<rparr>\<rparr>"

definition sample_created :: CTokenGroupManager where
  "sample_created = sample_manager\<lparr>tgMGTCreation := Some sample_mgt, tgORATCreation := Some sample_mgt,
     mapTokenGroups := om_update (flag_group NFT_TOKEN) sample_nft om_empty\<rparr>"

lemma sample_created_simps [simp]: "tgMGTCreation sample_created = Some sample_mgt" "ManagementTokensCreated sample_created" "group_of sample_mgt = flag_group MGT_TOKEN"
  "GetTokenGroupCreation sample_created (flag_group NFT_TOKEN) = Some sample_nft"
  by (simp_all add: sample_created_def ManagementTokensCreated_def MGTTokensCreated_def sample_mgt_def GetTokenGroupCreation_def)

lemma sample_CheckTokens:
  assumes "CheckTokenGroups sample_token_env sample_created view (sample_token_tx [group_out (flag_group f) q]) = Inr (a, b, om_update (flag_group f) bal om_empty)"
    and "check_nft sample_created (flag_group f, bal) = None" "- (2 ^ 63) \<le> q" "q < 2 ^ 63"
  shows "CheckTokens sample_token_env sample_created view 400 (sample_token_tx [group_out (flag_group f) q]) = Inr (a, b, om_update (flag_group f) bal om_empty)"
  using assms by (simp add: CheckTokens_def CheckFees_def entries_update List.map_filter_def)

text \<open>One output with tokens, and one input: without a group, with tokens of the group, or with an authority of the group.\<close>

lemma sample_output:
  "0 < q \<Longrightarrow> q < 2 ^ 63 \<Longrightarrow> group_outputs [group_out (flag_group f) q] (0, om_empty) =
   Inr (1, om_update (flag_group f) (new_CTokenGroupBalance\<lparr>numOutputs := 1, tb_output := q\<rparr>) om_empty)"
  by (simp add: balance_of_def Let_def upd_balance_def new_CTokenGroupBalance_def i64_def)

lemma sample_groups:
  assumes "0 < q" "q < 2 ^ 63" "group_inputs sample_token_env sample_created view sample_inputs
      (0, False, om_update (flag_group f) (new_CTokenGroupBalance\<lparr>numOutputs := 1, tb_output := q\<rparr>) om_empty) = Inr (a, mgt, om_update (flag_group f) bal om_empty)"
    and "\<not> hasCapability (ctrlOutputPerms bal) CTRL" "check_balance 1 (flag_group f) bal = Inr bal" "check_nft sample_created (flag_group f, bal) = None"
  shows "CheckTokens sample_token_env sample_created view 400 (sample_token_tx [group_out (flag_group f) q]) = Inr (a, 1, om_update (flag_group f) bal om_empty)"
proof (rule sample_CheckTokens)
  have inh: "om_map (inherit (om_update (flag_group f) bal om_empty)) (om_update (flag_group f) bal om_empty) = om_update (flag_group f) bal om_empty"
    by (rule om_ext) (simp add: inherit_def)
  show "CheckTokenGroups sample_token_env sample_created view (sample_token_tx [group_out (flag_group f) q]) = Inr (a, 1, om_update (flag_group f) bal om_empty)"
    unfolding CheckTokenGroups_def sample_token_tx_simps inh sample_output [OF assms(1,2)] assms(3) sum.case prod.case Let_def
    using assms(4,5) by (simp add: inh entries_update check_group_def om_size_def)
qed (use assms in simp_all)

lemmas sample_input_defs = sample_inputs_def Let_def add_authority_def controllingGroupFlags_def hasCapability_def balance_of_def upd_balance_def
  new_CTokenGroupBalance_def i64_def IsMGTInput_def isAuthority_def IsTokenManagementKey_def MGTTokensCreated_def

lemma sample_transfer:
  "CheckTokens sample_token_env sample_created (\<lambda>_. group_coin (flag_group BETTING_TOKEN) 1000) 400 (sample_token_tx [group_out (flag_group BETTING_TOKEN) 1000]) =
   Inr (1, 1, om_update (flag_group BETTING_TOKEN) (new_CTokenGroupBalance\<lparr>tb_output := 1000, tb_input := 1000, numInputs := 1, numOutputs := 1\<rparr>) om_empty)"
  by (rule sample_groups [where mgt = False])
    (simp_all add: sample_input_defs check_balance_def check_nft_def ALL_FLAGS_def COIN_def)

definition plain_coin :: Coin where
  "plain_coin = \<lparr>coin_out = \<lparr>nValue = 100 * COIN, scriptPubKey = [0x51]\<rparr>, coin_nHeight = 410\<rparr>"

lemma plain_coin_simps [simp]: "CTokenGroupInfo_of (scriptPubKey (coin_out plain_coin)) = \<lparr>associatedGroup = NoGroup, tg_quantity = 0, tg_invalid = False\<rparr>"
  "nValue (coin_out plain_coin) = 100 * COIN" "coin_nHeight plain_coin = 410" "\<not> IsSpent plain_coin"
  by (simp_all add: plain_coin_def IsSpent_def CTokenGroupInfo_of_def group_ops_def GetScriptOp_def opcode_defs COIN_def)

lemma sample_parlay:
  "0 < q \<Longrightarrow> q < 2 ^ 63 \<Longrightarrow>
   CheckTokens sample_token_env sample_created (\<lambda>_. plain_coin) 400 (sample_token_tx [group_out (flag_group PARLAY_TOKEN) q]) =
   Inr (100 * COIN, 1, om_update (flag_group PARLAY_TOKEN) (new_CTokenGroupBalance\<lparr>tb_output := q, numOutputs := 1\<rparr>) om_empty)"
  by (rule sample_groups [where mgt = False])
    (simp_all add: sample_input_defs check_balance_def check_nft_def ALL_FLAGS_def COIN_def)

lemma sample_nft_mint:
  "CheckTokens sample_token_env sample_created (\<lambda>_. group_coin (flag_group NFT_TOKEN) (- 0x4000000000000000)) 400 (sample_token_tx [group_out (flag_group NFT_TOKEN) 5]) =
   Inr (1, 1, om_update (flag_group NFT_TOKEN) (new_CTokenGroupBalance\<lparr>tb_output := 5, ctrlPerms := - 0x4000000000000000, numInputs := 1, numOutputs := 1\<rparr>) om_empty)"
  by (rule sample_groups [where mgt = False])
    (simp_all add: sample_input_defs check_balance_def check_nft_def ALL_FLAGS_def sample_nft_def)

theorem bet_tokens_never_minted_witness:
  "CheckTokens sample_token_env sample_created (\<lambda>_. group_coin (flag_group BETTING_TOKEN) 1000) 400 (sample_token_tx [group_out (flag_group BETTING_TOKEN) 1000]) =
     Inr (1, 1, om_update (flag_group BETTING_TOKEN) (new_CTokenGroupBalance\<lparr>tb_output := 1000, tb_input := 1000, numInputs := 1, numOutputs := 1\<rparr>) om_empty) \<and>
   tokens (flag_group BETTING_TOKEN) (output_infos [group_out (flag_group BETTING_TOKEN) 1000]) = 1000 \<and>
   tokens (flag_group BETTING_TOKEN) (output_infos [group_out (flag_group BETTING_TOKEN) 1000]) \<le>
     tokens (flag_group BETTING_TOKEN) (input_infos sample_token_env (\<lambda>_. group_coin (flag_group BETTING_TOKEN) 1000) sample_inputs)"
proof -
  have "GetBetMintRequest \<lparr>be_type = UNKNOWN, be_nEventId = 0\<rparr> sample_created sample_view (i64 (1 - 1))
      (om_update (flag_group BETTING_TOKEN) (new_CTokenGroupBalance\<lparr>tb_output := 1000, tb_input := 1000, numInputs := 1, numOutputs := 1\<rparr>) om_empty) = Inr None"
    by (simp add: GetBetMintRequest_def BetTokensMinted_def entries_update)
  from bet_tokens_never_minted [OF sample_transfer _ this, of 0 "flag_group BETTING_TOKEN"] show ?thesis
    using sample_transfer by (simp add: output_infos_def getAmount_def)
qed

theorem CheckTokens_nft_witness:
  "\<exists>c d. GetTokenGroupCreation sample_created (flag_group NFT_TOKEN) = Some c \<and> tokenGroupDescription c = NFTDescription d \<and> nd_nMintAmount d = 5"
  using CheckTokens_nft [OF sample_nft_mint, of "flag_group NFT_TOKEN"]
  by (simp add: output_infos_def input_infos_def getAmount_def sample_inputs_def)

text \<open>
  C36: Parlay tokens are free.  A group whose only flag is the one of parlay bets needs no authority: the token checks accept a transaction
  that spends an ordinary coin and mints any amount of tokens of such a group, which nobody has created, and it is
  not taken for the mint of a bet, so that no stake and no odds are checked.
\<close>

theorem parlay_tokens_free:
  assumes "0 < q" "q < 2 ^ 63"
  shows "\<exists>R. CheckTokens sample_token_env sample_created (\<lambda>_. plain_coin) 400 (sample_token_tx [group_out (flag_group PARLAY_TOKEN) q]) = Inr (100 * COIN, 1, R) \<and>
     GetBetMintRequest e sample_created view (100 * COIN - 1) R = Inr None \<and> GetTokenGroupCreation sample_created (flag_group PARLAY_TOKEN) = None \<and>
     tokens (flag_group PARLAY_TOKEN) (input_infos sample_token_env (\<lambda>_. plain_coin) sample_inputs) = 0 \<and>
     tokens (flag_group PARLAY_TOKEN) (output_infos [group_out (flag_group PARLAY_TOKEN) q]) = q"
  by (intro exI conjI, rule sample_parlay [OF assms])
    (use assms in \<open>simp_all add: GetBetMintRequest_def BetTokensMinted_def entries_update output_infos_def input_infos_def sample_inputs_def getAmount_def
      GetTokenGroupCreation_def sample_created_def\<close>)

theorem parlay_tokens_free_witness:
  "\<exists>R. CheckTokens sample_token_env sample_created (\<lambda>_. plain_coin) 400 (sample_token_tx [group_out (flag_group PARLAY_TOKEN) (2 ^ 63 - 1)]) = Inr (100 * COIN, 1, R)"
  using parlay_tokens_free [of "2 ^ 63 - 1"] by auto

end
