(* ===== verification/BlockReward.thy ===== *)
theory BlockReward
  imports TokenDescription
begin

text \<open>
  The value a block may create (pos/rewards.h and .cpp, the coinstake flags of evo/cbtx.cpp, the value checks of masternode/payments.cpp):
  the subsidy and the masternode's part of it, the rewards of a block by kind with their tokens, the rewards found in a block, and
  the comparison of the two.
\<close>

section \<open>Subsidy\<close>

text \<open>
  The parameters of the chain, and what the check of a block asks of the masternode synchronization, the governance objects and the sporks.
\<close>

record reward_params =
  NetworkIDString :: string
  nPosStartHeight :: int
  nBlockZerocoinV2 :: int
  DIP0003Height :: int
  nBudgetPaymentsStartBlock :: int
  nBudgetPaymentsCycleBlocks :: int
  nBudgetPaymentsWindowBlocks :: int
  nSuperblockStartBlock :: int
  nSuperblockCycle :: int

record superblock_env =
  masternodeSync_IsSynced :: bool
  fDisableGovernance :: bool
  AreSuperblocksEnabled :: bool
  IsSuperblockTriggered :: "int \<Rightarrow> bool"

definition regtest_rewards :: reward_params where
  "regtest_rewards = \<lparr>NetworkIDString = ''regtest'', nPosStartHeight = 251, nBlockZerocoinV2 = 2147483647, DIP0003Height = 550,
     nBudgetPaymentsStartBlock = 1000, nBudgetPaymentsCycleBlocks = 50, nBudgetPaymentsWindowBlocks = 10,
     nSuperblockStartBlock = 1500, nSuperblockCycle = 10\<rparr>"

text \<open>The products with floating point numbers, converted to an amount: \<open>3.8 * COIN\<close> and \<open>3.8 / 90 * 100 * COIN\<close>.\<close>

definition GetBlockSubsidyWagerr :: "reward_params \<Rightarrow> int \<Rightarrow> CAmount" where
  "GetBlockSubsidyWagerr p nPrevHeight =
     (let nHeight = nPrevHeight + 1 in
      if NetworkIDString p = ''main'' then
        (if nHeight > 10001 then 380000000
         else if nHeight > 102 then 0
         else if nHeight > 2 then 250000 * COIN
         else if nHeight = 2 then 173360471 * COIN
         else 0)
      else if nHeight > nBlockZerocoinV2 p + 1 then 380000000
      else if nHeight > nPosStartHeight p + 1 then 422222222
      else if nHeight > 201 then 100000 * COIN
      else if nHeight > 2 then 250000 * COIN
      else if nHeight = 2 then 173360471 * COIN
      else 0)"

text \<open>Three quarters of a block value, rounded towards zero; the product in floating point is exact for every value of the subsidy.\<close>

definition GetMasternodePayment :: "reward_params \<Rightarrow> int \<Rightarrow> CAmount \<Rightarrow> bool \<Rightarrow> CAmount" where
  "GetMasternodePayment p nHeight blockValue isZWGRStake =
     (if NetworkIDString p = ''test'' \<and> nHeight < 200 then 0
      else if nHeight < nPosStartHeight p then 0
      else if nHeight < nBlockZerocoinV2 p then (blockValue * 3) sdiv 4
      else if isZWGRStake then blockValue - 1 * COIN
      else (blockValue * 3) sdiv 4)"

text \<open>The superblock's part of the subsidy is the whole subsidy: \<open>GetBlockSubsidy\<close> ignores the flag that asks for the part.\<close>

definition IsValidBlockHeight :: "reward_params \<Rightarrow> int \<Rightarrow> bool" where
  "IsValidBlockHeight p nBlockHeight \<longleftrightarrow> nBlockHeight \<ge> nSuperblockStartBlock p \<and> nBlockHeight mod nSuperblockCycle p = 0"

definition GetPaymentsLimit :: "reward_params \<Rightarrow> int \<Rightarrow> CAmount" where
  "GetPaymentsLimit p nBlockHeight =
     (if \<not> IsValidBlockHeight p nBlockHeight then 0
      else i64 (GetBlockSubsidyWagerr p (nBlockHeight - 1) * nSuperblockCycle p))"

section \<open>Rewards\<close>

abbreviation (input) REWARD_COINBASE :: u8 where "REWARD_COINBASE \<equiv> 1"
abbreviation (input) REWARD_COINSTAKE :: u8 where "REWARD_COINSTAKE \<equiv> 2"
abbreviation (input) REWARD_MASTERNODE :: u8 where "REWARD_MASTERNODE \<equiv> 3"
abbreviation (input) REWARD_OPERATOR :: u8 where "REWARD_OPERATOR \<equiv> 4"
abbreviation (input) REWARD_BURN :: u8 where "REWARD_BURN \<equiv> 6"
abbreviation (input) REWARD_TOTAL :: u8 where "REWARD_TOTAL \<equiv> 7"

record CReward =
  rw_type :: u8
  rw_amount :: CAmount
  tokenAmounts :: "(CTokenGroupID, CAmount) omap"

definition new_CReward :: "u8 \<Rightarrow> CAmount \<Rightarrow> CTokenGroupID \<Rightarrow> CAmount \<Rightarrow> CReward" where
  "new_CReward ty amount g tokenAmount =
     \<lparr>rw_type = ty, rw_amount = amount, tokenAmounts = (if g \<noteq> NoGroup \<and> tokenAmount \<noteq> 0 then om_update g tokenAmount om_empty else om_empty)\<rparr>"

definition AddRewardAmounts :: "CAmount \<Rightarrow> CTokenGroupID \<Rightarrow> CAmount \<Rightarrow> CReward \<Rightarrow> CReward" where
  "AddRewardAmounts amountIn g tokenAmount r =
     (let r = r\<lparr>rw_amount := i64 (rw_amount r + amountIn)\<rparr> in
      if g \<noteq> NoGroup \<and> tokenAmount \<noteq> 0
      then r\<lparr>tokenAmounts := om_update g (i64 ((case om_lookup (tokenAmounts r) g of None \<Rightarrow> 0 | Some a \<Rightarrow> a) + tokenAmount)) (tokenAmounts r)\<rparr>
      else r)"

definition CReward_of_out :: "u8 \<Rightarrow> CTxOut \<Rightarrow> CReward" where
  "CReward_of_out ty outp =
     (let tokenGrp = CTokenGroupInfo_of (scriptPubKey outp); r = new_CReward ty 0 NoGroup 0 in
      if associatedGroup tokenGrp \<noteq> NoGroup then AddRewardAmounts (nValue outp) (associatedGroup tokenGrp) (getAmount tokenGrp) r
      else AddRewardAmounts (nValue outp) NoGroup 0 r)"

definition CReward_plus :: "CReward \<Rightarrow> CReward \<Rightarrow> CReward" where
  "CReward_plus a b = fold (\<lambda>(g, q). AddRewardAmounts 0 g q) (entries (tokenAmounts b)) (AddRewardAmounts (rw_amount b) NoGroup 0 a)"

text \<open>The comparison of the maps of token amounts is the one of \<open>std::map\<close>, lexicographic in the pairs.\<close>

definition CReward_CompareTo :: "CReward \<Rightarrow> CReward \<Rightarrow> int" where
  "CReward_CompareTo lhs rhs =
     (if rw_amount lhs = rw_amount rhs \<and> tokenAmounts lhs = tokenAmounts rhs then 0
      else if rw_amount lhs > rw_amount rhs \<or> entries (tokenAmounts lhs) > entries (tokenAmounts rhs) then 1
      else - 1)"

section \<open>Rewards of a block\<close>

record CBlockReward =
  rewards :: "(u8, CReward) omap"
  fBurnUnpaidMasternodeReward :: bool
  fPos :: bool
  fSplitCoinstake :: bool

text \<open>\<open>AddReward\<close> with a reward; \<open>AddReward_amount\<close> is the overload with a kind and an amount.\<close>

definition AddReward :: "CReward \<Rightarrow> CBlockReward \<Rightarrow> CBlockReward" where
  "AddReward r b = b\<lparr>rewards := om_update (rw_type r) (case om_lookup (rewards b) (rw_type r) of None \<Rightarrow> r | Some r' \<Rightarrow> CReward_plus r' r) (rewards b)\<rparr>"

text \<open>\<open>GetReward\<close> inserts an empty reward of a kind that the block has none of.\<close>

definition GetReward :: "u8 \<Rightarrow> CBlockReward \<Rightarrow> CReward \<times> CBlockReward" where
  "GetReward ty b =
     (case om_lookup (rewards b) ty of
        Some r \<Rightarrow> (r, b)
      | None \<Rightarrow> (new_CReward ty 0 NoGroup 0, b\<lparr>rewards := om_update ty (new_CReward ty 0 NoGroup 0) (rewards b)\<rparr>))"

definition AddReward_amount :: "u8 \<Rightarrow> CAmount \<Rightarrow> CTokenGroupID \<Rightarrow> CAmount \<Rightarrow> CBlockReward \<Rightarrow> CBlockReward" where
  "AddReward_amount ty amount tokenID tokenAmount b =
     (let (reward, b) = GetReward ty b
      in b\<lparr>rewards := om_update ty (CReward_plus reward (new_CReward ty amount tokenID tokenAmount)) (rewards b)\<rparr>)"

text \<open>The four setters, by the kind they set.\<close>

definition SetReward :: "u8 \<Rightarrow> CAmount \<Rightarrow> CTokenGroupID \<Rightarrow> CAmount \<Rightarrow> CBlockReward \<Rightarrow> CBlockReward" where
  "SetReward ty amount tokenID tokenAmount b = b\<lparr>rewards := om_update ty (new_CReward ty amount tokenID tokenAmount) (rewards b)\<rparr>"

definition move_reward :: "u8 \<Rightarrow> u8 \<Rightarrow> CBlockReward \<Rightarrow> CBlockReward" where
  "move_reward from_ty to_ty b =
     (case om_lookup (rewards b) from_ty of
        None \<Rightarrow> b
      | Some r \<Rightarrow> let b = AddReward (r\<lparr>rw_type := to_ty\<rparr>) b in b\<lparr>rewards := om_delete from_ty (rewards b)\<rparr>)"

definition MoveMasternodeRewardToCoinbase :: "CBlockReward \<Rightarrow> CBlockReward" where
  "MoveMasternodeRewardToCoinbase b = move_reward REWARD_OPERATOR REWARD_COINBASE (move_reward REWARD_MASTERNODE REWARD_COINBASE b)"

definition MoveMasternodeRewardToCoinstake :: "CBlockReward \<Rightarrow> CBlockReward" where
  "MoveMasternodeRewardToCoinstake b = move_reward REWARD_OPERATOR REWARD_COINSTAKE (move_reward REWARD_MASTERNODE REWARD_COINSTAKE b)"

definition RemoveMasternodeReward :: "CBlockReward \<Rightarrow> CBlockReward" where
  "RemoveMasternodeReward b = b\<lparr>rewards := om_delete REWARD_MASTERNODE (rewards b)\<rparr>"

definition AddFees :: "CAmount \<Rightarrow> CBlockReward \<Rightarrow> CBlockReward" where
  "AddFees nFees = AddReward_amount REWARD_BURN nFees NoGroup 0"

definition SetRewards :: "CAmount \<Rightarrow> CAmount \<Rightarrow> CAmount \<Rightarrow> CAmount \<Rightarrow> bool \<Rightarrow> bool \<Rightarrow> CBlockReward \<Rightarrow> CBlockReward" where
  "SetRewards blockSubsidy mnRewardAmount opRewardAmount nFees fLegacy fPOS b =
     (if \<not> fLegacy then
        let b = SetReward REWARD_MASTERNODE mnRewardAmount NoGroup 0 b;
            b = SetReward REWARD_OPERATOR opRewardAmount NoGroup 0 b;
            b = SetReward (if fPOS then REWARD_COINSTAKE else REWARD_COINBASE) (i64 (blockSubsidy - mnRewardAmount - opRewardAmount)) NoGroup 0 b
        in AddReward_amount REWARD_BURN nFees NoGroup 0 b
      else
        let b = SetReward REWARD_MASTERNODE mnRewardAmount NoGroup 0 b;
            (mn, b) = GetReward REWARD_MASTERNODE b
        in if fPOS then SetReward REWARD_COINSTAKE (i64 (blockSubsidy - rw_amount mn)) NoGroup 0 b
           else SetReward REWARD_COINBASE (i64 (blockSubsidy - rw_amount mn + nFees)) NoGroup 0 b)"

definition CBlockReward_at :: "reward_params \<Rightarrow> int \<Rightarrow> CAmount \<Rightarrow> bool \<Rightarrow> CBlockReward" where
  "CBlockReward_at p nHeight nFees fPosIn =
     (let nBlockValue = GetBlockSubsidyWagerr p (nHeight - 1);
          mnRewardAmount = GetMasternodePayment p nHeight nBlockValue False
      in SetRewards nBlockValue mnRewardAmount 0 nFees (nHeight < DIP0003Height p) fPosIn
           \<lparr>rewards = om_empty, fBurnUnpaidMasternodeReward = False, fPos = fPosIn, fSplitCoinstake = False\<rparr>)"

definition total_reward :: "CBlockReward \<Rightarrow> CReward" where
  "total_reward b = fold (\<lambda>(_, r) total. CReward_plus total r) (entries (rewards b)) (new_CReward REWARD_TOTAL 0 NoGroup 0)"

definition CBlockReward_CompareTo :: "CBlockReward \<Rightarrow> CBlockReward \<Rightarrow> int" where
  "CBlockReward_CompareTo lhs rhs =
     (let l = total_reward lhs; r = total_reward rhs in
      if CReward_CompareTo l r < 0 then - 1 else if CReward_CompareTo l r > 0 then 1 else 0)"

definition GetTotalRewards :: "CBlockReward \<Rightarrow> CReward \<times> CBlockReward" where
  "GetTotalRewards b =
     fold (\<lambda>ty (total, b). let (r, b) = GetReward ty b in (CReward_plus total r, b))
       [REWARD_COINBASE, REWARD_COINSTAKE, REWARD_MASTERNODE, REWARD_OPERATOR] (new_CReward REWARD_TOTAL 0 NoGroup 0, b)"

section \<open>Coinstake flags\<close>

abbreviation (input) TRANSACTION_COINBASE :: u16 where "TRANSACTION_COINBASE \<equiv> 5"
abbreviation (input) CSTX_POS :: u8 where "CSTX_POS \<equiv> 1"
abbreviation (input) CSTX_SPLIT_COINSTAKE :: u8 where "CSTX_SPLIT_COINSTAKE \<equiv> 2"
abbreviation (input) CSTX_MASTERNODE_OUTPUT :: u8 where "CSTX_MASTERNODE_OUTPUT \<equiv> 8"
abbreviation (input) CSTX_OPERATOR_OUTPUT :: u8 where "CSTX_OPERATOR_OUTPUT \<equiv> 16"

text \<open>
  The flags that \<open>GetTxPayload\<close> leaves in a default \<open>CCbTx\<close>, whose failure nobody looks at: they are read after the version, the height and the first
  root, and keep what was read when a later field is missing.
\<close>

definition coinstakeFlags :: "CSpecialTx \<Rightarrow> u8" where
  "coinstakeFlags tx =
     (if tx_nType tx \<noteq> TRANSACTION_COINBASE then 0
      else (case do { (v, s) \<leftarrow> ser_readdata16 (vExtraPayload tx); (h, s) \<leftarrow> ser_readdata32 s; (root, s) \<leftarrow> unser_uint256 s; ser_readdata8 s } of
          None \<Rightarrow> 0 | Some (flags, _) \<Rightarrow> flags))"

definition GetCbTxCoinstakeFlags :: "u8 \<Rightarrow> bool \<times> bool \<times> bool \<times> bool" where
  "GetCbTxCoinstakeFlags nCoinstakeFlags =
     (nCoinstakeFlags AND CSTX_POS \<noteq> 0, nCoinstakeFlags AND CSTX_SPLIT_COINSTAKE \<noteq> 0,
      nCoinstakeFlags AND CSTX_MASTERNODE_OUTPUT \<noteq> 0, nCoinstakeFlags AND CSTX_OPERATOR_OUTPUT \<noteq> 0)"

definition CalcCbTxCoinstakeFlags :: "bool \<Rightarrow> bool \<Rightarrow> bool \<Rightarrow> bool \<Rightarrow> u8" where
  "CalcCbTxCoinstakeFlags pos split mn operator =
     (if pos then CSTX_POS else 0) OR (if split then CSTX_SPLIT_COINSTAKE else 0) OR
     (if mn then CSTX_MASTERNODE_OUTPUT else 0) OR (if operator then CSTX_OPERATOR_OUTPUT else 0)"

definition CalcCbTxCoinstakeFlags_reward :: "CBlockReward \<Rightarrow> u8" where
  "CalcCbTxCoinstakeFlags_reward blockReward =
     (let (mn, blockReward) = GetReward REWARD_MASTERNODE blockReward; (operator, blockReward) = GetReward REWARD_OPERATOR blockReward
      in CalcCbTxCoinstakeFlags (fPos blockReward) (fSplitCoinstake blockReward) (rw_amount mn > 0) (rw_amount operator > 0))"

definition IsProofOfStake :: "CSpecialTx list \<Rightarrow> bool" where
  "IsProofOfStake txs \<longleftrightarrow> length txs > 1 \<and> IsCoinStake (CTransaction.truncate (txs ! 1))"

definition CheckCoinstakeOutputs :: "CSpecialTx list \<Rightarrow> bool \<times> bool \<times> bool \<times> bool \<Rightarrow> bool" where
  "CheckCoinstakeOutputs txs flags =
     (let (pos, split, mn, operator) = flags;
          nOutputs = 1 + of_bool pos + of_bool split + of_bool mn + of_bool operator
      in IsProofOfStake txs = pos \<and> length (vout (txs ! (if pos then 1 else 0))) = nOutputs)"

definition CheckCbTxCoinstakeFlags :: "u8 \<Rightarrow> CSpecialTx list \<Rightarrow> string option" where
  "CheckCbTxCoinstakeFlags flags txs =
     (if flags \<ge> 32 then Some ''bad-cbtx-flags''
      else if \<not> CheckCoinstakeOutputs txs (GetCbTxCoinstakeFlags flags) then Some ''bad-cbtx-cs-outputs''
      else None)"

section \<open>Rewards found in a block\<close>

definition add_outs :: "u8 \<Rightarrow> CTxOut list \<Rightarrow> CBlockReward \<Rightarrow> CBlockReward" where
  "add_outs ty outs b = fold (\<lambda>outp. AddReward (CReward_of_out ty outp)) outs b"

text \<open>The rewards of the transactions of a block with at least one transaction; \<open>None\<close> is a failed assertion or a read past the outputs.\<close>

definition CBlockReward_of_block :: "CSpecialTx list \<Rightarrow> bool \<Rightarrow> CBlockReward option" where
  "CBlockReward_of_block txs fLegacy =
     (let b = \<lparr>rewards = om_empty, fBurnUnpaidMasternodeReward = False, fPos = True, fSplitCoinstake = False\<rparr>;
          outs = vout (txs ! 0);
          flags = GetCbTxCoinstakeFlags (coinstakeFlags (txs ! 0));
          (pos, split, mn, operator) = flags
      in if IsProofOfStake txs then
           let b = add_outs REWARD_COINBASE outs b; cs = vout (txs ! 1) in
           if fLegacy then
             Some (if length cs > 1 then add_outs REWARD_MASTERNODE (drop 2 cs) (AddReward (CReward_of_out REWARD_COINSTAKE (cs ! 1)) b) else b)
           else if \<not> CheckCoinstakeOutputs txs flags then None
           else let b = AddReward (CReward_of_out REWARD_COINSTAKE (cs ! 1)) (b\<lparr>fPos := pos, fSplitCoinstake := split\<rparr>);
                    b = (if split then AddReward (CReward_of_out REWARD_COINSTAKE (cs ! 2)) b else b);
                    n = (if split then 2 else 1);
                    b = (if mn then AddReward (CReward_of_out REWARD_MASTERNODE (cs ! (n + 1))) b else b);
                    n = (if mn then n + 1 else n)
                in Some (if operator then AddReward (CReward_of_out REWARD_OPERATOR (cs ! (n + 1))) b else b)
         else if fLegacy then
           (case outs of
              [] \<Rightarrow> None
            | outp # _ \<Rightarrow>
                let b = AddReward (CReward_of_out REWARD_COINBASE outp) (b\<lparr>fPos := False\<rparr>) in
                Some (if length outs = 2 \<or> length outs = 3 then AddReward (CReward_of_out REWARD_MASTERNODE (outs ! (length outs - 1))) b
                      else if length outs > 3 then add_outs REWARD_MASTERNODE (drop 2 outs) b
                      else b))
         else if \<not> CheckCoinstakeOutputs txs flags then None
         else let b = AddReward (CReward_of_out REWARD_COINBASE (outs ! 0)) (b\<lparr>fPos := pos, fSplitCoinstake := split\<rparr>);
                  b = (if mn then AddReward (CReward_of_out REWARD_MASTERNODE (outs ! 1)) b else b)
              in Some (if operator then AddReward (CReward_of_out REWARD_OPERATOR (outs ! (if mn then 2 else 1))) b else b))"

section \<open>Value of a block\<close>

definition MAX_MONEY :: CAmount where "MAX_MONEY = 398360470 * COIN"

definition MoneyRange :: "CAmount \<Rightarrow> bool" where
  "MoneyRange v \<longleftrightarrow> v \<ge> 0 \<and> v \<le> MAX_MONEY"

text \<open>\<open>None\<close> is the exception for a value out of range.\<close>

fun value_out :: "CTxOut list \<Rightarrow> CAmount \<Rightarrow> CAmount option" where
  "value_out [] nValueOut = Some nValueOut"
| "value_out (outp # outs) nValueOut =
     (if \<not> MoneyRange (nValue outp) \<or> \<not> MoneyRange (nValueOut + nValue outp) then None else value_out outs (nValueOut + nValue outp))"

definition GetValueOut :: "CTxOut list \<Rightarrow> CAmount option" where
  "GetValueOut outs = value_out outs 0"

text \<open>\<open>None\<close> is a failed assertion, or the exception of \<open>GetValueOut\<close>, which the error message calls.\<close>

definition IsOldBudgetBlockValueValid :: "superblock_env \<Rightarrow> reward_params \<Rightarrow> CSpecialTx list \<Rightarrow> int \<Rightarrow> CBlockReward \<Rightarrow> bool option" where
  "IsOldBudgetBlockValueValid sb p txs nBlockHeight blockReward = do {
     rewardsInBlock \<leftarrow> CBlockReward_of_block txs (\<not> nBlockHeight \<ge> DIP0003Height p);
     let isBlockRewardValueMet = (CBlockReward_CompareTo rewardsInBlock blockReward \<le> 0);
     let checked = (if isBlockRewardValueMet then Some True else do { _ \<leftarrow> GetValueOut (vout (txs ! 0)); Some False });
     if nBlockHeight < nBudgetPaymentsStartBlock p then Some False
     else if nBlockHeight \<ge> nSuperblockStartBlock p then Some False
     else if nBlockHeight mod nBudgetPaymentsCycleBlocks p < nBudgetPaymentsWindowBlocks p then
       (if masternodeSync_IsSynced sb then checked else Some True)
     else checked }"

text \<open>\<open>Superblock_IsValid\<close> is \<open>CSuperblockManager::IsValid\<close> of the coinbase.\<close>

definition IsBlockValueValid ::
  "superblock_env \<Rightarrow> (CSpecialTx \<Rightarrow> int \<Rightarrow> CBlockReward \<Rightarrow> bool) \<Rightarrow> reward_params \<Rightarrow> CSpecialTx list \<Rightarrow> int \<Rightarrow> CBlockReward \<Rightarrow> CAmount \<Rightarrow> bool option" where
  "IsBlockValueValid sb Superblock_IsValid p txs nBlockHeight blockRewardIn coinstakeValueIn = do {
     rewardsInBlock \<leftarrow> CBlockReward_of_block txs (\<not> nBlockHeight \<ge> DIP0003Height p);
     let blockReward = (if coinstakeValueIn > 0 then AddReward_amount REWARD_COINSTAKE coinstakeValueIn NoGroup 0 blockRewardIn else blockRewardIn);
     let isBlockRewardValueMet = (CBlockReward_CompareTo blockReward rewardsInBlock \<ge> 0);
     if IsAnyOutputGrouped (vout (txs ! 0)) then Some False
     else if IsProofOfStake txs \<and> IsAnyOutputGroupedAuthority (vout (txs ! 1)) then Some False
     else if nBlockHeight < nBudgetPaymentsStartBlock p then Some isBlockRewardValueMet
     else if nBlockHeight < nSuperblockStartBlock p then IsOldBudgetBlockValueValid sb p txs nBlockHeight blockReward
     else do {
       let (total, blockReward) = GetTotalRewards blockReward;
       let nSuperblockMaxValue = i64 (rw_amount total + GetPaymentsLimit p nBlockHeight);
       valueOut \<leftarrow> GetValueOut (vout (txs ! 0));
       Some (if \<not> IsValidBlockHeight p nBlockHeight then isBlockRewardValueMet
         else if \<not> valueOut \<le> nSuperblockMaxValue then False
         else if \<not> masternodeSync_IsSynced sb \<or> fDisableGovernance sb then True
         else if \<not> AreSuperblocksEnabled sb then isBlockRewardValueMet
         else if \<not> IsSuperblockTriggered sb nBlockHeight then isBlockRewardValueMet
         else Superblock_IsValid (txs ! 0) nBlockHeight blockReward) } }"

end
