(* ===== verification/BlockValue.thy ===== *)
theory BlockValue
  imports BlockReward BlockSettlement
begin

text \<open>
  What the value checks of a block ensure: the amounts of rewards are added up, in 64 bits, whatever their kinds, so that the check
  bounds all outputs of the coinbase and the coinstake by the subsidy, the fees and the value staked.
\<close>

section \<open>Sums of rewards\<close>

text \<open>Amounts are compared modulo the wrap-around until the bounds of the block make the sums exact.\<close>

lemma i64_add_right [simp]: "i64 (b + i64 a) = i64 (b + a)"
  using i64_add [of a b] by (simp add: add.commute)

lemma i64_cong: "i64 a = i64 b \<Longrightarrow> i64 (a + c) = i64 (b + c)"
  by (metis i64_add)

lemma i64_add_mid [simp]: "i64 (a + i64 b + c) = i64 (a + b + c)"
  by (rule i64_cong) simp

definition reward_at :: "CBlockReward \<Rightarrow> u8 \<Rightarrow> int" where
  "reward_at b k = (case om_lookup (rewards b) k of None \<Rightarrow> 0 | Some r \<Rightarrow> rw_amount r)"

definition reward_sum :: "CBlockReward \<Rightarrow> int" where
  "reward_sum b = (\<Sum>k\<in>UNIV. reward_at b k)"

lemma rw_amount_AddRewardAmounts [simp]: "rw_amount (AddRewardAmounts a g q r) = i64 (rw_amount r + a)"
  by (simp add: AddRewardAmounts_def Let_def)

lemma rw_amount_tokens: "rw_amount (fold (\<lambda>(g, q). AddRewardAmounts 0 g q) es r) = (if es = [] then rw_amount r else i64 (rw_amount r))"
  by (induction es arbitrary: r) auto

lemma rw_amount_CReward_plus [simp]: "rw_amount (CReward_plus a b) = i64 (rw_amount a + rw_amount b)"
  by (simp add: CReward_plus_def rw_amount_tokens)

lemma rw_new_CReward [simp]: "rw_type (new_CReward ty a g q) = ty" "rw_amount (new_CReward ty a g q) = a"
  by (simp_all add: new_CReward_def)

lemma rw_CReward_of_out [simp]: "rw_type (CReward_of_out ty outp) = ty" "rw_amount (CReward_of_out ty outp) = i64 (nValue outp)"
  by (simp_all add: CReward_of_out_def AddRewardAmounts_def new_CReward_def Let_def)

lemma rw_amount_fold_plus:
  "rw_amount (fold (\<lambda>(_, r) t. CReward_plus t r) es t) = (if es = [] then rw_amount t else i64 (rw_amount t + (\<Sum>(_, r)\<leftarrow>es. rw_amount r)))"
proof (induction es arbitrary: t)
  case (Cons e es)
  then show ?case by (cases e) (simp add: add.assoc)
qed simp

lemma sum_list_entries: "(\<Sum>(_, r)\<leftarrow>entries (rewards b). rw_amount r) = reward_sum b"
proof -
  let ?es = "entries (rewards b)"
  have "(\<Sum>(_, r)\<leftarrow>?es. rw_amount r) = (\<Sum>(k, r)\<leftarrow>?es. reward_at b k)"
    by (intro arg_cong [where f = sum_list] map_cong) (auto simp: reward_at_def in_entries_iff)
  also have "\<dots> = (\<Sum>k\<leftarrow>map fst ?es. reward_at b k)" by (simp add: comp_def case_prod_unfold)
  also have "\<dots> = (\<Sum>k\<in>set (map fst ?es). reward_at b k)" by (simp only: sum_list_distinct_conv_sum_set entries_distinct)
  also have "\<dots> = reward_sum b"
    unfolding reward_sum_def
    by (rule sum.mono_neutral_left) (auto simp: reward_at_def in_entries_iff image_iff Bex_def split: option.splits)
  finally show ?thesis .
qed

lemma rw_amount_total_reward: "rw_amount (total_reward b) = i64 (reward_sum b)"
  by (auto simp: total_reward_def rw_amount_fold_plus simp flip: sum_list_entries) (simp add: i64_def)

lemma reward_sum_update: "reward_sum (b\<lparr>rewards := om_update k r (rewards b)\<rparr>) = reward_sum b - reward_at b k + rw_amount r"
proof -
  have "(\<Sum>j\<in>UNIV - {k}. reward_at (b\<lparr>rewards := om_update k r (rewards b)\<rparr>) j) = (\<Sum>j\<in>UNIV - {k}. reward_at b j)"
    by (intro sum.cong) (auto simp: reward_at_def)
  then show ?thesis
    by (simp add: reward_sum_def sum.remove [of UNIV k] reward_at_def)
qed

lemma reward_sum_AddReward: "i64 (reward_sum (AddReward r b)) = i64 (reward_sum b + rw_amount r)"
proof (cases "om_lookup (rewards b) (rw_type r)")
  case None
  then show ?thesis by (simp add: AddReward_def reward_sum_update) (simp add: reward_at_def)
next
  case (Some r')
  then have "reward_sum (AddReward r b) = (reward_sum b - rw_amount r') + i64 (rw_amount r' + rw_amount r)"
    by (simp add: AddReward_def reward_sum_update) (simp add: reward_at_def)
  then show ?thesis by simp
qed

lemma reward_sum_GetReward: "GetReward ty b = (r, b') \<Longrightarrow> reward_sum b' = reward_sum b \<and> reward_at b' ty = rw_amount r"
  by (auto simp: GetReward_def reward_sum_update reward_at_def split: option.splits)

lemma reward_sum_AddReward_amount: "i64 (reward_sum (AddReward_amount ty a g q b)) = i64 (reward_sum b + a)"
proof -
  obtain r b' where g: "GetReward ty b = (r, b')" by fastforce
  then have "reward_sum (AddReward_amount ty a g q b) = (reward_sum b - rw_amount r) + i64 (rw_amount r + a)"
    using reward_sum_GetReward [OF g] by (simp add: AddReward_amount_def reward_sum_update)
  then show ?thesis by simp
qed

lemma reward_sum_delete: "reward_sum (b\<lparr>rewards := om_delete k (rewards b)\<rparr>) = reward_sum b - reward_at b k"
proof -
  have "(\<Sum>j\<in>UNIV - {k}. reward_at (b\<lparr>rewards := om_delete k (rewards b)\<rparr>) j) = (\<Sum>j\<in>UNIV - {k}. reward_at b j)"
    by (intro sum.cong) (auto simp: reward_at_def)
  then show ?thesis
    by (simp add: reward_sum_def sum.remove [of UNIV k] reward_at_def)
qed

text \<open>Moving the rewards of the masternode and the operator to another kind keeps the sum.\<close>

lemma reward_sum_move:
  assumes "k \<noteq> k'"
  shows "i64 (reward_sum (move_reward k k' b)) = i64 (reward_sum b)"
proof (cases "om_lookup (rewards b) k")
  case (Some r)
  let ?b = "AddReward (r\<lparr>rw_type := k'\<rparr>) b"
  have "reward_at ?b k = rw_amount r" using assms Some by (simp add: AddReward_def reward_at_def)
  then have "i64 (reward_sum (move_reward k k' b)) = i64 (reward_sum ?b + - rw_amount r)"
    using Some by (simp add: move_reward_def Let_def reward_sum_delete)
  also have "\<dots> = i64 (reward_sum b + rw_amount r + - rw_amount r)"
    using reward_sum_AddReward [of "r\<lparr>rw_type := k'\<rparr>" b] by (intro i64_cong) simp
  finally show ?thesis by simp
qed (simp add: move_reward_def)

lemma reward_sum_MoveMasternodeReward:
  "i64 (reward_sum (MoveMasternodeRewardToCoinbase b)) = i64 (reward_sum b)"
  "i64 (reward_sum (MoveMasternodeRewardToCoinstake b)) = i64 (reward_sum b)"
  by (simp_all add: MoveMasternodeRewardToCoinbase_def MoveMasternodeRewardToCoinstake_def reward_sum_move)

lemma reward_sum_flags [simp]: "reward_sum (b\<lparr>fPos := x\<rparr>) = reward_sum b" "reward_sum (b\<lparr>fSplitCoinstake := x\<rparr>) = reward_sum b"
  by (simp_all add: reward_sum_def reward_at_def)

lemma reward_sum_empty [simp]: "reward_sum \<lparr>rewards = om_empty, fBurnUnpaidMasternodeReward = x, fPos = y, fSplitCoinstake = z\<rparr> = 0"
  by (simp add: reward_sum_def reward_at_def)

lemma reward_sum_add_outs: "i64 (reward_sum (add_outs ty outs b)) = i64 (reward_sum b + (\<Sum>outp\<leftarrow>outs. nValue outp))"
proof (induction outs arbitrary: b)
  case (Cons outp outs)
  have "i64 (reward_sum (add_outs ty (outp # outs) b)) = i64 (reward_sum (AddReward (CReward_of_out ty outp) b) + (\<Sum>outp\<leftarrow>outs. nValue outp))"
    using Cons [of "AddReward (CReward_of_out ty outp) b"] by (simp add: add_outs_def)
  also have "\<dots> = i64 (reward_sum b + i64 (nValue outp) + (\<Sum>outp\<leftarrow>outs. nValue outp))"
    using reward_sum_AddReward [of "CReward_of_out ty outp" b] by (intro i64_cong) simp
  also have "\<dots> = i64 (reward_sum b + nValue outp + (\<Sum>outp\<leftarrow>outs. nValue outp))" by (intro i64_cong) simp
  finally show ?case by (simp add: add.assoc)
qed (simp add: add_outs_def)

lemma AddReward_of_out: "AddReward (CReward_of_out ty outp) b = add_outs ty [outp] b"
  by (simp add: add_outs_def)

lemma reward_sum_add_outs_plus: "i64 (reward_sum (add_outs ty outs b) + c) = i64 (reward_sum b + ((\<Sum>outp\<leftarrow>outs. nValue outp) + c))"
  using i64_cong [OF reward_sum_add_outs, of ty outs b c] by (simp add: add.assoc)

lemmas block_sum_simps = AddReward_of_out reward_sum_add_outs reward_sum_add_outs_plus

text \<open>The flags computed for a block are read back, and are flags that the check accepts.\<close>

lemma coinstake_flags_roundtrip:
  "GetCbTxCoinstakeFlags (CalcCbTxCoinstakeFlags pos split mn operator) = (pos, split, mn, operator)" "CalcCbTxCoinstakeFlags pos split mn operator < 32"
  by (cases pos; cases split; cases mn; cases operator; simp add: GetCbTxCoinstakeFlags_def CalcCbTxCoinstakeFlags_def)+

lemma CheckCbTxCoinstakeFlags_calc:
  "CheckCbTxCoinstakeFlags (CalcCbTxCoinstakeFlags pos split mn operator) txs = None \<longleftrightarrow> CheckCoinstakeOutputs txs (pos, split, mn, operator)"
  using coinstake_flags_roundtrip [of pos split mn operator] by (simp add: CheckCbTxCoinstakeFlags_def not_le)

lemma coinstake_shape:
  assumes "IsProofOfStake txs"
  obtains e outp outs where "vout (txs ! 1) = e # outp # outs" "nValue e = 0"
proof -
  have "length (vout (txs ! 1)) \<ge> 2" "nValue (hd (vout (txs ! 1))) = 0"
    using assms
    by (auto simp: IsProofOfStake_def IsCoinStake_def CTxOut_IsEmpty_def CTransaction.truncate_def Let_def split: list.splits if_splits)
  then show ?thesis
    using that by (cases "vout (txs ! 1)"; cases "tl (vout (txs ! 1))") auto
qed

text \<open>In a proof of stake block the rewards account for every output of the coinbase and the coinstake.\<close>

lemma reward_sum_pos_block:
  assumes pos: "IsProofOfStake txs" and b: "CBlockReward_of_block txs fLegacy = Some b"
  shows "i64 (reward_sum b) = i64 ((\<Sum>outp\<leftarrow>vout (txs ! 0). nValue outp) + (\<Sum>outp\<leftarrow>vout (txs ! 1). nValue outp))"
proof -
  obtain e outp outs where cs: "vout (txs ! 1) = e # outp # outs" "nValue e = 0" using pos by (rule coinstake_shape)
  show ?thesis
  proof (cases fLegacy)
    case True
    then show ?thesis
      using b pos cs by (auto simp: CBlockReward_of_block_def Let_def block_sum_simps split: prod.splits; simp add: ac_simps)
  next
    case False
    obtain ps split mn operator where fl: "GetCbTxCoinstakeFlags (coinstakeFlags (txs ! 0)) = (ps, split, mn, operator)"
      by (metis prod_cases4)
    then have ch: "CheckCoinstakeOutputs txs (ps, split, mn, operator)"
      using b pos False by (auto simp: CBlockReward_of_block_def Let_def split: if_splits)
    then have ps: "ps" and len: "length outs = of_bool split + of_bool mn + of_bool operator"
      using pos cs by (auto simp: CheckCoinstakeOutputs_def)
    then show ?thesis
      using b pos cs False fl ch
      by (cases split; cases mn; cases operator;
          auto simp: CBlockReward_of_block_def Let_def block_sum_simps length_Suc_conv numeral_eq_Suc; simp add: ac_simps)
  qed
qed

section \<open>Rewards due to a block\<close>

lemma AddRewardAmounts_NoGroup [simp]: "tokenAmounts (AddRewardAmounts a NoGroup q r) = tokenAmounts r"
  by (simp add: AddRewardAmounts_def Let_def)

lemma tokenAmounts_plus_empty: "tokenAmounts b = om_empty \<Longrightarrow> tokenAmounts (CReward_plus a b) = tokenAmounts a"
  by (simp add: CReward_plus_def)

lemma tokenAmounts_new_NoGroup [simp]: "tokenAmounts (new_CReward ty a NoGroup q) = om_empty"
  by (simp add: new_CReward_def)

definition no_tokens :: "CBlockReward \<Rightarrow> bool" where
  "no_tokens b \<longleftrightarrow> (\<forall>k r. om_lookup (rewards b) k = Some r \<longrightarrow> tokenAmounts r = om_empty)"

lemma no_tokens_update: "no_tokens b \<Longrightarrow> tokenAmounts r = om_empty \<Longrightarrow> no_tokens (b\<lparr>rewards := om_update k r (rewards b)\<rparr>)"
  by (simp add: no_tokens_def)

lemma no_tokens_GetReward: "no_tokens b \<Longrightarrow> GetReward ty b = (r, b') \<Longrightarrow> no_tokens b' \<and> tokenAmounts r = om_empty"
  by (auto simp: GetReward_def no_tokens_def split: option.splits if_splits)

lemma no_tokens_AddReward_amount: "no_tokens b \<Longrightarrow> no_tokens (AddReward_amount ty a NoGroup q b)"
  by (auto simp: AddReward_amount_def tokenAmounts_plus_empty dest: no_tokens_GetReward intro!: no_tokens_update split: prod.split)

lemma no_tokens_SetReward: "no_tokens b \<Longrightarrow> no_tokens (SetReward ty a NoGroup q b)"
  by (simp add: SetReward_def no_tokens_update)

lemma no_tokens_CBlockReward_at: "no_tokens (CBlockReward_at p h fees pos)"
proof -
  have "no_tokens \<lparr>rewards = om_empty, fBurnUnpaidMasternodeReward = x, fPos = y, fSplitCoinstake = z\<rparr>" for x y z
    by (simp add: no_tokens_def)
  then show ?thesis
    by (auto simp: CBlockReward_at_def SetRewards_def Let_def intro!: no_tokens_AddReward_amount no_tokens_SetReward split: prod.split
        dest: no_tokens_GetReward [OF no_tokens_SetReward])
qed

lemma total_reward_no_tokens:
  assumes "no_tokens b"
  shows "tokenAmounts (total_reward b) = om_empty"
proof -
  have "\<forall>(k, r) \<in> set es. tokenAmounts r = om_empty \<Longrightarrow>
      tokenAmounts (fold (\<lambda>(_, r) t. CReward_plus t r) es t) = tokenAmounts t" for es :: "(u8 \<times> CReward) list" and t
    by (induction es arbitrary: t) (auto simp: tokenAmounts_plus_empty)
  moreover have "\<forall>(k, r) \<in> set (entries (rewards b)). tokenAmounts r = om_empty"
    using assms by (auto simp: no_tokens_def in_entries_iff)
  ultimately show ?thesis by (simp add: total_reward_def)
qed

lemma reward_sum_SetReward: "reward_sum (SetReward ty a g q b) = reward_sum b - reward_at b ty + a"
  by (simp add: SetReward_def reward_sum_update)

lemma reward_at_SetReward: "reward_at (SetReward ty a g q b) k = (if k = ty then a else reward_at b k)"
  by (simp add: SetReward_def reward_at_def)

lemma reward_at_empty [simp]: "reward_at \<lparr>rewards = om_empty, fBurnUnpaidMasternodeReward = x, fPos = y, fSplitCoinstake = z\<rparr> k = 0"
  by (simp add: reward_at_def)

lemma GetReward_SetReward: "GetReward ty (SetReward ty a g q b) = (new_CReward ty a g q, SetReward ty a g q b)"
  by (simp add: GetReward_def SetReward_def)

text \<open>However the subsidy is split, the rewards of a block add up to the subsidy and, except in a legacy proof of stake block, the fees.\<close>

lemma reward_sum_CBlockReward_at:
  "i64 (reward_sum (CBlockReward_at p h fees pos)) =
     i64 (GetBlockSubsidyWagerr p (h - 1) + (if h < DIP0003Height p \<and> pos then 0 else fees))"
  by (auto simp: CBlockReward_at_def SetRewards_def Let_def reward_sum_AddReward_amount reward_sum_SetReward reward_at_SetReward GetReward_SetReward)

section \<open>The value check\<close>

text \<open>Where \<open>IsBlockValueValid\<close> compares the rewards: not in the windows of the old budgets before the node is synced, and not in superblocks.\<close>

definition value_compared :: "superblock_env \<Rightarrow> reward_params \<Rightarrow> int \<Rightarrow> bool" where
  "value_compared sb p h \<longleftrightarrow>
     (if h < nBudgetPaymentsStartBlock p then True
      else if h < nSuperblockStartBlock p then h mod nBudgetPaymentsCycleBlocks p \<ge> nBudgetPaymentsWindowBlocks p \<or> masternodeSync_IsSynced sb
      else \<not> IsValidBlockHeight p h \<or>
        masternodeSync_IsSynced sb \<and> \<not> fDisableGovernance sb \<and> \<not> (AreSuperblocksEnabled sb \<and> IsSuperblockTriggered sb h))"

definition coinstake_reward :: "CAmount \<Rightarrow> CBlockReward \<Rightarrow> CBlockReward" where
  "coinstake_reward coinstakeValueIn b = (if coinstakeValueIn > 0 then AddReward_amount REWARD_COINSTAKE coinstakeValueIn NoGroup 0 b else b)"

lemma not_less_empty: "\<not> entries om_empty > (xs :: ('k::linorder \<times> 'v::linorder) list)"
  by simp

lemma CompareTo_amount:
  assumes "no_tokens b" and "CBlockReward_CompareTo b b' \<ge> 0 \<or> CBlockReward_CompareTo b' b \<le> 0"
  shows "rw_amount (total_reward b') \<le> rw_amount (total_reward b)"
  using assms(2) total_reward_no_tokens [OF assms(1)]
  by (auto simp: CBlockReward_CompareTo_def CReward_CompareTo_def Let_def split: if_splits)

lemma IsBlockValueValid_compared:
  assumes "IsBlockValueValid sb sv p txs h b cs = Some True" and "value_compared sb p h"
  obtains b' where "CBlockReward_of_block txs (\<not> h \<ge> DIP0003Height p) = Some b'"
    "CBlockReward_CompareTo (coinstake_reward cs b) b' \<ge> 0 \<or> CBlockReward_CompareTo b' (coinstake_reward cs b) \<le> 0"
  using assms
  by (auto simp: IsBlockValueValid_def IsOldBudgetBlockValueValid_def value_compared_def coinstake_reward_def Let_def
      split: bind_splits if_splits prod.splits)

lemma value_out_sum: "value_out outs a = Some v \<Longrightarrow> v = a + (\<Sum>outp\<leftarrow>outs. nValue outp)"
  by (induction outs arbitrary: a) (fastforce split: if_splits)+

lemma value_out_range: "value_out outs a = Some v \<Longrightarrow> MoneyRange a \<Longrightarrow> MoneyRange v"
  by (induction outs arbitrary: a) (auto split: if_splits)

lemma GetValueOut_sum: "GetValueOut outs = Some v \<Longrightarrow> v = (\<Sum>outp\<leftarrow>outs. nValue outp) \<and> MoneyRange v"
  using value_out_sum [of outs 0 v] value_out_range [of outs 0 v] by (simp add: GetValueOut_def MoneyRange_def MAX_MONEY_def COIN_def)

lemma GetBlockSubsidyWagerr_range: "0 \<le> GetBlockSubsidyWagerr p h \<and> GetBlockSubsidyWagerr p h \<le> MAX_MONEY"
  by (auto simp: GetBlockSubsidyWagerr_def Let_def MAX_MONEY_def COIN_def)

text \<open>
  C10: A proof of stake block whose value was compared creates no more than it may: what its coinbase and its coinstake pay out together is at
  most the subsidy of the height, the fees of the block and the value staked.
\<close>

theorem IsBlockValueValid_bounds:
  assumes valid: "IsBlockValueValid sb sv p txs h (CBlockReward_at p h nFees True) coinstakeValueIn = Some True"
    and compared: "value_compared sb p h" and pos: "IsProofOfStake txs"
    and outs: "GetValueOut (vout (txs ! 0)) = Some coinbaseOut" "GetValueOut (vout (txs ! 1)) = Some coinstakeOut"
    and range: "MoneyRange nFees" "MoneyRange coinstakeValueIn"
  shows "coinbaseOut + coinstakeOut \<le> GetBlockSubsidyWagerr p (h - 1) + nFees + coinstakeValueIn"
proof -
  let ?b = "CBlockReward_at p h nFees True" and ?s = "GetBlockSubsidyWagerr p (h - 1)"
  let ?fees = "if h < DIP0003Height p then 0 else nFees"
  have none: "no_tokens (coinstake_reward coinstakeValueIn ?b)"
    by (simp add: coinstake_reward_def no_tokens_AddReward_amount no_tokens_CBlockReward_at)
  obtain b' where b': "CBlockReward_of_block txs (\<not> h \<ge> DIP0003Height p) = Some b'"
    and le: "rw_amount (total_reward b') \<le> rw_amount (total_reward (coinstake_reward coinstakeValueIn ?b))"
    using CompareTo_amount [OF none] valid compared by (metis IsBlockValueValid_compared)
  have "i64 (reward_sum (coinstake_reward coinstakeValueIn ?b)) = i64 (?s + ?fees + coinstakeValueIn)"
    using range(2) i64_cong [OF reward_sum_CBlockReward_at, of p h nFees True coinstakeValueIn] reward_sum_CBlockReward_at [of p h nFees True]
    by (auto simp: coinstake_reward_def reward_sum_AddReward_amount MoneyRange_def)
  moreover have "i64 (reward_sum b') = i64 (coinbaseOut + coinstakeOut)"
    using reward_sum_pos_block [OF pos b'] outs by (auto dest: GetValueOut_sum)
  ultimately have "i64 (coinbaseOut + coinstakeOut) \<le> i64 (?s + ?fees + coinstakeValueIn)"
    using le by (simp add: rw_amount_total_reward)
  then show ?thesis
    using GetValueOut_sum [OF outs(1)] GetValueOut_sum [OF outs(2)] range GetBlockSubsidyWagerr_range [of p "h - 1"]
    by (auto simp: i64_id MoneyRange_def MAX_MONEY_def COIN_def split: if_splits)
qed

section \<open>Sample blocks\<close>

text \<open>A proof of stake block whose coinstake has one output with an amount; the payload of its coinbase is version 2, height 600, a root and the flags.\<close>

definition stake_block :: "CAmount \<Rightarrow> CSpecialTx list" where
  "stake_block v =
     [\<lparr>vin = [\<lparr>prevout = \<lparr>op_hash = 0, op_n = 0xffffffff\<rparr>, scriptSig = []\<rparr>], vout = [\<lparr>nValue = 0, scriptPubKey = []\<rparr>], tx_hash = 1,
        tx_nVersion = 3, tx_nType = TRANSACTION_COINBASE, vExtraPayload = [2, 0, 88, 2, 0, 0] @ replicate 32 0 @ [CSTX_POS] @ replicate 32 0\<rparr>,
      \<lparr>vin = [\<lparr>prevout = \<lparr>op_hash = 7, op_n = 0\<rparr>, scriptSig = []\<rparr>], vout = [\<lparr>nValue = 0, scriptPubKey = []\<rparr>, \<lparr>nValue = v, scriptPubKey = []\<rparr>],
        tx_hash = 2, tx_nVersion = 1, tx_nType = TRANSACTION_NORMAL, vExtraPayload = []\<rparr>]"

lemma stake_block_pos: "IsProofOfStake (stake_block v)"
  by (simp add: stake_block_def IsProofOfStake_def IsCoinStake_def CTransaction.truncate_def COutPoint_IsNull_def CTxIn_IsZerocoinSpend_def CTxOut_IsEmpty_def)

lemma stake_block_outs [simp]:
  "vout (stake_block v ! 0) = [\<lparr>nValue = 0, scriptPubKey = []\<rparr>]"
  "vout (stake_block v ! Suc 0) = [\<lparr>nValue = 0, scriptPubKey = []\<rparr>, \<lparr>nValue = v, scriptPubKey = []\<rparr>]"
  by (simp_all add: stake_block_def)

section \<open>Superblocks\<close>

text \<open>Two lists of outputs with the same scripts, which may differ in their amounts.\<close>

lemma same_scripts_ungrouped:
  assumes "map scriptPubKey outs = map scriptPubKey outs'"
  shows "IsAnyOutputGroupedAuthority outs = IsAnyOutputGroupedAuthority outs'"
proof -
  have "IsAnyOutputGroupedAuthority xs = list_ex (\<lambda>script. IsOutputGroupedAuthority \<lparr>nValue = 0, scriptPubKey = script\<rparr>) (map scriptPubKey xs)" for xs
    by (induction xs) (simp_all add: IsAnyOutputGroupedAuthority_def IsOutputGroupedAuthority_def)
  then show ?thesis using assms by metis
qed

lemma CBlockReward_of_pos_block_None:
  assumes "IsProofOfStake txs"
  shows "CBlockReward_of_block txs fLegacy = None \<longleftrightarrow> \<not> fLegacy \<and> \<not> CheckCoinstakeOutputs txs (GetCbTxCoinstakeFlags (coinstakeFlags (txs ! 0)))"
  using assms by (auto simp: CBlockReward_of_block_def Let_def split: prod.split)

text \<open>
  C33: At a superblock height, while the node is not synced or has governance disabled, the value check of a proof of stake block does not depend on what the
  coinstake pays: two blocks that differ only in the amounts of the outputs of their coinstakes after the first, which is empty, get the same verdict,
  on every network and for every reward and staked value.  Only the coinbase is compared with the limit, while the block mints in the coinstake.
\<close>

theorem superblock_coinstake_unchecked:
  assumes "nBudgetPaymentsStartBlock p \<le> h" "IsValidBlockHeight p h" "\<not> masternodeSync_IsSynced sb \<or> fDisableGovernance sb"
    and "IsProofOfStake (coinbase # coinstake # txs)"
    and "map scriptPubKey outs = map scriptPubKey (vout coinstake)" "nValue (hd outs) = 0"
  shows "IsBlockValueValid sb sv p (coinbase # coinstake\<lparr>vout := outs\<rparr> # txs) h blockReward coinstakeValueIn =
    IsBlockValueValid sb sv p (coinbase # coinstake # txs) h blockReward coinstakeValueIn"
proof -
  let ?B = "coinbase # coinstake # txs" and ?B' = "coinbase # coinstake\<lparr>vout := outs\<rparr> # txs"
  let ?l = "\<not> h \<ge> DIP0003Height p"
  have len: "length outs = length (vout coinstake)" using assms(5) by (metis length_map)
  then have "scriptPubKey (hd outs) = scriptPubKey (hd (vout coinstake))" if "length (vout coinstake) \<ge> 2"
    using that assms(5) by (cases outs; cases "vout coinstake") auto
  then have pos: "IsProofOfStake ?B'"
    using assms(4,6) len
    by (auto simp: IsProofOfStake_def IsCoinStake_def CTxOut_IsEmpty_def CTransaction.truncate_def Let_def split: list.splits if_splits)
  have "CBlockReward_of_block ?B' ?l = None \<longleftrightarrow> CBlockReward_of_block ?B ?l = None"
    unfolding CBlockReward_of_pos_block_None [OF pos] CBlockReward_of_pos_block_None [OF assms(4)]
    using pos assms(4) len by (simp add: CheckCoinstakeOutputs_def Let_def split: prod.split)
  moreover have "IsBlockValueValid sb sv p T h blockReward coinstakeValueIn =
      (if CBlockReward_of_block T ?l = None then None
       else if IsAnyOutputGrouped (vout (T ! 0)) then Some False
       else if IsAnyOutputGroupedAuthority (vout (T ! 1)) then Some False
       else map_option (\<lambda>v. v \<le> i64 (rw_amount (fst (GetTotalRewards (coinstake_reward coinstakeValueIn blockReward))) + GetPaymentsLimit p h))
         (GetValueOut (vout (T ! 0))))" if "IsProofOfStake T" for T
    using that assms(1-3)
    by (cases "GetValueOut (vout (T ! 0))")
      (auto simp: IsBlockValueValid_def IsValidBlockHeight_def coinstake_reward_def Let_def split: option.splits prod.splits)
  ultimately show ?thesis
    using pos assms(4) same_scripts_ungrouped [OF assms(5)] by simp
qed

lemma stake_block_superblock:
  "IsBlockValueValid \<lparr>masternodeSync_IsSynced = False, fDisableGovernance = False, AreSuperblocksEnabled = True, IsSuperblockTriggered = \<lambda>_. True\<rparr> (\<lambda>_ _ _. False)
     regtest_rewards (stake_block 0) 1500 (CBlockReward_at regtest_rewards 1500 7 True) 0 = Some True"
  by code_simp

theorem superblock_coinstake_unchecked_witness:
  "IsBlockValueValid \<lparr>masternodeSync_IsSynced = False, fDisableGovernance = False, AreSuperblocksEnabled = True, IsSuperblockTriggered = \<lambda>_. True\<rparr> (\<lambda>_ _ _. False)
     regtest_rewards (stake_block MAX_MONEY) 1500 (CBlockReward_at regtest_rewards 1500 7 True) 0 = Some True"
proof -
  let ?outs = "[\<lparr>nValue = 0, scriptPubKey = []\<rparr>, \<lparr>nValue = MAX_MONEY, scriptPubKey = []\<rparr>] :: CTxOut list"
  have b: "stake_block v = [stake_block 0 ! 0, (stake_block 0 ! 1)\<lparr>vout := [\<lparr>nValue = 0, scriptPubKey = []\<rparr>, \<lparr>nValue = v, scriptPubKey = []\<rparr>]\<rparr>]" for v
    by (simp add: stake_block_def)
  have b0: "[stake_block 0 ! 0, stake_block 0 ! 1] = stake_block 0" by (simp add: stake_block_def)
  show ?thesis
    unfolding b [of MAX_MONEY]
    by (subst superblock_coinstake_unchecked [of regtest_rewards 1500 _ _ _ "[]" ?outs])
      (simp_all only: b0 stake_block_pos stake_block_superblock,
       simp_all add: regtest_rewards_def IsValidBlockHeight_def)
qed

definition sample_superblock_env :: superblock_env where
  "sample_superblock_env = \<lparr>masternodeSync_IsSynced = True, fDisableGovernance = False, AreSuperblocksEnabled = False, IsSuperblockTriggered = \<lambda>_. False\<rparr>"

lemma sample_value_valid:
  "IsBlockValueValid sample_superblock_env (\<lambda>_ _ _. False) regtest_rewards (stake_block 922222229) 600 (CBlockReward_at regtest_rewards 600 7 True) 500000000 = Some True"
  by code_simp

theorem IsBlockValueValid_bounds_witness:
  "IsBlockValueValid sample_superblock_env (\<lambda>_ _ _. False) regtest_rewards (stake_block 922222229) 600 (CBlockReward_at regtest_rewards 600 7 True) 500000000 = Some True \<and>
   0 + 922222229 \<le> GetBlockSubsidyWagerr regtest_rewards (600 - 1) + 7 + 500000000"
proof
  show "0 + 922222229 \<le> GetBlockSubsidyWagerr regtest_rewards (600 - 1) + 7 + 500000000"
    by (rule IsBlockValueValid_bounds [OF sample_value_valid])
      (simp_all add: value_compared_def regtest_rewards_def stake_block_pos GetValueOut_def MoneyRange_def MAX_MONEY_def COIN_def)
qed (rule sample_value_valid)

end
