(* ===== verification/Spec2Isabelle.thy ===== *)
theory Spec2Isabelle
  imports BetRoundtrip BlockSettlement BetMintSafety BlockValue
begin

text \<open>
  Verification of the betting layer, the token layer and the block value checks of Wagerr (C++ sources under src/src).

  \<^bold>\<open>The program.\<close>  A node connects blocks to its chain.  Outputs that start with OP\_RETURN carry betting transactions (betting/bet\_tx.h): oracles post
  events, odds and results, players post bets.  \<open>CheckBettingTx\<close> validates a transaction against the betting databases, \<open>ProcessBettingTx\<close> changes
  the databases and records what it overwrote, \<open>UndoBettingTx\<close> takes this back when a block is disconnected (betting/bet.cpp).  When a result is known,
  \<open>GetBettingPayouts\<close> computes the payouts of the next block (betting/bet\_v3.cpp, bet\_v4.cpp), and \<open>IsBlockPayoutsValid\<close> demands them from its
  coinstake.  The databases are caches over LevelDB (flushablestorage/flushablestorage.h).  Beside betting, outputs carry tokens in groups: a
  manager keeps the groups of the chain (tokens/tokengroupmanager.cpp), and consensus/tokengroups.cpp checks creation, minting, melting and
  authorities; betting tokens are minted from mint requests (betting/mint.cpp).  What a block may create is the subject of pos/rewards.cpp and masternode/payments.cpp.

  \<^bold>\<open>Foundations.\<close>
  \<^item> \<open>Prelude\<close>: machine integers (words; amounts are integers with the wrap-around \<open>i64\<close>), and \<open>omap\<close>, the ordered finite map that models \<open>std::map\<close>.
  \<^item> \<open>Serialize\<close> (serialize.h): writers, and readers that return the rest or \<open>None\<close>; the locales \<open>codec\<close> and \<open>canonical_codec\<close> are their contract, interpreted
    for every format of the later theories.
  \<^item> \<open>Transaction\<close> (primitives/transaction.h, script/script.h): inputs, outputs, coinstakes, the script iterator, data pushes and sums of values.
  \<^item> \<open>FlushableStorage\<close>: a storage is a LevelDB map or a cache over another storage.  The locale \<open>kv_store\<close> is the contract of a storage in terms of the map a
    client sees; reads, writes and flushes refine that map, and in a storage whose keys have one length
    the merging iterator delivers its entries in order.

  \<^bold>\<open>Betting.\<close>
  \<^item> \<open>BetTx\<close>: one record per transaction class, encoding and parsing; parsing inverts encoding and accepts only canonical encodings of fixed layouts.
  \<^item> \<open>BetTypes\<close>, \<open>DbCodec\<close>, \<open>BetCodec\<close>, \<open>BetDB\<close> (betting/bet\_db.h and .cpp, bet\_common.h): the data, their encodings, the typed databases and the view of
    all of them.  The locale \<open>betting_db\<close> shows, from the laws of storage and codec, that a database over bytes behaves as a finite map; the later
    theories work with finite maps.
  \<^item> \<open>Odds\<close>, \<open>FieldOdds\<close> (betting/bet\_common.cpp, bet\_db.cpp): payouts and burns add up, markets have one winner, odds are bounded, and the
    odds of field events are computed for every contender.
  \<^item> \<open>ChainEnv\<close>, \<open>BetCheck\<close>, \<open>BetProcess\<close>, \<open>BetUndo\<close>, \<open>BetRoundtrip\<close>: parameters, oracles and coins, and the three handlers with one definition per case
    of their switches.  The main theorem is that, under the conditions stated with it (among them one betting output per transaction and no quick games), undoing the transactions
    of a block restores the databases the block was connected to; the locale
    \<open>undo_db\<close> is what the proof needs of the two databases of events.
  \<^item> \<open>Dice\<close>, \<open>Payouts\<close>, \<open>GamePayouts\<close>, \<open>BlockPayouts\<close>, \<open>PayoutsUndo\<close>: settlement of team, field, quick games and lotto bets, the payouts of a block, and their undo.
  \<^item> \<open>Settlement\<close>, \<open>SettlementUndo\<close>, \<open>GameSettlement\<close>, \<open>BlockSettlement\<close>: every bet is paid at most once and settled when its results are known, the undo
    reopens it, the block is accepted exactly if it makes the expected payouts in some order, and what is minted is the sum of these payouts.  The locale
    \<open>bet_payouts\<close> holds the argument once for team and field bets.

  \<^bold>\<open>Tokens.\<close>
  \<^item> \<open>TokenGroups\<close>, \<open>TokenDescription\<close>, \<open>TokenManager\<close>, \<open>TokenBalance\<close>, \<open>BetMint\<close>: group ids and amounts in scripts, descriptions and their encodings, the
    manager with its database, the rules of transactions, and mint requests for betting tokens.
  \<^item> \<open>TokenChain\<close>: the inductive relation \<open>token_chain\<close> gives the states that connecting and disconnecting blocks reach.  Such a state is the replay of the blocks of
    the chain, satisfies an invariant of tickers, management groups and events, is well typed, and can be loaded again from its database.
  \<^item> \<open>TokenSafety\<close>, \<open>BetMintSafety\<close>: tokens are conserved up to mint and melt authorities, authorities come from authorities, and which
    checks of betting, parlay and non-fungible tokens fail to do what they are for.

  \<^bold>\<open>Block value.\<close>
  \<^item> \<open>BlockReward\<close>, \<open>BlockValue\<close> (pos/rewards.cpp, evo/cbtx.cpp, masternode/payments.cpp, governance/classes.cpp): rewards by kind with their tokens, the rewards found in a
    block, and the value check.  Where the check compares values, a proof of stake block pays at most subsidy, fees and stake; \<open>value_compared\<close> says where that is.
    At a superblock height the check of an unsynced node does not depend on what the coinstake pays.

  \<open>SampleChain\<close> and \<open>TokenSamples\<close> hold the concrete chains, views and transactions that the witnesses evaluate.  This theory adds the property that joins the
  computation of payouts and the check of a block.

  \<^bold>\<open>Conventions.\<close>  \<open>None\<close> is a failed assertion, an exception, an access out of range, undefined behaviour or a loop without end; a rejected transaction or block is a
  value.  Loops are structural recursion over the data, or recursion with a termination proof.  The merging iterator has the number of entries not yet passed as fuel, which is enough because each step
  passes one.  The loop over the sums of a dice bet may not end and is a partial function; the theorem about it says exactly which bets it does not return for.

  \<^bold>\<open>Parameters.\<close>  Hashes, BLS signatures, the address codec, the transaction index and block storage, the proof of stake hash of a block, the operations of \<open>double\<close> (record
  \<open>double_ops\<close>), and the state of masternode synchronization, sporks and governance are arguments of the definitions.

  \<^bold>\<open>Not modelled.\<close>  The proof of stake kernel and the difficulty of blocks, where everything depends on hashes; scripts, mempool, chain selection and the storage
  of blocks; masternode lists, quorums, governance objects, mixing and sporks, which are protocols over the network; the wallet, mining, RPC (with
  rpc/bet.cpp and tokens/rpctokens.cpp), the graphical interface and the network code, which are not consensus code; zerocoin; cryptography and vendored libraries.  Of betting/bet\_v2.cpp the functions
  without a caller (\<open>GetBetPayoutsV2\<close>) are left out.
\<close>

text \<open>
  C2: A block that is accepted with the payouts computed for it pays exactly what was computed: the amounts of the payouts found in its
  coinstake sum up, in 64 bits, to the amount \<open>GetBettingPayouts\<close> returned, each of them is an expected payout, and no payout
  is missing or made twice.
\<close>

theorem accepted_block_pays_expected:
  assumes "GetBettingPayouts fp env pos games coins (Some idx) (Some prev) [] view = Some (view1, mint, expected)"
    and "IsBlockPayoutsValid env expected block h nExpectedMint mnReward view1 = Some (view2, True)"
  shows "\<exists>found offset. ExtractPayouts env block h nExpectedMint mnReward = Some (True, found, offset) \<and>
    mset found = mset (map (\<lambda>eP. CTxOut.truncate (snd eP)) expected) \<and> i64 (\<Sum>out\<leftarrow>found. nValue out) = mint"
proof -
  obtain outs infos where w: "WBP_payouts fp env pos games coins idx prev view = Some (view1, outs, infos)"
    using assms(1) by (auto simp: GetBettingPayouts_def split: bind_splits if_splits)
  have len: "length infos = length outs" using balanced_WBP_payouts [OF w] by (simp add: balanced_def)
  have ex: "mint = i64 (\<Sum>out\<leftarrow>outs. nValue out)" "mset expected = mset (zip infos outs)"
    using assms(1) w len fold_mint [of outs 0] by (auto simp: GetBettingPayouts_def mset_fold_insert i64_def)
  obtain found offset where f: "ExtractPayouts env block h nExpectedMint mnReward = Some (True, found, offset)"
    "mset (map (\<lambda>eP. CTxOut.truncate (snd eP)) expected) = mset found"
    using assms(2) by (auto simp: IsBlockPayoutsValid_def split: bind_splits if_splits)
  have "mset (map nValue found) = image_mset nValue (image_mset (\<lambda>eP. CTxOut.truncate (snd eP)) (mset expected))"
    using f(2) by simp
  also have "\<dots> = mset (map (\<lambda>eP. nValue (snd eP)) (zip infos outs))"
    unfolding ex(2) by (simp add: image_mset.compositionality comp_def CTxOut.truncate_def)
  also have "map (\<lambda>eP. nValue (snd eP)) (zip infos outs) = map nValue outs" using len by (induction rule: list_induct2) auto
  finally have "(\<Sum>out\<leftarrow>found. nValue out) = (\<Sum>out\<leftarrow>outs. nValue out)" by (metis sum_mset_sum_list)
  then show ?thesis using f ex(1) by auto
qed

theorem accepted_block_pays_expected_witness:
  "\<exists>expected view2 found offset.
     GetBettingPayouts fixed_ops sample_env sample_pos [] sample_coins (Some sample_index) (Some \<lparr>vtx = [], nTime = 0\<rparr>) [] sample_result_view =
       Some (sample_settled_view, 197 * COIN, expected) \<and>
     IsBlockPayoutsValid sample_env expected sample_payout_block 450 10 1 sample_settled_view = Some (view2, True) \<and>
     ExtractPayouts sample_env sample_payout_block 450 10 1 = Some (True, found, offset) \<and> i64 (\<Sum>out\<leftarrow>found. nValue out) = 197 * COIN"
proof -
  let ?e = "fold multimap_insert (zip (snd sample_payouts) (fst sample_payouts)) []"
  have g: "GetBettingPayouts fixed_ops sample_env sample_pos [] sample_coins (Some sample_index) (Some \<lparr>vtx = [], nTime = 0\<rparr>) [] sample_result_view =
      Some (sample_settled_view, 197 * COIN, ?e)"
    by (simp add: GetBettingPayouts_def sample_WBP_payouts) (simp add: sample_payouts_def new_CBetOut_def COIN_def i64_def)
  have mm: "mset (map (\<lambda>eP. CTxOut.truncate (snd eP)) ?e) = mset sample_found"
    by (simp add: mset_fold_insert) (simp add: sample_payouts_def sample_found_def new_CBetOut_def CTxOut.truncate_def)
  obtain db where m: "match_payouts 11 450 1 sample_found ?e (payoutsInfo sample_settled_view) = (db, True)"
    using match_payouts_records [OF mm, of 11 450 1 "payoutsInfo sample_settled_view"] by blast
  have tx: "vec_at (vtx sample_payout_block) 1 = Some (sample_coinstake sample_found)" by (simp add: sample_payout_block_def vec_at_def)
  have v: "IsBlockPayoutsValid sample_env ?e sample_payout_block 450 10 1 sample_settled_view = Some (sample_settled_view\<lparr>payoutsInfo := db\<rparr>, True)"
    unfolding IsBlockPayoutsValid_def tx sample_ExtractPayouts using mm m by (simp add: sample_coinstake_def)
  show ?thesis using g v accepted_block_pays_expected [OF g v] by blast
qed

end
